(* ===== verification/Prelude.thy ===== *)
theory Prelude
  imports Main
begin

text \<open>
  Shared vocabulary of the development: JavaScript strings and the string methods the console
  uses, optional values (the nullish and truthiness operators), user-visible text, and the generic
  list lemmas the components share.

  A JavaScript string is modelled as the \<open>string\<close> of its UTF-8 bytes.  Equality, concatenation,
  prefix tests, splitting at ASCII characters and percent-encoding of well-formed strings agree with
  the UTF-16 originals; \<open>js_length\<close> counts UTF-16 code units and \<open>js_trim\<close> knows the multi-byte
  white-space characters.
\<close>

named_theorems codec_simps \<open>equations that evaluate the JSON codec\<close>
named_theorems view_simps \<open>equations that unfold a component's derived view\<close>
named_theorems step_simps \<open>equations that unfold a component's handlers\<close>

section \<open>Text shown to the user\<close>

text \<open>
  The console's literals are Chinese.  The theory is ASCII, so \<open>Zh k\<close> stands for the literal whose
  English rendering is \<open>k\<close> (distinct literals have distinct keys), and \<open>Raw s\<close> for text that is
  computed from data.  A template string is the list of its pieces.  What the browser's locale data or
  time zone decide stays symbolic: \<open>LocalTime f t\<close> is the instant \<open>t\<close> (milliseconds since the epoch)
  rendered in the format \<open>f\<close>, \<open>Compact n\<close> is \<open>n\<close> in the compact notation of the locale, \<open>Quotient a b\<close> the
  number \<open>a / b\<close> as JavaScript prints it, \<open>LocalNumber a b\<close> the same number in the format of the browser's locale.
\<close>

datatype piece = Zh string | Raw string | LocalTime string int | Compact int | Quotient int int | LocalNumber int int

type_synonym ui_text = "piece list"

section \<open>Nullish and truthy values\<close>

text \<open>\<open>a ?? b\<close> on an optional value, \<open>a || b\<close> on strings.\<close>

definition nullish :: "'a option \<Rightarrow> 'a \<Rightarrow> 'a" where
  "nullish a b = (case a of None \<Rightarrow> b | Some x \<Rightarrow> x)"

lemma nullish_simps [simp]: "nullish None b = b" "nullish (Some x) b = x"
  by (simp_all add: nullish_def)

definition str_or :: "string \<Rightarrow> string \<Rightarrow> string" where
  "str_or a b = (if a = [] then b else a)"

text \<open>\<open>(a || b)\<close> where \<open>a\<close> may be undefined.\<close>

definition opt_or :: "string option \<Rightarrow> string \<Rightarrow> string" where
  "opt_or a b = str_or (nullish a []) b"

text \<open>Truthiness of an optional string: defined and not empty.\<close>

definition truthy_str :: "string option \<Rightarrow> bool" where
  "truthy_str a \<longleftrightarrow> (case a of None \<Rightarrow> False | Some s \<Rightarrow> s \<noteq> [])"

lemma truthy_str_simps [simp]: "\<not> truthy_str None" "truthy_str (Some s) \<longleftrightarrow> s \<noteq> []"
  by (simp_all add: truthy_str_def)

section \<open>String methods\<close>

definition starts_with :: "string \<Rightarrow> string \<Rightarrow> bool" where
  "starts_with s p \<longleftrightarrow> take (length p) s = p"

definition ends_with :: "string \<Rightarrow> string \<Rightarrow> bool" where
  "ends_with s p \<longleftrightarrow> starts_with (rev s) (rev p)"

lemma starts_with_append [simp]: "starts_with (p @ s) p"
  by (simp add: starts_with_def)

lemma starts_with_iff: "starts_with s p \<longleftrightarrow> (\<exists>r. s = p @ r)"
  by (metis append_take_drop_id starts_with_append starts_with_def)

lemma ends_with_iff: "ends_with s p \<longleftrightarrow> (\<exists>r. s = r @ p)"
  unfolding ends_with_def starts_with_iff
  by (metis rev_append rev_rev_ident)

text \<open>The number of a byte.\<close>

abbreviation byte :: "char \<Rightarrow> nat" where
  "byte c \<equiv> of_char c"

text \<open>
  \<open>length\<close> counts UTF-16 code units: one per code point below U+10000, two above, so a continuation
  byte counts nothing and a four-byte lead counts two.
\<close>

definition code_units :: "char \<Rightarrow> nat" where
  "code_units c = (if byte c < 128 then 1 else if byte c < 192 then 0
                   else if byte c < 240 then 1 else 2)"

definition js_length :: "string \<Rightarrow> nat" where
  "js_length s = sum_list (map code_units s)"

lemma js_length_ascii: "\<forall>c \<in> set s. byte c < 128 \<Longrightarrow> js_length s = length s"
  by (induction s) (simp_all add: js_length_def code_units_def)

text \<open>
  White space as \<open>String.prototype.trim\<close> knows it: tab, line feed, vertical tab, form feed, carriage
  return, space, U+00A0, U+1680, U+2000 to U+200A, U+2028, U+2029, U+202F, U+205F, U+3000, U+FEFF.
\<close>

definition ws1 :: "char \<Rightarrow> bool" where
  "ws1 c \<longleftrightarrow> byte c \<in> {9, 10, 11, 12, 13, 32}"

definition ws2 :: "char \<Rightarrow> char \<Rightarrow> bool" where
  "ws2 c d \<longleftrightarrow> byte c = 194 \<and> byte d = 160"

definition ws3 :: "char \<Rightarrow> char \<Rightarrow> char \<Rightarrow> bool" where
  "ws3 c d e \<longleftrightarrow>
     (byte c = 225 \<and> byte d = 154 \<and> byte e = 128) \<or>
     (byte c = 226 \<and> byte d = 128 \<and> (128 \<le> byte e \<and> byte e \<le> 138 \<or> byte e \<in> {168, 169, 175})) \<or>
     (byte c = 226 \<and> byte d = 129 \<and> byte e = 159) \<or>
     (byte c = 227 \<and> byte d = 128 \<and> byte e = 128) \<or>
     (byte c = 239 \<and> byte d = 187 \<and> byte e = 191)"

fun trim_start :: "string \<Rightarrow> string" where
  "trim_start [] = []"
| "trim_start [c] = (if ws1 c then [] else [c])"
| "trim_start [c, d] =
     (if ws1 c then trim_start [d] else if ws2 c d then [] else [c, d])"
| "trim_start (c # d # e # s) =
     (if ws1 c then trim_start (d # e # s)
      else if ws2 c d then trim_start (e # s)
      else if ws3 c d e then trim_start s else c # d # e # s)"

text \<open>The same from the end: the bytes are read in reverse.\<close>

fun trim_rev :: "string \<Rightarrow> string" where
  "trim_rev [] = []"
| "trim_rev [c] = (if ws1 c then [] else [c])"
| "trim_rev [d, c] =
     (if ws1 d then trim_rev [c] else if ws2 c d then [] else [d, c])"
| "trim_rev (e # d # c # s) =
     (if ws1 e then trim_rev (d # c # s)
      else if ws2 d e then trim_rev (c # s)
      else if ws3 c d e then trim_rev s else e # d # c # s)"

definition trim_end :: "string \<Rightarrow> string" where
  "trim_end s = rev (trim_rev (rev s))"

definition js_trim :: "string \<Rightarrow> string" where
  "js_trim s = trim_end (trim_start s)"

lemma trim_start_idem [simp]: "trim_start (trim_start s) = trim_start s"
  by (induction s rule: trim_start.induct) auto

lemma trim_rev_idem [simp]: "trim_rev (trim_rev s) = trim_rev s"
  by (induction s rule: trim_rev.induct) auto

lemma trim_end_idem [simp]: "trim_end (trim_end s) = trim_end s"
  by (simp add: trim_end_def)

lemma trim_start_suffix: "\<exists>p. s = p @ trim_start s"
proof (induction s rule: trim_start.induct)
  case (4 c d e s)
  then show ?case
    by (cases "ws1 c"; cases "ws2 c d"; cases "ws3 c d e")
      (auto, (metis append_Cons)+)
qed auto

lemma trim_rev_suffix: "\<exists>p. s = p @ trim_rev s"
proof (induction s rule: trim_rev.induct)
  case (4 e d c s)
  then show ?case
    by (cases "ws1 e"; cases "ws2 d e"; cases "ws3 c d e")
      (auto, (metis append_Cons)+)
qed auto

lemma trim_end_prefix: "\<exists>p. s = trim_end s @ p"
proof -
  obtain p where "rev s = p @ trim_rev (rev s)"
    using trim_rev_suffix by blast
  then have "s = rev (trim_rev (rev s)) @ rev p"
    by (metis rev_append rev_rev_ident)
  then show ?thesis by (auto simp: trim_end_def)
qed

text \<open>A string that does not begin with white space is left alone, and so are its prefixes.\<close>

fun ws_head :: "string \<Rightarrow> bool" where
  "ws_head [] \<longleftrightarrow> False"
| "ws_head [c] \<longleftrightarrow> ws1 c"
| "ws_head [c, d] \<longleftrightarrow> ws1 c \<or> ws2 c d"
| "ws_head (c # d # e # s) \<longleftrightarrow> ws1 c \<or> ws2 c d \<or> ws3 c d e"

lemma trim_start_length: "length (trim_start s) \<le> length s"
  by (induction s rule: trim_start.induct) auto

lemma trim_start_not_head: "\<not> ws_head (trim_start s)"
  by (induction s rule: trim_start.induct) auto

lemma trim_start_id_iff: "trim_start s = s \<longleftrightarrow> \<not> ws_head s"
proof
  assume "trim_start s = s"
  then show "\<not> ws_head s" using trim_start_not_head [of s] by simp
next
  assume "\<not> ws_head s"
  then show "trim_start s = s" by (cases s rule: ws_head.cases) auto
qed

lemma ws_head_append: "ws_head u \<Longrightarrow> ws_head (u @ p)"
proof (cases u rule: ws_head.cases)
  case (2 c)
  assume "ws_head u"
  with 2 show ?thesis by (cases "[c] @ p" rule: ws_head.cases) auto
next
  case (3 c d)
  assume "ws_head u"
  with 3 show ?thesis by (cases "[c, d] @ p" rule: ws_head.cases) auto
qed auto

lemma js_trim_idem [simp]: "js_trim (js_trim s) = js_trim s"
proof -
  obtain p where "trim_start s = js_trim s @ p"
    using trim_end_prefix [of "trim_start s"] by (auto simp: js_trim_def)
  moreover have "\<not> ws_head (trim_start s)" by (rule trim_start_not_head)
  ultimately have "\<not> ws_head (js_trim s)" using ws_head_append by metis
  then have "trim_start (js_trim s) = js_trim s" by (simp add: trim_start_id_iff)
  then show ?thesis by (simp add: js_trim_def)
qed

lemma js_trim_Nil [simp]: "js_trim [] = []"
  by (simp add: js_trim_def trim_end_def)

text \<open>\<open>split\<close> at a set of ASCII characters, and \<open>join\<close>.\<close>

fun js_split :: "(char \<Rightarrow> bool) \<Rightarrow> string \<Rightarrow> string list" where
  "js_split P [] = [[]]"
| "js_split P (c # s) =
     (if P c then [] # js_split P s
      else (case js_split P s of [] \<Rightarrow> [[c]] | w # ws \<Rightarrow> (c # w) # ws))"

fun js_join :: "string \<Rightarrow> string list \<Rightarrow> string" where
  "js_join d [] = []"
| "js_join d [w] = w"
| "js_join d (w # v # ws) = w @ d @ js_join d (v # ws)"

lemma js_split_not_Nil [simp]: "js_split P s \<noteq> []"
  by (induction s) (auto split: list.splits)

lemma js_split_pieces: "w \<in> set (js_split P s) \<Longrightarrow> c \<in> set w \<Longrightarrow> \<not> P c"
  by (induction s arbitrary: w) (auto split: list.splits if_splits, blast)

lemma js_split_word: "\<forall>c \<in> set w. \<not> P c \<Longrightarrow> js_split P w = [w]"
  by (induction w) auto

lemma js_split_sep:
  assumes "\<forall>c \<in> set w. \<not> P c" "P d"
  shows "js_split P (w @ d # s) = w # js_split P s"
  using assms(1) by (induction w) (auto simp: assms(2))

text \<open>
  \<open>value.split(sep).map(trim).filter(Boolean)\<close>: the list inputs of the console's forms.
\<close>

definition split_trim :: "(char \<Rightarrow> bool) \<Rightarrow> string \<Rightarrow> string list" where
  "split_trim P s = filter (\<lambda>w. w \<noteq> []) (map js_trim (js_split P s))"

definition list_word :: "(char \<Rightarrow> bool) \<Rightarrow> string \<Rightarrow> bool" where
  "list_word P w \<longleftrightarrow> w \<noteq> [] \<and> js_trim w = w \<and> (\<forall>c \<in> set w. \<not> P c)"

lemma js_trim_subset: "set (js_trim s) \<subseteq> set s"
proof -
  obtain p where "s = p @ trim_start s" using trim_start_suffix by blast
  moreover obtain q where "trim_start s = js_trim s @ q"
    using trim_end_prefix [of "trim_start s"] by (auto simp: js_trim_def)
  ultimately show ?thesis by (metis Un_iff set_append subsetI)
qed

lemma split_trim_words: "w \<in> set (split_trim P s) \<Longrightarrow> list_word P w"
  using js_trim_subset js_split_pieces
  by (fastforce simp: split_trim_def list_word_def)

lemma js_trim_space: "ws1 d \<Longrightarrow> js_trim (d # w) = js_trim w"
  by (cases w rule: trim_start.cases) (simp_all add: js_trim_def)

lemma js_split_join:
  assumes "\<forall>w \<in> set ws. list_word P w" "P d" "ws1 e" "\<not> P e" "ws \<noteq> []"
  shows "map js_trim (js_split P (js_join [d, e] ws)) = ws"
  using assms(1,5)
proof (induction "[d, e]" ws rule: js_join.induct)
  case (2 w)
  then show ?case by (simp add: js_split_word list_word_def)
next
  case (3 w v ws)
  have "js_split P (w @ d # e # js_join [d, e] (v # ws))
      = w # js_split P (e # js_join [d, e] (v # ws))"
    using 3 assms(2) by (intro js_split_sep) (auto simp: list_word_def)
  moreover have "map js_trim (js_split P (e # s)) = map js_trim (js_split P s)" for s
    using assms(4) by (auto simp: js_trim_space [OF assms(3)] split: list.splits)
  ultimately show ?case using 3 by (simp add: list_word_def)
qed simp

lemma split_trim_join:
  assumes "\<forall>w \<in> set ws. list_word P w" "P d" "ws1 e" "\<not> P e"
  shows "split_trim P (js_join [d, e] ws) = ws"
proof (cases "ws = []")
  case True
  then show ?thesis by (simp add: split_trim_def)
next
  case False
  have "map js_trim (js_split P (js_join [d, e] ws)) = ws"
    by (rule js_split_join [OF assms False])
  moreover have "filter (\<lambda>w. w \<noteq> []) ws = ws"
    using assms(1) by (induction ws) (auto simp: list_word_def)
  ultimately show ?thesis by (simp add: split_trim_def)
qed

end
