(* ===== verification/Codec.thy ===== *)
theory Codec
  imports Prelude
begin

text \<open>
  Conversions between values and strings that the console takes from the JavaScript library:
  \<open>String(n)\<close> on integers, the grouping of \<open>toLocaleString\<close>, and \<open>encodeURIComponent\<close>, with the
  inverses that show them injective.  The locale \<open>codec\<close> is the contract the clients use.
\<close>

section \<open>The contract of an encoding\<close>

text \<open>
  A client that compares or stores encoded values relies on nothing but a decoder that undoes the
  encoder.  Then equality of encodings is equality of values.
\<close>

locale codec =
  fixes enc :: "'a \<Rightarrow> 'b" and dec :: "'b \<Rightarrow> 'a option"
  assumes dec_enc: "dec (enc x) = Some x"
begin

lemma enc_eq_iff: "enc x = enc y \<longleftrightarrow> x = y"
  by (metis dec_enc option.inject)

lemma enc_inj: "inj enc"
  by (simp add: inj_def enc_eq_iff)

lemma enc_dec: "dec (enc x) = Some y \<longleftrightarrow> y = x"
  by (auto simp: dec_enc)

end

section \<open>Decimal numerals\<close>

definition is_digit :: "char \<Rightarrow> bool" where
  "is_digit c \<longleftrightarrow> 48 \<le> byte c \<and> byte c \<le> 57"

definition digit_char :: "nat \<Rightarrow> char" where
  "digit_char n = char_of (48 + n)"

definition digit_value :: "char \<Rightarrow> nat" where
  "digit_value c = byte c - 48"

lemma is_digit_digit_char [simp]: "n < 10 \<Longrightarrow> is_digit (digit_char n)"
  by (simp add: is_digit_def digit_char_def)

lemma digit_value_char [simp]: "n < 10 \<Longrightarrow> digit_value (digit_char n) = n"
  by (simp add: digit_value_def digit_char_def)

fun nat_str :: "nat \<Rightarrow> string" where
  "nat_str n = (if n < 10 then [digit_char n]
                else nat_str (n div 10) @ [digit_char (n mod 10)])"

declare nat_str.simps [simp del]

definition read_nat :: "string \<Rightarrow> nat" where
  "read_nat s = foldl (\<lambda>a c. 10 * a + digit_value c) 0 s"

lemma read_nat_snoc [simp]: "read_nat (s @ [c]) = 10 * read_nat s + digit_value c"
  by (simp add: read_nat_def)

lemma read_nat_str [simp]: "read_nat (nat_str n) = n"
proof (induction n rule: nat_str.induct)
  case (1 n)
  show ?case
  proof (cases "n < 10")
    case True
    then show ?thesis by (simp add: nat_str.simps [of n] read_nat_def)
  next
    case False
    with 1 have "read_nat (nat_str (n div 10)) = n div 10" by simp
    with False show ?thesis by (simp add: nat_str.simps [of n])
  qed
qed

lemma nat_str_digits: "c \<in> set (nat_str n) \<Longrightarrow> is_digit c"
proof (induction n rule: nat_str.induct)
  case (1 n)
  then show ?case
    by (cases "n < 10") (auto simp: nat_str.simps [of n])
qed

lemma nat_str_not_Nil [simp]: "nat_str n \<noteq> []"
  by (subst nat_str.simps) simp

lemma nat_str_hd_nonzero: "0 < n \<Longrightarrow> hd (nat_str n) \<noteq> CHR ''0''"
proof (induction n rule: nat_str.induct)
  case (1 n)
  show ?case
  proof (cases "n < 10")
    case True
    have "byte (digit_char n) \<noteq> byte CHR ''0''" using True 1 by (simp add: digit_char_def)
    then have "digit_char n \<noteq> CHR ''0''" by auto
    with True show ?thesis by (simp add: nat_str.simps [of n])
  next
    case False
    with 1 show ?thesis by (simp add: nat_str.simps [of n])
  qed
qed

lemma digit_char_0 [simp]: "digit_char 0 = CHR ''0''"
  by (rule of_char_eqI [where 'a = nat]) (simp add: digit_char_def)

lemma nat_str_zero: "nat_str 0 = ''0''"
  by (subst nat_str.simps) simp

text \<open>\<open>String(n)\<close> on an integer.\<close>

definition int_str :: "int \<Rightarrow> string" where
  "int_str i = (if i < 0 then CHR ''-'' # nat_str (nat (- i)) else nat_str (nat i))"

definition read_int :: "string \<Rightarrow> int" where
  "read_int s = (case s of [] \<Rightarrow> 0
     | c # r \<Rightarrow> if c = CHR ''-'' then - int (read_nat r) else int (read_nat s))"

lemma is_digit_not_minus: "is_digit c \<Longrightarrow> c \<noteq> CHR ''-''"
  by (auto simp: is_digit_def)

lemma read_int_str [simp]: "read_int (int_str i) = i"
proof (cases "i < 0")
  case True
  then show ?thesis by (simp add: int_str_def read_int_def)
next
  case False
  obtain c r where cr: "nat_str (nat i) = c # r"
    by (meson nat_str_not_Nil neq_Nil_conv)
  then have "c \<noteq> CHR ''-''"
    using nat_str_digits [of c "nat i"] is_digit_not_minus by auto
  moreover have "read_nat (c # r) = nat i" using cr read_nat_str [of "nat i"] by simp
  ultimately show ?thesis using False cr by (simp add: int_str_def read_int_def)
qed

interpretation decimal: codec int_str "\<lambda>s. Some (read_int s)"
  by unfold_locales simp

section \<open>Percent-encoding\<close>

text \<open>
  \<open>encodeURIComponent\<close> keeps the letters, the digits and \<open>- _ . ! ~ * ' ( )\<close>, and writes every other
  UTF-8 byte as \<open>%XY\<close> in upper-case hexadecimal.
\<close>

definition unreserved :: "char \<Rightarrow> bool" where
  "unreserved c \<longleftrightarrow>
     is_digit c \<or> 65 \<le> byte c \<and> byte c \<le> 90 \<or> 97 \<le> byte c \<and> byte c \<le> 122 \<or>
     byte c \<in> {45, 95, 46, 33, 126, 42, 39, 40, 41}"

definition hex_char :: "nat \<Rightarrow> char" where
  "hex_char n = (if n < 10 then char_of (48 + n) else char_of (55 + n))"

definition hex_value :: "char \<Rightarrow> nat" where
  "hex_value c = (if byte c < 65 then byte c - 48 else byte c - 55)"

lemma hex_value_char [simp]: "n < 16 \<Longrightarrow> hex_value (hex_char n) = n"
  by (simp add: hex_value_def hex_char_def)

definition pct_char :: "char \<Rightarrow> string" where
  "pct_char c = (if unreserved c then [c]
     else [CHR ''%'', hex_char (byte c div 16), hex_char (byte c mod 16)])"

definition encodeURIComponent :: "string \<Rightarrow> string" where
  "encodeURIComponent s = concat (map pct_char s)"

lemma encodeURIComponent_Nil [simp]: "encodeURIComponent [] = []"
  by (simp add: encodeURIComponent_def)

lemma encodeURIComponent_Cons [simp]:
  "encodeURIComponent (c # s) = pct_char c @ encodeURIComponent s"
  by (simp add: encodeURIComponent_def)

fun pct_decode :: "string \<Rightarrow> string" where
  "pct_decode [] = []"
| "pct_decode (c # s) =
     (if c = CHR ''%'' then
        (case s of a # b # r \<Rightarrow> char_of (16 * hex_value a + hex_value b) # pct_decode r
         | _ \<Rightarrow> c # pct_decode s)
      else c # pct_decode s)"

lemma not_unreserved_percent: "\<not> unreserved CHR ''%''"
  by (simp add: unreserved_def is_digit_def)

lemma byte_div_less [simp]: "byte c div 16 < 16"
  by (rule less_mult_imp_div_less) simp

lemma pct_decode_char: "pct_decode (pct_char c @ s) = c # pct_decode s"
proof (cases "unreserved c")
  case True
  then have "c \<noteq> CHR ''%''" using not_unreserved_percent by auto
  with True show ?thesis by (simp add: pct_char_def)
next
  case False
  have "16 * hex_value (hex_char (byte c div 16)) + hex_value (hex_char (byte c mod 16)) = byte c"
    by simp
  with False show ?thesis by (simp add: pct_char_def)
qed

lemma pct_decode_encode [simp]: "pct_decode (encodeURIComponent s) = s"
  by (induction s) (simp_all add: pct_decode_char)

interpretation uri: codec encodeURIComponent "\<lambda>s. Some (pct_decode s)"
  by unfold_locales simp

lemma hex_char_unreserved: "n < 16 \<Longrightarrow> unreserved (hex_char n)"
  by (auto simp: hex_char_def unreserved_def is_digit_def)

lemma pct_char_chars: "d \<in> set (pct_char c) \<Longrightarrow> unreserved d \<or> d = CHR ''%''"
  using byte_div_less [of c] hex_char_unreserved [of "byte c div 16"] hex_char_unreserved [of "byte c mod 16"]
  by (auto simp: pct_char_def split: if_splits)

text \<open>What is encoded is one path segment: no slash, question mark or hash is left in it.\<close>

lemma encodeURIComponent_chars:
  "d \<in> set (encodeURIComponent s) \<Longrightarrow> unreserved d \<or> d = CHR ''%''"
  using pct_char_chars by (auto simp: encodeURIComponent_def)

lemma encodeURIComponent_no_slash: "CHR ''/'' \<notin> set (encodeURIComponent s)"
  using encodeURIComponent_chars [of "CHR ''/''" s] by (auto simp: unreserved_def is_digit_def)

lemma encodeURIComponent_eq_Nil [simp]: "encodeURIComponent s = [] \<longleftrightarrow> s = []"
  by (cases s) (auto simp: pct_char_def)

text \<open>
  A path \<open>prefix/<encoded>/rest\<close> determines both its encoded part and what follows.
\<close>

lemma slash_segment_inject:
  assumes "CHR ''/'' \<notin> set a" "CHR ''/'' \<notin> set b"
    "r = [] \<or> hd r = CHR ''/''" "q = [] \<or> hd q = CHR ''/''"
    "a @ r = b @ q"
  shows "a = b \<and> r = q"
proof -
  have "takeWhile (\<lambda>c. c \<noteq> CHR ''/'') (a @ r) = a"
    using assms(1,3) by (cases r) (auto simp: takeWhile_tail)
  moreover have "takeWhile (\<lambda>c. c \<noteq> CHR ''/'') (b @ q) = b"
    using assms(2,4) by (cases q) (auto simp: takeWhile_tail)
  ultimately show ?thesis using assms(5) by auto
qed

lemma encoded_segment_inject:
  assumes "r = [] \<or> hd r = CHR ''/''" "q = [] \<or> hd q = CHR ''/''"
  shows "encodeURIComponent a @ r = encodeURIComponent b @ q \<longleftrightarrow> a = b \<and> r = q"
  using slash_segment_inject [OF encodeURIComponent_no_slash encodeURIComponent_no_slash assms]
    uri.enc_eq_iff by blast

end
