(* ===== verification/Json.thy ===== *)
theory Json
  imports Codec
begin

text \<open>
  \<open>JSON.stringify\<close> and \<open>JSON.parse\<close> on the values the console exchanges with the control plane and
  keeps in the browser's storage.  Integers are exact; a numeral with a fraction or an exponent is
  kept as its lexeme (the console reads such numbers but never writes one).  An object is the list
  of its members in property order.  The parser follows the RFC 8259 grammar with fuel; \<open>json_parse\<close>
  gives it enough, as \<open>parse_value_fuel\<close> shows.
\<close>

datatype json =
    JNull
  | JBool bool
  | JInt int
  | JFloat string
  | JString string
  | JArray "json list"
  | JObject "(string \<times> json) list"

section \<open>Serialising\<close>

definition hex_lower :: "nat \<Rightarrow> char" where
  "hex_lower n = (if n < 10 then char_of (48 + n) else char_of (87 + n))"

text \<open>The escapes of \<open>JSON.stringify\<close>: the quote, the backslash, and the control characters.\<close>

definition esc_char :: "char \<Rightarrow> string" where
  "esc_char c =
     (let b = byte c in
      if b = 34 then [CHR 0x5C, CHR 0x22]
      else if b = 92 then [CHR 0x5C, CHR 0x5C]
      else if b = 8 then [CHR 0x5C, CHR ''b'']
      else if b = 9 then [CHR 0x5C, CHR ''t'']
      else if b = 10 then [CHR 0x5C, CHR ''n'']
      else if b = 12 then [CHR 0x5C, CHR ''f'']
      else if b = 13 then [CHR 0x5C, CHR ''r'']
      else if b < 32 then [CHR 0x5C, CHR ''u'', CHR ''0'', CHR ''0'', hex_lower (b div 16), hex_lower (b mod 16)]
      else [c])"

definition quote :: "string \<Rightarrow> string" where
  "quote s = CHR 0x22 # concat (map esc_char s) @ [CHR 0x22]"

fun stringify :: "json \<Rightarrow> string"
  and stringify_elems :: "json list \<Rightarrow> string"
  and stringify_members :: "(string \<times> json) list \<Rightarrow> string" where
  "stringify JNull = ''null''"
| "stringify (JBool b) = (if b then ''true'' else ''false'')"
| "stringify (JInt i) = int_str i"
| "stringify (JFloat l) = l"
| "stringify (JString s) = quote s"
| "stringify (JArray vs) = CHR ''['' # stringify_elems vs @ '']''"
| "stringify (JObject ms) = CHR ''{'' # stringify_members ms @ ''}''"
| "stringify_elems [] = []"
| "stringify_elems [v] = stringify v"
| "stringify_elems (v # w # vs) = stringify v @ CHR '','' # stringify_elems (w # vs)"
| "stringify_members [] = []"
| "stringify_members [(k, v)] = quote k @ CHR '':'' # stringify v"
| "stringify_members ((k, v) # m # ms) =
     quote k @ CHR '':'' # stringify v @ CHR '','' # stringify_members (m # ms)"

section \<open>Parsing\<close>

definition hex_digit :: "char \<Rightarrow> nat option" where
  "hex_digit c =
     (let b = byte c in
      if 48 \<le> b \<and> b \<le> 57 then Some (b - 48)
      else if 97 \<le> b \<and> b \<le> 102 then Some (b - 87)
      else if 65 \<le> b \<and> b \<le> 70 then Some (b - 55) else None)"

definition hex4 :: "char \<Rightarrow> char \<Rightarrow> char \<Rightarrow> char \<Rightarrow> nat option" where
  "hex4 a b c d =
     (case (hex_digit a, hex_digit b, hex_digit c, hex_digit d) of
        (Some w, Some x, Some y, Some z) \<Rightarrow> Some (4096 * w + 256 * x + 16 * y + z)
      | _ \<Rightarrow> None)"

text \<open>The UTF-8 bytes of a code point (a lone surrogate keeps its three-byte form).\<close>

definition utf8 :: "nat \<Rightarrow> string" where
  "utf8 n =
     (if n < 128 then [char_of n]
      else if n < 2048 then [char_of (192 + n div 64), char_of (128 + n mod 64)]
      else if n < 65536 then
        [char_of (224 + n div 4096), char_of (128 + n div 64 mod 64), char_of (128 + n mod 64)]
      else [char_of (240 + n div 262144), char_of (128 + n div 4096 mod 64),
            char_of (128 + n div 64 mod 64), char_of (128 + n mod 64)])"

text \<open>A \<open>\u\<close> escape of a low surrogate at the head of the text.\<close>

definition low_surrogate :: "string \<Rightarrow> nat option" where
  "low_surrogate s =
     (case s of x # y # a # b # c # d # r \<Rightarrow>
        if byte x = 92 \<and> byte y = 117 then
          (case hex4 a b c d of Some m \<Rightarrow> if 56320 \<le> m \<and> m < 57344 then Some m else None
           | None \<Rightarrow> None)
        else None
      | _ \<Rightarrow> None)"

definition simple_escape :: "char \<Rightarrow> char option" where
  "simple_escape e =
     (if e = CHR 0x22 \<or> e = CHR 0x5C \<or> e = CHR ''/'' then Some e
      else if e = CHR ''b'' then Some (char_of (8::nat))
      else if e = CHR ''f'' then Some (char_of (12::nat))
      else if e = CHR ''n'' then Some (char_of (10::nat))
      else if e = CHR ''r'' then Some (char_of (13::nat))
      else if e = CHR ''t'' then Some (char_of (9::nat)) else None)"

text \<open>The characters of a string literal after its opening quote.\<close>

fun parse_chars :: "string \<Rightarrow> (string \<times> string) option" where
  "parse_chars [] = None"
| "parse_chars (c # s) =
     (if byte c = 34 then Some ([], s)
      else if byte c < 32 then None
      else if byte c \<noteq> 92 then map_option (apfst ((#) c)) (parse_chars s)
      else (case s of
          [] \<Rightarrow> None
        | e # r \<Rightarrow>
            if byte e \<noteq> 117 then
              (case simple_escape e of None \<Rightarrow> None
               | Some d \<Rightarrow> map_option (apfst ((#) d)) (parse_chars r))
            else (case r of
                w # x # y # z # q \<Rightarrow>
                  (case hex4 w x y z of None \<Rightarrow> None
                   | Some n \<Rightarrow>
                       (case (if 55296 \<le> n \<and> n < 56320 then low_surrogate q else None) of
                          None \<Rightarrow> map_option (apfst ((@) (utf8 n))) (parse_chars q)
                        | Some m \<Rightarrow>
                            map_option (apfst ((@) (utf8 (65536 + (n - 55296) * 1024 + (m - 56320)))))
                              (parse_chars (drop 6 q))))
              | _ \<Rightarrow> None)))"

definition json_ws :: "char \<Rightarrow> bool" where
  "json_ws c \<longleftrightarrow> byte c \<in> {9, 10, 13, 32}"

abbreviation skip_ws :: "string \<Rightarrow> string" where
  "skip_ws s \<equiv> dropWhile json_ws s"

text \<open>The fraction and exponent of a numeral: their lexeme and what follows, or a syntax error.\<close>

definition parse_frac :: "string \<Rightarrow> (string \<times> string) option" where
  "parse_frac s =
     (case s of c # r \<Rightarrow>
        if c = CHR ''.'' then
          (let ds = takeWhile is_digit r in
           if ds = [] then None else Some (c # ds, dropWhile is_digit r))
        else Some ([], s)
      | [] \<Rightarrow> Some ([], []))"

definition parse_exp :: "string \<Rightarrow> (string \<times> string) option" where
  "parse_exp s =
     (case s of c # r \<Rightarrow>
        if c = CHR ''e'' \<or> c = CHR ''E'' then
          (let sg = (case r of d # _ \<Rightarrow> if d = CHR ''+'' \<or> d = CHR ''-'' then [d] else [] | [] \<Rightarrow> []);
               q = drop (length sg) r;
               ds = takeWhile is_digit q
           in if ds = [] then None else Some (c # sg @ ds, dropWhile is_digit q))
        else Some ([], s)
      | [] \<Rightarrow> Some ([], []))"

definition parse_number :: "string \<Rightarrow> (json \<times> string) option" where
  "parse_number s =
     (let sg = (case s of c # _ \<Rightarrow> if c = CHR ''-'' then [c] else [] | [] \<Rightarrow> []);
          q = drop (length sg) s;
          ds = takeWhile is_digit q;
          r = dropWhile is_digit q
      in if ds = [] \<or> (hd ds = CHR ''0'' \<and> tl ds \<noteq> []) then None
         else (case parse_frac r of None \<Rightarrow> None
           | Some (fr, r1) \<Rightarrow> (case parse_exp r1 of None \<Rightarrow> None
             | Some (ex, r2) \<Rightarrow>
                 if fr = [] \<and> ex = [] then Some (JInt (read_int (sg @ ds)), r2)
                 else Some (JFloat (sg @ ds @ fr @ ex), r2))))"

text \<open>The literals \<open>null\<close>, \<open>true\<close> and \<open>false\<close>, then numerals.\<close>

definition parse_atom :: "string \<Rightarrow> (json \<times> string) option" where
  "parse_atom s =
     (if starts_with s ''null'' then Some (JNull, drop 4 s)
      else if starts_with s ''true'' then Some (JBool True, drop 4 s)
      else if starts_with s ''false'' then Some (JBool False, drop 5 s)
      else parse_number s)"

fun parse_value :: "nat \<Rightarrow> string \<Rightarrow> (json \<times> string) option"
  and parse_elems :: "nat \<Rightarrow> string \<Rightarrow> (json list \<times> string) option"
  and parse_members :: "nat \<Rightarrow> string \<Rightarrow> ((string \<times> json) list \<times> string) option" where
  "parse_value 0 s = None"
| "parse_value (Suc f) s =
     (case skip_ws s of
        [] \<Rightarrow> None
      | c # r \<Rightarrow>
          if c = CHR 0x22 then map_option (apfst JString) (parse_chars r)
          else if c = CHR ''['' then
            (case skip_ws r of
               [] \<Rightarrow> None
             | d # q \<Rightarrow> if d = CHR '']'' then Some (JArray [], q)
                 else map_option (apfst JArray) (parse_elems f (d # q)))
          else if c = CHR ''{'' then
            (case skip_ws r of
               [] \<Rightarrow> None
             | d # q \<Rightarrow> if d = CHR ''}'' then Some (JObject [], q)
                 else map_option (apfst JObject) (parse_members f (d # q)))
          else parse_atom (c # r))"
| "parse_elems 0 s = None"
| "parse_elems (Suc f) s =
     (case parse_value f s of
        None \<Rightarrow> None
      | Some (v, r) \<Rightarrow>
          (case skip_ws r of
             [] \<Rightarrow> None
           | c # q \<Rightarrow> if c = CHR '']'' then Some ([v], q)
               else if c = CHR '','' then map_option (apfst ((#) v)) (parse_elems f q)
               else None))"
| "parse_members 0 s = None"
| "parse_members (Suc f) s =
     (case skip_ws s of
        [] \<Rightarrow> None
      | c # r \<Rightarrow>
          if c \<noteq> CHR 0x22 then None
          else (case parse_chars r of
              None \<Rightarrow> None
            | Some (k, r1) \<Rightarrow>
                (case skip_ws r1 of
                   [] \<Rightarrow> None
                 | d # r2 \<Rightarrow>
                     if d \<noteq> CHR '':'' then None
                     else (case parse_value f r2 of
                         None \<Rightarrow> None
                       | Some (v, r3) \<Rightarrow>
                           (case skip_ws r3 of
                              [] \<Rightarrow> None
                            | e # q \<Rightarrow> if e = CHR ''}'' then Some ([(k, v)], q)
                                else if e = CHR '','' then
                                  map_option (apfst ((#) (k, v))) (parse_members f q)
                                else None)))))"

text \<open>\<open>JSON.parse\<close>: one value and white space around it; \<open>None\<close> is the SyntaxError.\<close>

definition json_parse :: "string \<Rightarrow> json option" where
  "json_parse s =
     (case parse_value (2 * length s + 2) s of
        None \<Rightarrow> None
      | Some (v, r) \<Rightarrow> if skip_ws r = [] then Some v else None)"

section \<open>Reading values\<close>

text \<open>A property of an object: the last member of that name wins.\<close>

definition obj_get :: "string \<Rightarrow> (string \<times> json) list \<Rightarrow> json option" where
  "obj_get k ms = map_of (rev ms) k"

text \<open>\<open>String(v)\<close>: arrays join their elements with commas, null elements are empty.\<close>

fun js_string :: "json \<Rightarrow> string"
  and js_string_elems :: "json list \<Rightarrow> string" where
  "js_string JNull = ''null''"
| "js_string (JBool b) = (if b then ''true'' else ''false'')"
| "js_string (JInt i) = int_str i"
| "js_string (JFloat l) = l"
| "js_string (JString s) = s"
| "js_string (JArray vs) = js_string_elems vs"
| "js_string (JObject ms) = ''[object Object]''"
| "js_string_elems [] = []"
| "js_string_elems [v] = (if v = JNull then [] else js_string v)"
| "js_string_elems (v # w # vs) =
     (if v = JNull then [] else js_string v) @ CHR '','' # js_string_elems (w # vs)"

section \<open>What is serialised is read back\<close>

lemma hex_digit_lower [simp]: "n < 16 \<Longrightarrow> hex_digit (hex_lower n) = Some n"
  by (auto simp: hex_digit_def hex_lower_def Let_def)

lemma hex_digit_zero [simp]: "hex_digit CHR ''0'' = Some 0"
  by (simp add: hex_digit_def)

lemma hex4_control: "b < 256 \<Longrightarrow> hex4 CHR ''0'' CHR ''0'' (hex_lower (b div 16)) (hex_lower (b mod 16)) = Some b"
  by (simp add: hex4_def less_mult_imp_div_less)

lemma parse_chars_control:
  "b < 32 \<Longrightarrow> parse_chars (CHR 0x5C # CHR ''u'' # CHR ''0'' # CHR ''0'' #
       hex_lower (b div 16) # hex_lower (b mod 16) # s)
     = map_option (apfst ((#) (char_of b))) (parse_chars s)"
  by (simp add: hex4_control utf8_def apfst_def map_prod_def)

lemma char_eq_byte: "byte c = n \<Longrightarrow> c = char_of n"
  by (metis char_of_char)

lemma parse_chars_esc:
  "parse_chars (esc_char c @ s) = map_option (apfst ((#) c)) (parse_chars s)"
proof (cases "byte c < 32 \<or> byte c = 34 \<or> byte c = 92")
  case False
  then show ?thesis by (simp add: esc_char_def)
next
  case True
  have simple: "byte c = 8 \<Longrightarrow> c = char_of (8::nat)" "byte c = 9 \<Longrightarrow> c = char_of (9::nat)"
    "byte c = 10 \<Longrightarrow> c = char_of (10::nat)" "byte c = 12 \<Longrightarrow> c = char_of (12::nat)"
    "byte c = 13 \<Longrightarrow> c = char_of (13::nat)" "byte c = 34 \<Longrightarrow> c = CHR 0x22" "byte c = 92 \<Longrightarrow> c = CHR 0x5C"
    by (auto intro: char_eq_byte of_char_eqI)
  show ?thesis
  proof (cases "byte c \<in> {8, 9, 10, 12, 13, 34, 92}")
    case True
    with simple show ?thesis
      by (elim insertE) (simp_all add: esc_char_def simple_escape_def)
  next
    case no: False
    then have small: "byte c < 32" using True by auto
    have "esc_char c @ s = CHR 0x5C # CHR ''u'' # CHR ''0'' # CHR ''0'' #
       hex_lower (byte c div 16) # hex_lower (byte c mod 16) # s"
      using small no by (simp add: esc_char_def Let_def)
    then show ?thesis using parse_chars_control [OF small, of s] by (simp del: parse_chars.simps)
  qed
qed

lemma parse_chars_quote: "parse_chars (concat (map esc_char s) @ CHR 0x22 # r) = Some (s, r)"
  by (induction s) (simp_all add: parse_chars_esc del: parse_chars.simps(2), simp)

text \<open>What can follow a value: nothing, or a separator that no numeral contains.\<close>

definition delim :: "string \<Rightarrow> bool" where
  "delim r \<longleftrightarrow> r = [] \<or> hd r \<in> {CHR '','', CHR '']'', CHR ''}''}"

lemma delim_simps [simp]:
  "delim []" "delim (CHR '','' # r)" "delim (CHR '']'' # r)" "delim (CHR ''}'' # r)"
  by (simp_all add: delim_def)

lemma span_digits:
  assumes "\<forall>c \<in> set ds. is_digit c" "delim r"
  shows "takeWhile is_digit (ds @ r) = ds" "dropWhile is_digit (ds @ r) = r"
proof -
  have "takeWhile is_digit r = []" "dropWhile is_digit r = r"
    using assms(2) by (cases r; auto simp: delim_def is_digit_def)+
  then show "takeWhile is_digit (ds @ r) = ds" "dropWhile is_digit (ds @ r) = r"
    using assms(1) by (induction ds) auto
qed

lemma parse_frac_delim: "delim r \<Longrightarrow> parse_frac r = Some ([], r)"
  by (auto simp: parse_frac_def delim_def split: list.splits)

lemma parse_exp_delim: "delim r \<Longrightarrow> parse_exp r = Some ([], r)"
  by (auto simp: parse_exp_def delim_def split: list.splits)

lemma nat_str_canonical: "\<not> (hd (nat_str n) = CHR ''0'' \<and> tl (nat_str n) \<noteq> [])"
  using nat_str_hd_nonzero [of n] by (cases "n = 0") (auto simp: nat_str_zero)

lemma parse_number_digits:
  assumes "ds \<noteq> []" "\<forall>c \<in> set ds. is_digit c" "\<not> (hd ds = CHR ''0'' \<and> tl ds \<noteq> [])"
    and "delim r" "sg = [] \<or> sg = [CHR ''-'']"
  shows "parse_number (sg @ ds @ r) = Some (JInt (read_int (sg @ ds)), r)"
proof -
  obtain c q where cq: "ds = c # q" using assms(1) by (cases ds) auto
  then have "is_digit c" "c \<noteq> CHR ''-''" "\<forall>c \<in> set q. is_digit c"
    using assms(2) is_digit_not_minus by auto
  then show ?thesis
    using span_digits [OF _ assms(4), of q] assms(3,5) cq
    by (auto simp: parse_number_def parse_frac_delim parse_exp_delim assms(4) Let_def)
qed

lemma nat_str_all_digits: "\<forall>c \<in> set (nat_str n). is_digit c"
  using nat_str_digits by blast

lemma parse_number_int: "delim r \<Longrightarrow> parse_number (int_str i @ r) = Some (JInt i, r)"
  using parse_number_digits [OF nat_str_not_Nil nat_str_all_digits nat_str_canonical, of r "[]" "nat i"]
    parse_number_digits [OF nat_str_not_Nil nat_str_all_digits nat_str_canonical,
      of r "[CHR ''-'']" "nat (- i)"] read_int_str [of i]
  by (auto simp: int_str_def split: if_splits)

lemma int_str_hd: "\<exists>c q. int_str i = c # q \<and> (is_digit c \<or> c = CHR ''-'')"
proof (cases "i < 0")
  case False
  obtain c q where "nat_str (nat i) = c # q" by (meson nat_str_not_Nil neq_Nil_conv)
  then show ?thesis using False nat_str_digits [of c "nat i"] by (simp add: int_str_def)
qed (simp add: int_str_def)

lemma number_hd: "is_digit c \<or> c = CHR ''-'' \<Longrightarrow>
  \<not> json_ws c \<and> c \<noteq> CHR 0x22 \<and> c \<noteq> CHR ''['' \<and> c \<noteq> CHR ''{'' \<and>
  c \<noteq> CHR ''n'' \<and> c \<noteq> CHR ''t'' \<and> c \<noteq> CHR ''f'' \<and> c \<noteq> CHR '']'' \<and> c \<noteq> CHR ''}''"
  by (auto simp: is_digit_def json_ws_def)

lemma parse_value_int:
  assumes "delim r"
  shows "parse_value (Suc f) (int_str i @ r) = Some (JInt i, r)"
proof -
  obtain c q where c: "int_str i = c # q" "is_digit c \<or> c = CHR ''-''"
    using int_str_hd by blast
  then show ?thesis
    using parse_number_int [OF assms, of i] number_hd [OF c(2)]
    by (simp add: parse_atom_def starts_with_def)
qed

text \<open>The fuel a value needs, and the values without lexemes of non-integral numbers.\<close>

fun vsize :: "json \<Rightarrow> nat"
  and esize :: "json list \<Rightarrow> nat"
  and msize :: "(string \<times> json) list \<Rightarrow> nat" where
  "vsize (JArray vs) = Suc (esize vs)"
| "vsize (JObject ms) = Suc (msize ms)"
| "vsize _ = 1"
| "esize [] = 0"
| "esize (v # vs) = Suc (vsize v + esize vs)"
| "msize [] = 0"
| "msize ((k, v) # ms) = Suc (vsize v + msize ms)"

fun integral :: "json \<Rightarrow> bool"
  and integral_elems :: "json list \<Rightarrow> bool"
  and integral_members :: "(string \<times> json) list \<Rightarrow> bool" where
  "integral (JFloat l) \<longleftrightarrow> False"
| "integral (JArray vs) \<longleftrightarrow> integral_elems vs"
| "integral (JObject ms) \<longleftrightarrow> integral_members ms"
| "integral _ \<longleftrightarrow> True"
| "integral_elems [] \<longleftrightarrow> True"
| "integral_elems (v # vs) \<longleftrightarrow> integral v \<and> integral_elems vs"
| "integral_members [] \<longleftrightarrow> True"
| "integral_members ((k, v) # ms) \<longleftrightarrow> integral v \<and> integral_members ms"

lemma not_ws [simp]:
  "\<not> json_ws CHR 0x22" "\<not> json_ws CHR ''[''" "\<not> json_ws CHR '']''" "\<not> json_ws CHR ''{''"
  "\<not> json_ws CHR ''}''" "\<not> json_ws CHR '',''" "\<not> json_ws CHR '':''"
  "\<not> json_ws CHR ''n''" "\<not> json_ws CHR ''t''" "\<not> json_ws CHR ''f''"
  by (simp_all add: json_ws_def)

text \<open>A serialised value starts with none of the closing brackets.\<close>

lemma stringify_hd: "integral v \<Longrightarrow> \<exists>c q. stringify v = c # q \<and> \<not> json_ws c \<and> c \<noteq> CHR '']'' \<and> c \<noteq> CHR ''}''"
proof (cases v)
  case (JInt i)
  obtain c q where "int_str i = c # q" "is_digit c \<or> c = CHR ''-''"
    using int_str_hd by blast
  then show ?thesis using JInt number_hd [of c] by simp
qed (auto simp: quote_def)

lemma stringify_elems_hd:
  "integral_elems vs \<Longrightarrow> vs \<noteq> [] \<Longrightarrow>
     \<exists>c q. stringify_elems vs = c # q \<and> \<not> json_ws c \<and> c \<noteq> CHR '']'' \<and> c \<noteq> CHR ''}''"
  using stringify_hd [of "hd vs"] by (cases vs rule: stringify_elems.cases) auto

lemma stringify_members_hd:
  "ms \<noteq> [] \<Longrightarrow> \<exists>q. stringify_members ms = CHR 0x22 # q"
  by (cases ms rule: stringify_members.cases) (auto simp: quote_def)

lemma skip_ws_id: "\<not> json_ws c \<Longrightarrow> skip_ws (c # s) = c # s"
  by simp

lemma parse_value_array:
  assumes "parse_elems f (stringify_elems vs @ CHR '']'' # r) = Some (vs, r)"
    and "integral_elems vs" "vs \<noteq> []"
  shows "parse_value (Suc f) (stringify (JArray vs) @ r) = Some (JArray vs, r)"
proof -
  obtain c q where c: "stringify_elems vs = c # q" "\<not> json_ws c" "c \<noteq> CHR '']''"
    using stringify_elems_hd [OF assms(2,3)] by blast
  then show ?thesis using assms(1) by simp
qed

lemma parse_value_object:
  assumes "parse_members f (stringify_members ms @ CHR ''}'' # r) = Some (ms, r)" "ms \<noteq> []"
  shows "parse_value (Suc f) (stringify (JObject ms) @ r) = Some (JObject ms, r)"
proof -
  obtain q where "stringify_members ms = CHR 0x22 # q"
    using stringify_members_hd [OF assms(2)] by blast
  then show ?thesis using assms(1) by simp
qed

lemma parse_elems_step:
  assumes "parse_value f (stringify v @ CHR '','' # s) = Some (v, CHR '','' # s)"
    and "parse_elems f s = Some (vs, r)"
  shows "parse_elems (Suc f) (stringify v @ CHR '','' # s) = Some (v # vs, r)"
  using assms by simp

lemma parse_members_step:
  assumes "parse_value f (stringify v @ CHR '','' # s) = Some (v, CHR '','' # s)"
    and "parse_members f s = Some (ms, r)"
  shows "parse_members (Suc f) (quote k @ CHR '':'' # stringify v @ CHR '','' # s) = Some ((k, v) # ms, r)"
  using assms by (simp add: quote_def parse_chars_quote)

lemma parse_members_last:
  assumes "parse_value f (stringify v @ CHR ''}'' # r) = Some (v, CHR ''}'' # r)"
  shows "parse_members (Suc f) (quote k @ CHR '':'' # stringify v @ CHR ''}'' # r) = Some ([(k, v)], r)"
  using assms by (simp add: quote_def parse_chars_quote)

lemma parse_stringify:
  "integral v \<Longrightarrow> vsize v \<le> f \<Longrightarrow> delim r \<Longrightarrow> parse_value f (stringify v @ r) = Some (v, r)"
  "integral_elems vs \<Longrightarrow> vs \<noteq> [] \<Longrightarrow> esize vs \<le> f \<Longrightarrow>
     parse_elems f (stringify_elems vs @ CHR '']'' # r) = Some (vs, r)"
  "integral_members ms \<Longrightarrow> ms \<noteq> [] \<Longrightarrow> msize ms \<le> f \<Longrightarrow>
     parse_members f (stringify_members ms @ CHR ''}'' # r) = Some (ms, r)"
proof (induction v and vs and ms arbitrary: f r and f r and f r
    rule: stringify_stringify_elems_stringify_members.induct)
  case 1 then show ?case by (cases f) (auto simp: parse_atom_def starts_with_def)
next
  case (2 b) then show ?case by (cases f) (auto simp: parse_atom_def starts_with_def)
next
  case (3 i) then show ?case by (cases f) (auto simp: parse_value_int simp del: parse_value.simps)
next
  case (5 s) then show ?case by (cases f) (auto simp: quote_def parse_chars_quote)
next
  case (6 vs)
  then obtain g where g: "f = Suc g" "esize vs \<le> g" by (cases f) auto
  show ?case
  proof (cases "vs = []")
    case False
    with 6 g show ?thesis using parse_value_array [of g vs r] by (simp del: parse_value.simps)
  qed (simp add: g)
next
  case (7 ms)
  then obtain g where g: "f = Suc g" "msize ms \<le> g" by (cases f) auto
  show ?case
  proof (cases "ms = []")
    case False
    with 7 g show ?thesis using parse_value_object [of g ms r] by (simp del: parse_value.simps)
  qed (simp add: g)
next
  case (9 v)
  then obtain g where "f = Suc g" "vsize v \<le> g" by (cases f) auto
  with 9 show ?case by simp
next
  case (10 v w vs)
  then obtain g where g: "f = Suc g" "vsize v \<le> g" "esize (w # vs) \<le> g" by (cases f) auto
  show ?case
    using parse_elems_step [of g v "stringify_elems (w # vs) @ CHR '']'' # r" "w # vs" r] 10 g
    by (simp del: parse_elems.simps esize.simps)
next
  case (12 k v)
  then obtain g where "f = Suc g" "vsize v \<le> g" by (cases f) auto
  with 12 show ?case using parse_members_last [of g v r k] by (simp del: parse_members.simps)
next
  case (13 k v m ms)
  then obtain g where g: "f = Suc g" "vsize v \<le> g" "msize (m # ms) \<le> g" by (cases f) auto
  show ?case
    using parse_members_step [of g v "stringify_members (m # ms) @ CHR ''}'' # r" "m # ms" r k] 13 g
    by (simp del: parse_members.simps msize.simps)
qed auto

text \<open>The serialised text is long enough to pay for its own fuel.\<close>

lemma int_str_length: "1 \<le> length (int_str i)"
  using int_str_hd [of i] by auto

lemma stringify_fuel:
  "integral v \<Longrightarrow> vsize v \<le> 2 * length (stringify v)"
  "integral_elems vs \<Longrightarrow> esize vs \<le> 2 * length (stringify_elems vs) + 1"
  "msize ms \<le> 2 * length (stringify_members ms) + 1 \<or> \<not> integral_members ms"
proof (induction v and vs and ms rule: stringify_stringify_elems_stringify_members.induct)
  case (3 i) then show ?case using int_str_length [of i] by simp
qed (auto simp: quote_def)

theorem json_parse_stringify: "integral v \<Longrightarrow> json_parse (stringify v) = Some v"
  using parse_stringify(1) [of v "2 * length (stringify v) + 2" "[]"] stringify_fuel(1) [of v]
  by (simp add: json_parse_def)

section \<open>The parser's fuel is enough\<close>

lemma skip_ws_length: "skip_ws s = c # r \<Longrightarrow> length r < length s"
  by (metis length_dropWhile_le length_Cons less_eq_Suc_le)

lemma parse_chars_length: "parse_chars s = Some (t, r) \<Longrightarrow> length r < length s"
proof (induction s arbitrary: t rule: parse_chars.induct)
  case (2 c s)
  then show ?case
    by (fastforce split: if_splits list.splits option.splits)
qed simp

lemma parse_frac_length: "parse_frac s = Some (t, r) \<Longrightarrow> length r \<le> length s"
  by (auto simp: parse_frac_def Let_def length_dropWhile_le le_SucI split: list.splits if_splits)

lemma parse_exp_length: "parse_exp s = Some (t, r) \<Longrightarrow> length r \<le> length s"
  by (auto simp: parse_exp_def Let_def length_dropWhile_le le_SucI split: list.splits if_splits
      intro: le_trans [OF length_dropWhile_le])

lemma digits_length: "takeWhile is_digit q \<noteq> [] \<Longrightarrow> length (dropWhile is_digit q) < length q"
  by (cases q) (auto simp: length_dropWhile_le less_Suc_eq_le split: if_splits)

lemma parse_number_length: "parse_number s = Some (v, r) \<Longrightarrow> length r < length s"
proof -
  assume a: "parse_number s = Some (v, r)"
  define q where "q = drop (length (case s of c # _ \<Rightarrow> if c = CHR ''-'' then [c] else [] | [] \<Rightarrow> [])) s"
  have ne: "takeWhile is_digit q \<noteq> []"
    using a by (auto simp: parse_number_def Let_def q_def split: if_splits)
  obtain fr r1 where fr: "parse_frac (dropWhile is_digit q) = Some (fr, r1)"
    using a by (auto simp: parse_number_def Let_def q_def split: if_splits option.splits)
  obtain ex where "parse_exp r1 = Some (ex, r)"
    using a fr by (auto simp: parse_number_def Let_def q_def split: if_splits option.splits)
  then have "length r \<le> length (dropWhile is_digit q)"
    using parse_frac_length [OF fr] parse_exp_length by fastforce
  also have "\<dots> < length q" by (rule digits_length [OF ne])
  also have "\<dots> \<le> length s" by (simp add: q_def)
  finally show ?thesis .
qed

lemma parse_atom_length: "parse_atom s = Some (v, r) \<Longrightarrow> length r < length s"
  by (auto simp: parse_atom_def starts_with_iff parse_number_length split: if_splits)

lemma apfst_Some [simp]: "map_option (apfst g) x = Some (a, b) \<longleftrightarrow> (\<exists>c. x = Some (c, b) \<and> a = g c)"
  by (cases x) auto

lemma skip_ws_le: "length (skip_ws s) \<le> length s"
  by (rule length_dropWhile_le)

lemma parse_length:
  "parse_value f s = Some (v, r) \<Longrightarrow> length r < length s"
  "parse_elems f s = Some (vs, r) \<Longrightarrow> length r < length s"
  "parse_members f s = Some (ms, r) \<Longrightarrow> length r < length s"
proof (induction f s and f s and f s arbitrary: v r and vs r and ms r
    rule: parse_value_parse_elems_parse_members.induct)
  case (2 f s)
  show ?case
  proof (cases "skip_ws s")
    case Nil
    with 2 show ?thesis by simp
  next
    case (Cons c q)
    note S = Cons
    have le: "length (c # q) \<le> length s" using Cons skip_ws_le [of s] by simp
    show ?thesis
    proof (cases "skip_ws q")
      case Nil
      with 2 Cons le show ?thesis
        by (auto simp del: dropWhile_eq_Nil_conv split: if_splits
            dest: parse_chars_length parse_atom_length)
    next
      case (Cons d t)
      have "length (d # t) \<le> length q" using Cons skip_ws_le [of q] by simp
      moreover have "length r < length (d # t)"
        if "c = CHR ''[''" "d \<noteq> CHR '']''" "parse_elems f (d # t) = Some (a, r)" for a
        using 2(1) [OF S _ _ Cons] that by simp
      moreover have "length r < length (d # t)"
        if "c = CHR ''{''" "d \<noteq> CHR ''}''" "parse_members f (d # t) = Some (a, r)" for a
        using 2(2) [OF S _ _ _ Cons] that by simp
      ultimately show ?thesis
        using 2(3) S Cons le
        by (auto split: if_splits dest!: parse_chars_length parse_atom_length)
    qed
  qed
next
  case (4 f s)
  obtain v q where v: "parse_value f s = Some (v, q)"
    using 4(3) by (auto split: option.splits)
  then have "length q < length s" using 4(1) by blast
  moreover obtain c t where c: "skip_ws q = c # t" using 4(3) v by (auto split: list.splits)
  ultimately have "length t < length s" using skip_ws_length by fastforce
  moreover have "length r < length t" if "c = CHR '',''" "parse_elems f t = Some (a, r)" for a
    using 4(2) [OF v refl c] that by simp
  ultimately show ?case using 4(3) v c by (fastforce split: if_splits)
next
  case (6 f s)
  obtain c q where c: "skip_ws s = c # q" "c = CHR 0x22"
    using 6(3) by (auto split: list.splits if_splits)
  obtain k r1 where k: "parse_chars q = Some (k, r1)" using 6(3) c by (auto split: option.splits)
  obtain d r2 where d: "skip_ws r1 = d # r2" "d = CHR '':''"
    using 6(3) c k by (auto split: list.splits if_splits)
  obtain v r3 where v: "parse_value f r2 = Some (v, r3)" using 6(3) c k d by (auto split: option.splits)
  obtain e t where e: "skip_ws r3 = e # t" using 6(3) c k d v by (auto split: list.splits)
  have "length r3 < length r2" using 6(1) c k d v by auto
  then have "length t < length s"
    using skip_ws_length [OF c(1)] parse_chars_length [OF k] skip_ws_length [OF d(1)] skip_ws_length [OF e]
    by linarith
  moreover have "length r < length t" if "e = CHR '',''" "parse_members f t = Some (a, r)" for a
    using 6(2) [OF c(1) _ k refl d(1) _ v refl e] c(2) d(2) that by simp
  ultimately show ?case using 6(3) c k d v e by (fastforce split: if_splits)
qed auto

text \<open>Any two sufficient amounts of fuel give the same result.\<close>

lemma parse_fuel_irrelevant:
  "2 * length s + 1 \<le> f \<Longrightarrow> 2 * length s + 1 \<le> g \<Longrightarrow> parse_value f s = parse_value g s"
  "2 * length s + 2 \<le> f \<Longrightarrow> 2 * length s + 2 \<le> g \<Longrightarrow> parse_elems f s = parse_elems g s"
  "2 * length s + 2 \<le> f \<Longrightarrow> 2 * length s + 2 \<le> g \<Longrightarrow> parse_members f s = parse_members g s"
proof (induction f s and f s and f s arbitrary: g and g and g
    rule: parse_value_parse_elems_parse_members.induct)
  case (2 f s)
  obtain h where h: "g = Suc h" using 2(4) by (cases g) auto
  show ?case
  proof (cases "skip_ws s")
    case (Cons c q)
    note S = Cons
    have q: "length q < length s" by (rule skip_ws_length [OF S])
    show ?thesis
    proof (cases "skip_ws q")
      case (Cons d t)
      have "length (d # t) \<le> length q" using Cons skip_ws_le [of q] by simp
      then have "2 * length (d # t) + 2 \<le> f" "2 * length (d # t) + 2 \<le> h"
        using q 2(3,4) h by linarith+
      then have "c = CHR ''['' \<Longrightarrow> d \<noteq> CHR '']'' \<Longrightarrow> parse_elems f (d # t) = parse_elems h (d # t)"
        "c = CHR ''{'' \<Longrightarrow> d \<noteq> CHR ''}'' \<Longrightarrow> parse_members f (d # t) = parse_members h (d # t)"
        using 2(1) [OF S _ _ Cons, of h] 2(2) [OF S _ _ _ Cons, of h] by simp_all
      then show ?thesis using S Cons h by simp
    qed (use Cons h in \<open>simp del: dropWhile_eq_Nil_conv\<close>)
  qed (use h in \<open>simp del: dropWhile_eq_Nil_conv\<close>)
next
  case (4 f s)
  obtain h where h: "g = Suc h" using 4(4) by (cases g) auto
  have "2 * length s + 1 \<le> f" "2 * length s + 1 \<le> h" using 4(3,4) h by linarith+
  then have v: "parse_value f s = parse_value h s" by (rule 4(1))
  show ?case
  proof (cases "parse_value h s")
    case (Some p)
    obtain w q where p: "p = (w, q)" by (cases p)
    have "length q < length s" using parse_length(1) Some p by blast
    show ?thesis
    proof (cases "skip_ws q")
      case (Cons c t)
      have "length t < length s" using skip_ws_length [OF Cons] \<open>length q < length s\<close> by simp
      then have "2 * length t + 2 \<le> f" "2 * length t + 2 \<le> h" using 4(3,4) h by linarith+
      then have "c = CHR '','' \<Longrightarrow> parse_elems f t = parse_elems h t"
        using 4(2) [of p w q, OF _ p [symmetric] Cons, of h] v Some by simp
      then show ?thesis using v Some p Cons h by simp
    qed (use v Some p h in \<open>simp del: dropWhile_eq_Nil_conv\<close>)
  qed (use v h in simp)
next
  case (6 f s)
  obtain h where h: "g = Suc h" using 6(4) by (cases g) auto
  show ?case
  proof (cases "skip_ws s")
    case (Cons c q)
    note c = Cons
    show ?thesis
    proof (cases "c = CHR 0x22 \<and> parse_chars q \<noteq> None")
      case True
      then obtain k r1 where k: "c = CHR 0x22" "parse_chars q = Some (k, r1)" by auto
      show ?thesis
      proof (cases "skip_ws r1")
        case (Cons d r2)
        note d = Cons
        have r2: "length r2 + 2 < length s"
          using skip_ws_length [OF c] parse_chars_length [OF k(2)] skip_ws_length [OF d] by linarith
        then have v: "d = CHR '':'' \<Longrightarrow> parse_value f r2 = parse_value h r2"
        proof -
          have "2 * length r2 + 1 \<le> f" "2 * length r2 + 1 \<le> h" using r2 6(3,4) h by linarith+
          moreover assume "d = CHR '':''"
          ultimately show ?thesis using 6(1) [OF c _ k(2) refl d, of h] k(1) by blast
        qed
        show ?thesis
        proof (cases "d = CHR '':'' \<and> parse_value h r2 \<noteq> None")
          case True
          then obtain w r3 where w: "d = CHR '':''" "parse_value h r2 = Some (w, r3)" by auto
          have "length r3 < length r2" using parse_length(1) w by blast
          show ?thesis
          proof (cases "skip_ws r3")
            case (Cons e t)
            have "length t < length r3" by (rule skip_ws_length [OF Cons])
            then have "2 * length t + 2 \<le> f" "2 * length t + 2 \<le> h"
              using \<open>length r3 < length r2\<close> r2 6(3,4) h by linarith+
            then have "e = CHR '','' \<Longrightarrow> parse_members f t = parse_members h t"
              using 6(2) [OF c _ k(2) refl d _ _ refl Cons, of w h] k(1) w v by simp
            then show ?thesis using c k d v w Cons h by simp
          qed (use c k d v w h in \<open>simp del: dropWhile_eq_Nil_conv\<close>)
        qed (use c k d v h in \<open>auto split: option.splits\<close>)
      qed (use c k h in \<open>simp del: dropWhile_eq_Nil_conv\<close>)
    qed (use c h in \<open>auto split: option.splits\<close>)
  qed (use h in \<open>simp del: dropWhile_eq_Nil_conv\<close>)
qed auto

lemma json_parse_fuel:
  "2 * length s + 2 \<le> f \<Longrightarrow>
     json_parse s = (case parse_value f s of None \<Rightarrow> None
       | Some (v, r) \<Rightarrow> if skip_ws r = [] then Some v else None)"
  using parse_fuel_irrelevant(1) [of s "2 * length s + 2" f] by (simp add: json_parse_def)


text \<open>From here on a body stays in the form \<open>stringify v\<close>; \<open>json_parse_stringify\<close> reads it.\<close>

lemma stringify_not_Nil [simp]: "integral v \<Longrightarrow> stringify v \<noteq> []"
  using stringify_hd [of v] by auto

declare stringify.simps [simp del]

lemma integral_elems_all: "integral_elems vs \<longleftrightarrow> (\<forall>v \<in> set vs. integral v)"
  by (induction vs) auto

lemma integral_lists [simp]: "integral_elems (map JInt ns)" "integral_elems (map JString ss)"
  by (simp_all add: integral_elems_all)

lemma integral_members_append [simp]: "integral_members (ms @ ns) \<longleftrightarrow> integral_members ms \<and> integral_members ns"
proof (induction ms)
  case (Cons m ms)
  then show ?case by (cases m) simp
qed simp

end
