(* ===== verification/Types.thy ===== *)
theory Types
  imports Complex_Main Prelude
begin

text \<open>
  The data the control plane's API exchanges with the console (frontend/src/lib/types.ts): one
  record per interface, in dependency order, with the source's property names behind a short tag;
  a property that may be absent or null is an option.  A string-literal union is a datatype, with
  the literal it stands for.  Numbers are integers; measured rates, loads and latencies are
  rationals.
\<close>

section \<open>String-literal unions\<close>

datatype node_status =
    Node_pending
  | Node_active
  | Node_draining
  | Node_revoked
  | Node_uninstalling
  | Node_uninstalled

fun node_status_str :: "node_status \<Rightarrow> string" where
  "node_status_str Node_pending = ''pending''"
| "node_status_str Node_active = ''active''"
| "node_status_str Node_draining = ''draining''"
| "node_status_str Node_revoked = ''revoked''"
| "node_status_str Node_uninstalling = ''uninstalling''"
| "node_status_str Node_uninstalled = ''uninstalled''"

lemma node_status_str_inject [simp]: "node_status_str a = node_status_str b \<longleftrightarrow> a = b"
  by (cases a; cases b) simp_all

datatype history_range =
    Range_1h
  | Range_6h
  | Range_12h
  | Range_24h
  | Range_7d

fun history_range_str :: "history_range \<Rightarrow> string" where
  "history_range_str Range_1h = ''1h''"
| "history_range_str Range_6h = ''6h''"
| "history_range_str Range_12h = ''12h''"
| "history_range_str Range_24h = ''24h''"
| "history_range_str Range_7d = ''7d''"

lemma history_range_str_inject [simp]: "history_range_str a = history_range_str b \<longleftrightarrow> a = b"
  by (cases a; cases b) simp_all

datatype upgrade_status =
    Upg_queued
  | Upg_applying
  | Upg_succeeded
  | Upg_failed

fun upgrade_status_str :: "upgrade_status \<Rightarrow> string" where
  "upgrade_status_str Upg_queued = ''queued''"
| "upgrade_status_str Upg_applying = ''applying''"
| "upgrade_status_str Upg_succeeded = ''succeeded''"
| "upgrade_status_str Upg_failed = ''failed''"

lemma upgrade_status_str_inject [simp]: "upgrade_status_str a = upgrade_status_str b \<longleftrightarrow> a = b"
  by (cases a; cases b) simp_all

datatype deployment_status =
    Dep_queued
  | Dep_dispatching
  | Dep_applying
  | Dep_succeeded
  | Dep_partial
  | Dep_failed
  | Dep_rolled_back

fun deployment_status_str :: "deployment_status \<Rightarrow> string" where
  "deployment_status_str Dep_queued = ''queued''"
| "deployment_status_str Dep_dispatching = ''dispatching''"
| "deployment_status_str Dep_applying = ''applying''"
| "deployment_status_str Dep_succeeded = ''succeeded''"
| "deployment_status_str Dep_partial = ''partial''"
| "deployment_status_str Dep_failed = ''failed''"
| "deployment_status_str Dep_rolled_back = ''rolled_back''"

lemma deployment_status_str_inject [simp]: "deployment_status_str a = deployment_status_str b \<longleftrightarrow> a = b"
  by (cases a; cases b) simp_all

datatype publish_node_status =
    Pub_pending
  | Pub_succeeded
  | Pub_failed
  | Pub_timed_out

fun publish_node_status_str :: "publish_node_status \<Rightarrow> string" where
  "publish_node_status_str Pub_pending = ''pending''"
| "publish_node_status_str Pub_succeeded = ''succeeded''"
| "publish_node_status_str Pub_failed = ''failed''"
| "publish_node_status_str Pub_timed_out = ''timed_out''"

lemma publish_node_status_str_inject [simp]: "publish_node_status_str a = publish_node_status_str b \<longleftrightarrow> a = b"
  by (cases a; cases b) simp_all

datatype policy_action =
    Act_block
  | Act_ban

fun policy_action_str :: "policy_action \<Rightarrow> string" where
  "policy_action_str Act_block = ''block''"
| "policy_action_str Act_ban = ''ban''"

lemma policy_action_str_inject [simp]: "policy_action_str a = policy_action_str b \<longleftrightarrow> a = b"
  by (cases a; cases b) simp_all

datatype severity =
    Sev_info
  | Sev_success
  | Sev_warning
  | Sev_error

fun severity_str :: "severity \<Rightarrow> string" where
  "severity_str Sev_info = ''info''"
| "severity_str Sev_success = ''success''"
| "severity_str Sev_warning = ''warning''"
| "severity_str Sev_error = ''error''"

lemma severity_str_inject [simp]: "severity_str a = severity_str b \<longleftrightarrow> a = b"
  by (cases a; cases b) simp_all

section \<open>Records\<close>

record system_info =
  si_name :: "string"
  si_version :: "string"

record node_upgrade_task =
  ut_id :: "string"
  ut_node_id :: "string"
  ut_status :: "upgrade_status"
  ut_source_sha256 :: "string option"
  ut_target_sha256 :: "string"
  ut_error_code :: "string option"
  ut_detail :: "string option"
  ut_deadline_at :: "string"
  ut_started_at :: "string option"
  ut_completed_at :: "string option"
  ut_created_at :: "string"
  ut_updated_at :: "string"

record nginx_capacity =
  nc_worker_processes :: "int"
  nc_worker_connections :: "int"
  nc_worker_rlimit_nofile :: "int"

record node =
  n_id :: "string"
  n_name :: "string"
  n_public_ipv4 :: "string"
  n_cache_max_size_gb :: "int option"
  n_nginx_capacity :: "nginx_capacity"
  n_status :: "node_status"
  n_monitor_auto_paused :: "bool"
  n_capabilities :: "string list"
  n_agent_version :: "string option"
  n_agent_sha256 :: "string option"
  n_active_upgrade_task_id :: "string option"
  n_last_heartbeat_at :: "string option"
  n_applied_version :: "int"
  n_last_error :: "string option"
  n_created_at :: "string"
  n_updated_at :: "string"
  n_target_agent_sha256 :: "string option"
  n_target_agent_version :: "string option"
  n_upgrade_capable :: "bool"
  n_upgrade_up_to_date :: "bool"
  n_can_upgrade :: "bool"
  n_upgrade_blocker :: "string option"
  n_upgrade_task :: "node_upgrade_task option"

record monitoring_target =
  mt_id :: "string"
  mt_name :: "string"
  mt_address :: "string"
  mt_enabled :: "bool"
  mt_created_at :: "string"
  mt_updated_at :: "string"

record monitoring_probe_result =
  mp_target_id :: "string"
  mp_target_name :: "string"
  mp_address :: "string"
  mp_attempts :: "int"
  mp_successful_attempts :: "int"
  mp_average_latency_ms :: "rat"
  mp_error :: "string option"
  mp_checked_at :: "string"

record monitoring_node =
  mn_node_id :: "string"
  mn_name :: "string"
  mn_public_ipv4 :: "string"
  mn_status :: "node_status"
  mn_monitor_auto_paused :: "bool"
  mn_capable :: "bool"
  mn_score :: "int option"
  mn_success_rate :: "rat option"
  mn_average_latency_ms :: "rat option"
  mn_consecutive_abnormal :: "int"
  mn_last_checked_at :: "string option"
  mn_stale :: "bool"
  mn_results :: "monitoring_probe_result list"

record monitoring_overview =
  mo_targets :: "monitoring_target list"
  mo_nodes :: "monitoring_node list"
  mo_interval_seconds :: "int"
  mo_attempts_per_round :: "int"
  mo_healthy_score :: "int"
  mo_auto_pause_after :: "int"

record monitoring_history_point =
  mhp_time :: "string"
  mhp_attempts :: "int"
  mhp_successful_attempts :: "int"
  mhp_success_rate :: "rat"
  mhp_average_latency_ms :: "rat option"
  mhp_failed_rounds :: "int"

record monitoring_history_series =
  mhs_target_id :: "string"
  mhs_name :: "string"
  mhs_address :: "string"
  mhs_points :: "monitoring_history_point list"

record history_node =
  hn_id :: "string"
  hn_name :: "string"
  hn_public_ipv4 :: "string"
  hn_status :: "node_status"
  hn_monitor_auto_paused :: "bool"

record monitoring_history =
  mh_available :: "bool"
  mh_unavailable_reason :: "string option"
  mh_node :: "history_node"
  mh_range :: "history_range"
  mh_from :: "string"
  mh_to :: "string"
  mh_bucket_seconds :: "int"
  mh_series :: "monitoring_history_series list"

record machine_report =
  mr_distribution :: "string"
  mr_version :: "string"
  mr_uptime_seconds :: "int"
  mr_load_1 :: "rat"
  mr_load_5 :: "rat"
  mr_load_15 :: "rat"
  mr_cpu_usage_percent :: "rat"
  mr_cpu_logical_cores :: "int"
  mr_memory_used_bytes :: "int"
  mr_memory_total_bytes :: "int"
  mr_disk_used_bytes :: "int"
  mr_disk_total_bytes :: "int"
  mr_network_interface :: "string"
  mr_network_rx_bytes_per_second :: "int"
  mr_network_tx_bytes_per_second :: "int"
  mr_sample_seconds :: "rat"
  mr_collected_at :: "string"

record node_machine =
  nm_available :: "bool"
  nm_unavailable_reason :: "string option"
  nm_stale :: "bool"
  nm_report :: "machine_report option"

record node_site =
  ns_id :: "string"
  ns_name :: "string"
  ns_domains :: "string list"
  ns_enabled :: "bool"
  ns_published :: "bool"
  ns_cache_enabled :: "bool"

record node_cache_settings =
  ncs_default_size_gb :: "int"
  ncs_override_size_gb :: "int option"
  ncs_effective_size_gb :: "int"

record node_detail =
  nd_node :: "node"
  nd_machine :: "node_machine"
  nd_cache :: "node_cache_settings"
  nd_sites :: "node_site list"

record cache_status_count =
  csc_status :: "string"
  csc_requests :: "int"
  csc_bytes :: "int"

record cache_storage =
  cst_available :: "bool"
  cst_unavailable_reason :: "string option"
  cst_used_bytes :: "int"
  cst_total_bytes :: "int"
  cst_collected_at :: "string option"
  cst_stale :: "bool"

record node_cache_status =
  nca_available :: "bool"
  nca_unavailable_reason :: "string option"
  nca_from :: "string"
  nca_to :: "string"
  nca_last_seen_at :: "string option"
  nca_requests :: "int"
  nca_bytes :: "int"
  nca_cache_lookups :: "int"
  nca_cache_hits :: "int"
  nca_cache_misses :: "int"
  nca_bypasses :: "int"
  nca_uncached :: "int"
  nca_hit_rate :: "rat"
  nca_statuses :: "cache_status_count list"
  nca_storage :: "cache_storage"

record origin =
  o_url :: "string"
  o_host_header :: "string"
  o_tls_server_name :: "string option"
  o_enabled :: "bool"

record tcp_forward =
  f_name :: "string"
  f_listen_port :: "int"
  f_listen_tls :: "bool"
  f_upstream_host :: "string"
  f_upstream_port :: "int"
  f_upstream_tls :: "bool"
  f_upstream_tls_server_name :: "string option"
  f_connect_timeout_seconds :: "int"
  f_idle_timeout_seconds :: "int"

record site =
  s_id :: "string"
  s_name :: "string"
  s_zone_id :: "string"
  s_domains :: "string list"
  s_node_ids :: "string list"
  s_primary_origin :: "origin"
  s_backup_origin :: "origin option"
  s_stream_paths :: "string list"
  s_passthrough :: "bool"
  s_client_max_body_size_mb :: "int"
  s_client_keepalive_timeout_seconds :: "int"
  s_read_write_timeout_seconds :: "int"
  s_dns_ttl_seconds :: "int option"
  s_tcp_only :: "bool"
  s_tcp_forwards :: "tcp_forward list"
  s_cache_generation :: "int"
  s_config_version :: "int"
  s_published :: "bool"
  s_enabled :: "bool"
  s_deleting :: "bool"
  s_created_at :: "string"
  s_updated_at :: "string"

record deployment_task =
  t_id :: "string"
  t_kind :: "string"
  t_site_id :: "string option"
  t_status :: "deployment_status"
  t_detail :: "string option"
  t_deadline_at :: "string option"
  t_created_at :: "string"
  t_updated_at :: "string"

record certificate_site_status =
  cs_site_id :: "string"
  cs_site_name :: "string"
  cs_domains :: "string list"
  cs_enabled :: "bool"
  cs_published :: "bool"
  cs_deleting :: "bool"
  cs_needs_certificate :: "bool"
  cs_certificate_present :: "bool"
  cs_certificate_updated_at :: "string option"
  cs_not_after :: "string option"
  cs_renewal_due_at :: "string option"
  cs_published_after_certificate :: "bool"
  cs_task :: "deployment_task option"

record certificate_overview =
  co_renewal_window_days :: "int"
  co_reconcile_interval_seconds :: "int"
  co_sites :: "certificate_site_status list"

record publish_node =
  pn_node_id :: "string"
  pn_node_name :: "string"
  pn_target_version :: "int"
  pn_status :: "publish_node_status"
  pn_error_code :: "string option"
  pn_detail :: "string option"

record publish_status =
  ps_task :: "deployment_task option"
  ps_nodes :: "publish_node list"

record overview_point =
  op_time :: "string"
  op_requests :: "int"
  op_bytes :: "int"
  op_error_requests :: "int"

record overview_status_code =
  osc_code :: "int"
  osc_requests :: "int"

record overview_site =
  os_id :: "string"
  os_name :: "string"
  os_domains :: "string list"
  os_requests :: "int"
  os_bytes :: "int"
  os_error_requests :: "int"
  os_status_codes :: "overview_status_code list"
  os_series :: "overview_point list"

record overview_totals =
  ot_requests :: "int"
  ot_bytes :: "int"
  ot_error_requests :: "int"

record overview =
  ov_from :: "string"
  ov_to :: "string"
  ov_bucket_seconds :: "int"
  ov_totals :: "overview_totals"
  ov_series :: "overview_point list"
  ov_status_codes :: "overview_status_code list"
  ov_sites :: "overview_site list"

record access_log =
  al_id :: "string"
  al_timestamp :: "string"
  al_node_id :: "string"
  al_site_id :: "string"
  al_client_ip :: "string"
  al_host :: "string"
  al_scheme :: "string"
  al_protocol :: "string"
  al_method :: "string"
  al_path :: "string"
  al_status :: "int"
  al_request_bytes :: "int"
  al_bytes :: "int"
  al_duration_ms :: "int"
  al_upstream :: "string"
  al_upstream_status :: "string"
  al_upstream_response_time :: "string"
  al_cache_status :: "string"
  al_user_agent :: "string"
  al_referer :: "string"
  al_content_type :: "string"
  al_response_content_type :: "string"
  al_accept :: "string"
  al_range :: "string"

record log_page =
  lp_logs :: "access_log list"
  lp_from :: "string"
  lp_to :: "string"
  lp_offset :: "int"
  lp_page_size :: "int"
  lp_has_more :: "bool"

record security_policy =
  sp_id :: "string"
  sp_builtin :: "bool"
  sp_name :: "string"
  sp_enabled :: "bool"
  sp_pattern :: "string"
  sp_action :: "policy_action"
  sp_ban_duration_seconds :: "int option"
  sp_priority :: "int"
  sp_created_at :: "string"
  sp_updated_at :: "string"

record rate_limit_policy =
  rl_id :: "string"
  rl_name :: "string"
  rl_enabled :: "bool"
  rl_key :: "string"
  rl_requests_per_second :: "int"
  rl_response_condition_enabled :: "bool"
  rl_response_status_classes :: "(int list) option"
  rl_ban_enabled :: "bool"
  rl_ban_after_consecutive_429 :: "int"
  rl_ban_duration_seconds :: "int"
  rl_created_at :: "string"
  rl_updated_at :: "string"

record security_ban =
  sb_ip :: "string"
  sb_policy_id :: "string option"
  sb_policy_name :: "string option"
  sb_trigger_node_id :: "string option"
  sb_host :: "string option"
  sb_path :: "string option"
  sb_method :: "string option"
  sb_expires_at :: "string"
  sb_created_at :: "string"
  sb_updated_at :: "string"

record security_event =
  se_id :: "string option"
  se_node_id :: "string option"
  se_policy_id :: "string"
  se_policy_name :: "string option"
  se_client_ip :: "string"
  se_host :: "string option"
  se_path :: "string"
  se_method :: "string option"
  se_action :: "policy_action"
  se_observed_at :: "string"
  se_ban_expires_at :: "string option"

record security_node =
  sn_id :: "string"
  sn_name :: "string"
  sn_status :: "node_status"
  sn_capable :: "bool"
  sn_configured :: "bool"
  sn_rate_limit_capable :: "bool"
  sn_rate_limit_configured :: "bool"
  sn_desired_version :: "int"
  sn_applied_version :: "int"
  sn_last_error :: "string option"

record security_overview =
  so_policies :: "security_policy list"
  so_rate_limit_policies :: "rate_limit_policy list"
  so_bans :: "security_ban list"
  so_active_ban_count :: "int"
  so_events :: "security_event list"
  so_nodes :: "security_node list"
  so_deployment_error :: "string option"

record branding =
  b_name :: "string"
  b_subtitle :: "string"
  b_logo_data_url :: "string"

record cache_settings =
  cas_default_size_gb :: "int"

record dns_settings =
  dns_default_ttl_seconds :: "int"

record cloudflare_settings =
  cfs_source :: "string"
  cfs_configured :: "bool"
  cfs_override_configured :: "bool"
  cfs_environment_configured :: "bool"

record smtp_settings =
  smtp_enabled :: "bool"
  smtp_host :: "string"
  smtp_port :: "int"
  smtp_username :: "string"
  smtp_from_address :: "string"
  smtp_recipients :: "string list"
  smtp_notification_categories :: "string list"
  smtp_security :: "string"
  smtp_source :: "string"
  smtp_override_configured :: "bool"
  smtp_password_configured :: "bool"
  smtp_environment_configured :: "bool"

record backup_settings =
  bks_repository :: "string"
  bks_access_key_id :: "string"
  bks_region :: "string"
  bks_backup_time :: "string"
  bks_random_delay_seconds :: "int"
  bks_source :: "string"
  bks_configured :: "bool"
  bks_override_configured :: "bool"
  bks_secret_access_key_configured :: "bool"
  bks_restic_password_configured :: "bool"
  bks_environment_configured :: "bool"

record settings =
  set_branding :: "branding"
  set_cache :: "cache_settings"
  set_dns :: "dns_settings"
  set_cloudflare :: "cloudflare_settings"
  set_smtp :: "smtp_settings"
  set_backup :: "backup_settings"

record message =
  m_id :: "string"
  m_severity :: "severity"
  m_category :: "string"
  m_title :: "string"
  m_body :: "string option"
  m_resource_type :: "string option"
  m_resource_id :: "string option"
  m_read_at :: "string option"
  m_created_at :: "string"

record message_page =
  mpg_messages :: "message list"
  mpg_unread_count :: "int"

record backup_run_status =
  br_version :: "int"
  br_state :: "string"
  br_attempt :: "int"
  br_max_attempts :: "int"
  br_host :: "string option"
  br_started_at :: "string"
  br_updated_at :: "string"
  br_finished_at :: "string option"
  br_error :: "string option"

record restore_snapshot =
  rs_id :: "string"
  rs_short_id :: "string"
  rs_time :: "string"
  rs_hostname :: "string option"
  rs_paths :: "(string list) option"
  rs_tags :: "(string list) option"

record restore_job =
  rj_version :: "int"
  rj_id :: "string"
  rj_snapshot_id :: "string"
  rj_snapshot_short_id :: "string"
  rj_state :: "string"
  rj_phase :: "string option"
  rj_detail :: "string option"
  rj_error :: "string option"
  rj_schema_version :: "int option"
  rj_created_at :: "string"
  rj_updated_at :: "string"
  rj_ready_at :: "string option"
  rj_finished_at :: "string option"

record uninstall_job =
  uj_node_id :: "string"
  uj_status :: "string"
  uj_previous_status :: "node_status"
  uj_token_expires_at :: "string option"
  uj_ready_at :: "string"
  uj_affected_site_ids :: "string list"
  uj_detail :: "string option"
  uj_forced :: "bool"
  uj_created_at :: "string"
  uj_updated_at :: "string"

record uninstall_blocker =
  ub_code :: "string"
  ub_site_id :: "string option"
  ub_site_name :: "string option"
  ub_detail :: "string"

record node_uninstall_status =
  nu_node :: "node"
  nu_job :: "uninstall_job option"
  nu_blockers :: "uninstall_blocker list"
  nu_can_generate_command :: "bool"
  nu_ready_in_seconds :: "int"
  nu_uninstall_command :: "string option"

end
