(* ===== verification/Api.thy ===== *)
theory Api
  imports Json Types
begin

text \<open>
  The console's access to the control plane (frontend/src/lib/api.ts) and the vocabulary of its
  effects.  A handler is a function from events and state to the new state and the list of effects
  it performs, in order.  The browser's \<open>fetch\<close> is outside the model: a request leaves as an effect,
  and its outcome comes back as an argument, a rejection (\<open>Inl\<close>) or a response (\<open>Inr\<close>).
\<close>

section \<open>Requests and responses\<close>

record request =
  rq_path :: string
  rq_method :: string
  rq_headers :: "(string \<times> string) list"
  rq_body :: "string option"

text \<open>The part of \<open>RequestInit\<close> the console uses.\<close>

record request_init =
  ri_method :: "string option"
  ri_headers :: "(string \<times> string) list"
  ri_body :: "string option"

definition no_init :: request_init where
  "no_init = \<lparr>ri_method = None, ri_headers = [], ri_body = None\<rparr>"

text \<open>A response: its status and its body as JSON, if \<open>response.json()\<close> does not reject.\<close>

record response =
  rsp_status :: int
  rsp_json :: "json option"

text \<open>What a promise may reject with: the console's \<open>ApiError\<close>, another Error, any other value.\<close>

datatype js_error = ApiError ui_text int "json option" | JsError ui_text | NonError

type_synonym query_key = "string list"

text \<open>
  The effects: a request, the toasts, the operations of the query client (\<open>invalidateQueries\<close>,
  \<open>clear\<close>), the \<open>refetch\<close> of one query, the router's \<open>navigate\<close> with its \<open>replace\<close> flag, the \<open>cdn:unauthorized\<close> event.
\<close>

datatype effect =
    Send request
  | ToastSuccess ui_text
  | ToastError ui_text
  | Invalidate query_key
  | Refetch query_key
  | ClearQueries
  | Navigate string bool
  | DispatchUnauthorized

fun is_send :: "effect \<Rightarrow> bool" where
  "is_send (Send r) \<longleftrightarrow> True"
| "is_send _ \<longleftrightarrow> False"

definition sends :: "effect list \<Rightarrow> nat" where
  "sends es = length (filter is_send es)"

lemma sends_simps [simp]:
  "sends [] = 0" "sends (e # es) = (if is_send e then Suc (sends es) else sends es)"
  "sends (es @ fs) = sends es + sends fs"
  by (simp_all add: sends_def)

section \<open>The request the wrapper builds\<close>

definition ascii_upper :: "char \<Rightarrow> char" where
  "ascii_upper c = (if 97 \<le> byte c \<and> byte c \<le> 122 then char_of (byte c - 32) else c)"

definition ascii_lower :: "char \<Rightarrow> char" where
  "ascii_lower c = (if 65 \<le> byte c \<and> byte c \<le> 90 then char_of (byte c + 32) else c)"

definition upper :: "string \<Rightarrow> string" where
  "upper s = map ascii_upper s"

definition lower :: "string \<Rightarrow> string" where
  "lower s = map ascii_lower s"

text \<open>\<open>Headers\<close> compares names without case.\<close>

definition has_header :: "string \<Rightarrow> (string \<times> string) list \<Rightarrow> bool" where
  "has_header k hs \<longleftrightarrow> (\<exists>h \<in> set hs. lower (fst h) = lower k)"

definition set_header :: "string \<Rightarrow> string \<Rightarrow> (string \<times> string) list \<Rightarrow> (string \<times> string) list" where
  "set_header k v hs = filter (\<lambda>h. lower (fst h) \<noteq> lower k) hs @ [(k, v)]"

definition get_header :: "string \<Rightarrow> (string \<times> string) list \<Rightarrow> string option" where
  "get_header k hs = map_option snd (find (\<lambda>h. lower (fst h) = lower k) hs)"

definition api_request :: "string \<Rightarrow> string \<Rightarrow> request_init \<Rightarrow> request" where
  "api_request csrf path init =
     (let method = upper (nullish (ri_method init) ''GET'');
          h0 = ri_headers init;
          h1 = (if ri_body init \<noteq> None \<and> \<not> has_header ''Content-Type'' h0
                then set_header ''Content-Type'' ''application/json'' h0 else h0);
          h2 = (if method \<noteq> ''GET'' \<and> method \<noteq> ''HEAD'' \<and> csrf \<noteq> []
                then set_header ''X-CSRF-Token'' csrf h1 else h1)
      in \<lparr>rq_path = path, rq_method = method, rq_headers = h2, rq_body = ri_body init\<rparr>)"

text \<open>\<open>{ method, body: JSON.stringify(v) }\<close> and \<open>{ method }\<close>, the inits the console passes.\<close>

definition json_init :: "string \<Rightarrow> json \<Rightarrow> request_init" where
  "json_init m v = \<lparr>ri_method = Some m, ri_headers = [], ri_body = Some (stringify v)\<rparr>"

definition method_init :: "string \<Rightarrow> request_init" where
  "method_init m = \<lparr>ri_method = Some m, ri_headers = [], ri_body = None\<rparr>"

text \<open>\<open>jsonBody(value)\<close>: the body alone, to be spread into an init.\<close>

definition jsonBody :: "json \<Rightarrow> request_init" where
  "jsonBody v = no_init\<lparr>ri_body := Some (stringify v)\<rparr>"

section \<open>What the wrapper makes of the outcome\<close>

definition response_ok :: "response \<Rightarrow> bool" where
  "response_ok r \<longleftrightarrow> 200 \<le> rsp_status r \<and> rsp_status r < 300"

text \<open>The message of a failed response: its \<open>error\<close> member if the body is an object that has one.\<close>

definition failure_message :: "response \<Rightarrow> ui_text" where
  "failure_message r =
     (case rsp_json r of
        Some (JObject ms) \<Rightarrow>
          (case obj_get ''error'' ms of
             Some v \<Rightarrow> [Raw (js_string v)]
           | None \<Rightarrow> [Zh ''request failed (HTTP '', Raw (int_str (rsp_status r)), Zh '')''])
      | _ \<Rightarrow> [Zh ''request failed (HTTP '', Raw (int_str (rsp_status r)), Zh '')''])"

definition api_finish :: "js_error + response \<Rightarrow> effect list \<times> (js_error + json option)" where
  "api_finish out =
     (case out of
        Inl e \<Rightarrow> ([], Inl e)
      | Inr r \<Rightarrow>
          if response_ok r then ([], Inr (rsp_json r))
          else ((if rsp_status r = 401 then [DispatchUnauthorized] else []),
                Inl (ApiError (failure_message r) (rsp_status r) (rsp_json r))))"

definition errorMessage :: "js_error \<Rightarrow> ui_text" where
  "errorMessage e = (case e of ApiError m st d \<Rightarrow> m | JsError m \<Rightarrow> m | NonError \<Rightarrow> [Zh ''unknown error''])"

section \<open>Laws of the wrapper\<close>

lemma csrf_content_distinct: "lower ''X-CSRF-Token'' \<noteq> lower ''Content-Type''"
  by code_simp

lemma find_snoc:
  "find P (xs @ [x]) = (case find P xs of None \<Rightarrow> if P x then Some x else None | Some y \<Rightarrow> Some y)"
  by (induction xs) auto

lemma find_filter_neg: "find P (filter (\<lambda>x. \<not> P x) xs) = None"
  by (simp add: find_None_iff)

lemma find_filter_other:
  "(\<And>x. P x \<Longrightarrow> Q x) \<Longrightarrow> find P (filter Q xs) = find P xs"
  by (induction xs) auto

lemma get_set_header [simp]: "get_header k (set_header k v hs) = Some v"
  by (simp add: get_header_def set_header_def find_snoc find_filter_neg)

lemma get_set_header_other:
  assumes "lower k \<noteq> lower j"
  shows "get_header k (set_header j v hs) = get_header k hs"
proof -
  have "find (\<lambda>h. lower (fst h) = lower k)
      (filter (\<lambda>h. lower (fst h) \<noteq> lower j) hs)
    = find (\<lambda>h. lower (fst h) = lower k) hs"
    by (rule find_filter_other) (use assms in auto)
  then show ?thesis
    using assms by (auto simp: get_header_def set_header_def find_snoc split: option.splits)
qed

lemma csrf_content [simp]:
  "get_header ''X-CSRF-Token'' (set_header ''Content-Type'' v hs) = get_header ''X-CSRF-Token'' hs"
  by (rule get_set_header_other [OF csrf_content_distinct])

lemma upper_literals [simp]:
  "upper ''POST'' = ''POST''" "upper ''GET'' = ''GET''" "upper ''post'' = ''POST''" "upper ''PUT'' = ''PUT''" "upper ''DELETE'' = ''DELETE''"
  by code_simp+

interpretation csrf_header: codec "\<lambda>t. set_header ''X-CSRF-Token'' t hs" "get_header ''X-CSRF-Token''" for hs
  by unfold_locales simp

definition safe_method :: "string \<Rightarrow> bool" where
  "safe_method m \<longleftrightarrow> m = ''GET'' \<or> m = ''HEAD''"

text \<open>Every request that may change state carries the session's CSRF token, once one is set.\<close>

theorem api_request_csrf:
  "csrf \<noteq> [] \<Longrightarrow> \<not> safe_method (rq_method (api_request csrf path init)) \<Longrightarrow>
     get_header ''X-CSRF-Token'' (rq_headers (api_request csrf path init)) = Some csrf"
  by (simp add: api_request_def Let_def safe_method_def)

theorem api_request_csrf_witness:
  "get_header ''X-CSRF-Token'' (rq_headers (api_request ''tok'' ''/api/nodes'' (method_init ''post''))) = Some ''tok''"
  by (rule api_request_csrf) (simp_all add: api_request_def method_init_def Let_def safe_method_def)

text \<open>The token never leaves with a request of a safe method, nor when none is set.\<close>

theorem api_request_no_leak:
  assumes "get_header ''X-CSRF-Token'' (ri_headers init) = None"
    and "csrf = [] \<or> safe_method (rq_method (api_request csrf path init))"
  shows "get_header ''X-CSRF-Token'' (rq_headers (api_request csrf path init)) = None"
  using assms by (auto simp: api_request_def Let_def safe_method_def)

theorem api_request_no_leak_witness:
  "get_header ''X-CSRF-Token'' (rq_headers (api_request ''tok'' ''/api/nodes'' no_init)) = None"
proof (rule api_request_no_leak)
  show "get_header ''X-CSRF-Token'' (ri_headers no_init) = None"
    by (simp add: no_init_def get_header_def)
  show "''tok'' = [] \<or> safe_method (rq_method (api_request ''tok'' ''/api/nodes'' no_init))"
    by (simp add: safe_method_def api_request_def Let_def no_init_def)
qed

text \<open>A success is never reported as an error and no failed response reaches the caller as data.\<close>

lemma api_finish_ok: "response_ok r \<Longrightarrow> api_finish (Inr r) = ([], Inr (rsp_json r))"
  by (simp add: api_finish_def)

lemma api_finish_failed:
  "\<not> response_ok r \<Longrightarrow> \<exists>m. snd (api_finish (Inr r)) = Inl (ApiError m (rsp_status r) (rsp_json r))"
  by (simp add: api_finish_def)

text \<open>
  The session is dropped exactly on a 401: the unauthorized event is dispatched if and only if
  the response carries that status, and then the caller always sees the failure.
\<close>

theorem api_finish_unauthorized:
  "DispatchUnauthorized \<in> set (fst (api_finish out)) \<longleftrightarrow>
     (\<exists>r. out = Inr r \<and> rsp_status r = 401 \<and>
        snd (api_finish out) = Inl (ApiError (failure_message r) 401 (rsp_json r)))"
  by (auto simp: api_finish_def response_ok_def split: sum.splits)


section \<open>Handling an outcome\<close>

text \<open>
  \<open>onSuccess\<close> and \<open>onError\<close> of a mutation, or the two ends of an awaited call: the wrapper's own
  effect comes first, then what the caller does with the result.
\<close>

definition arrive :: "js_error + response \<Rightarrow> (json option \<Rightarrow> 's \<times> effect list)
    \<Rightarrow> (js_error \<Rightarrow> 's \<times> effect list) \<Rightarrow> 's \<times> effect list" where
  "arrive out on_success on_error =
     (let (fx, res) = api_finish out;
          (s, fx') = (case res of Inl e \<Rightarrow> on_error e | Inr v \<Rightarrow> on_success v)
      in (s, fx @ fx'))"

text \<open>The result of a call is a success or a failure, and only the handler's effects can be requests.\<close>

lemma arrive_cases:
  obtains v fx where "arrive out ok er = (fst (ok v), fx @ snd (ok v))" "sends fx = 0" "\<And>r. Send r \<notin> set fx"
  | e fx where "arrive out ok er = (fst (er e), fx @ snd (er e))" "sends fx = 0" "\<And>r. Send r \<notin> set fx"
proof -
  obtain fx res where f: "api_finish out = (fx, res)" by fastforce
  have fx: "fx = [] \<or> fx = [DispatchUnauthorized]"
    using f by (auto simp: api_finish_def split: sum.splits if_splits)
  show ?thesis
  proof (cases res)
    case (Inl e)
    then show ?thesis using f fx by (intro that(2) [of e fx]) (auto simp: arrive_def split_def Let_def)
  next
    case (Inr v)
    then show ?thesis using f fx by (intro that(1) [of v fx]) (auto simp: arrive_def split_def Let_def)
  qed
qed

lemma sends_arrive:
  assumes "\<And>v. sends (snd (ok v)) = 0" "\<And>e. sends (snd (er e)) = 0"
  shows "sends (snd (arrive out ok er)) = 0"
  by (cases rule: arrive_cases [of out ok er]) (simp_all add: assms)

lemma fst_arrive_const:
  assumes "\<And>v. f (fst (ok v)) = a" "\<And>e. f (fst (er e)) = a"
  shows "f (fst (arrive out ok er)) = a"
  by (cases rule: arrive_cases [of out ok er]) (simp_all add: assms)


text \<open>
  Where the body is used as a typed value, the outcome is that value or the error the wrapper threw;
  a 401 has dispatched its event before the handler runs.
\<close>

definition dispatched :: "js_error \<Rightarrow> effect list" where
  "dispatched e = (case e of ApiError m st d \<Rightarrow> if st = 401 then [DispatchUnauthorized] else [] | _ \<Rightarrow> [])"

definition settle :: "js_error + 'a \<Rightarrow> ('a \<Rightarrow> 's \<times> effect list) \<Rightarrow> (js_error \<Rightarrow> 's \<times> effect list) \<Rightarrow> 's \<times> effect list" where
  "settle res on_success on_error =
     (case res of
        Inr v \<Rightarrow> on_success v
      | Inl e \<Rightarrow> (fst (on_error e), dispatched e @ snd (on_error e)))"

text \<open>The two views of an outcome agree: fetch itself never rejects with an \<open>ApiError\<close>.\<close>

lemma arrive_settle:
  assumes "\<And>m st d. out \<noteq> Inl (ApiError m st d)"
  shows "arrive out ok er = settle (snd (api_finish out)) ok er"
proof (cases out)
  case (Inl e)
  then show ?thesis using assms
    by (cases e) (simp_all add: arrive_def settle_def api_finish_def dispatched_def split_def Let_def)
next
  case (Inr r)
  then show ?thesis
    by (simp add: arrive_def settle_def api_finish_def dispatched_def split_def Let_def response_ok_def)
qed

lemma settle_simps [simp]:
  "settle (Inr v) ok er = ok v" "settle (Inl e) ok er = (fst (er e), dispatched e @ snd (er e))"
  by (simp_all add: settle_def)

lemma dispatched_no_send [simp]: "Send r \<notin> set (dispatched e)" "sends (dispatched e) = 0"
  "Navigate p b \<notin> set (dispatched e)"
  by (auto simp: dispatched_def split: js_error.splits)

lemma api_request_parts [simp]:
  "rq_path (api_request csrf p i) = p" "rq_body (api_request csrf p i) = ri_body i"
  "rq_method (api_request csrf p i) = upper (nullish (ri_method i) ''GET'')"
  by (simp_all add: api_request_def Let_def)

lemma settle_sends:
  assumes "\<And>v. sends (snd (ok v)) = 0" "\<And>e. sends (snd (er e)) = 0"
  shows "sends (snd (settle res ok er)) = 0"
  by (cases res) (simp_all add: assms)

text \<open>
  A request of the session with token \<open>t\<close>: it goes to the interface, and carries exactly this token if its method is
  unsafe and there is one, and none otherwise.
\<close>

definition authorised :: "string \<Rightarrow> request \<Rightarrow> bool" where
  "authorised t r \<longleftrightarrow>
     starts_with (rq_path r) ''/api/'' \<and>
     get_header ''X-CSRF-Token'' (rq_headers r) = (if safe_method (rq_method r) \<or> t = [] then None else Some t)"

lemma authorised_request:
  assumes "get_header ''X-CSRF-Token'' (ri_headers i) = None"
  shows "authorised t (api_request t p i) \<longleftrightarrow> starts_with p ''/api/''"
  using assms by (auto simp: authorised_def api_request_def Let_def safe_method_def)

lemma authorised_inits [simp]:
  "authorised t (api_request t p (json_init m v)) \<longleftrightarrow> starts_with p ''/api/''"
  "authorised t (api_request t p (method_init m)) \<longleftrightarrow> starts_with p ''/api/''"
  "authorised t (api_request t p no_init) \<longleftrightarrow> starts_with p ''/api/''"
  by (simp_all add: authorised_request json_init_def method_init_def no_init_def get_header_def)

lemma starts_with_Cons: "starts_with (c # s) (d # p) \<longleftrightarrow> c = d \<and> starts_with s p" "starts_with s []"
  by (auto simp: starts_with_def)

lemma no_send: "sends fx = 0 \<Longrightarrow> Send r \<notin> set fx"
  by (induction fx) (auto split: if_splits)

lemma settle_send:
  "Send r \<in> set (snd (settle res ok er)) \<longleftrightarrow>
     (case res of Inr v \<Rightarrow> Send r \<in> set (snd (ok v)) | Inl e \<Rightarrow> Send r \<in> set (snd (er e)))"
  by (cases res) simp_all

end
