(* ===== verification/Format.thy ===== *)
theory Format
  imports Complex_Main Prelude Codec
begin

text \<open>
  The number, byte, duration and date formats of the console (frontend/src/lib/format.ts).  A
  JavaScript number that is counted or measured is an \<open>int\<close>, a fraction a \<open>rat\<close>; a missing value
  (\<open>null\<close>, \<open>undefined\<close>) is \<open>None\<close>.  Digits follow the zh-CN locale: groups of three, a full stop
  before the decimals, ties rounded away from zero.
\<close>

section \<open>Numbers\<close>

text \<open>Thousands separators: \<open>group3\<close> reads the digits from the last one.\<close>

fun group3 :: "string \<Rightarrow> string" where
  "group3 (a # b # c # d # s) = a # b # c # CHR '','' # group3 (d # s)"
| "group3 s = s"

definition group_digits :: "string \<Rightarrow> string" where
  "group_digits s = rev (group3 (rev s))"

definition formatNumber :: "int option \<Rightarrow> string" where
  "formatNumber v =
     (let n = nullish v 0
      in (if n < 0 then ''-'' else []) @ group_digits (nat_str (nat \<bar>n\<bar>)))"

definition formatCompact :: "int option \<Rightarrow> ui_text" where
  "formatCompact v = [Compact (nullish v 0)]"

text \<open>
  A number with exactly \<open>d\<close> decimals, rounded half away from zero; the sign is that of the number,
  also when it rounds to zero.
\<close>

definition round_half_up :: "rat \<Rightarrow> nat" where
  "round_half_up x = nat \<lfloor>\<bar>x\<bar> + 1 / 2\<rfloor>"

definition pad_zeros :: "nat \<Rightarrow> string \<Rightarrow> string" where
  "pad_zeros d s = replicate (d - length s) CHR ''0'' @ s"

definition fixed_digits :: "nat \<Rightarrow> rat \<Rightarrow> string" where
  "fixed_digits d x =
     (let k = round_half_up (x * 10 ^ d)
      in (if x < 0 then ''-'' else []) @ group_digits (nat_str (k div 10 ^ d)) @
         (if d = 0 then [] else ''.'' @ pad_zeros d (nat_str (k mod 10 ^ d))))"

definition formatPercent :: "rat option \<Rightarrow> nat \<Rightarrow> string" where
  "formatPercent v d = fixed_digits d (nullish v 0 * 100) @ ''%''"

text \<open>\<open>x.toFixed(d)\<close>: no grouping, ties away from zero.\<close>

definition to_fixed :: "nat \<Rightarrow> rat \<Rightarrow> string" where
  "to_fixed d x =
     (let k = round_half_up (x * 10 ^ d)
      in (if x < 0 then ''-'' else []) @ nat_str (k div 10 ^ d) @
         (if d = 0 then [] else ''.'' @ pad_zeros d (nat_str (k mod 10 ^ d))))"

section \<open>Bytes\<close>

text \<open>\<open>Math.floor(Math.log(n) / Math.log(1024))\<close> of a positive number, and the capped index.\<close>

fun log1024 :: "nat \<Rightarrow> nat" where
  "log1024 n = (if n < 1024 then 0 else Suc (log1024 (n div 1024)))"

declare log1024.simps [simp del]

definition byte_units :: "string list" where
  "byte_units = [''B'', ''KiB'', ''MiB'', ''GiB'', ''TiB'', ''PiB'']"

definition unit_index :: "nat \<Rightarrow> nat" where
  "unit_index n = min (log1024 n) (length byte_units - 1)"

definition formatBytes :: "int option \<Rightarrow> string" where
  "formatBytes v =
     (let bytes = nat (max 0 (nullish v 0)); index = unit_index bytes
      in if bytes = 0 then ''0 B''
         else fixed_digits (if index = 0 then 0 else 1) (of_nat bytes / 1024 ^ index)
              @ '' '' @ byte_units ! index)"

section \<open>Durations and hashes\<close>

definition duration_parts :: "int \<Rightarrow> nat \<times> nat \<times> nat" where
  "duration_parts seconds =
     (let r = nat (max 0 seconds); days = r div 86400; r1 = r mod 86400;
          hours = r1 div 3600; r2 = r1 mod 3600
      in (days, hours, r2 div 60))"

text \<open>\<open>parts.join(d)\<close> on texts.\<close>

fun join_text :: "piece \<Rightarrow> ui_text list \<Rightarrow> ui_text" where
  "join_text d [] = []"
| "join_text d [t] = t"
| "join_text d (t # u # ts) = t @ [d] @ join_text d (u # ts)"

definition formatDuration :: "int option \<Rightarrow> ui_text" where
  "formatDuration v =
     (let (days, hours, minutes) = duration_parts (nullish v 0);
          parts = (if days \<noteq> 0 then [[Raw (nat_str days), Zh '' days'']] else []) @
                  (if hours \<noteq> 0 then [[Raw (nat_str hours), Zh '' hours'']] else []);
          parts' = parts @ (if minutes \<noteq> 0 \<or> parts = []
                            then [[Raw (nat_str minutes), Zh '' minutes'']] else [])
      in join_text (Raw '' '') parts')"

text \<open>\<open>slice(0, 10)\<close> and \<open>slice(-6)\<close> of a hexadecimal digest, whose code units are its bytes.\<close>

definition shortHash :: "string option \<Rightarrow> string" where
  "shortHash v =
     (if truthy_str v
      then (let s = the v in take 10 s @ ''...'' @ drop (length s - 6) s)
      else ''--'')"

section \<open>Dates\<close>

text \<open>
  \<open>Date.parse\<close> on the date-time format of the language: a date, read as UTC, or a date and a time
  with its offset from UTC (the control plane writes RFC 3339).  Other strings give NaN, here
  \<open>None\<close>; a time without offset, which would be read in the browser's zone, is not modelled.
\<close>

definition digits :: "nat \<Rightarrow> string \<Rightarrow> (nat \<times> string) option" where
  "digits k s =
     (if length (take k s) = k \<and> list_all is_digit (take k s)
      then Some (read_nat (take k s), drop k s) else None)"

definition skip_char :: "char \<Rightarrow> string \<Rightarrow> string option" where
  "skip_char c s = (case s of [] \<Rightarrow> None | d # r \<Rightarrow> if c = d then Some r else None)"

definition leap_year :: "nat \<Rightarrow> bool" where
  "leap_year y \<longleftrightarrow> y mod 4 = 0 \<and> (y mod 100 \<noteq> 0 \<or> y mod 400 = 0)"

definition month_days :: "nat \<Rightarrow> nat \<Rightarrow> nat" where
  "month_days y m =
     (if m = 2 then if leap_year y then 29 else 28 else if m \<in> {4, 6, 9, 11} then 30 else 31)"

text \<open>Days from 1970-01-01, of years 0 to 9999.\<close>

definition leap_days :: "nat \<Rightarrow> int" where
  "leap_days y = int ((y + 3) div 4) - int ((y + 99) div 100) + int ((y + 399) div 400)"

definition day_number :: "nat \<Rightarrow> nat \<Rightarrow> nat \<Rightarrow> int" where
  "day_number y m d =
     365 * int y + leap_days y + int (sum_list (map (month_days y) [1 ..< m])) + int d - 1 - 719528"

definition parse_date :: "string \<Rightarrow> (int \<times> string) option" where
  "parse_date s =
     Option.bind (digits 4 s) (\<lambda>(y, s). Option.bind (skip_char CHR ''-'' s) (\<lambda>s.
     Option.bind (digits 2 s) (\<lambda>(m, s). Option.bind (skip_char CHR ''-'' s) (\<lambda>s.
     Option.bind (digits 2 s) (\<lambda>(d, s).
       if 1 \<le> m \<and> m \<le> 12 \<and> 1 \<le> d \<and> d \<le> month_days y m
       then Some (day_number y m d, s) else None)))))"

text \<open>Milliseconds of the fraction: the first three digits, the others dropped.\<close>

definition parse_millis :: "string \<Rightarrow> (nat \<times> string) option" where
  "parse_millis s =
     (case skip_char CHR ''.'' s of
        None \<Rightarrow> Some (0, s)
      | Some r \<Rightarrow>
          let ds = takeWhile is_digit r
          in if ds = [] then None
             else Some (read_nat (take 3 (ds @ ''00'')), drop (length ds) r))"

definition parse_seconds :: "string \<Rightarrow> (nat \<times> string) option" where
  "parse_seconds s =
     (case skip_char CHR '':'' s of
        None \<Rightarrow> Some (0, s)
      | Some r \<Rightarrow> Option.bind (digits 2 r) (\<lambda>(sec, r). Option.bind (parse_millis r) (\<lambda>(ms, r).
                  if sec < 60 then Some (sec * 1000 + ms, r) else None)))"

definition parse_time :: "string \<Rightarrow> (nat \<times> string) option" where
  "parse_time s =
     Option.bind (digits 2 s) (\<lambda>(h, s). Option.bind (skip_char CHR '':'' s) (\<lambda>s.
     Option.bind (digits 2 s) (\<lambda>(mi, s). Option.bind (parse_seconds s) (\<lambda>(ms, s).
       if mi < 60 \<and> (h < 24 \<or> h = 24 \<and> mi = 0 \<and> ms = 0)
       then Some ((h * 60 + mi) * 60000 + ms, s) else None))))"

text \<open>Minutes east of UTC, at the end of the string.\<close>

definition parse_offset :: "string \<Rightarrow> int option" where
  "parse_offset s =
     (case s of
        [] \<Rightarrow> None
      | c # r \<Rightarrow>
          if c = CHR ''Z'' then if r = [] then Some 0 else None
          else if c = CHR ''+'' \<or> c = CHR ''-'' then
            Option.bind (digits 2 r) (\<lambda>(h, r). Option.bind (skip_char CHR '':'' r) (\<lambda>r.
            Option.bind (digits 2 r) (\<lambda>(m, r).
              if r = [] \<and> h < 24 \<and> m < 60
              then Some ((if c = CHR ''-'' then - 1 else 1) * int (h * 60 + m)) else None)))
          else None)"

definition js_date_parse :: "string \<Rightarrow> int option" where
  "js_date_parse s =
     Option.bind (parse_date s) (\<lambda>(day, s).
       if s = [] then Some (day * 86400000)
       else Option.bind (skip_char CHR ''T'' s) (\<lambda>s. Option.bind (parse_time s) (\<lambda>(ms, s).
         map_option (\<lambda>off. day * 86400000 + int ms - off * 60000) (parse_offset s))))"

text \<open>A date in the browser's locale and zone, or two hyphens.\<close>

definition date_text :: "string \<Rightarrow> string option \<Rightarrow> ui_text" where
  "date_text f v =
     (if truthy_str v
      then (case js_date_parse (the v) of None \<Rightarrow> [Raw ''--''] | Some t \<Rightarrow> [LocalTime f t])
      else [Raw ''--''])"

definition formatDateTime :: "string option \<Rightarrow> ui_text" where
  "formatDateTime v = date_text ''date and time, 24 hours'' v"

definition formatDate :: "string option \<Rightarrow> ui_text" where
  "formatDate v = date_text ''date'' v"

section \<open>Laws\<close>

text \<open>The index of the unit is the integer logarithm.\<close>

lemma log1024_bounds: "0 < n \<Longrightarrow> 1024 ^ log1024 n \<le> n \<and> n < 1024 ^ Suc (log1024 n)"
proof (induction n rule: log1024.induct)
  case (1 n)
  show ?case
  proof (cases "n < 1024")
    case True
    then show ?thesis using 1 by (simp add: log1024.simps [of n])
  next
    case False
    then have "1024 ^ log1024 (n div 1024) \<le> n div 1024"
      "n div 1024 < 1024 ^ Suc (log1024 (n div 1024))"
      using 1 by (auto simp: div_greater_zero_iff)
    then have "1024 ^ log1024 (n div 1024) * 1024 \<le> n"
      "n < 1024 ^ Suc (log1024 (n div 1024)) * 1024"
      by (simp_all add: less_eq_div_iff_mult_less_eq div_less_iff_less_mult)
    then show ?thesis using False by (subst (1 2) log1024.simps) simp
  qed
qed

lemma unit_index_bound: "unit_index n \<le> 5"
  by (simp add: unit_index_def byte_units_def)

lemma unit_index_le: "unit_index n \<le> log1024 n"
  by (simp add: unit_index_def)

lemma unit_index_capped: "unit_index n < 5 \<Longrightarrow> unit_index n = log1024 n"
  by (simp add: unit_index_def byte_units_def)

text \<open>
  The mantissa \<open>formatBytes\<close> prints is normalized: it is at least one, below 1024 unless the
  largest unit is used, and the mantissa times the unit is the number of bytes.
\<close>

theorem formatBytes_normalized:
  assumes "0 < n"
  defines "m \<equiv> of_nat n / 1024 ^ unit_index n :: rat"
  shows "formatBytes (Some (int n)) =
           fixed_digits (if unit_index n = 0 then 0 else 1) m @ '' '' @ byte_units ! unit_index n
       \<and> 1 \<le> m \<and> (unit_index n < 5 \<longrightarrow> m < 1024) \<and> m * 1024 ^ unit_index n = of_nat n"
proof (intro conjI impI)
  show "formatBytes (Some (int n)) =
      fixed_digits (if unit_index n = 0 then 0 else 1) m @ '' '' @ byte_units ! unit_index n"
    using assms by (simp add: formatBytes_def Let_def)
  have le: "1024 ^ unit_index n \<le> n"
  proof -
    have "(1024 :: nat) ^ unit_index n \<le> 1024 ^ log1024 n"
      by (rule power_increasing [OF unit_index_le]) simp
    also have "\<dots> \<le> n" using log1024_bounds [OF assms(1)] by blast
    finally show ?thesis .
  qed
  have "(of_nat (1024 ^ unit_index n) :: rat) \<le> of_nat n" using le of_nat_le_iff by blast
  then show "1 \<le> m" by (simp add: m_def field_simps)
  show "m < 1024" if "unit_index n < 5"
  proof -
    have "n < 1024 ^ Suc (unit_index n)"
      using log1024_bounds [OF assms(1)] unit_index_capped [OF that] by simp
    then have "(of_nat n :: rat) < of_nat (1024 ^ Suc (unit_index n))" using of_nat_less_iff by blast
    then show ?thesis by (simp add: m_def field_simps)
  qed
  show "m * 1024 ^ unit_index n = of_nat n" by (simp add: m_def)
qed

theorem formatBytes_normalized_witness:
  "formatBytes (Some 1536) = ''1.5 KiB'' \<and> (1 :: rat) \<le> of_nat 1536 / 1024 ^ unit_index 1536"
proof -
  have u: "unit_index 1536 = 1" by (simp add: unit_index_def log1024.simps byte_units_def)
  have "nat_str (Suc 0) = ''1''" "nat_str 5 = ''5''" by code_simp+
  moreover have "\<lfloor>31 / 2 :: rat\<rfloor> = 15" by (simp add: floor_eq_iff)
  ultimately have "fixed_digits 1 (3 / 2) = ''1.5''"
    by (simp add: fixed_digits_def round_half_up_def group_digits_def pad_zeros_def Let_def)
  then show ?thesis using formatBytes_normalized [of 1536] by (simp add: u byte_units_def)
qed

text \<open>Grouping only inserts separators.\<close>

lemma group3_digits: "CHR '','' \<notin> set s \<Longrightarrow> filter (\<lambda>c. c \<noteq> CHR '','') (group3 s) = s"
  by (induction s rule: group3.induct) auto

lemma group_digits_filter:
  "CHR '','' \<notin> set s \<Longrightarrow> filter (\<lambda>c. c \<noteq> CHR '','') (group_digits s) = s"
  by (simp add: group_digits_def group3_digits rev_filter [symmetric])

text \<open>The parts of a duration are its mixed-radix digits.\<close>

lemma duration_parts_sum:
  assumes "duration_parts s = (d, h, m)"
  shows "h < 24 \<and> m < 60 \<and> (d * 24 + h) * 60 + m = nat (max 0 s) div 60"
proof -
  let ?r = "nat (max 0 s)"
  have d: "d = ?r div 86400" and h: "h = ?r mod 86400 div 3600" and m: "m = ?r mod 86400 mod 3600 div 60"
    using assms by (auto simp: duration_parts_def Let_def)
  define r1 r2 where "r1 = ?r mod 86400" and "r2 = r1 mod 3600"
  have "?r = d * 86400 + r1" "r1 < 86400" by (simp_all add: d r1_def)
  moreover have "r1 = h * 3600 + r2" "r2 < 3600" by (simp_all add: h r1_def r2_def)
  moreover have "r2 = m * 60 + r2 mod 60" "r2 mod 60 < 60" by (simp_all add: m r1_def r2_def)
  ultimately have r: "?r = ((d * 24 + h) * 60 + m) * 60 + r2 mod 60" and "h < 24" "m < 60"
    by simp_all
  have "?r div 60 = (d * 24 + h) * 60 + m" unfolding r by simp
  then show ?thesis using \<open>h < 24\<close> \<open>m < 60\<close> by simp
qed

end
