(* ===== verification/View.thy ===== *)
theory View
  imports Api Format
begin

text \<open>
  What a component renders and what the user can do with it.  A view is the tree of the elements
  that carry text or events; styling, icons and layout are dropped.  \<open>fires v e\<close> says that the user
  can raise the event \<open>e\<close> on the view \<open>v\<close>: a button or a field that is not disabled, a link, a form whose
  fields satisfy their HTML constraints and whose submit button is not disabled.  The page
  components shared by every feature (frontend/src/components/page.tsx, list-pagination.tsx,
  status-badge.tsx, http-status-badge.tsx) are views too.
\<close>

section \<open>Elements\<close>

text \<open>
  The constraints of an input; \<open>NumRange\<close> is \<open>type="number"\<close> with its bounds and the step one, \<open>Email\<close> and
  \<open>TimeOfDay\<close> are \<open>type="email"\<close> and \<open>type="time"\<close>.
\<close>

datatype field_rule =
    Required
  | MinLength nat
  | MaxLength nat
  | PatternDigits nat
  | NumRange "int option" "int option"
  | Email
  | TimeOfDay

datatype 'e view =
    Txt ui_text
  | Btn ui_text bool 'e
  | Inp string "field_rule list" string bool "string \<Rightarrow> 'e"
  | Chk ui_text bool bool "bool \<Rightarrow> 'e"
  | Sel ui_text "(string \<times> ui_text) list" string bool "string \<Rightarrow> 'e"
  | Lnk string "'e view list"
  | Grp string "'e view list"
  | Form "'e view list" ui_text bool 'e

text \<open>\<open>{condition ? ... : null}\<close>.\<close>

definition only_if :: "bool \<Rightarrow> 'a list \<Rightarrow> 'a list" where
  "only_if c vs = (if c then vs else [])"

lemma only_if_simps [simp]: "only_if True vs = vs" "only_if False vs = []"
  by (simp_all add: only_if_def)

lemma in_set_only_if [simp]: "v \<in> set (only_if c vs) \<longleftrightarrow> c \<and> v \<in> set vs"
  by (simp add: only_if_def)

section \<open>Field constraints\<close>

text \<open>An integer as a number input holds it; other numbers fail the step constraint.\<close>

definition int_literal :: "string \<Rightarrow> bool" where
  "int_literal s \<longleftrightarrow>
     (let d = (if starts_with s ''-'' then tl s else s) in d \<noteq> [] \<and> list_all is_digit d)"

text \<open>
  The valid e-mail addresses and times of day of the HTML standard: a local part of the permitted
  characters, and labels of at most 63 letters, digits and inner hyphens; hours and minutes.
\<close>

definition is_alnum :: "char \<Rightarrow> bool" where
  "is_alnum c \<longleftrightarrow> is_digit c \<or> (65 \<le> byte c \<and> byte c \<le> 90) \<or> (97 \<le> byte c \<and> byte c \<le> 122)"

definition email_local_char :: "char \<Rightarrow> bool" where
  "email_local_char c \<longleftrightarrow> is_alnum c \<or> c \<in> set ''.!#$%&/=?^_{|}~*+-'' \<or> byte c = 39 \<or> byte c = 96"

definition email_label :: "string \<Rightarrow> bool" where
  "email_label s \<longleftrightarrow> s \<noteq> [] \<and> length s \<le> 63 \<and> is_alnum (hd s) \<and> is_alnum (last s) \<and>
     list_all (\<lambda>c. is_alnum c \<or> c = CHR ''-'') s"

definition email_ok :: "string \<Rightarrow> bool" where
  "email_ok s \<longleftrightarrow>
     (let l = takeWhile (\<lambda>c. c \<noteq> CHR ''@'') s; d = drop (length l) s in
      l \<noteq> [] \<and> list_all email_local_char l \<and> d \<noteq> [] \<and> list_all email_label (js_split (\<lambda>c. c = CHR ''.'') (tl d)))"

definition time_ok :: "string \<Rightarrow> bool" where
  "time_ok s \<longleftrightarrow> length s = 5 \<and> s ! 2 = CHR '':'' \<and> list_all is_digit (take 2 s) \<and> list_all is_digit (drop 3 s) \<and>
     read_nat (take 2 s) < 24 \<and> read_nat (drop 3 s) < 60"

fun rule_ok :: "field_rule \<Rightarrow> string \<Rightarrow> bool" where
  "rule_ok Required s \<longleftrightarrow> s \<noteq> []"
| "rule_ok (MinLength n) s \<longleftrightarrow> s = [] \<or> n \<le> js_length s"
| "rule_ok (MaxLength n) s \<longleftrightarrow> js_length s \<le> n"
| "rule_ok (PatternDigits n) s \<longleftrightarrow> s = [] \<or> length s = n \<and> list_all is_digit s"
| "rule_ok (NumRange lo hi) s \<longleftrightarrow> s = [] \<or>
     int_literal s \<and> (case lo of None \<Rightarrow> True | Some l \<Rightarrow> l \<le> read_int s) \<and>
     (case hi of None \<Rightarrow> True | Some h \<Rightarrow> read_int s \<le> h)"
| "rule_ok Email s \<longleftrightarrow> s = [] \<or> email_ok s"
| "rule_ok TimeOfDay s \<longleftrightarrow> s = [] \<or> time_ok s"

definition field_ok :: "field_rule list \<Rightarrow> string \<Rightarrow> bool" where
  "field_ok rs s \<longleftrightarrow> list_all (\<lambda>r. rule_ok r s) rs"

text \<open>
  Typing cannot exceed \<open>maxLength\<close>.  A time input reports a time or nothing.  A number input reports an integer, or nothing while its content is
  not a number; fractions, which never pass its step constraint, are not modelled.
\<close>

definition typable :: "field_rule list \<Rightarrow> string \<Rightarrow> bool" where
  "typable rs s \<longleftrightarrow>
     (\<forall>r \<in> set rs. case r of MaxLength n \<Rightarrow> js_length s \<le> n | NumRange l h \<Rightarrow> s = [] \<or> int_literal s
        | TimeOfDay \<Rightarrow> s = [] \<or> time_ok s | _ \<Rightarrow> True)"

text \<open>\<open>Number(event.target.value)\<close> of a number input.\<close>

definition js_number :: "string \<Rightarrow> int" where
  "js_number s = (if s = [] then 0 else read_int s)"

fun fields_ok :: "'e view \<Rightarrow> bool" where
  "fields_ok (Inp l rs s d f) \<longleftrightarrow> d \<or> field_ok rs s"
| "fields_ok (Lnk h vs) \<longleftrightarrow> list_all fields_ok vs"
| "fields_ok (Grp n vs) \<longleftrightarrow> list_all fields_ok vs"
| "fields_ok (Form vs l d e) \<longleftrightarrow> list_all fields_ok vs"
| "fields_ok v \<longleftrightarrow> True"

section \<open>What the user can do\<close>

fun fires :: "'e view \<Rightarrow> 'e \<Rightarrow> bool" where
  "fires (Txt t) e \<longleftrightarrow> False"
| "fires (Btn l d a) e \<longleftrightarrow> \<not> d \<and> e = a"
| "fires (Inp l rs s d f) e \<longleftrightarrow> \<not> d \<and> (\<exists>t. typable rs t \<and> e = f t)"
| "fires (Chk l c d f) e \<longleftrightarrow> \<not> d \<and> e = f (\<not> c)"
| "fires (Sel l os c d f) e \<longleftrightarrow> \<not> d \<and> e \<in> f ` fst ` set os"
| "fires (Lnk h vs) e \<longleftrightarrow> (\<exists>v \<in> set vs. fires v e)"
| "fires (Grp n vs) e \<longleftrightarrow> (\<exists>v \<in> set vs. fires v e)"
| "fires (Form vs l d a) e \<longleftrightarrow>
     (\<exists>v \<in> set vs. fires v e) \<or> (\<not> d \<and> (\<forall>v \<in> set vs. fields_ok v) \<and> e = a)"

definition offers :: "'e view list \<Rightarrow> 'e \<Rightarrow> bool" where
  "offers vs e \<longleftrightarrow> (\<exists>v \<in> set vs. fires v e)"

lemma offers_simps [simp]:
  "\<not> offers [] e" "offers (v # vs) e \<longleftrightarrow> fires v e \<or> offers vs e"
  "offers (us @ vs) e \<longleftrightarrow> offers us e \<or> offers vs e"
  "offers (only_if c vs) e \<longleftrightarrow> c \<and> offers vs e"
  by (auto simp: offers_def)

lemma offers_map: "offers (map f xs) e \<longleftrightarrow> (\<exists>x \<in> set xs. fires (f x) e)"
  by (induction xs) auto

lemma fires_groups [simp]:
  "fires (Lnk h vs) e \<longleftrightarrow> offers vs e" "fires (Grp n vs) e \<longleftrightarrow> offers vs e"
  "fires (Form vs l d a) e \<longleftrightarrow> offers vs e \<or> (\<not> d \<and> list_all fields_ok vs \<and> e = a)"
  by (auto simp: offers_def list_all_iff)

declare fires.simps(6-8) [simp del]

text \<open>The labels of the buttons that can be pressed, and the links, in order.\<close>

fun live_buttons :: "'e view \<Rightarrow> ui_text list" where
  "live_buttons (Btn l d a) = (if d then [] else [l])"
| "live_buttons (Lnk h vs) = concat (map live_buttons vs)"
| "live_buttons (Grp n vs) = concat (map live_buttons vs)"
| "live_buttons (Form vs l d a) = concat (map live_buttons vs) @ (if d then [] else [l])"
| "live_buttons _ = []"

fun links :: "'e view \<Rightarrow> string list" where
  "links (Lnk h vs) = h # concat (map links vs)"
| "links (Grp n vs) = concat (map links vs)"
| "links (Form vs l d a) = concat (map links vs)"
| "links _ = []"

fun texts :: "'e view \<Rightarrow> ui_text list" where
  "texts (Txt t) = [t]"
| "texts (Lnk h vs) = concat (map texts vs)"
| "texts (Grp n vs) = concat (map texts vs)"
| "texts (Form vs l d a) = concat (map texts vs)"
| "texts _ = []"

section \<open>Running a component\<close>

text \<open>A component is a step function; a run collects the effects of its events in order.\<close>

type_synonym ('e, 's) component = "'e \<Rightarrow> 's \<Rightarrow> 's \<times> effect list"

fun run :: "('e, 's) component \<Rightarrow> 'e list \<Rightarrow> 's \<Rightarrow> 's \<times> effect list" where
  "run step [] s = (s, [])"
| "run step (e # es) s =
     (let (s', f) = step e s; (s'', g) = run step es s' in (s'', f @ g))"

text \<open>Every event of the run is possible when it occurs.\<close>

fun possible :: "('s \<Rightarrow> 'e \<Rightarrow> bool) \<Rightarrow> ('e, 's) component \<Rightarrow> 'e list \<Rightarrow> 's \<Rightarrow> bool" where
  "possible en step [] s \<longleftrightarrow> True"
| "possible en step (e # es) s \<longleftrightarrow> en s e \<and> possible en step es (fst (step e s))"

text \<open>
  A form or dialog with one mutation: \<open>pending\<close> is react-query's \<open>isPending\<close>, \<open>settles\<close> marks the
  arrival of the outcome.  The law a provider proves of one step is that a request leaves exactly
  when the mutation becomes pending and that it stays pending until the outcome arrives.
\<close>

locale single_flight =
  fixes en :: "'s \<Rightarrow> 'e \<Rightarrow> bool" and step :: "('e, 's) component"
    and pending :: "'s \<Rightarrow> bool" and settles :: "'e \<Rightarrow> bool" and inv :: "'s \<Rightarrow> bool"
  assumes step_balance: "inv s \<Longrightarrow> en s e \<Longrightarrow>
      sends (snd (step e s)) + (if pending s then 1 else 0)
      = (if settles e then 1 else 0) + (if pending (fst (step e s)) then 1 else 0)"
    and step_inv: "inv s \<Longrightarrow> en s e \<Longrightarrow> inv (fst (step e s))"
begin

lemma run_inv: "inv s \<Longrightarrow> possible en step es s \<Longrightarrow> inv (fst (run step es s))"
  by (induction es arbitrary: s) (auto simp: split_def Let_def step_inv)

lemma run_balance:
  assumes "inv s" "possible en step es s"
  shows "sends (snd (run step es s)) + (if pending s then 1 else 0)
       = length (filter settles es) + (if pending (fst (run step es s)) then 1 else 0)"
  using assms
proof (induction es arbitrary: s)
  case (Cons e es)
  obtain s' f where s': "step e s = (s', f)" by fastforce
  then have "inv s'" "possible en step es s'" using Cons.prems step_inv [of s e] by auto
  then have "sends (snd (run step es s')) + (if pending s' then 1 else 0)
      = length (filter settles es) + (if pending (fst (run step es s')) then 1 else 0)"
    by (rule Cons.IH)
  moreover have "sends f + (if pending s then 1 else 0)
      = (if settles e then 1 else 0) + (if pending s' then 1 else 0)"
    using step_balance [of s e] Cons.prems s' by simp
  ultimately show ?case by (simp add: s' split_def Let_def split: if_splits)
qed simp

lemma one_in_flight:
  assumes "inv s" "\<not> pending s" "possible en step es s"
  shows "sends (snd (run step es s)) \<le> length (filter settles es) + 1"
  using run_balance [OF assms(1,3)] assms(2) by (simp split: if_splits)

end

text \<open>
  A component implements an abstract machine: \<open>abs\<close> reads the abstract state off the concrete one, and
  every step the component can take is a step the machine allows.
\<close>

locale implements =
  fixes en :: "'s \<Rightarrow> 'e \<Rightarrow> bool" and step :: "('e, 's) component"
    and abs :: "'s \<Rightarrow> 'a" and amove :: "'a \<Rightarrow> 'a \<Rightarrow> bool" and inv :: "'s \<Rightarrow> bool"
  assumes step_simulates: "inv s \<Longrightarrow> en s e \<Longrightarrow> amove (abs s) (abs (fst (step e s)))"
    and step_keeps: "inv s \<Longrightarrow> en s e \<Longrightarrow> inv (fst (step e s))"
begin

lemma run_simulates:
  "inv s \<Longrightarrow> possible en step es s \<Longrightarrow> amove\<^sup>*\<^sup>* (abs s) (abs (fst (run step es s)))"
proof (induction es arbitrary: s)
  case (Cons e es)
  then have "amove (abs s) (abs (fst (step e s)))" "inv (fst (step e s))"
    using step_simulates step_keeps by auto
  moreover have "amove\<^sup>*\<^sup>* (abs (fst (step e s))) (abs (fst (run step es (fst (step e s)))))"
    using Cons.IH [of "fst (step e s)"] Cons.prems step_keeps by simp
  ultimately show ?case by (simp add: split_def Let_def converse_rtranclp_into_rtranclp)
qed simp

lemma run_keeps: "inv s \<Longrightarrow> possible en step es s \<Longrightarrow> inv (fst (run step es s))"
  by (induction es arbitrary: s) (auto simp: split_def Let_def step_keeps)

end

text \<open>
  A page of the session: whatever it sends is authorised by its token, which it never changes itself, and an
  answer that ends the session is not followed by another request.  A page that sends nothing is one.
\<close>

locale session_page =
  fixes en :: "'s \<Rightarrow> 'e \<Rightarrow> bool" and step :: "('e, 's) component" and token :: "'s \<Rightarrow> string" and inv :: "'s \<Rightarrow> bool"
  assumes step_authorised: "inv s \<Longrightarrow> Send r \<in> set (snd (step e s)) \<Longrightarrow> authorised (token s) r"
    and step_token: "inv s \<Longrightarrow> en s e \<Longrightarrow> token (fst (step e s)) = token s \<and> inv (fst (step e s))"
    and dispatch_quiet: "DispatchUnauthorized \<in> set (snd (step e s)) \<Longrightarrow> Send r \<notin> set (snd (step e s))"
begin

lemma run_token: "inv s \<Longrightarrow> possible en step es s \<Longrightarrow> token (fst (run step es s)) = token s \<and> inv (fst (run step es s))"
  by (induction es arbitrary: s) (simp_all add: split_def Let_def step_token)

lemma run_authorised:
  "inv s \<Longrightarrow> possible en step es s \<Longrightarrow> Send r \<in> set (snd (run step es s)) \<Longrightarrow> authorised (token s) r"
proof (induction es arbitrary: s)
  case (Cons e es)
  then have "Send r \<in> set (snd (step e s)) \<or> Send r \<in> set (snd (run step es (fst (step e s))))"
    by (simp add: split_def Let_def)
  then show ?case
  proof
    assume "Send r \<in> set (snd (run step es (fst (step e s))))"
    then show ?thesis using Cons.IH [of "fst (step e s)"] Cons.prems step_token by simp
  qed (rule step_authorised [OF Cons.prems(1)])
qed simp

end

locale silent_page =
  fixes en :: "'s \<Rightarrow> 'e \<Rightarrow> bool" and step :: "('e, 's) component"
  assumes step_silent: "f \<in> set (snd (step e s)) \<Longrightarrow> \<not> is_send f \<and> f \<noteq> DispatchUnauthorized"
begin

lemma step_no_send: "Send r \<notin> set (snd (step e s))" "DispatchUnauthorized \<notin> set (snd (step e s))"
  using step_silent by fastforce+

end

sublocale silent_page \<subseteq> session_page en step "\<lambda>s. []" "\<lambda>s. True"
  by unfold_locales (simp_all add: step_no_send)

text \<open>A component inside another: its view with the events renamed.\<close>

lemma fields_ok_map_view [simp]: "fields_ok (map_view f v) = fields_ok v"
  by (induction v) (auto simp: list_all_iff)

lemma fires_map_view: "fires (map_view f v) e \<longleftrightarrow> (\<exists>d. e = f d \<and> fires v d)"
  by (induction v arbitrary: e) (auto simp: image_iff offers_def list_all_iff)

lemma offers_map_view: "offers (map (map_view f) vs) e \<longleftrightarrow> (\<exists>d. e = f d \<and> offers vs d)"
  by (auto simp: offers_def fires_map_view)

section \<open>Shared page elements\<close>

text \<open>The state of a query: its data, its error.\<close>

record 'a query =
  q_data :: "'a option"
  q_error :: "js_error option"

definition q_loading :: "('a, 'b) query_scheme \<Rightarrow> bool" where
  "q_loading q \<longleftrightarrow> q_data q = None \<and> q_error q = None"

definition error_text :: "js_error \<Rightarrow> ui_text" where
  "error_text e = (case e of ApiError m st d \<Rightarrow> m | JsError m \<Rightarrow> m | NonError \<Rightarrow> [Zh ''an unknown error occurred''])"

definition PageHeader :: "ui_text \<Rightarrow> ui_text option \<Rightarrow> 'e view list \<Rightarrow> 'e view" where
  "PageHeader title description actions =
     Grp ''header'' ([Txt title] @ (case description of None \<Rightarrow> [] | Some d \<Rightarrow> only_if (d \<noteq> []) [Txt d]) @
       only_if (actions \<noteq> []) [Grp ''actions'' actions])"

definition PageLoading :: "nat \<Rightarrow> 'e view" where
  "PageLoading rows = Grp ''loading'' (replicate rows (Grp ''skeleton'' []))"

definition PageError :: "ui_text \<Rightarrow> js_error \<Rightarrow> 'e view" where
  "PageError title e = Grp ''alert'' [Txt title, Txt (error_text e)]"

definition EmptyState :: "ui_text \<Rightarrow> ui_text option \<Rightarrow> 'e view" where
  "EmptyState title description =
     Grp ''empty'' ([Txt title] @ (case description of None \<Rightarrow> [] | Some d \<Rightarrow> only_if (d \<noteq> []) [Txt d]))"

lemma page_elements_inert [simp]:
  "\<not> fires (PageLoading n) e" "\<not> fires (PageError t er) e" "\<not> fires (EmptyState t d) e"
  "fires (PageHeader t d as) e \<longleftrightarrow> offers as e"
proof -
  show "\<not> fires (PageLoading n) e"
    by (auto simp: PageLoading_def offers_def)
qed (auto simp: PageError_def EmptyState_def PageHeader_def split: option.splits)

section \<open>Badges\<close>

definition status_labels :: "(string \<times> string) list" where
  "status_labels =
    [(''pending'', ''awaiting activation''), (''active'', ''active''), (''draining'', ''paused''),
     (''revoked'', ''revoked''), (''uninstalling'', ''uninstalling''), (''uninstalled'', ''uninstalled''),
     (''queued'', ''queued''), (''dispatching'', ''dispatching''), (''applying'', ''applying''),
     (''succeeded'', ''succeeded''), (''partial'', ''partly succeeded''), (''failed'', ''failed''),
     (''rolled_back'', ''rolled back''), (''ready'', ''ready''), (''committing'', ''switching''),
     (''completed'', ''completed''), (''cancelled'', ''cancelled''), (''canceled'', ''cancelled''),
     (''preparing'', ''preparing''), (''running'', ''running''), (''forced'', ''completed by force'')]"

datatype tone = Emerald | Sky | Amber | Red

definition status_tones :: "(string \<times> tone) list" where
  "status_tones =
    [(''active'', Emerald), (''succeeded'', Emerald), (''completed'', Emerald), (''ready'', Sky),
     (''pending'', Amber), (''queued'', Amber), (''applying'', Sky), (''dispatching'', Sky),
     (''running'', Sky), (''failed'', Red), (''revoked'', Red)]"

definition status_tone :: "string \<Rightarrow> tone option" where
  "status_tone status = map_of status_tones status"

definition StatusBadge :: "string \<Rightarrow> ui_text option \<Rightarrow> 'e view" where
  "StatusBadge status label =
     Grp ''badge'' [Txt (nullish label (case map_of status_labels status of
       None \<Rightarrow> [Raw status] | Some l \<Rightarrow> [Zh l]))]"

definition http_tone :: "int \<Rightarrow> tone option" where
  "http_tone status =
     map_of [(2, Emerald), (3, Sky), (4, Amber), (5, Red)] (status div 100)"

definition HTTPStatusBadge :: "int \<Rightarrow> 'e view" where
  "HTTPStatusBadge status = Grp ''badge'' [Txt [Raw (int_str status)]]"

lemma badges_inert [simp]: "\<not> fires (StatusBadge s l) e" "\<not> fires (HTTPStatusBadge n) e"
  by (simp_all add: StatusBadge_def HTTPStatusBadge_def)

end
