(* ===== verification/Branding.thy ===== *)
theory Branding
  imports View
begin

text \<open>
  The brand of the console and its cache in the browser (frontend/src/hooks/use-branding.ts,
  frontend/src/components/branding-sync.tsx, brand-mark.tsx).  The storage is the value of the one
  key the console uses and whether the browser lets it write; reading goes through \<open>JSON.parse\<close> and the
  validation of \<open>normalizeBranding\<close>.
\<close>

text \<open>The subtitle is the UTF-8 form of the four characters of "control panel".\<close>

definition DEFAULT_BRANDING :: branding where
  "DEFAULT_BRANDING =
     \<lparr>b_name = ''simple_cdn'',
      b_subtitle = map char_of [0xE6 :: nat, 0x8E, 0xA7, 0xE5, 0x88, 0xB6, 0xE9, 0x9D, 0xA2, 0xE6, 0x9D, 0xBF],
      b_logo_data_url = []\<rparr>"

definition MAX_CACHED_LOGO_LENGTH :: nat where
  "MAX_CACHED_LOGO_LENGTH = 180000"

definition valid_logo :: "string \<Rightarrow> bool" where
  "valid_logo s \<longleftrightarrow> js_length s \<le> MAX_CACHED_LOGO_LENGTH \<and>
     (starts_with s ''data:image/png;base64,'' \<or> starts_with s ''data:image/jpeg;base64,'')"

text \<open>A member of an object that is a string.\<close>

definition string_member :: "string \<Rightarrow> (string \<times> json) list \<Rightarrow> string option" where
  "string_member k ms = (case obj_get k ms of Some (JString s) \<Rightarrow> Some s | _ \<Rightarrow> None)"

definition normalizeBranding :: "json \<Rightarrow> branding option" where
  "normalizeBranding v =
     (case v of
        JObject ms \<Rightarrow>
          (case string_member ''name'' ms of
             None \<Rightarrow> None
           | Some name \<Rightarrow>
               if js_trim name = [] then None
               else (case string_member ''subtitle'' ms of
                       None \<Rightarrow> None
                     | Some subtitle \<Rightarrow>
                         Some \<lparr>b_name = js_trim name, b_subtitle = js_trim subtitle,
                               b_logo_data_url =
                                 (case string_member ''logo_data_url'' ms of
                                    Some l \<Rightarrow> if valid_logo l then l else [] | None \<Rightarrow> [])\<rparr>))
      | _ \<Rightarrow> None)"

definition branding_json :: "branding \<Rightarrow> json" where
  "branding_json b =
     JObject [(''name'', JString (b_name b)), (''subtitle'', JString (b_subtitle b)),
              (''logo_data_url'', JString (b_logo_data_url b))]"

record storage =
  st_value :: "string option"
  st_writable :: bool

text \<open>
  \<open>cacheBranding\<close>: the storage after it, and whether the change event was dispatched (a write that
  throws dispatches nothing).
\<close>

definition cacheBranding :: "json \<Rightarrow> storage \<Rightarrow> storage \<times> bool" where
  "cacheBranding v st =
     (case normalizeBranding v of
        None \<Rightarrow> (st, False)
      | Some b \<Rightarrow> if st_writable st then (st\<lparr>st_value := Some (stringify (branding_json b))\<rparr>, True)
                  else (st, False))"

definition readCachedBranding :: "storage \<Rightarrow> branding option" where
  "readCachedBranding st =
     (case st_value st of
        None \<Rightarrow> None
      | Some s \<Rightarrow> if s = [] then None else Option.bind (json_parse s) normalizeBranding)"

text \<open>The hook's state follows the change event and the storage events of its own key.\<close>

datatype branding_event = ChangeEvent | StorageEvent "string option"

definition useCachedBranding_step ::
  "storage \<Rightarrow> branding_event \<Rightarrow> branding option \<Rightarrow> branding option" where
  "useCachedBranding_step st e b =
     (case e of
        ChangeEvent \<Rightarrow> readCachedBranding st
      | StorageEvent k \<Rightarrow> if k = Some ''simple_cdn:branding:v1'' then readCachedBranding st else b)"

text \<open>What the document shows: its title, and the favicon's type and address.\<close>

definition BrandingSync :: "branding option \<Rightarrow> branding option \<Rightarrow> ui_text \<times> (string \<times> string) option" where
  "BrandingSync cached fetched =
     (let b = nullish cached (nullish fetched DEFAULT_BRANDING)
      in (if b_subtitle b \<noteq> [] then [Raw (b_name b), Zh '' (middle dot) '', Raw (b_subtitle b)]
          else [Raw (b_name b)],
          if b_logo_data_url b = [] then None
          else Some (if starts_with (b_logo_data_url b) ''data:image/png'' then ''image/png'' else ''image/jpeg'',
                     b_logo_data_url b)))"

definition BrandMark :: "string \<Rightarrow> 'e view" where
  "BrandMark logo = Grp (if logo \<noteq> [] then ''logo image'' else ''globe icon'') (only_if (logo \<noteq> []) [Txt [Raw logo]])"

lemma BrandMark_inert [simp]: "\<not> fires (BrandMark l) e"
  by (simp add: BrandMark_def)

section \<open>Laws\<close>

definition normalized :: "branding \<Rightarrow> bool" where
  "normalized b \<longleftrightarrow> b_name b \<noteq> [] \<and> js_trim (b_name b) = b_name b \<and>
     js_trim (b_subtitle b) = b_subtitle b \<and> (b_logo_data_url b = [] \<or> valid_logo (b_logo_data_url b))"

lemma branding_members [codec_simps]:
  "string_member ''name'' [(''name'', JString n), (''subtitle'', JString s), (''logo_data_url'', JString l)] = Some n"
  "string_member ''subtitle'' [(''name'', JString n), (''subtitle'', JString s), (''logo_data_url'', JString l)] = Some s"
  "string_member ''logo_data_url'' [(''name'', JString n), (''subtitle'', JString s), (''logo_data_url'', JString l)] = Some l"
  by (simp_all add: string_member_def obj_get_def)

lemma normalize_normalized: "normalizeBranding v = Some b \<Longrightarrow> normalized b"
  by (auto simp: normalizeBranding_def normalized_def split: json.splits option.splits if_splits)

lemma normalize_json: "normalized b \<Longrightarrow> normalizeBranding (branding_json b) = Some b"
  by (auto simp: normalizeBranding_def branding_json_def codec_simps normalized_def)

lemma branding_json_parse: "json_parse (stringify (branding_json b)) = Some (branding_json b)"
  by (rule json_parse_stringify) (simp add: branding_json_def)

lemma read_stored:
  "normalized b \<Longrightarrow> st_value st = Some (stringify (branding_json b)) \<Longrightarrow> readCachedBranding st = Some b"
proof -
  assume "normalized b" "st_value st = Some (stringify (branding_json b))"
  moreover have "stringify (branding_json b) \<noteq> []" by (simp add: branding_json_def)
  ultimately show ?thesis
    by (simp add: readCachedBranding_def branding_json_parse normalize_json)
qed

text \<open>The cache as a codec: what is written for a normalized brand reads back as that brand.\<close>

typedef cached_brand = "{b. normalized b}"
proof
  show "DEFAULT_BRANDING\<lparr>b_subtitle := []\<rparr> \<in> {b. normalized b}"
    by (simp add: DEFAULT_BRANDING_def normalized_def) code_simp
qed

interpretation brand_cache: codec
  "\<lambda>b. stringify (branding_json (Rep_cached_brand b))"
  "\<lambda>s. map_option Abs_cached_brand (readCachedBranding \<lparr>st_value = Some s, st_writable = w\<rparr>)" for w
proof
  fix b
  show "map_option Abs_cached_brand (readCachedBranding
      \<lparr>st_value = Some (stringify (branding_json (Rep_cached_brand b))), st_writable = w\<rparr>) = Some b"
    using Rep_cached_brand [of b]
    by (simp add: read_stored [of "Rep_cached_brand b"] Rep_cached_brand_inverse)
qed

text \<open>
  C40. What the cache holds is read back as exactly the normalized form of what was stored: after a
  successful write, reading returns the result of the validation, and a value that fails the
  validation, or a storage that refuses the write, leaves the cached brand as it was.
\<close>

theorem branding_cache_roundtrip:
  "readCachedBranding (fst (cacheBranding v st)) =
     (if st_writable st \<and> normalizeBranding v \<noteq> None then normalizeBranding v else readCachedBranding st)
   \<and> (snd (cacheBranding v st) \<longleftrightarrow> st_writable st \<and> normalizeBranding v \<noteq> None)"
proof (cases "normalizeBranding v")
  case None
  then show ?thesis by (simp add: cacheBranding_def)
next
  case (Some b)
  then show ?thesis
    using read_stored [OF normalize_normalized [OF Some], of "st\<lparr>st_value := Some (stringify (branding_json b))\<rparr>"]
    by (simp add: cacheBranding_def)
qed

text \<open>
  A brand read from the cache is safe to show whatever another program wrote under the key: its
  name is not empty and trimmed, and its logo is empty or a PNG or JPEG data URL of bounded length;
  storing it again changes nothing.
\<close>

theorem cached_branding_safe:
  assumes "readCachedBranding st = Some b"
  shows "normalized b \<and> normalizeBranding (branding_json b) = Some b"
  using assms normalize_normalized normalize_json
  by (auto simp: readCachedBranding_def split: option.splits if_splits bind_splits)

theorem cached_branding_safe_witness:
  "normalized \<lparr>b_name = ''CDN'', b_subtitle = [], b_logo_data_url = []\<rparr>"
proof -
  let ?b = "\<lparr>b_name = ''CDN'', b_subtitle = [], b_logo_data_url = []\<rparr>"
  have "js_trim ''CDN'' = ''CDN''" by code_simp
  then have "readCachedBranding \<lparr>st_value = Some (stringify (branding_json ?b)), st_writable = True\<rparr> = Some ?b"
    by (intro read_stored) (simp_all add: normalized_def)
  from cached_branding_safe [OF this] show ?thesis by blast
qed

end
