(* ===== verification/Widgets.thy ===== *)
theory Widgets
  imports View
begin

text \<open>
  The widgets every page is built from: list pagination (frontend/src/hooks/use-list-pagination.ts,
  frontend/src/components/list-pagination.tsx), the confirmation dialog (confirm-dialog.tsx), the
  copy button (copy-button.tsx) and the theme switch (theme-toggle.tsx).
\<close>

section \<open>Pagination\<close>

definition LIST_PAGE_SIZE :: nat where
  "LIST_PAGE_SIZE = 20"

record 'a pagination =
  pg_items :: "'a list"
  pg_page :: nat
  pg_pageSize :: nat
  pg_totalItems :: nat
  pg_totalPages :: nat
  pg_start :: nat
  pg_end :: nat
  pg_startIndex :: nat

definition total_pages :: "nat \<Rightarrow> nat \<Rightarrow> nat" where
  "total_pages n len = max 1 ((n + len - 1) div len)"

text \<open>The hook's result; its state is the requested page.\<close>

definition useListPagination :: "'a list \<Rightarrow> nat \<Rightarrow> nat \<Rightarrow> 'a pagination" where
  "useListPagination items pageSize requestedPage =
     (let totalItems = length items;
          totalPages = total_pages totalItems pageSize;
          page = min requestedPage totalPages;
          startIndex = (page - 1) * pageSize;
          endIndex = min (startIndex + pageSize) totalItems
      in \<lparr>pg_items = take (endIndex - startIndex) (drop startIndex items), pg_page = page,
          pg_pageSize = pageSize, pg_totalItems = totalItems, pg_totalPages = totalPages,
          pg_start = (if totalItems \<noteq> 0 then startIndex + 1 else 0), pg_end = endIndex,
          pg_startIndex = startIndex\<rparr>)"

text \<open>\<open>setPage\<close>: the new requested page.\<close>

definition setPage :: "'a pagination \<Rightarrow> int \<Rightarrow> nat" where
  "setPage p next_page = nat (max 1 (min next_page (int (pg_totalPages p))))"

definition ListPagination :: "'a pagination \<Rightarrow> ui_text \<Rightarrow> bool \<Rightarrow> (int \<Rightarrow> 'e) \<Rightarrow> 'e view list \<Rightarrow> 'e view" where
  "ListPagination p itemLabel disabled set_page action =
     Grp ''pagination''
       ([Txt ([Zh ''items '', Raw (nat_str (pg_start p)), Raw ''-'', Raw (nat_str (pg_end p)),
               Zh '', of '', Raw (nat_str (pg_totalItems p)), Raw '' ''] @ itemLabel),
         Txt [Raw (nat_str (pg_page p)), Raw '' / '', Raw (nat_str (pg_totalPages p)), Zh '' pages''],
         Btn [Zh ''previous page''] (disabled \<or> pg_page p \<le> 1) (set_page (int (pg_page p) - 1)),
         Btn [Zh ''next page''] (disabled \<or> pg_totalPages p \<le> pg_page p) (set_page (int (pg_page p) + 1))]
        @ only_if (action \<noteq> []) [Grp ''action'' action])"

lemma offers_pagination [simp]:
  "fires (ListPagination p l d f act) e \<longleftrightarrow>
     (\<not> d \<and> 1 < pg_page p \<and> e = f (int (pg_page p) - 1)) \<or>
     (\<not> d \<and> pg_page p < pg_totalPages p \<and> e = f (int (pg_page p) + 1)) \<or> offers act e"
  by (auto simp: ListPagination_def)

lemma total_pages_pos [simp]: "1 \<le> total_pages n len" "Suc 0 \<le> total_pages n len"
  by (simp_all add: total_pages_def)

lemma total_pages_cover:
  assumes "0 < len"
  shows "n \<le> total_pages n len * len"
proof -
  have "n \<le> (n + len - 1) div len * len"
  proof -
    have "(n + len - 1) div len * len + (n + len - 1) mod len = n + len - 1" by simp
    moreover have "(n + len - 1) mod len < len" using assms by simp
    ultimately show ?thesis using assms by linarith
  qed
  also have "\<dots> \<le> total_pages n len * len" by (simp add: total_pages_def)
  finally show ?thesis .
qed

lemma total_pages_last:
  assumes "0 < len" "0 < n"
  shows "(total_pages n len - 1) * len < n"
proof -
  have "total_pages n len = (n + len - 1) div len"
    using assms by (simp add: total_pages_def max_def div_le_mono Suc_leI div_greater_zero_iff)
  moreover have "(n + len - 1) div len * len \<le> n + len - 1" by simp
  ultimately have "total_pages n len * len \<le> n + len - 1" by simp
  moreover have "(total_pages n len - 1) * len = total_pages n len * len - len"
    by (simp add: diff_mult_distrib)
  ultimately show ?thesis using assms by linarith
qed

lemma pagination_fields [view_simps]:
  "pg_page (useListPagination items len r) = min r (total_pages (length items) len)"
  "pg_totalPages (useListPagination items len r) = total_pages (length items) len"
  "pg_totalItems (useListPagination items len r) = length items"
  "pg_items (useListPagination items len r) =
     take len (drop ((min r (total_pages (length items) len) - 1) * len) items)"
  by (simp_all add: useListPagination_def Let_def min_def)

lemma pagination_subset: "set (pg_items (useListPagination xs n r)) \<subseteq> set xs"
  by (auto simp: useListPagination_def Let_def dest: in_set_takeD in_set_dropD)

lemma setPage_range:
  "1 \<le> setPage p k" "1 \<le> pg_totalPages p \<Longrightarrow> setPage p k \<le> pg_totalPages p"
  by (auto simp: setPage_def)

lemma concat_chunks:
  "concat (map (\<lambda>k. take len (drop (k * len) xs)) [0 ..< n]) = take (n * len) xs"
proof (induction n)
  case (Suc n)
  have "take (n * len) xs @ take len (drop (n * len) xs) = take (n * len + len) xs"
    by (simp add: take_add)
  then show ?case using Suc by (simp add: add.commute)
qed simp

lemma pages_partition_lemma:
  assumes "0 < len"
  shows "concat (map (\<lambda>r. pg_items (useListPagination items len r))
           [1 ..< pg_totalPages (useListPagination items len 1) + 1]) = items"
proof -
  let ?t = "total_pages (length items) len"
  have "map (\<lambda>r. pg_items (useListPagination items len r)) [1 ..< ?t + 1]
      = map (\<lambda>k. take len (drop (k * len) items)) [0 ..< ?t]"
  proof -
    have "[1 ..< ?t + 1] = map Suc [0 ..< ?t]" by (simp add: map_Suc_upt)
    then show ?thesis by (simp add: pagination_fields min_def)
  qed
  then show ?thesis
    using concat_chunks [of len items ?t] total_pages_cover [OF assms, of "length items"]
    by (simp add: pagination_fields)
qed

text \<open>
  Turning the pages shows every item exactly once and in order: the pages of a list, from the
  first to the last the pager offers, are a partition of the list.
\<close>

theorem pages_partition:
  assumes "0 < len"
  shows "concat (map (\<lambda>r. pg_items (useListPagination items len r))
           [1 ..< pg_totalPages (useListPagination items len 1) + 1]) = items"
  by (rule pages_partition_lemma [OF assms])

theorem pages_partition_witness:
  "concat (map (\<lambda>r. pg_items (useListPagination [1 :: int, 2, 3] 2 r))
     [1 ..< pg_totalPages (useListPagination [1 :: int, 2, 3] 2 1) + 1]) = [1, 2, 3]"
  by (rule pages_partition) simp

text \<open>
  Whatever page was asked for, also before the list shrank, the page shown lies within the
  list: its number is between one and the number of pages, it is never empty when the list is not,
  and never longer than the page size.
\<close>

theorem page_in_range:
  fixes items :: "'a list"
  assumes "0 < len" "1 \<le> r"
  defines "p \<equiv> useListPagination items len r"
  shows "1 \<le> pg_page p \<and> pg_page p \<le> pg_totalPages p \<and> length (pg_items p) \<le> len \<and>
         (items \<noteq> [] \<longrightarrow> pg_items p \<noteq> []) \<and> length (pg_items p) = pg_end p - pg_startIndex p"
proof (intro conjI impI)
  let ?t = "total_pages (length items) len"
  show "1 \<le> pg_page p" "pg_page p \<le> pg_totalPages p" "length (pg_items p) \<le> len"
    using assms(2) by (simp_all add: p_def pagination_fields min_def)
  show "length (pg_items p) = pg_end p - pg_startIndex p"
    by (simp add: p_def useListPagination_def Let_def)
  assume "items \<noteq> []"
  then have "(?t - 1) * len < length items" using assms(1) total_pages_last [of len "length items"] by simp
  moreover have "(min r ?t - 1) * len \<le> (?t - 1) * len"
    by (intro mult_le_mono1 diff_le_mono) simp
  ultimately have "(min r ?t - 1) * len < length items" by (rule le_less_trans [rotated])
  then show "pg_items p \<noteq> []" using assms(1) by (simp add: p_def pagination_fields)
qed

theorem page_in_range_witness:
  "pg_items (useListPagination [1 :: int, 2, 3] 2 7) \<noteq> []"
  using page_in_range [of 2 7 "[1 :: int, 2, 3]"] by simp

section \<open>The confirmation dialog\<close>

text \<open>
  The dialog's own state is the text typed to confirm; it is cleared whenever the dialog is closed.
  Escape closes the dialog also while the action is running.
\<close>

definition confirm_value :: "bool \<Rightarrow> string \<Rightarrow> string" where
  "confirm_value is_open v = (if is_open then v else [])"

definition confirm_allowed :: "string option \<Rightarrow> string \<Rightarrow> bool" where
  "confirm_allowed confirmation v \<longleftrightarrow> \<not> truthy_str confirmation \<or> Some v = confirmation"

definition ConfirmDialog ::
  "bool \<Rightarrow> ui_text \<Rightarrow> ui_text \<Rightarrow> ui_text \<Rightarrow> string option \<Rightarrow> bool \<Rightarrow> string
     \<Rightarrow> (string \<Rightarrow> 'e) \<Rightarrow> 'e \<Rightarrow> 'e \<Rightarrow> 'e view list" where
  "ConfirmDialog is_open title description confirmLabel confirmation busy v type_value close confirm =
     only_if is_open
       [Grp ''alert-dialog''
         ([Txt title, Txt description] @
          only_if (truthy_str confirmation)
            [Txt [Zh ''type '', Raw (the confirmation), Zh '' to confirm''],
             Inp ''confirmation-input'' [] v False type_value] @
          [Btn [Zh ''Escape''] False close,
           Btn [Zh ''cancel''] busy close,
           Btn (if busy then [Zh ''working...''] else confirmLabel)
             (\<not> confirm_allowed confirmation v \<or> busy) confirm])]"

lemma offers_ConfirmDialog:
  "offers (ConfirmDialog op t d l c busy v ty cl co) e \<longleftrightarrow> op \<and>
     ((truthy_str c \<and> (\<exists>s. e = ty s)) \<or> e = cl \<or> (confirm_allowed c v \<and> \<not> busy \<and> e = co))"
  by (auto simp: ConfirmDialog_def typable_def)

section \<open>The copy button and the theme\<close>

record copy_button =
  cb_copied :: bool

datatype copy_event = CopyWritten | CopyTimeout

definition copy_step :: "copy_event \<Rightarrow> copy_button \<Rightarrow> copy_button" where
  "copy_step e s = (case e of CopyWritten \<Rightarrow> s\<lparr>cb_copied := True\<rparr> | CopyTimeout \<Rightarrow> s\<lparr>cb_copied := False\<rparr>)"

definition CopyTooltip :: "copy_button \<Rightarrow> ui_text \<Rightarrow> ui_text" where
  "CopyTooltip s label = (if cb_copied s then [Zh ''copied''] else label)"

definition theme_modes :: "(string \<times> ui_text) list" where
  "theme_modes = [(''light'', [Zh ''light'']), (''dark'', [Zh ''dark'']), (''system'', [Zh ''follow the system''])]"

text \<open>The mode shown, for any stored theme; and the theme set by a choice.\<close>

definition theme_mode :: "string option \<Rightarrow> string" where
  "theme_mode theme =
     (case theme of None \<Rightarrow> ''system''
      | Some t \<Rightarrow> if t \<noteq> [] \<and> t \<in> fst ` set theme_modes then t else ''system'')"

definition theme_choose :: "string \<Rightarrow> string option \<Rightarrow> string option" where
  "theme_choose v theme = (if v \<in> fst ` set theme_modes then Some v else theme)"

definition ThemeToggle :: "string option \<Rightarrow> (string \<Rightarrow> 'e) \<Rightarrow> 'e view list" where
  "ThemeToggle theme pick =
     [Txt ([Zh ''theme: ''] @ the (map_of theme_modes (theme_mode theme))),
      Sel [Zh ''switch theme''] theme_modes (theme_mode theme) False pick]"

lemma theme_mode_known: "theme_mode t \<in> fst ` set theme_modes"
  by (auto simp: theme_mode_def theme_modes_def split: option.splits)

lemma theme_choose_mode: "v \<in> fst ` set theme_modes \<Longrightarrow> theme_mode (theme_choose v t) = v"
  by (auto simp: theme_mode_def theme_choose_def theme_modes_def)

end
