(* ===== verification/Auth.thy ===== *)
theory Auth
  imports Branding Widgets
begin

text \<open>
  Sessions (frontend/src/features/auth/auth-provider.tsx) and the screens shown without one
  (auth-screen.tsx).  The provider and the screen it mounts are one state machine: the events are the
  user's, on the screen's view, and the arrival of the outcome of each request in flight.  The token
  of lib/api.ts is part of the state.  The screen's own state exists while the stage is not
  \<open>Authenticated\<close>; leaving that stage mounts a fresh one.
\<close>

section \<open>State\<close>

datatype auth_stage = Boot | Setup | Login | Authenticated | Error

record setup_result =
  sr_totp_secret :: string
  sr_otpauth_url :: string
  sr_recovery_codes :: "string list"

text \<open>Which request of the start-up is in flight, and which one of the screen.\<close>

datatype boot_call = SessionCall | StatusCall
datatype screen_call = SetupCall | LoginCall

record auth_screen =
  as_busy :: "screen_call option"
  as_notice :: ui_text
  as_password :: string
  as_confirmation :: string
  as_totp :: string
  as_recoveryCode :: string
  as_factor :: string

definition fresh_screen :: auth_screen where
  "fresh_screen = \<lparr>as_busy = None, as_notice = [], as_password = [], as_confirmation = [],
                   as_totp = [], as_recoveryCode = [], as_factor = ''totp''\<rparr>"

record auth =
  au_stage :: auth_stage
  au_user :: string
  au_bootError :: ui_text
  au_setupResult :: "setup_result option"
  au_csrf :: string
  au_boot :: "boot_call option"
  au_logouts :: nat
  au_screen :: auth_screen

section \<open>Requests\<close>

text \<open>The start-up asks for the session with a plain \<open>fetch\<close>.\<close>

definition session_request :: request where
  "session_request = \<lparr>rq_path = ''/api/session'', rq_method = ''GET'', rq_headers = [], rq_body = None\<rparr>"

definition status_request :: "auth \<Rightarrow> request" where
  "status_request s = api_request (au_csrf s) ''/api/setup/status'' no_init"

definition login_request :: "auth \<Rightarrow> request" where
  "login_request s =
     (let c = au_screen s in
      api_request (au_csrf s) ''/api/login'' (json_init ''POST'' (JObject
        [(''password'', JString (as_password c)),
         (''totp'', JString (if as_factor c = ''totp'' then as_totp c else [])),
         (''recovery_code'', JString (if as_factor c = ''recovery'' then as_recoveryCode c else []))])))"

definition setup_request :: "auth \<Rightarrow> request" where
  "setup_request s = api_request (au_csrf s) ''/api/setup''
     (json_init ''POST'' (JObject [(''password'', JString (as_password (au_screen s)))]))"

definition logout_request :: "auth \<Rightarrow> request" where
  "logout_request s = api_request (au_csrf s) ''/api/logout'' (json_init ''POST'' (JObject []))"

section \<open>Reading the answers\<close>

text \<open>
  \<open>v.k ?? d\<close> on a decoded body: a \<open>null\<close> body throws (\<open>None\<close>), a missing or \<open>null\<close> member gives the
  default.
\<close>

definition member_or :: "string \<Rightarrow> string \<Rightarrow> json option \<Rightarrow> string option" where
  "member_or k d v =
     (case v of
        Some (JObject ms) \<Rightarrow> Some (case obj_get k ms of None \<Rightarrow> d | Some JNull \<Rightarrow> d | Some x \<Rightarrow> js_string x)
      | Some JNull \<Rightarrow> None
      | Some _ \<Rightarrow> Some d
      | None \<Rightarrow> None)"

definition json_strings :: "json option \<Rightarrow> string list" where
  "json_strings v = (case v of Some (JArray xs) \<Rightarrow> map js_string xs | _ \<Rightarrow> [])"

definition decode_setup :: "json option \<Rightarrow> setup_result option" where
  "decode_setup v =
     (case v of
        Some (JObject ms) \<Rightarrow>
          Some \<lparr>sr_totp_secret = (case obj_get ''totp_secret'' ms of Some x \<Rightarrow> js_string x | None \<Rightarrow> []),
                sr_otpauth_url = (case obj_get ''otpauth_url'' ms of Some x \<Rightarrow> js_string x | None \<Rightarrow> []),
                sr_recovery_codes = json_strings (obj_get ''recovery_codes'' ms)\<rparr>
      | _ \<Rightarrow> None)"

text \<open>\<open>status.initialized\<close>; only \<open>true\<close> is truthy among the values the control plane sends.\<close>

definition initialized :: "json option \<Rightarrow> bool" where
  "initialized v = (case v of Some (JObject ms) \<Rightarrow> obj_get ''initialized'' ms = Some (JBool True) | _ \<Rightarrow> False)"

definition boot_message :: "js_error \<Rightarrow> ui_text" where
  "boot_message e = (case e of NonError \<Rightarrow> [Zh ''cannot reach the control plane''] | _ \<Rightarrow> errorMessage e)"

text \<open>The rejection of \<open>response.json()\<close>, or of reading a member of \<open>null\<close>: the engine's own text.\<close>

definition engine_error :: js_error where
  "engine_error = JsError [Zh ''(engine message)'']"

section \<open>Events\<close>

datatype auth_event =
    Retry
  | SetupComplete
  | TypePassword string | TypeConfirmation string | TypeTotp string | TypeRecovery string
  | ChooseFactor string
  | SubmitSetup
  | SubmitLogin
  | Logout
  | Unauthorized
  | SessionArrives "js_error + response"
  | StatusArrives "js_error + response"
  | ScreenArrives "js_error + response"
  | LogoutArrives "js_error + response"

text \<open>The \<open>cdn:unauthorized\<close> listener.\<close>

definition unauthorized :: "auth \<Rightarrow> auth \<times> effect list" where
  "unauthorized s =
     (s\<lparr>au_csrf := [], au_user := [], au_stage := Login,
        au_screen := (if au_stage s = Authenticated then fresh_screen else au_screen s)\<rparr>,
      [ClearQueries])"

text \<open>A call of \<open>api\<close> returns: the event it may dispatch is handled before the caller goes on.\<close>

definition api_arrives :: "js_error + response \<Rightarrow> auth \<Rightarrow> auth \<times> effect list \<times> (js_error + json option)" where
  "api_arrives out s =
     (let (fx, res) = api_finish out;
          (s', fx') = (if fx \<noteq> [] then unauthorized s else (s, []))
      in (s', fx @ fx', res))"

definition bootstrap :: "auth \<Rightarrow> auth \<times> effect list" where
  "bootstrap s = (s\<lparr>au_stage := Boot, au_bootError := [], au_boot := Some SessionCall\<rparr>, [Send session_request])"

definition boot_failed :: "js_error \<Rightarrow> auth \<Rightarrow> auth" where
  "boot_failed e s = s\<lparr>au_bootError := boot_message e, au_stage := Error, au_boot := None\<rparr>"

definition session_arrives :: "js_error + response \<Rightarrow> auth \<Rightarrow> auth \<times> effect list" where
  "session_arrives out s =
     (case out of
        Inl e \<Rightarrow> (boot_failed e s, [])
      | Inr r \<Rightarrow>
          if response_ok r then
            (case (member_or ''csrf_token'' [] (rsp_json r), member_or ''user'' ''admin'' (rsp_json r)) of
               (Some token, Some user) \<Rightarrow>
                 (s\<lparr>au_csrf := token, au_user := user, au_stage := Authenticated, au_boot := None\<rparr>, [])
             | _ \<Rightarrow> (boot_failed engine_error s, []))
          else (s\<lparr>au_boot := Some StatusCall\<rparr>, [Send (status_request s)]))"

definition status_arrives :: "js_error + response \<Rightarrow> auth \<Rightarrow> auth \<times> effect list" where
  "status_arrives out s =
     (let (s1, fx, res) = api_arrives out s in
      case res of
        Inl e \<Rightarrow> (boot_failed e s1, fx)
      | Inr v \<Rightarrow>
          (case member_or ''initialized'' [] v of
             None \<Rightarrow> (boot_failed engine_error s1, fx)
           | Some _ \<Rightarrow>
               (s1\<lparr>au_stage := (if initialized v then Login else Setup), au_boot := None\<rparr>, fx)))"

text \<open>\<open>finally { setBusy(false) }\<close> with the notice of a failure.\<close>

definition screen_settled :: "ui_text option \<Rightarrow> auth \<Rightarrow> auth" where
  "screen_settled notice s =
     s\<lparr>au_screen := (au_screen s)\<lparr>as_busy := None, as_notice := nullish notice (as_notice (au_screen s))\<rparr>\<rparr>"

definition login_arrives :: "js_error + response \<Rightarrow> auth \<Rightarrow> auth \<times> effect list" where
  "login_arrives out s =
     (let (s1, fx, res) = api_arrives out s in
      case res of
        Inl e \<Rightarrow> (screen_settled (Some (errorMessage e)) s1, fx)
      | Inr v \<Rightarrow>
          (case member_or ''csrf_token'' [] v of
             None \<Rightarrow> (screen_settled (Some (errorMessage engine_error)) s1, fx)
           | Some token \<Rightarrow>
               ((screen_settled None s1)\<lparr>au_csrf := token, au_user := ''admin'', au_stage := Authenticated\<rparr>, fx)))"

definition setup_arrives :: "js_error + response \<Rightarrow> auth \<Rightarrow> auth \<times> effect list" where
  "setup_arrives out s =
     (let (s1, fx, res) = api_arrives out s in
      case res of
        Inl e \<Rightarrow> (screen_settled (Some (errorMessage e)) s1, fx)
      | Inr v \<Rightarrow> ((screen_settled None s1)\<lparr>au_setupResult := decode_setup v\<rparr>, fx))"

definition logout_arrives :: "js_error + response \<Rightarrow> auth \<Rightarrow> auth \<times> effect list" where
  "logout_arrives out s =
     (let (s1, fx, res) = api_arrives out s; (s2, fx') = unauthorized s1
      in (s2\<lparr>au_logouts := au_logouts s - 1\<rparr>, fx @ fx'))"

definition submitSetup :: "auth \<Rightarrow> auth \<times> effect list" where
  "submitSetup s =
     (let c = au_screen s in
      if as_password c \<noteq> as_confirmation c
      then (s\<lparr>au_screen := c\<lparr>as_notice := [Zh ''the two passwords differ'']\<rparr>\<rparr>, [])
      else (s\<lparr>au_screen := c\<lparr>as_busy := Some SetupCall, as_notice := []\<rparr>\<rparr>, [Send (setup_request s)]))"

definition submitLogin :: "auth \<Rightarrow> auth \<times> effect list" where
  "submitLogin s =
     (s\<lparr>au_screen := (au_screen s)\<lparr>as_busy := Some LoginCall, as_notice := []\<rparr>\<rparr>, [Send (login_request s)])"

text \<open>\<open>value.replace(/\D/g, "")\<close>.\<close>

definition only_digits :: "string \<Rightarrow> string" where
  "only_digits v = filter is_digit v"

definition on_screen :: "(auth_screen \<Rightarrow> auth_screen) \<Rightarrow> auth \<Rightarrow> auth \<times> effect list" where
  "on_screen f s = (s\<lparr>au_screen := f (au_screen s)\<rparr>, [])"

fun auth_step :: "(auth_event, auth) component" where
  "auth_step Retry s = bootstrap s"
| "auth_step SetupComplete s = (s\<lparr>au_setupResult := None, au_stage := Login\<rparr>, [])"
| "auth_step (TypePassword v) s = on_screen (as_password_update (\<lambda>_. v)) s"
| "auth_step (TypeConfirmation v) s = on_screen (as_confirmation_update (\<lambda>_. v)) s"
| "auth_step (TypeTotp v) s = on_screen (as_totp_update (\<lambda>_. only_digits v)) s"
| "auth_step (TypeRecovery v) s = on_screen (as_recoveryCode_update (\<lambda>_. v)) s"
| "auth_step (ChooseFactor v) s = on_screen (as_factor_update (\<lambda>_. v)) s"
| "auth_step SubmitSetup s = submitSetup s"
| "auth_step SubmitLogin s = submitLogin s"
| "auth_step Logout s = (s\<lparr>au_logouts := au_logouts s + 1\<rparr>, [Send (logout_request s)])"
| "auth_step Unauthorized s = unauthorized s"
| "auth_step (SessionArrives out) s = session_arrives out s"
| "auth_step (StatusArrives out) s = status_arrives out s"
| "auth_step (ScreenArrives out) s =
     (if as_busy (au_screen s) = Some SetupCall then setup_arrives out s else login_arrives out s)"
| "auth_step (LogoutArrives out) s = logout_arrives out s"

text \<open>The provider's initial state, after its effect has called \<open>bootstrap\<close>.\<close>

definition auth_init :: auth where
  "auth_init = \<lparr>au_stage = Boot, au_user = [], au_bootError = [], au_setupResult = None, au_csrf = [],
                au_boot = Some SessionCall, au_logouts = 0, au_screen = fresh_screen\<rparr>"

section \<open>The screen\<close>

definition InlineError :: "ui_text \<Rightarrow> 'e view" where
  "InlineError message = Grp ''alert'' [Txt [Zh ''operation failed''], Txt message]"

definition brand_block :: "branding option \<Rightarrow> auth_stage \<Rightarrow> 'e view list" where
  "brand_block cached stage =
     (case cached of
        None \<Rightarrow> if stage = Boot then [BrandMark [], Grp ''loading the brand'' []]
                else [BrandMark (b_logo_data_url DEFAULT_BRANDING), Txt [Raw (b_name DEFAULT_BRANDING)],
                      Txt [Raw (b_subtitle DEFAULT_BRANDING)]]
      | Some b \<Rightarrow> [BrandMark (b_logo_data_url b), Txt [Raw (b_name b)]] @
                  only_if (b_subtitle b \<noteq> []) [Txt [Raw (b_subtitle b)]])"

definition setup_form :: "auth_screen \<Rightarrow> auth_event view" where
  "setup_form c =
     Form ([Inp ''setup-password'' [MinLength 12, Required] (as_password c) False TypePassword,
            Inp ''setup-confirmation'' [MinLength 12, Required] (as_confirmation c) False TypeConfirmation] @
           only_if (as_notice c \<noteq> []) [InlineError (as_notice c)])
       [Zh ''initialize''] (as_busy c \<noteq> None) SubmitSetup"

definition setup_done :: "setup_result \<Rightarrow> auth_event view" where
  "setup_done r =
     Grp ''card'' ([Txt [Zh ''administrator created''],
                    Txt [Zh ''log in after saving the TOTP secret and the recovery codes''],
                    Txt [Zh ''TOTP secret''], Txt [Raw (sr_totp_secret r)], Txt [Zh ''recovery codes'']] @
                   map (\<lambda>code. Txt [Raw code]) (sr_recovery_codes r) @
                   [Btn [Zh ''go to log in''] False SetupComplete])"

text \<open>Only the chosen factor's field is mounted.\<close>

definition login_form :: "auth_screen \<Rightarrow> auth_event view" where
  "login_form c =
     Form ([Inp ''login-password'' [Required] (as_password c) False TypePassword,
            Sel [] [(''totp'', [Raw ''TOTP'']), (''recovery'', [Zh ''recovery code''])] (as_factor c) False ChooseFactor] @
           only_if (as_factor c = ''totp'')
             [Inp ''login-totp'' [PatternDigits 6, MaxLength 6, Required] (as_totp c) False TypeTotp] @
           only_if (as_factor c = ''recovery'')
             [Inp ''login-recovery'' [Required] (as_recoveryCode c) False TypeRecovery] @
           only_if (as_notice c \<noteq> []) [InlineError (as_notice c)])
       [Zh ''log in''] (as_busy c \<noteq> None) SubmitLogin"

definition AuthScreen :: "branding option \<Rightarrow> auth \<Rightarrow> auth_event view list" where
  "AuthScreen cached s =
     brand_block cached (au_stage s) @
     only_if (au_stage s = Boot) [Txt [Zh ''checking the session'']] @
     only_if (au_stage s = Error)
       [Txt [Zh ''cannot load the console''],
        Txt (if au_bootError s = [] then [Zh ''the control plane is unavailable''] else au_bootError s),
        Btn [Zh ''retry''] False Retry] @
     only_if (au_stage s = Setup \<and> au_setupResult s = None)
       [Txt [Zh ''initialize the control plane''], Txt [Zh ''create the only administrator account''],
        setup_form (au_screen s)] @
     (case au_setupResult s of None \<Rightarrow> []
      | Some r \<Rightarrow> only_if (au_stage s = Setup) [setup_done r]) @
     only_if (au_stage s = Login)
       [Txt [Zh ''log in to the control plane''], Txt [Zh ''with the password and a second factor''],
        login_form (au_screen s)]"

text \<open>
  What can happen: the user acts on the screen, or logs out from the pages; an outcome arrives for a
  request in flight; and the pages, which are only mounted after the start-up, may run into a 401.
\<close>

fun auth_enabled :: "auth \<Rightarrow> auth_event \<Rightarrow> bool" where
  "auth_enabled s Logout \<longleftrightarrow> au_stage s = Authenticated"
| "auth_enabled s Unauthorized \<longleftrightarrow> au_stage s \<noteq> Boot"
| "auth_enabled s (SessionArrives out) \<longleftrightarrow> au_boot s = Some SessionCall"
| "auth_enabled s (StatusArrives out) \<longleftrightarrow> au_boot s = Some StatusCall"
| "auth_enabled s (ScreenArrives out) \<longleftrightarrow> as_busy (au_screen s) \<noteq> None"
| "auth_enabled s (LogoutArrives out) \<longleftrightarrow> 0 < au_logouts s"
| "auth_enabled s e \<longleftrightarrow> au_stage s \<noteq> Authenticated \<and> offers (AuthScreen None s) e"

inductive auth_reach :: "auth \<Rightarrow> effect list \<Rightarrow> bool" where
  start: "auth_reach auth_init [Send session_request]"
| step: "auth_reach s fx \<Longrightarrow> auth_enabled s e \<Longrightarrow> auth_step e s = (s', fx') \<Longrightarrow> auth_reach s' (fx @ fx')"


inductive_cases auth_reachE: "auth_reach s fx"

section \<open>The session invariant\<close>

text \<open>
  A start-up request is in flight exactly in the stage \<open>Boot\<close>; neither there nor after a failed
  start-up is anything else in flight; a session's token and user exist only when authenticated.
\<close>

definition auth_inv :: "auth \<Rightarrow> bool" where
  "auth_inv s \<longleftrightarrow>
     (au_boot s \<noteq> None \<longleftrightarrow> au_stage s = Boot) \<and>
     (au_stage s \<in> {Boot, Error} \<longrightarrow> as_busy (au_screen s) = None \<and> au_logouts s = 0) \<and>
     (au_stage s = Authenticated \<longrightarrow> as_busy (au_screen s) = None) \<and>
     (au_stage s \<noteq> Authenticated \<longrightarrow> au_csrf s = [] \<and> au_user s = []) \<and>
     as_factor (au_screen s) \<in> {''totp'', ''recovery''}"

lemma auth_inv_init: "auth_inv auth_init"
  by (simp add: auth_inv_def auth_init_def fresh_screen_def)

lemma brand_block_inert [simp]: "\<not> offers (brand_block c st) e"
  by (simp add: brand_block_def split: option.splits)

lemma InlineError_inert [simp]: "\<not> fires (InlineError m) e" "fields_ok (InlineError m)"
  by (simp_all add: InlineError_def)

lemma offers_texts [simp]: "\<not> offers (map (\<lambda>x. Txt (f x)) xs) e"
  by (induction xs) auto

lemma fires_setup_form:
  "fires (setup_form c) e \<longleftrightarrow>
     (\<exists>v. e = TypePassword v) \<or> (\<exists>v. e = TypeConfirmation v) \<or>
     (as_busy c = None \<and> field_ok [MinLength 12, Required] (as_password c) \<and>
      field_ok [MinLength 12, Required] (as_confirmation c) \<and> e = SubmitSetup)"
  by (auto simp: setup_form_def typable_def list_all_iff)

lemma fires_login_form:
  "fires (login_form c) e \<longleftrightarrow>
     (\<exists>v. e = TypePassword v) \<or> e = ChooseFactor ''totp'' \<or> e = ChooseFactor ''recovery'' \<or>
     (as_factor c = ''totp'' \<and> (\<exists>v. js_length v \<le> 6 \<and> e = TypeTotp v)) \<or>
     (as_factor c = ''recovery'' \<and> (\<exists>v. e = TypeRecovery v)) \<or>
     (as_busy c = None \<and> as_password c \<noteq> [] \<and>
      (as_factor c = ''totp'' \<longrightarrow> field_ok [PatternDigits 6, MaxLength 6, Required] (as_totp c)) \<and>
      (as_factor c = ''recovery'' \<longrightarrow> as_recoveryCode c \<noteq> []) \<and> e = SubmitLogin)"
  by (auto simp: login_form_def typable_def list_all_iff field_ok_def)

lemma offers_AuthScreen [view_simps]:
  "offers (AuthScreen cached s) e \<longleftrightarrow>
     (au_stage s = Error \<and> e = Retry) \<or>
     (au_stage s = Setup \<and> au_setupResult s = None \<and> fires (setup_form (au_screen s)) e) \<or>
     (au_stage s = Setup \<and> au_setupResult s \<noteq> None \<and> e = SetupComplete) \<or>
     (au_stage s = Login \<and> fires (login_form (au_screen s)) e)"
  by (auto simp: AuthScreen_def setup_done_def split: option.splits)

lemma api_arrives_cases:
  assumes "api_arrives out s = (s', fx, res)"
  obtains "s' = s" "fx = []" | "s' = fst (unauthorized s)" "fx = [DispatchUnauthorized, ClearQueries]" "\<exists>e. res = Inl e"
  using assms that
  by (auto simp: api_arrives_def api_finish_def unauthorized_def Let_def split: sum.splits if_splits)

lemma unauthorized_inv: "auth_inv s \<Longrightarrow> au_stage s \<noteq> Boot \<Longrightarrow> auth_inv (fst (unauthorized s))"
  by (auto simp: auth_inv_def unauthorized_def fresh_screen_def)

lemmas auth_handlers = bootstrap_def boot_failed_def session_arrives_def status_arrives_def screen_settled_def
  login_arrives_def setup_arrives_def logout_arrives_def submitSetup_def submitLogin_def on_screen_def
  unauthorized_def Let_def

lemma auth_step_inv:
  assumes "auth_inv s" "auth_enabled s e"
  shows "auth_inv (fst (auth_step e s))"
proof (cases e)
  case (SessionArrives out)
  then show ?thesis using assms
    by (auto simp: auth_handlers auth_inv_def split: sum.splits option.splits)
next
  case (StatusArrives out)
  obtain s1 fx res where a: "api_arrives out s = (s1, fx, res)" by (metis prod_cases3)
  show ?thesis using assms StatusArrives a
    by (cases rule: api_arrives_cases [OF a])
      (auto simp: auth_handlers auth_inv_def split: sum.splits option.splits)
next
  case (ScreenArrives out)
  obtain s1 fx res where a: "api_arrives out s = (s1, fx, res)" by (metis prod_cases3)
  show ?thesis using assms ScreenArrives a
    by (cases rule: api_arrives_cases [OF a])
      (auto simp: auth_handlers auth_inv_def fresh_screen_def split: sum.splits option.splits)
next
  case (LogoutArrives out)
  obtain s1 fx res where a: "api_arrives out s = (s1, fx, res)" by (metis prod_cases3)
  show ?thesis using assms LogoutArrives a
    by (cases rule: api_arrives_cases [OF a])
      (auto simp: auth_handlers auth_inv_def fresh_screen_def)
qed (use assms in \<open>auto simp: auth_handlers auth_inv_def fresh_screen_def offers_AuthScreen
       fires_setup_form fires_login_form\<close>)

lemma auth_reach_inv: "auth_reach s fx \<Longrightarrow> auth_inv s"
proof (induction rule: auth_reach.induct)
  case start
  show ?case by (rule auth_inv_init)
next
  case (step s fx e s' fx')
  then show ?case using auth_step_inv [of s e] by simp
qed

text \<open>
  C2. Credentials exist only in a session: in every reachable state whose stage is not
  \<open>Authenticated\<close> the CSRF token and the user are empty, so nothing sent from the log-in screens
  carries a token of an earlier session.
\<close>

theorem session_credentials_only_when_authenticated:
  assumes "auth_reach s fx" "au_stage s \<noteq> Authenticated"
  shows "au_csrf s = [] \<and> au_user s = []
       \<and> get_header ''X-CSRF-Token'' (rq_headers (login_request s)) = None"
proof -
  have "au_csrf s = []" "au_user s = []"
    using auth_reach_inv [OF assms(1)] assms(2) by (auto simp: auth_inv_def)
  moreover have "get_header ''X-CSRF-Token'' [] = None" by (simp add: get_header_def)
  ultimately show ?thesis
    by (simp add: login_request_def json_init_def Let_def api_request_def)
qed

theorem session_credentials_only_when_authenticated_witness:
  "\<exists>s fx. auth_reach s fx \<and> au_stage s = Login \<and> au_csrf s = []"
proof -
  let ?no = "\<lparr>rsp_status = 401, rsp_json = None\<rparr>" and ?yes = "\<lparr>rsp_status = 200,
    rsp_json = Some (JObject [(''initialized'', JBool True)])\<rparr>"
  obtain s1 f1 where s1: "auth_step (SessionArrives (Inr ?no)) auth_init = (s1, f1)" by fastforce
  obtain s2 f2 where s2: "auth_step (StatusArrives (Inr ?yes)) s1 = (s2, f2)" by fastforce
  have b1: "au_boot s1 = Some StatusCall"
    using s1 by (auto simp: session_arrives_def response_ok_def auth_init_def)
  have r1: "auth_reach s1 ([Send session_request] @ f1)"
    by (rule auth_reach.step [OF auth_reach.start _ s1]) (simp add: auth_init_def)
  have r2: "auth_reach s2 (([Send session_request] @ f1) @ f2)"
    by (rule auth_reach.step [OF r1 _ s2]) (simp add: b1)
  have "au_stage s2 = Login"
    using s2 by (auto simp: status_arrives_def api_arrives_def api_finish_def response_ok_def
        member_or_def initialized_def obj_get_def)
  then show ?thesis using session_credentials_only_when_authenticated [OF r2] r2 by auto
qed

section \<open>What the screens send\<close>

definition login_body_ok :: "string \<Rightarrow> bool" where
  "login_body_ok b \<longleftrightarrow>
     (\<exists>pw t c. json_parse b = Some (JObject [(''password'', JString pw), (''totp'', JString t),
                                             (''recovery_code'', JString c)]) \<and> pw \<noteq> [] \<and>
        (length t = 6 \<and> list_all is_digit t \<and> c = [] \<or> t = [] \<and> c \<noteq> []))"

definition setup_body_ok :: "string \<Rightarrow> bool" where
  "setup_body_ok b \<longleftrightarrow>
     (\<exists>pw. json_parse b = Some (JObject [(''password'', JString pw)]) \<and> 12 \<le> js_length pw)"

definition auth_request_ok :: "request \<Rightarrow> bool" where
  "auth_request_ok r \<longleftrightarrow>
     (rq_path r = ''/api/login'' \<longrightarrow> rq_method r = ''POST'' \<and> (\<exists>b. rq_body r = Some b \<and> login_body_ok b)) \<and>
     (rq_path r = ''/api/setup'' \<longrightarrow> rq_method r = ''POST'' \<and> (\<exists>b. rq_body r = Some b \<and> setup_body_ok b))"

lemma login_request_ok:
  assumes "auth_inv s" "fires (login_form (au_screen s)) SubmitLogin"
  shows "auth_request_ok (login_request s)"
  using assms
  by (auto simp: auth_request_ok_def login_request_def Let_def json_init_def login_body_ok_def
      json_parse_stringify fires_login_form auth_inv_def field_ok_def)

lemma setup_request_ok:
  assumes "fires (setup_form (au_screen s)) SubmitSetup"
  shows "auth_request_ok (setup_request s)"
  using assms
  by (auto simp: auth_request_ok_def setup_request_def json_init_def setup_body_ok_def
      json_parse_stringify fires_setup_form field_ok_def)

lemma api_arrives_no_send: "api_arrives out s = (s', fx, res) \<Longrightarrow> Send r \<notin> set fx"
  by (auto elim: api_arrives_cases)

lemma step_requests_ok:
  assumes "auth_inv s" "auth_enabled s e" "Send r \<in> set (snd (auth_step e s))"
  shows "auth_request_ok r"
proof (cases e)
  case SubmitSetup
  then show ?thesis using assms setup_request_ok [of s]
    by (auto simp: submitSetup_def Let_def offers_AuthScreen fires_login_form split: if_splits)
next
  case SubmitLogin
  then show ?thesis using assms login_request_ok [of s]
    by (auto simp: submitLogin_def offers_AuthScreen fires_setup_form)
next
  case (SessionArrives out)
  then show ?thesis using assms
    by (auto simp: session_arrives_def auth_request_ok_def status_request_def split: sum.splits option.splits if_splits)
next
  case (StatusArrives out)
  obtain s1 fx res where a: "api_arrives out s = (s1, fx, res)" by (metis prod_cases3)
  show ?thesis using assms(3) StatusArrives a api_arrives_no_send [OF a]
    by (auto simp: status_arrives_def split: sum.splits option.splits)
next
  case (ScreenArrives out)
  obtain s1 fx res where a: "api_arrives out s = (s1, fx, res)" by (metis prod_cases3)
  show ?thesis using assms(3) ScreenArrives a api_arrives_no_send [OF a]
    by (auto simp: setup_arrives_def login_arrives_def split: sum.splits option.splits if_splits)
next
  case (LogoutArrives out)
  obtain s1 fx res where a: "api_arrives out s = (s1, fx, res)" by (metis prod_cases3)
  show ?thesis using assms(3) LogoutArrives a api_arrives_no_send [OF a]
    by (auto simp: logout_arrives_def unauthorized_def)
qed (use assms in \<open>auto simp: on_screen_def unauthorized_def bootstrap_def session_request_def
       logout_request_def auth_request_ok_def\<close>)



section \<open>One request of the screen at a time\<close>

fun screen_event :: "auth_event \<Rightarrow> bool" where
  "screen_event Retry \<longleftrightarrow> False"
| "screen_event Logout \<longleftrightarrow> False"
| "screen_event (SessionArrives out) \<longleftrightarrow> False"
| "screen_event (StatusArrives out) \<longleftrightarrow> False"
| "screen_event (LogoutArrives out) \<longleftrightarrow> False"
| "screen_event e \<longleftrightarrow> True"

fun is_screen_arrival :: "auth_event \<Rightarrow> bool" where
  "is_screen_arrival (ScreenArrives out) \<longleftrightarrow> True"
| "is_screen_arrival e \<longleftrightarrow> False"

lemma screen_step_balance:
  assumes "auth_inv s" "auth_enabled s e \<and> screen_event e"
  shows "sends (snd (auth_step e s)) + (if as_busy (au_screen s) \<noteq> None then 1 else 0)
    = (if is_screen_arrival e then 1 else 0) + (if as_busy (au_screen (fst (auth_step e s))) \<noteq> None then 1 else 0)"
proof (cases e)
  case (ScreenArrives out)
  obtain s1 fx res where a: "api_arrives out s = (s1, fx, res)" by (metis prod_cases3)
  show ?thesis using assms ScreenArrives a
    by (cases rule: api_arrives_cases [OF a])
      (auto simp: setup_arrives_def login_arrives_def screen_settled_def split: sum.splits option.splits)
qed (use assms in \<open>auto simp: on_screen_def submitSetup_def submitLogin_def Let_def unauthorized_def
       auth_inv_def fresh_screen_def offers_AuthScreen fires_setup_form fires_login_form\<close>)

interpretation auth_form: single_flight
  "\<lambda>s e. auth_enabled s e \<and> screen_event e" auth_step "\<lambda>s. as_busy (au_screen s) \<noteq> None" is_screen_arrival auth_inv
  by unfold_locales (blast intro: screen_step_balance auth_step_inv)+

lemma auth_screen_one_in_flight:
  assumes "auth_reach s fx" "as_busy (au_screen s) = None"
    "possible (\<lambda>s e. auth_enabled s e \<and> screen_event e) auth_step es s"
  shows "sends (snd (run auth_step es s)) \<le> length (filter is_screen_arrival es) + 1"
  using auth_form.one_in_flight [OF auth_reach_inv [OF assms(1)]] assms(2,3) by simp

end
