(* ===== verification/Messages.thy ===== *)
theory Messages
  imports Widgets
begin

text \<open>
  The message centre (frontend/src/components/message-center.tsx): the sheet's state, its three
  mutations and what opening a message does.  The messages themselves are the data of the query
  \<open>["messages"]\<close>, an argument of the view and the handlers.
\<close>

record message_center =
  mc_open :: bool
  mc_filter :: string
  mc_page :: nat
  mc_markRead :: nat
  mc_markAll :: bool
  mc_remove :: nat

datatype message_event =
    OpenCenter
  | CloseCenter
  | FilterTo string
  | MessagePageTo int
  | OpenMessage message
  | MarkAll
  | RemoveMessage string
  | MarkReadArrives "js_error + response"
  | MarkAllArrives "js_error + response"
  | RemoveArrives "js_error + response"

definition messages_query :: "string \<Rightarrow> request" where
  "messages_query csrf = api_request csrf ''/api/messages?limit=80'' no_init"

definition mark_read_request :: "string \<Rightarrow> string \<Rightarrow> request" where
  "mark_read_request csrf mid =
     api_request csrf (''/api/messages/'' @ encodeURIComponent mid @ ''/read'') (json_init ''POST'' (JObject []))"

definition mark_all_request :: "string \<Rightarrow> request" where
  "mark_all_request csrf = api_request csrf ''/api/messages/read-all'' (json_init ''POST'' (JObject []))"

definition remove_message_request :: "string \<Rightarrow> string \<Rightarrow> request" where
  "remove_message_request csrf mid =
     api_request csrf (''/api/messages/'' @ encodeURIComponent mid) (method_init ''DELETE'')"

text \<open>The messages under the filter, and the page of them.\<close>

definition listed_messages :: "message_page option \<Rightarrow> string \<Rightarrow> message list" where
  "listed_messages page f =
     filter (\<lambda>m. f = ''all'' \<or> \<not> truthy_str (m_read_at m)) (case page of None \<Rightarrow> [] | Some p \<Rightarrow> mpg_messages p)"

definition message_pages :: "message_page option \<Rightarrow> message_center \<Rightarrow> message pagination" where
  "message_pages page s = useListPagination (listed_messages page (mc_filter s)) LIST_PAGE_SIZE (mc_page s)"

text \<open>Where opening a message leads.\<close>

definition message_target :: "message \<Rightarrow> string option" where
  "message_target m =
     (if m_resource_type m = Some ''site'' \<and> truthy_str (m_resource_id m)
      then Some (''/sites/'' @ encodeURIComponent (the (m_resource_id m)))
      else if m_resource_type m = Some ''node'' \<and> truthy_str (m_resource_id m)
      then Some (''/nodes/'' @ encodeURIComponent (the (m_resource_id m)))
      else if m_category m = ''backup'' \<or> m_category m = ''restore'' then Some ''/settings''
      else None)"

definition openMessage :: "string \<Rightarrow> message \<Rightarrow> message_center \<Rightarrow> message_center \<times> effect list" where
  "openMessage csrf m s =
     (let read = only_if (\<not> truthy_str (m_read_at m)) [Send (mark_read_request csrf (m_id m))];
          s1 = (if \<not> truthy_str (m_read_at m) then s\<lparr>mc_markRead := mc_markRead s + 1\<rparr> else s)
      in case message_target m of
           None \<Rightarrow> (s1, read)
         | Some t \<Rightarrow> (s1\<lparr>mc_open := False\<rparr>, read @ [Navigate t False]))"

text \<open>\<open>onSuccess: invalidate\<close>, \<open>onError: toast.error(...)\<close>.\<close>

definition settle_message :: "js_error + response \<Rightarrow> message_center \<Rightarrow> message_center \<times> effect list" where
  "settle_message out s =
     arrive out (\<lambda>_. (s, [Invalidate [''messages'']])) (\<lambda>e. (s, [ToastError (errorMessage e)]))"

fun message_step :: "string \<Rightarrow> message_page option \<Rightarrow> (message_event, message_center) component" where
  "message_step csrf page OpenCenter s = (s\<lparr>mc_open := True\<rparr>, [])"
| "message_step csrf page CloseCenter s = (s\<lparr>mc_open := False\<rparr>, [])"
| "message_step csrf page (FilterTo f) s =
     (s\<lparr>mc_filter := f, mc_page := setPage (message_pages page s) 1\<rparr>, [])"
| "message_step csrf page (MessagePageTo k) s = (s\<lparr>mc_page := setPage (message_pages page s) k\<rparr>, [])"
| "message_step csrf page (OpenMessage m) s = openMessage csrf m s"
| "message_step csrf page MarkAll s = (s\<lparr>mc_markAll := True\<rparr>, [Send (mark_all_request csrf)])"
| "message_step csrf page (RemoveMessage i) s =
     (s\<lparr>mc_remove := mc_remove s + 1\<rparr>, [Send (remove_message_request csrf i)])"
| "message_step csrf page (MarkReadArrives out) s = settle_message out (s\<lparr>mc_markRead := mc_markRead s - 1\<rparr>)"
| "message_step csrf page (MarkAllArrives out) s = settle_message out (s\<lparr>mc_markAll := False\<rparr>)"
| "message_step csrf page (RemoveArrives out) s = settle_message out (s\<lparr>mc_remove := mc_remove s - 1\<rparr>)"

definition message_init :: message_center where
  "message_init = \<lparr>mc_open = False, mc_filter = ''all'', mc_page = 1, mc_markRead = 0,
                   mc_markAll = False, mc_remove = 0\<rparr>"

section \<open>The sheet\<close>

fun severityLabel :: "severity \<Rightarrow> ui_text" where
  "severityLabel Sev_info = [Zh ''information'']"
| "severityLabel Sev_success = [Zh ''success'']"
| "severityLabel Sev_warning = [Zh ''attention'']"
| "severityLabel Sev_error = [Zh ''failure'']"

fun severityTone :: "severity \<Rightarrow> tone" where
  "severityTone Sev_info = Sky"
| "severityTone Sev_success = Emerald"
| "severityTone Sev_warning = Amber"
| "severityTone Sev_error = Red"

definition message_row :: "message \<Rightarrow> message_event view" where
  "message_row m =
     Grp ''article''
       ([Txt (severityLabel (m_severity m)), Txt (formatDateTime (Some (m_created_at m)))] @
        only_if (\<not> truthy_str (m_read_at m)) [Grp ''unread mark'' []] @
        only_if (truthy_str (m_body m)) [Txt [Raw (the (m_body m))]] @
        [Btn [Raw (m_title m)] False (OpenMessage m),
         Btn [Zh ''delete the message''] False (RemoveMessage (m_id m))])"

definition unread_count :: "message_page option \<Rightarrow> int" where
  "unread_count page = (case page of None \<Rightarrow> 0 | Some p \<Rightarrow> mpg_unread_count p)"

definition MessageCenter :: "message_page option \<Rightarrow> message_center \<Rightarrow> message_event view list" where
  "MessageCenter page s =
     only_if (mc_open s)
       [Grp ''sheet''
         ([Txt [Zh ''message centre''], Txt [Raw (int_str (unread_count page)), Zh '' unread''],
           Btn [Zh ''mark all as read''] (unread_count page = 0 \<or> mc_markAll s) MarkAll,
           Btn [Zh ''close''] False CloseCenter,
           Sel [] [(''all'', [Zh ''all'']), (''unread'', [Zh ''unread''])] (mc_filter s) False FilterTo] @
          (if listed_messages page (mc_filter s) \<noteq> []
           then map message_row (pg_items (message_pages page s)) @
                [ListPagination (message_pages page s) [Zh ''messages''] False MessagePageTo []]
           else [Txt [Zh ''no messages'']]))]"

fun message_enabled :: "message_page option \<Rightarrow> message_center \<Rightarrow> message_event \<Rightarrow> bool" where
  "message_enabled page s OpenCenter \<longleftrightarrow> \<not> mc_open s"
| "message_enabled page s (MarkReadArrives out) \<longleftrightarrow> 0 < mc_markRead s"
| "message_enabled page s (MarkAllArrives out) \<longleftrightarrow> mc_markAll s"
| "message_enabled page s (RemoveArrives out) \<longleftrightarrow> 0 < mc_remove s"
| "message_enabled page s e \<longleftrightarrow> offers (MessageCenter page s) e"

section \<open>Laws\<close>

lemma fires_message_row [simp]:
  "fires (message_row m) e \<longleftrightarrow> e = OpenMessage m \<or> e = RemoveMessage (m_id m)"
  by (auto simp: message_row_def)

lemma offers_MessageCenter [view_simps]:
  "offers (MessageCenter page s) e \<longleftrightarrow> mc_open s \<and>
     ((unread_count page \<noteq> 0 \<and> \<not> mc_markAll s \<and> e = MarkAll) \<or> e = CloseCenter \<or>
      e = FilterTo ''all'' \<or> e = FilterTo ''unread'' \<or>
      (listed_messages page (mc_filter s) \<noteq> [] \<and>
       ((\<exists>m \<in> set (pg_items (message_pages page s)). e = OpenMessage m \<or> e = RemoveMessage (m_id m)) \<or>
        fires (ListPagination (message_pages page s) [Zh ''messages''] False MessagePageTo []) e)))"
  by (auto simp: MessageCenter_def offers_map)

lemma settle_message_state [simp]: "fst (settle_message out s) = s"
  by (simp add: settle_message_def fst_arrive_const [where f = "\<lambda>x. x"])

lemma settle_message_sends [simp]: "sends (snd (settle_message out s)) = 0"
  by (simp add: settle_message_def sends_arrive)

text \<open>
  Opening a message does exactly what it announces: the message is marked as read if and only if
  it was unread, the sheet closes if and only if there is somewhere to go, and the segment of the
  route it goes to decodes to the identifier of the site or node the message is about.
\<close>

theorem openMessage_behaviour:
  assumes "openMessage csrf m s = (s', fx)"
  shows "(Send (mark_read_request csrf (m_id m)) \<in> set fx \<longleftrightarrow> \<not> truthy_str (m_read_at m))
    \<and> sends fx \<le> 1
    \<and> (mc_open s' \<longleftrightarrow> mc_open s \<and> message_target m = None)
    \<and> (\<forall>i. m_resource_type m = Some ''site'' \<and> m_resource_id m = Some i \<and> i \<noteq> [] \<longrightarrow>
         (\<exists>seg. Navigate (''/sites/'' @ seg) False \<in> set fx \<and> pct_decode seg = i))
    \<and> (\<forall>i. m_resource_type m = Some ''node'' \<and> m_resource_id m = Some i \<and> i \<noteq> [] \<longrightarrow>
         (\<exists>seg. Navigate (''/nodes/'' @ seg) False \<in> set fx \<and> pct_decode seg = i))"
proof -
  have *: "\<exists>seg. enc = seg \<and> pct_decode seg = i" if "enc = encodeURIComponent i" for enc i
    using that by simp
  show ?thesis
    using assms
    by (auto simp: openMessage_def Let_def message_target_def only_if_def split: option.splits if_splits)
qed

theorem openMessage_behaviour_witness:
  "\<exists>m fx. openMessage ''t'' m message_init = (message_init\<lparr>mc_markRead := 1\<rparr>, fx) \<and>
     (\<exists>seg. Navigate (''/sites/'' @ seg) False \<in> set fx \<and> pct_decode seg = ''a/b'')"
proof -
  define m where "m = \<lparr>m_id = ''1'', m_severity = Sev_info, m_category = ''deploy'', m_title = ''t'',
    m_body = None, m_resource_type = Some ''site'', m_resource_id = Some ''a/b'', m_read_at = None,
    m_created_at = ''2026-01-01T00:00:00Z''\<rparr>"
  obtain s' fx where o: "openMessage ''t'' m message_init = (s', fx)" by fastforce
  moreover have "s' = message_init\<lparr>mc_markRead := 1\<rparr>"
    using o by (auto simp: openMessage_def m_def Let_def message_target_def message_init_def)
  moreover have "m_resource_type m = Some ''site''" "m_resource_id m = Some ''a/b''" by (simp_all add: m_def)
  ultimately show ?thesis using openMessage_behaviour [OF o] by blast
qed

text \<open>The "mark all" action is one request at a time, whatever else the sheet does.\<close>

fun mark_all_event :: "message_event \<Rightarrow> bool" where
  "mark_all_event MarkAll \<longleftrightarrow> True"
| "mark_all_event (MarkAllArrives out) \<longleftrightarrow> True"
| "mark_all_event (FilterTo f) \<longleftrightarrow> True"
| "mark_all_event (MessagePageTo k) \<longleftrightarrow> True"
| "mark_all_event OpenCenter \<longleftrightarrow> True"
| "mark_all_event CloseCenter \<longleftrightarrow> True"
| "mark_all_event e \<longleftrightarrow> False"

fun is_mark_all_arrival :: "message_event \<Rightarrow> bool" where
  "is_mark_all_arrival (MarkAllArrives out) \<longleftrightarrow> True"
| "is_mark_all_arrival e \<longleftrightarrow> False"

lemma mark_all_balance:
  assumes "message_enabled page s e \<and> mark_all_event e"
  shows "sends (snd (message_step csrf page e s)) + (if mc_markAll s then 1 else 0)
    = (if is_mark_all_arrival e then 1 else 0) + (if mc_markAll (fst (message_step csrf page e s)) then 1 else 0)"
  using assms by (cases e) (auto simp: offers_MessageCenter)

interpretation mark_all: single_flight
  "\<lambda>s e. message_enabled page s e \<and> mark_all_event e" "message_step csrf page" mc_markAll
  is_mark_all_arrival "\<lambda>_. True" for page csrf
  by unfold_locales (use mark_all_balance in blast, rule TrueI)

text \<open>
  The pages of the unread filter hold the unread messages and no other, each once and in order;
  the filter "all" leaves no message out.
\<close>

theorem unread_filter_complete:
  "concat (map (\<lambda>r. pg_items (message_pages (Some p) (s\<lparr>mc_page := r\<rparr>)))
       [1 ..< pg_totalPages (message_pages (Some p) s) + 1])
   = (if mc_filter s = ''all'' then mpg_messages p
      else filter (\<lambda>m. \<not> truthy_str (m_read_at m)) (mpg_messages p))"
  using pages_partition_lemma [of LIST_PAGE_SIZE "listed_messages (Some p) (mc_filter s)"]
  by (auto simp: message_pages_def listed_messages_def LIST_PAGE_SIZE_def pagination_fields)

section \<open>In the session\<close>

interpretation message_session: session_page "message_enabled page" "message_step csrf page" "\<lambda>s. csrf" "\<lambda>s. True" for csrf page
proof
  fix r e s
  have s: "Send x \<notin> set (snd (settle_message out t))" for x out t by (rule no_send) simp
  show "Send r \<in> set (snd (message_step csrf page e s)) \<Longrightarrow> authorised csrf r"
    by (cases e) (auto simp: s openMessage_def mark_read_request_def mark_all_request_def remove_message_request_def
        starts_with_Cons Let_def only_if_def split: if_splits option.splits)
  show "DispatchUnauthorized \<in> set (snd (message_step csrf page e s)) \<Longrightarrow> Send r \<notin> set (snd (message_step csrf page e s))"
    by (cases e) (auto simp: s openMessage_def Let_def only_if_def split: if_splits option.splits)
qed simp

end
