(* ===== verification/Shell.thy ===== *)
theory Shell
  imports Messages Branding
begin

text \<open>
  The frame of the console: the routes (frontend/src/App.tsx), the side bar (components/app-sidebar.tsx)
  and the shell around the pages (components/app-shell.tsx).  The router itself is third-party; what
  is modelled is the route table with its documented patterns, a static segment matching itself without
  regard to case (the default, which no route changes) and a parameter any one segment, which it decodes.
\<close>

section \<open>Routes\<close>

datatype route_page =
    OverviewPage | OverviewSitePage | LogsPage | LogDetailPage | SecurityPage | MonitoringPage
  | MonitoringNodeHistoryPage | NodesPage | NodeDetailPage | SitesPage | SiteDetailPage
  | CertificatesPage | SettingsPage

datatype segment = Static string | Param string

definition route_table :: "(segment list \<times> route_page) list" where
  "route_table =
    [([Static ''overview''], OverviewPage),
     ([Static ''overview'', Static ''sites'', Param ''siteId''], OverviewSitePage),
     ([Static ''logs''], LogsPage),
     ([Static ''logs'', Param ''logId''], LogDetailPage),
     ([Static ''security''], SecurityPage),
     ([Static ''monitoring''], MonitoringPage),
     ([Static ''monitoring'', Static ''nodes'', Param ''nodeId''], MonitoringNodeHistoryPage),
     ([Static ''nodes''], NodesPage),
     ([Static ''nodes'', Param ''nodeId''], NodeDetailPage),
     ([Static ''sites''], SitesPage),
     ([Static ''sites'', Static ''new''], SiteDetailPage),
     ([Static ''sites'', Param ''siteId''], SiteDetailPage),
     ([Static ''certificates''], CertificatesPage),
     ([Static ''settings''], SettingsPage)]"

text \<open>The pages as an enumeration, and a route for each of them.\<close>

instantiation route_page :: enum
begin

definition enum_route_page :: "route_page list" where
  "enum_route_page =
     [route_page.OverviewPage, route_page.OverviewSitePage, route_page.LogsPage, route_page.LogDetailPage,
      route_page.SecurityPage, route_page.MonitoringPage, route_page.MonitoringNodeHistoryPage, route_page.NodesPage,
      route_page.NodeDetailPage, route_page.SitesPage, route_page.SiteDetailPage, route_page.CertificatesPage,
      route_page.SettingsPage]"

definition enum_all_route_page :: "(route_page \<Rightarrow> bool) \<Rightarrow> bool" where
  "enum_all_route_page P \<longleftrightarrow> list_all P enum_class.enum"

definition enum_ex_route_page :: "(route_page \<Rightarrow> bool) \<Rightarrow> bool" where
  "enum_ex_route_page P \<longleftrightarrow> list_ex P enum_class.enum"

instance
proof
  have all: "k \<in> set enum_class.enum" for k :: route_page
    by (cases k) (simp_all add: enum_route_page_def)
  then show "UNIV = set (enum_class.enum :: route_page list)" by blast
  show "distinct (enum_class.enum :: route_page list)" by (simp add: enum_route_page_def)
  show "enum_class.enum_all P \<longleftrightarrow> Ball UNIV P" for P :: "route_page \<Rightarrow> bool"
    using all by (auto simp: enum_all_route_page_def list_all_iff)
  show "enum_class.enum_ex P \<longleftrightarrow> Bex UNIV P" for P :: "route_page \<Rightarrow> bool"
    using all by (auto simp: enum_ex_route_page_def list_ex_iff)
qed

end

lemma every_page_routed: "snd ` set route_table = UNIV"
  unfolding UNIV_enum by (simp add: enum_route_page_def route_table_def)

text \<open>The index route and every other path redirect here.\<close>

definition fallback_route :: string where
  "fallback_route = ''/overview''"

fun segments_match :: "segment list \<Rightarrow> string list \<Rightarrow> (string \<times> string) list option" where
  "segments_match [] [] = Some []"
| "segments_match (Static k # ps) (w # ws) = (if lower k = lower w then segments_match ps ws else None)"
| "segments_match (Param p # ps) (w # ws) =
     map_option (\<lambda>b. (p, pct_decode w) # b) (segments_match ps ws)"
| "segments_match _ _ = None"

text \<open>\<open>location.pathname.split("/").filter(Boolean)\<close>.\<close>

definition path_segments :: "string \<Rightarrow> string list" where
  "path_segments p = filter (\<lambda>w. w \<noteq> []) (js_split (\<lambda>c. c = CHR ''/'') p)"

definition route_matches :: "string \<Rightarrow> (route_page \<times> (string \<times> string) list) list" where
  "route_matches p =
     List.map_filter (\<lambda>(pat, pg). map_option (Pair pg) (segments_match pat (path_segments p))) route_table"

section \<open>The side bar\<close>

definition sidebar_groups :: "(string \<times> (string \<times> string) list) list" where
  "sidebar_groups =
    [(''workspace'', [(''overview'', ''/overview''), (''logs'', ''/logs'')]),
     (''operations'', [(''security'', ''/security''), (''monitoring'', ''/monitoring''), (''nodes'', ''/nodes''),
                     (''sites'', ''/sites''), (''certificates'', ''/certificates'')]),
     (''system'', [(''settings'', ''/settings'')])]"

definition item_active :: "string \<Rightarrow> string \<Rightarrow> bool" where
  "item_active pathname target \<longleftrightarrow> pathname = target \<or> starts_with pathname (target @ ''/'')"

definition versionLabel :: "string \<Rightarrow> string" where
  "versionLabel v = (if starts_with v ''v'' then v else ''v'' @ v)"

datatype shell_event = OpenMessages | ShellLogout | ChooseTheme string | FollowLink string

record sidebar_props =
  sbp_brandName :: string
  sbp_brandSubtitle :: string
  sbp_brandLogo :: string
  sbp_brandPending :: bool
  sbp_productName :: string
  sbp_productVersion :: string

definition sidebar_item :: "string \<Rightarrow> string \<times> string \<Rightarrow> shell_event view" where
  "sidebar_item pathname it =
     Grp (if item_active pathname (snd it) then ''active item'' else ''item'')
       [Lnk (snd it) [Btn [Zh (fst it)] False (FollowLink (snd it))]]"

definition AppSidebar :: "sidebar_props \<Rightarrow> string \<Rightarrow> shell_event view list" where
  "AppSidebar p pathname =
     [BrandMark (sbp_brandLogo p)] @
     (if sbp_brandPending p then [Grp ''loading the brand'' []]
      else [Txt [Raw (sbp_brandName p)]] @ only_if (sbp_brandSubtitle p \<noteq> []) [Txt [Raw (sbp_brandSubtitle p)]]) @
     map (\<lambda>g. Grp ''group'' (Txt [Zh (fst g)] # map (sidebar_item pathname) (snd g))) sidebar_groups @
     [Btn [Zh ''log out''] False ShellLogout] @
     only_if (sbp_productVersion p \<noteq> [])
       [Txt [Raw (sbp_productName p)], Txt [Raw (versionLabel (sbp_productVersion p))]]"

section \<open>The shell\<close>

definition pageNames :: "(string \<times> string) list" where
  "pageNames =
    [(''overview'', ''overview''), (''logs'', ''logs''), (''security'', ''security''), (''monitoring'', ''monitoring''),
     (''nodes'', ''nodes''), (''sites'', ''sites''), (''settings'', ''settings'')]"

definition shell_section :: "string \<Rightarrow> string" where
  "shell_section pathname = (case path_segments pathname of [] \<Rightarrow> ''overview'' | w # ws \<Rightarrow> w)"

definition shell_detail :: "string \<Rightarrow> bool" where
  "shell_detail pathname \<longleftrightarrow> 1 < length (path_segments pathname)"

definition breadcrumb :: "string \<Rightarrow> shell_event view list" where
  "breadcrumb pathname =
     [Lnk (''/'' @ shell_section pathname)
        [Txt [Zh (case map_of pageNames (shell_section pathname) of None \<Rightarrow> ''overview'' | Some n \<Rightarrow> n)]]] @
     only_if (shell_detail pathname) [Txt [Zh ''details'']]"

text \<open>The brand shown: the settings' once they are loaded, the cached one before.\<close>

definition shell_branding :: "settings option \<Rightarrow> branding option \<Rightarrow> branding option" where
  "shell_branding settings cached = (case settings of Some s \<Rightarrow> Some (set_branding s) | None \<Rightarrow> cached)"

definition shell_sidebar :: "settings option \<Rightarrow> branding option \<Rightarrow> system_info option \<Rightarrow> sidebar_props" where
  "shell_sidebar settings cached info =
     (let b = shell_branding settings cached in
      \<lparr>sbp_brandName = (case b of None \<Rightarrow> [] | Some x \<Rightarrow> b_name x),
       sbp_brandSubtitle = (case b of None \<Rightarrow> [] | Some x \<Rightarrow> b_subtitle x),
       sbp_brandLogo = (case b of None \<Rightarrow> [] | Some x \<Rightarrow> b_logo_data_url x),
       sbp_brandPending = (b = None),
       sbp_productName = (case info of None \<Rightarrow> ''simple_cdn'' | Some i \<Rightarrow> si_name i),
       sbp_productVersion = (case info of None \<Rightarrow> [] | Some i \<Rightarrow> si_version i)\<rparr>)"

definition AppShell ::
  "settings option \<Rightarrow> branding option \<Rightarrow> system_info option \<Rightarrow> message_page option \<Rightarrow> string option \<Rightarrow> string
     \<Rightarrow> shell_event view list" where
  "AppShell settings cached info messages theme pathname =
     AppSidebar (shell_sidebar settings cached info) pathname @ breadcrumb pathname @
     ThemeToggle theme ChooseTheme @
     [Btn [Zh ''open the message centre''] False OpenMessages] @
     only_if (unread_count messages \<noteq> 0) [Grp ''unread dot'' []]"

section \<open>Laws\<close>

lemma path_segments_link:
  assumes "CHR ''/'' \<notin> set w" "w \<noteq> []"
  shows "path_segments (CHR ''/'' # w) = [w]"
proof -
  have "js_split (\<lambda>c. c = CHR ''/'') w = [w]" using assms(1) by (intro js_split_word) auto
  then show ?thesis using assms(2) by (simp add: path_segments_def)
qed

lemma path_segments_two:
  assumes "CHR ''/'' \<notin> set w" "w \<noteq> []" "CHR ''/'' \<notin> set v" "v \<noteq> []"
  shows "path_segments (CHR ''/'' # w @ CHR ''/'' # v) = [w, v]"
proof -
  have "js_split (\<lambda>c. c = CHR ''/'') (w @ CHR ''/'' # v) = w # js_split (\<lambda>c. c = CHR ''/'') v"
    using assms by (intro js_split_sep) auto
  moreover have "js_split (\<lambda>c. c = CHR ''/'') v = [v]" using assms by (intro js_split_word) auto
  ultimately show ?thesis using assms by (simp add: path_segments_def)
qed

lemma path_segments_three:
  assumes "CHR ''/'' \<notin> set u" "u \<noteq> []" "CHR ''/'' \<notin> set w" "w \<noteq> []" "CHR ''/'' \<notin> set v" "v \<noteq> []"
  shows "path_segments (CHR ''/'' # u @ CHR ''/'' # w @ CHR ''/'' # v) = [u, w, v]"
proof -
  have "js_split (\<lambda>c. c = CHR ''/'') (w @ CHR ''/'' # v) = w # js_split (\<lambda>c. c = CHR ''/'') v"
    "js_split (\<lambda>c. c = CHR ''/'') (u @ CHR ''/'' # w @ CHR ''/'' # v)
       = u # js_split (\<lambda>c. c = CHR ''/'') (w @ CHR ''/'' # v)"
    "js_split (\<lambda>c. c = CHR ''/'') v = [v]"
    using assms by (auto intro!: js_split_sep js_split_word)
  then show ?thesis using assms by (simp add: path_segments_def)
qed

lemma unreserved_lower [simp]: "unreserved (ascii_lower c) \<longleftrightarrow> unreserved c"
  by (auto simp: ascii_lower_def unreserved_def is_digit_def)

lemma encode_unreserved: "(\<forall>c \<in> set x. unreserved c) \<Longrightarrow> encodeURIComponent x = x"
  by (induction x) (simp_all add: pct_char_def)

lemma percent_in_encoded: "c \<in> set x \<Longrightarrow> \<not> unreserved c \<Longrightarrow> CHR ''%'' \<in> set (encodeURIComponent x)"
proof (induction x)
  case (Cons d x)
  then show ?case by (cases "unreserved d") (auto simp: pct_char_def)
qed simp

lemma unreserved_of_encoded: "(\<forall>c \<in> set (encodeURIComponent x). unreserved c) \<Longrightarrow> (\<forall>c \<in> set x. unreserved c)"
  using percent_in_encoded not_unreserved_percent by blast

lemma lower_encode: "(\<forall>c \<in> set w. unreserved c) \<Longrightarrow> lower (encodeURIComponent x) = w \<longleftrightarrow> lower x = w"
proof
  assume u: "\<forall>c \<in> set w. unreserved c"
  { assume l: "lower (encodeURIComponent x) = w"
    then have "\<forall>c \<in> set (encodeURIComponent x). unreserved c" using u by (auto simp: lower_def)
    then show "lower x = w" using l encode_unreserved [OF unreserved_of_encoded, of x] by simp }
  assume l: "lower x = w"
  then have "\<forall>c \<in> set x. unreserved c" using u by (auto simp: lower_def)
  then show "lower (encodeURIComponent x) = w" using l encode_unreserved [of x] by simp
qed

lemma lower_routes [simp]:
  "lower ''overview'' = ''overview''" "lower ''sites'' = ''sites''" "lower ''logs'' = ''logs''" "lower ''security'' = ''security''"
  "lower ''monitoring'' = ''monitoring''" "lower ''nodes'' = ''nodes''" "lower ''new'' = ''new''"
  "lower ''certificates'' = ''certificates''" "lower ''settings'' = ''settings''"
  by code_simp+

lemma encode_new: "lower (encodeURIComponent x) = ''new'' \<longleftrightarrow> lower x = ''new''"
  by (rule lower_encode) (simp add: unreserved_def)

lemma detail_link_segments:
  assumes "CHR ''/'' \<notin> set w" "w \<noteq> []" "x \<noteq> []"
  shows "path_segments (CHR ''/'' # w @ CHR ''/'' # encodeURIComponent x) = [w, encodeURIComponent x]"
  using assms by (intro path_segments_two) (simp_all add: encodeURIComponent_no_slash)

lemmas route_simps = route_matches_def route_table_def List.map_filter_def

text \<open>
  Every detail link the console builds from an identifier leads to its page and back to that
  identifier: the path of a site, node, log, monitored node or site's traffic matches exactly one route,
  whose parameter decodes to the identifier, whatever characters it holds; the one exception is a site
  called "new", in any case of its letters, whose link also matches the page that creates a site.
\<close>

theorem detail_links_route:
  assumes "x \<noteq> []"
  shows "route_matches (''/nodes/'' @ encodeURIComponent x) = [(NodeDetailPage, [(''nodeId'', x)])]
    \<and> route_matches (''/logs/'' @ encodeURIComponent x) = [(LogDetailPage, [(''logId'', x)])]
    \<and> route_matches (''/monitoring/nodes/'' @ encodeURIComponent x) = [(MonitoringNodeHistoryPage, [(''nodeId'', x)])]
    \<and> route_matches (''/overview/sites/'' @ encodeURIComponent x) = [(OverviewSitePage, [(''siteId'', x)])]
    \<and> (route_matches (''/sites/'' @ encodeURIComponent x) = [(SiteDetailPage, [(''siteId'', x)])] \<longleftrightarrow> lower x \<noteq> ''new'')"
proof -
  have "path_segments (''/monitoring/nodes/'' @ encodeURIComponent x) = [''monitoring'', ''nodes'', encodeURIComponent x]"
    "path_segments (''/overview/sites/'' @ encodeURIComponent x) = [''overview'', ''sites'', encodeURIComponent x]"
    using assms path_segments_three [of "''monitoring''" "''nodes''" "encodeURIComponent x"]
      path_segments_three [of "''overview''" "''sites''" "encodeURIComponent x"]
    by (simp_all add: encodeURIComponent_no_slash)
  then show ?thesis
    using detail_link_segments [of "''nodes''" x] detail_link_segments [of "''logs''" x]
      detail_link_segments [of "''sites''" x] assms encode_new [of x]
    by (auto simp: route_simps)
qed

theorem detail_links_route_witness:
  "route_matches (''/nodes/'' @ encodeURIComponent ''a/b'') = [(NodeDetailPage, [(''nodeId'', ''a/b'')])]"
  using detail_links_route [of "''a/b''"] by simp

text \<open>The link a message opens leads to the page of the site or node it is about.\<close>

lemma message_target_routes:
  assumes "message_target m = Some t" "m_resource_type m = Some ''node''" "m_resource_id m = Some i" "i \<noteq> []"
  shows "t = ''/nodes/'' @ encodeURIComponent i"
  using assms by (auto simp: message_target_def)

definition sidebar_targets :: "string list" where
  "sidebar_targets = map snd (concat (map snd sidebar_groups))"

text \<open>The first segment of a path with a leading slash.\<close>

definition first_segment :: "string \<Rightarrow> string" where
  "first_segment p = takeWhile (\<lambda>c. c \<noteq> CHR ''/'') (tl p)"

lemma item_active_first:
  assumes "CHR ''/'' \<notin> set w" "item_active p (CHR ''/'' # w)"
  shows "first_segment p = w"
proof -
  have t: "takeWhile (\<lambda>c. c \<noteq> CHR ''/'') (w @ r) = w @ takeWhile (\<lambda>c. c \<noteq> CHR ''/'') r" for r
    using assms(1) by (intro takeWhile_append2) auto
  from assms(2) consider "p = CHR ''/'' # w" | r where "p = CHR ''/'' # w @ CHR ''/'' # r"
    by (auto simp: item_active_def starts_with_iff)
  then show ?thesis
  proof cases
    case 1
    then show ?thesis using t [of "[]"] by (simp add: first_segment_def)
  next
    case 2
    then show ?thesis using t [of "CHR ''/'' # r"] by (simp add: first_segment_def)
  qed
qed

lemma sidebar_targets_shape:
  "list_all (\<lambda>v. v = CHR ''/'' # tl v \<and> CHR ''/'' \<notin> set (tl v)) sidebar_targets"
  by code_simp

lemma sidebar_targets_sections:
  "list_all (\<lambda>t. shell_section t = tl t \<and> \<not> shell_detail t \<and> CHR ''/'' # tl t = t \<and>
     map_of pageNames (tl t) = (if t = ''/certificates'' then None else Some (tl t))) sidebar_targets"
  by code_simp

lemma sidebar_targets_members [simp]:
  "''/sites'' \<in> set sidebar_targets" "''/nodes'' \<in> set sidebar_targets" "''/certificates'' \<in> set sidebar_targets"
  by code_simp+

text \<open>
  The side bar never highlights two entries, and it highlights the right one: an entry is active
  exactly on its own page and the pages below it.
\<close>

theorem sidebar_highlight:
  assumes "t \<in> set sidebar_targets"
  shows "(item_active p t \<longleftrightarrow> p = t \<or> (\<exists>r. p = t @ ''/'' @ r))
       \<and> (\<forall>u \<in> set sidebar_targets. item_active p t \<and> item_active p u \<longrightarrow> u = t)"
proof (intro conjI ballI impI)
  show "item_active p t \<longleftrightarrow> p = t \<or> (\<exists>r. p = t @ ''/'' @ r)"
    by (simp add: item_active_def starts_with_iff)
  fix u assume u: "u \<in> set sidebar_targets" and a: "item_active p t \<and> item_active p u"
  have "t = CHR ''/'' # tl t" "CHR ''/'' \<notin> set (tl t)" "u = CHR ''/'' # tl u" "CHR ''/'' \<notin> set (tl u)"
    using sidebar_targets_shape assms u by (auto simp: list_all_iff)
  then show "u = t" using a item_active_first [of "tl t" p] item_active_first [of "tl u" p] by metis
qed

theorem sidebar_highlight_witness:
  "item_active ''/sites/new'' ''/sites'' \<and> \<not> item_active ''/sites/new'' ''/nodes''"
  using sidebar_highlight [OF sidebar_targets_members(1), of "''/sites/new''"]
    sidebar_highlight [OF sidebar_targets_members(2), of "''/sites/new''"] by simp

text \<open>
  The breadcrumb always leads back to the section of the page shown, but it misnames one section:
  a path below "/certificates", which has no entry in the table of names, is labelled as the overview.
\<close>

theorem breadcrumb_sections:
  assumes "t \<in> set sidebar_targets"
  shows "breadcrumb t = [Lnk t [Txt [Zh (if t = ''/certificates'' then ''overview'' else tl t)]]]"
  using sidebar_targets_sections assms by (auto simp: list_all_iff breadcrumb_def)

theorem breadcrumb_sections_witness:
  "breadcrumb ''/certificates'' = [Lnk ''/certificates'' [Txt [Zh ''overview'']]]
   \<and> breadcrumb ''/nodes'' = [Lnk ''/nodes'' [Txt [Zh ''nodes'']]]"
  using breadcrumb_sections [OF sidebar_targets_members(3)] breadcrumb_sections [OF sidebar_targets_members(2)]
  by simp

end
