(* ===== verification/Charts.thy ===== *)
theory Charts
  imports View
begin

text \<open>
  The frame of the charts (frontend/src/components/ui/chart.tsx): the style sheet that gives every line its colour,
  the content of the tooltip and of the legend, and the configuration both look names and colours up in.  Drawing,
  and the choice of the items under the pointer, are the chart library's: it calls the tooltip with its payload.
\<close>

section \<open>The configuration\<close>

text \<open>A theme is a map from the names of \<open>THEMES\<close> to colours; the library's components for icons are their names.\<close>

definition THEMES :: "(string \<times> string) list" where
  "THEMES = [(''light'', []), (''dark'', ''.dark'')]"

record chart_entry =
  ce_label :: "ui_text option"
  ce_icon :: "string option"
  ce_color :: "string option"
  ce_theme :: "(string \<Rightarrow> string option) option"

type_synonym chart_config = "(string \<times> chart_entry) list"

definition labelled :: "ui_text \<Rightarrow> string \<Rightarrow> chart_entry" where
  "labelled l c = \<lparr>ce_label = Some l, ce_icon = None, ce_color = Some c, ce_theme = None\<rparr>"

section \<open>The style sheet\<close>

definition chart_id :: "string option \<Rightarrow> string \<Rightarrow> string" where
  "chart_id i uniqueId = ''chart-'' @ nullish i (filter (\<lambda>c. c \<noteq> CHR '':'') uniqueId)"

definition colorConfig :: "chart_config \<Rightarrow> chart_config" where
  "colorConfig config = filter (\<lambda>(k, e). ce_theme e \<noteq> None \<or> truthy_str (ce_color e)) config"

text \<open>\<open>null\<close> joins as nothing.\<close>

definition style_line :: "string \<Rightarrow> string \<times> chart_entry \<Rightarrow> string" where
  "style_line theme ke =
     (let color = (case Option.bind (ce_theme (snd ke)) (\<lambda>t. t theme) of Some c \<Rightarrow> Some c | None \<Rightarrow> ce_color (snd ke))
      in if truthy_str color then ''  --color-'' @ fst ke @ '': '' @ the color @ '';'' else [])"

definition style_rule :: "string \<Rightarrow> chart_config \<Rightarrow> string \<times> string \<Rightarrow> string" where
  "style_rule i cc theme =
     ''\<newline>'' @ snd theme @ '' [data-chart='' @ i @ ''] {\<newline>'' @ js_join ''\<newline>'' (map (style_line (fst theme)) cc) @ ''\<newline>}\<newline>''"

definition ChartStyle :: "string \<Rightarrow> chart_config \<Rightarrow> string option" where
  "ChartStyle i config =
     (if colorConfig config = [] then None
      else Some (js_join ''\<newline>'' (map (style_rule i (colorConfig config)) THEMES)))"

definition ChartContainer :: "string option \<Rightarrow> string \<Rightarrow> chart_config \<Rightarrow> 'e view list \<Rightarrow> 'e view" where
  "ChartContainer i uniqueId config children =
     Grp (''chart '' @ chart_id i uniqueId)
       ((case ChartStyle (chart_id i uniqueId) config of None \<Rightarrow> [] | Some css \<Rightarrow> [Grp (''style '' @ css) []]) @ children)"

section \<open>The payload\<close>

text \<open>
  A property of the payload: undefined, null, a number, or a string, which may be a date in the browser's format.
  \<open>ti_type_none\<close> is \<open>type === "none"\<close>, \<open>ti_props\<close> the item's other properties, \<open>ti_row\<close> its \<open>payload\<close>, the row.
\<close>

datatype chart_value = VUndefined | VNull | VNum rat | VText ui_text

record tooltip_item =
  ti_dataKey :: "string option"
  ti_name :: "string option"
  ti_value :: chart_value
  ti_color :: "string option"
  ti_type_none :: bool
  ti_props :: "(string \<times> chart_value) list"
  ti_row :: "(string \<times> chart_value) list option"

definition opt_value :: "string option \<Rightarrow> chart_value" where
  "opt_value v = (case v of None \<Rightarrow> VUndefined | Some s \<Rightarrow> VText [Raw s])"

definition item_field :: "tooltip_item \<Rightarrow> string \<Rightarrow> chart_value" where
  "item_field it k =
     (if k = ''dataKey'' then opt_value (ti_dataKey it) else if k = ''name'' then opt_value (ti_name it)
      else if k = ''value'' then ti_value it else if k = ''color'' then opt_value (ti_color it)
      else nullish (map_of (ti_props it) k) VUndefined)"

definition row_field :: "tooltip_item \<Rightarrow> string \<Rightarrow> chart_value" where
  "row_field it k = nullish (map_of (nullish (ti_row it) []) k) VUndefined"

text \<open>A text as a key: one with a localized part is the key of no chart.\<close>

fun as_key :: "ui_text \<Rightarrow> string option" where
  "as_key [] = Some []"
| "as_key (Raw s # t) = map_option (\<lambda>r. s @ r) (as_key t)"
| "as_key (p # t) = None"

definition entry_of :: "chart_config \<Rightarrow> ui_text \<Rightarrow> chart_entry option" where
  "entry_of config t = Option.bind (as_key t) (map_of config)"

definition getPayloadConfigFromPayload :: "chart_config \<Rightarrow> tooltip_item option \<Rightarrow> string \<Rightarrow> chart_entry option" where
  "getPayloadConfigFromPayload config payload k =
     Option.bind payload (\<lambda>it.
       let configLabelKey = (case item_field it k of VText t \<Rightarrow> t | _ \<Rightarrow> (case row_field it k of VText t \<Rightarrow> t | _ \<Rightarrow> [Raw k]))
       in (case entry_of config configLabelKey of Some e \<Rightarrow> Some e | None \<Rightarrow> map_of config k))"

section \<open>The tooltip\<close>

datatype tooltip_indicator = Dot | Line | Dashed

record tooltip_props =
  tp_indicator :: tooltip_indicator
  tp_hideLabel :: bool
  tp_hideIndicator :: bool
  tp_labelFormatter :: "(ui_text option \<Rightarrow> tooltip_item list \<Rightarrow> ui_text) option"
  tp_formatter :: "(chart_value \<Rightarrow> string \<Rightarrow> tooltip_item \<Rightarrow> ui_text list) option"
  tp_color :: "string option"
  tp_nameKey :: "string option"
  tp_labelKey :: "string option"

definition default_tooltip :: tooltip_props where
  "default_tooltip = \<lparr>tp_indicator = Dot, tp_hideLabel = False, tp_hideIndicator = False, tp_labelFormatter = None,
     tp_formatter = None, tp_color = None, tp_nameKey = None, tp_labelKey = None\<rparr>"

text \<open>\<open>a ?? b ?? c ?? "value"\<close>.\<close>

definition first_key :: "string option list \<Rightarrow> string" where
  "first_key ks = (case find (\<lambda>k. k \<noteq> None) ks of Some (Some k) \<Rightarrow> k | _ \<Rightarrow> ''value'')"

definition shown_text :: "ui_text option \<Rightarrow> ui_text option" where
  "shown_text t = (case t of None \<Rightarrow> None | Some t \<Rightarrow> if as_key t = Some [] then None else Some t)"

definition tooltipLabel :: "chart_config \<Rightarrow> tooltip_props \<Rightarrow> chart_value \<Rightarrow> tooltip_item list \<Rightarrow> ui_text option" where
  "tooltipLabel config p label payload =
     (case (tp_hideLabel p, payload) of
        (False, item # rest) \<Rightarrow>
          let k = first_key [tp_labelKey p, ti_dataKey item, ti_name item];
              itemConfig = getPayloadConfigFromPayload config (Some item) k;
              v = (case (tp_labelKey p, label) of
                     (None, VText t) \<Rightarrow> Some (nullish (Option.bind (entry_of config t) ce_label) t)
                   | _ \<Rightarrow> Option.bind itemConfig ce_label)
          in (case tp_labelFormatter p of Some f \<Rightarrow> Some (f v payload) | None \<Rightarrow> shown_text v)
      | _ \<Rightarrow> None)"

definition value_texts :: "chart_value \<Rightarrow> ui_text list" where
  "value_texts v =
     (case v of VNum r \<Rightarrow> [[LocalNumber (fst (quotient_of r)) (snd (quotient_of r))]] | VText t \<Rightarrow> [t] | _ \<Rightarrow> [])"

definition indicatorColor :: "tooltip_props \<Rightarrow> tooltip_item \<Rightarrow> string" where
  "indicatorColor p it =
     (case tp_color p of Some c \<Rightarrow> c
      | None \<Rightarrow> (case row_field it ''fill'' of VText [Raw c] \<Rightarrow> c | _ \<Rightarrow> nullish (ti_color it) []))"

text \<open>A row without a formatter's text of its own: icon or indicator, the nested label, the name and the value.\<close>

definition default_row ::
  "tooltip_props \<Rightarrow> bool \<Rightarrow> ui_text option \<Rightarrow> chart_entry option \<Rightarrow> tooltip_item \<Rightarrow> 'e view list" where
  "default_row p nestLabel lab itemConfig item =
     (case Option.bind itemConfig ce_icon of
        Some i \<Rightarrow> [Grp (''icon '' @ i) []]
      | None \<Rightarrow> only_if (\<not> tp_hideIndicator p) [Grp (''indicator '' @ indicatorColor p item) []]) @
     only_if nestLabel (case lab of None \<Rightarrow> [] | Some t \<Rightarrow> [Txt t]) @
     [Txt (nullish (Option.bind itemConfig ce_label) (case ti_name item of None \<Rightarrow> [] | Some n \<Rightarrow> [Raw n]))] @
     map Txt (value_texts (ti_value item))"

definition tooltip_row :: "chart_config \<Rightarrow> tooltip_props \<Rightarrow> bool \<Rightarrow> ui_text option \<Rightarrow> tooltip_item \<Rightarrow> 'e view" where
  "tooltip_row config p nestLabel lab item =
     (let itemConfig = getPayloadConfigFromPayload config (Some item) (first_key [tp_nameKey p, ti_name item, ti_dataKey item])
      in Grp ''item''
        (case tp_formatter p of
           Some f \<Rightarrow>
             if ti_value item \<noteq> VUndefined \<and> truthy_str (ti_name item) then map Txt (f (ti_value item) (the (ti_name item)) item)
             else default_row p nestLabel lab itemConfig item
         | None \<Rightarrow> default_row p nestLabel lab itemConfig item))"

definition ChartTooltipContent ::
  "chart_config \<Rightarrow> tooltip_props \<Rightarrow> bool \<Rightarrow> chart_value \<Rightarrow> tooltip_item list \<Rightarrow> 'e view list" where
  "ChartTooltipContent config p active label payload =
     (let lab = tooltipLabel config p label payload; nestLabel = (length payload = 1 \<and> tp_indicator p \<noteq> Dot)
      in if \<not> active \<or> payload = [] then []
         else [Grp ''tooltip''
                 (only_if (\<not> nestLabel) (case lab of None \<Rightarrow> [] | Some t \<Rightarrow> [Txt t]) @
                  map (tooltip_row config p nestLabel lab) (filter (\<lambda>item. \<not> ti_type_none item) payload))])"

section \<open>The legend\<close>

definition legend_item :: "chart_config \<Rightarrow> bool \<Rightarrow> string option \<Rightarrow> tooltip_item \<Rightarrow> 'e view" where
  "legend_item config hideIcon nameKey item =
     (let itemConfig = getPayloadConfigFromPayload config (Some item) (first_key [nameKey, ti_dataKey item])
      in Grp ''item''
        ((case Option.bind itemConfig ce_icon of
            Some i \<Rightarrow> [Grp ((if hideIcon then ''color '' @ nullish (ti_color item) [] else ''icon '' @ i)) []]
          | None \<Rightarrow> [Grp (''color '' @ nullish (ti_color item) []) []]) @
         (case Option.bind itemConfig ce_label of None \<Rightarrow> [] | Some t \<Rightarrow> [Txt t])))"

definition ChartLegendContent :: "chart_config \<Rightarrow> bool \<Rightarrow> string option \<Rightarrow> tooltip_item list \<Rightarrow> 'e view list" where
  "ChartLegendContent config hideIcon nameKey payload =
     (if payload = [] then []
      else [Grp ''legend'' (map (legend_item config hideIcon nameKey) (filter (\<lambda>item. \<not> ti_type_none item) payload))])"

section \<open>Laws\<close>

text \<open>What a style sheet is made of: its own punctuation, the chart's id, and the keys and colours of the configuration.\<close>

definition style_char :: "char \<Rightarrow> bool" where
  "style_char c \<longleftrightarrow> is_alnum c \<or> c \<in> set '' -_():;.{}[]=\<newline>''"

lemma js_join_all: "list_all P d \<Longrightarrow> list_all (list_all P) ws \<Longrightarrow> list_all P (js_join d ws)"
  by (induction d ws rule: js_join.induct) auto

lemma style_char_literals:
  "list_all style_char ''\<newline>''" "list_all style_char '' [data-chart=''" "list_all style_char ''] {\<newline>''"
  "list_all style_char ''\<newline>}\<newline>''" "list_all style_char ''  --color-''" "list_all style_char '': ''" "list_all style_char '';''"
  "list_all style_char ''.dark''"
  by (simp_all add: style_char_def is_alnum_def is_digit_def)

lemma style_rule_chars:
  assumes "list_all style_char i" "list_all style_char (snd theme)"
    "\<forall>(k, e) \<in> set cc. list_all style_char k \<and> ce_theme e = None \<and> list_all style_char (nullish (ce_color e) [])"
  shows "list_all style_char (style_rule i cc theme)"
proof -
  have "list_all style_char (style_line (fst theme) ke)" if "ke \<in> set cc" for ke
  proof -
    have "list_all style_char (fst ke)" "ce_theme (snd ke) = None" "list_all style_char (nullish (ce_color (snd ke)) [])"
      using assms(3) that by (auto simp: case_prod_beta)
    then show ?thesis using style_char_literals by (cases "ce_color (snd ke)") (simp_all add: style_line_def)
  qed
  then have "list_all (list_all style_char) (map (style_line (fst theme)) cc)" unfolding list_all_iff by auto
  then show ?thesis using assms(1,2) style_char_literals js_join_all [OF style_char_literals(1)] by (simp add: style_rule_def)
qed

lemma chart_style_chars:
  assumes "ChartStyle i config = Some css" "list_all style_char i"
    "\<forall>(k, e) \<in> set config. list_all style_char k \<and> ce_theme e = None \<and> list_all style_char (nullish (ce_color e) [])"
  shows "list_all style_char css"
proof -
  have "css = js_join ''\<newline>'' (map (style_rule i (colorConfig config)) THEMES)"
    using assms(1) by (simp add: ChartStyle_def split: if_splits)
  moreover have "\<forall>t \<in> set THEMES. list_all style_char (style_rule i (colorConfig config) t)"
    using assms(2,3) style_char_literals(8) by (intro ballI style_rule_chars) (auto simp: THEMES_def colorConfig_def)
  then have "list_all (list_all style_char) (map (style_rule i (colorConfig config)) THEMES)" unfolding list_all_iff by auto
  ultimately show ?thesis using js_join_all [OF style_char_literals(1)] by simp
qed

text \<open>With one line and an indicator other than the dot, a formatter's text takes the place of the label as well.\<close>

lemma tooltip_one_line:
  assumes "tp_indicator p \<noteq> Dot" "tp_formatter p = Some f" "ti_value it \<noteq> VUndefined" "truthy_str (ti_name it)" "\<not> ti_type_none it"
  shows "ChartTooltipContent config p True label [it] = [Grp ''tooltip'' [Grp ''item'' (map Txt (f (ti_value it) (the (ti_name it)) it))]]"
  using assms by (simp add: ChartTooltipContent_def tooltip_row_def Let_def)

lemma tooltip_more_lines:
  assumes "2 \<le> length payload" "tp_formatter p = Some f" "tp_labelFormatter p = Some g" "\<not> tp_hideLabel p"
    "\<forall>it \<in> set payload. ti_value it \<noteq> VUndefined \<and> truthy_str (ti_name it) \<and> \<not> ti_type_none it"
  shows "\<exists>v. ChartTooltipContent config p True label payload =
    [Grp ''tooltip'' (Txt (g v payload) # map (\<lambda>it. Grp ''item'' (map Txt (f (ti_value it) (the (ti_name it)) it))) payload)]"
proof -
  obtain it its where p: "payload = it # its" using assms(1) by (cases payload) auto
  then obtain v where "tooltipLabel config p label payload = Some (g v payload)"
    using assms(3,4) by (auto simp: tooltipLabel_def Let_def)
  moreover have "filter (\<lambda>item. \<not> ti_type_none item) payload = payload" using assms(5) by (intro filter_True) simp
  moreover have "map (tooltip_row config p False lab) payload =
      map (\<lambda>it. Grp ''item'' (map Txt (f (ti_value it) (the (ti_name it)) it))) payload" for lab
    using assms(2,5) by (intro map_cong) (simp_all add: tooltip_row_def Let_def)
  moreover have "length payload \<noteq> Suc 0" "payload \<noteq> []" using assms(1) by auto
  ultimately show ?thesis by (intro exI [of _ v]) (simp add: ChartTooltipContent_def Let_def del: filter_eq_Cons_iff)
qed

end
