(* ===== verification/Overview.thy ===== *)
theory Overview
  imports Widgets Charts "HOL-Library.Multiset"
begin

text \<open>
  The traffic of the last day (frontend/src/features/overview/overview-page.tsx, overview-site-page.tsx): the
  totals, the chart of one metric, the codes, and the sites in the order chosen by the table's heads.  The
  order of names is that of the browser's collator for zh-CN, which rests on locale data: \<open>collate\<close> stands for
  its \<open>compare\<close>, and \<open>total_compare\<close> for what the standard promises of it, a consistent comparator.
\<close>

section \<open>Sorting\<close>

datatype site_sort_key = ByName | ByRequests | ByBytes
datatype sort_direction = Asc | Desc

record site_sort =
  so_key :: site_sort_key
  so_direction :: sort_direction

definition defaultSiteSortDirection :: "site_sort_key \<Rightarrow> sort_direction" where
  "defaultSiteSortDirection k = (if k = ByName then Asc else Desc)"

definition flip_direction :: "sort_direction \<Rightarrow> sort_direction" where
  "flip_direction d = (if d = Asc then Desc else Asc)"

text \<open>The name shown and compared; the last literal is the UTF-8 form of "unnamed site".\<close>

definition overviewSiteName :: "overview_site \<Rightarrow> string" where
  "overviewSiteName x = str_or (os_name x) (str_or (os_id x)
     (map char_of [0xE6 :: nat, 0x9C, 0xAA, 0xE5, 0x91, 0xBD, 0xE5, 0x90, 0x8D, 0xE7, 0xAB, 0x99, 0xE7, 0x82, 0xB9]))"

definition key_compare :: "(string \<Rightarrow> string \<Rightarrow> int) \<Rightarrow> site_sort_key \<Rightarrow> overview_site \<Rightarrow> overview_site \<Rightarrow> int" where
  "key_compare collate k l r =
     (case k of
        ByName \<Rightarrow> collate (overviewSiteName l) (overviewSiteName r)
      | ByRequests \<Rightarrow> os_requests l - os_requests r
      | ByBytes \<Rightarrow> os_bytes l - os_bytes r)"

definition site_compare :: "(string \<Rightarrow> string \<Rightarrow> int) \<Rightarrow> site_sort \<Rightarrow> overview_site \<Rightarrow> overview_site \<Rightarrow> int" where
  "site_compare collate so l r =
     (let comparison = key_compare collate (so_key so) l r in
      if comparison \<noteq> 0 then (if so_direction so = Desc then - comparison else comparison)
      else (let nameComparison = collate (overviewSiteName l) (overviewSiteName r) in
            if nameComparison \<noteq> 0 then nameComparison else collate (os_id l) (os_id r)))"

text \<open>\<open>sort(compare)\<close> is stable: an element goes behind those it is not before.\<close>

fun insert_by :: "('a \<Rightarrow> 'a \<Rightarrow> int) \<Rightarrow> 'a \<Rightarrow> 'a list \<Rightarrow> 'a list" where
  "insert_by c x [] = [x]"
| "insert_by c x (y # ys) = (if c y x \<le> 0 then y # insert_by c x ys else x # y # ys)"

definition js_sort :: "('a \<Rightarrow> 'a \<Rightarrow> int) \<Rightarrow> 'a list \<Rightarrow> 'a list" where
  "js_sort c xs = fold (insert_by c) xs []"

definition sortOverviewSites :: "(string \<Rightarrow> string \<Rightarrow> int) \<Rightarrow> overview_site list \<Rightarrow> site_sort \<Rightarrow> overview_site list" where
  "sortOverviewSites collate xs so = js_sort (site_compare collate so) xs"

section \<open>State\<close>

datatype metric = Requests | Bytes | ErrorRequests

record overview_page =
  ovp_query :: "overview query"
  ovp_fetching :: bool
  ovp_metric :: metric
  ovp_sort :: site_sort
  ovp_page :: nat

datatype overview_event =
    RefreshOverview | PickMetric metric | SortSites site_sort_key | OverviewPageTo int
  | OverviewArrives "overview query" | OverviewFetching bool

definition overview_sites :: "overview_page \<Rightarrow> overview_site list" where
  "overview_sites s = (case q_data (ovp_query s) of None \<Rightarrow> [] | Some d \<Rightarrow> ov_sites d)"

definition sortedSites :: "(string \<Rightarrow> string \<Rightarrow> int) \<Rightarrow> overview_page \<Rightarrow> overview_site list" where
  "sortedSites collate s = sortOverviewSites collate (overview_sites s) (ovp_sort s)"

definition sitesPagination :: "(string \<Rightarrow> string \<Rightarrow> int) \<Rightarrow> overview_page \<Rightarrow> overview_site pagination" where
  "sitesPagination collate s = useListPagination (sortedSites collate s) LIST_PAGE_SIZE (ovp_page s)"

definition next_sort :: "site_sort_key \<Rightarrow> site_sort \<Rightarrow> site_sort" where
  "next_sort k so = \<lparr>so_key = k,
     so_direction = (if so_key so = k then flip_direction (so_direction so) else defaultSiteSortDirection k)\<rparr>"

definition handleSiteSort :: "(string \<Rightarrow> string \<Rightarrow> int) \<Rightarrow> site_sort_key \<Rightarrow> overview_page \<Rightarrow> overview_page" where
  "handleSiteSort collate k s = s\<lparr>ovp_sort := next_sort k (ovp_sort s), ovp_page := setPage (sitesPagination collate s) 1\<rparr>"

fun overview_step :: "(string \<Rightarrow> string \<Rightarrow> int) \<Rightarrow> (overview_event, overview_page) component" where
  "overview_step collate RefreshOverview s = (s, [Refetch [''overview'']])"
| "overview_step collate (PickMetric m) s = (s\<lparr>ovp_metric := m\<rparr>, [])"
| "overview_step collate (SortSites k) s = (handleSiteSort collate k s, [])"
| "overview_step collate (OverviewPageTo k) s = (s\<lparr>ovp_page := setPage (sitesPagination collate s) k\<rparr>, [])"
| "overview_step collate (OverviewArrives q) s = (s\<lparr>ovp_query := q\<rparr>, [])"
| "overview_step collate (OverviewFetching b) s = (s\<lparr>ovp_fetching := b\<rparr>, [])"

definition overview_init :: "overview query \<Rightarrow> overview_page" where
  "overview_init q =
     \<lparr>ovp_query = q, ovp_fetching = True, ovp_metric = Requests, ovp_sort = \<lparr>so_key = ByRequests, so_direction = Desc\<rparr>, ovp_page = 1\<rparr>"

section \<open>The view\<close>

definition ratio :: "int \<Rightarrow> int \<Rightarrow> rat" where
  "ratio part whole = (if whole \<noteq> 0 then of_int part / of_int whole else 0)"

text \<open>\<open>metricConfig\<close>: the label, the colour and the format of a metric; and its column.\<close>

fun metric_label :: "metric \<Rightarrow> ui_text" where
  "metric_label Requests = [Zh ''requests'']"
| "metric_label Bytes = [Zh ''traffic'']"
| "metric_label ErrorRequests = [Zh ''error requests'']"

fun metric_color :: "metric \<Rightarrow> string" where
  "metric_color Requests = ''var(--chart-1)''"
| "metric_color Bytes = ''var(--chart-2)''"
| "metric_color ErrorRequests = ''var(--chart-5)''"

fun metric_format :: "metric \<Rightarrow> int \<Rightarrow> ui_text" where
  "metric_format Bytes v = [Raw (formatBytes (Some v))]"
| "metric_format m v = formatCompact (Some v)"

fun metric_value :: "metric \<Rightarrow> overview_point \<Rightarrow> int" where
  "metric_value Requests p = op_requests p"
| "metric_value Bytes p = op_bytes p"
| "metric_value ErrorRequests p = op_error_requests p"

definition chart_label :: "overview_point \<Rightarrow> ui_text" where
  "chart_label p =
     (case js_date_parse (op_time p) of None \<Rightarrow> [Raw ''Invalid Date''] | Some t \<Rightarrow> [LocalTime ''month, day and hour, 24 hours'' t])"

text \<open>A point is drawn at its label on the one axis and its value, as the metric formats it, on the other.\<close>

fun metric_key :: "metric \<Rightarrow> string" where
  "metric_key Requests = ''requests''"
| "metric_key Bytes = ''bytes''"
| "metric_key ErrorRequests = ''error_requests''"

definition overview_config :: "metric \<Rightarrow> chart_config" where
  "overview_config m = [(metric_key m, labelled (metric_label m) (metric_color m))]"

text \<open>\<open>Number(value)\<close>, a count or nothing.\<close>

definition value_count :: "chart_value \<Rightarrow> int" where
  "value_count v = (case v of VNum r \<Rightarrow> \<lfloor>r\<rfloor> | _ \<Rightarrow> 0)"

definition overview_tooltip :: "metric \<Rightarrow> tooltip_props" where
  "overview_tooltip m =
     default_tooltip\<lparr>tp_indicator := Line, tp_labelKey := Some ''label'',
       tp_formatter := Some (\<lambda>v n it. [metric_label m, metric_format m (value_count v)])\<rparr>"

definition line_color :: "metric \<Rightarrow> string" where
  "line_color m = ''var(--color-'' @ metric_key m @ '')''"

definition OverviewLineChart :: "overview_point list \<Rightarrow> metric \<Rightarrow> 'e view" where
  "OverviewLineChart ps m = ChartContainer None [] (overview_config m)
     [Grp (''line '' @ line_color m)
        (map (\<lambda>p. Grp ''point'' [Txt (chart_label p), Txt (metric_format m (metric_value m p))]) ps)]"

definition metric_tabs :: "(metric \<Rightarrow> 'e) \<Rightarrow> 'e view list" where
  "metric_tabs pick = [Btn [Zh ''by requests''] False (pick Requests), Btn [Zh ''by traffic''] False (pick Bytes),
     Btn [Zh ''by errors''] False (pick ErrorRequests)]"

definition MetricCard :: "ui_text \<Rightarrow> ui_text \<Rightarrow> ui_text \<Rightarrow> string \<Rightarrow> 'e view" where
  "MetricCard label v meta tone = Grp (''card '' @ tone) [Txt label, Txt v, Txt meta]"

definition statusTone :: "int \<Rightarrow> string" where
  "statusTone code = (if 500 \<le> code then ''red'' else if 400 \<le> code then ''amber'' else if 300 \<le> code then ''sky'' else ''emerald'')"

definition status_code_row :: "int \<Rightarrow> overview_status_code \<Rightarrow> 'e view" where
  "status_code_row all x = Grp (''code '' @ statusTone (osc_code x))
     [Txt [Raw ''HTTP '', Raw (int_str (osc_code x))],
      Txt ([Raw (formatPercent (Some (ratio (osc_requests x) all)) 1), Zh '' (middle dot) ''] @ formatCompact (Some (osc_requests x)))]"

definition sort_head :: "ui_text \<Rightarrow> site_sort_key \<Rightarrow> site_sort \<Rightarrow> overview_event view" where
  "sort_head label k so =
     (let nextDirection = (if so_key so = k then flip_direction (so_direction so) else defaultSiteSortDirection k) in
      Grp (if so_key so = k then (if so_direction so = Asc then ''ascending'' else ''descending'') else ''none'')
       [Btn ([Zh ''sort by ''] @ label @ [Zh (if nextDirection = Asc then '', ascending'' else '', descending'')]) False (SortSites k)])"

definition site_traffic_row :: "overview_site \<Rightarrow> 'e view" where
  "site_traffic_row x = Grp ''row''
     [Txt [Raw (os_name x)], Txt (if js_join '', '' (os_domains x) \<noteq> [] then [Raw (js_join '', '' (os_domains x))] else [Zh ''no domain'']),
      Txt [Raw (formatNumber (Some (os_requests x)))], Txt [Raw (formatBytes (Some (os_bytes x)))],
      Txt [Raw (formatPercent (Some (ratio (os_error_requests x) (os_requests x))) 2)],
      Lnk (''/overview/sites/'' @ encodeURIComponent (os_id x)) [Txt [Zh ''analysis of '', Raw (os_name x)]]]"

definition overview_content :: "(string \<Rightarrow> string \<Rightarrow> int) \<Rightarrow> overview_page \<Rightarrow> overview \<Rightarrow> overview_event view list" where
  "overview_content collate s d =
     (let t = ov_totals d; errorRate = ratio (ot_error_requests t) (ot_requests t); p = sitesPagination collate s in
      [MetricCard [Zh ''requests''] [Raw (formatNumber (Some (ot_requests t)))] [Zh ''last 24 hours''] ''sky'',
       MetricCard [Zh ''traffic''] [Raw (formatBytes (Some (ot_bytes t)))] [Zh ''sent by the edges''] ''emerald'',
       MetricCard [Zh ''error requests''] [Raw (formatNumber (Some (ot_error_requests t)))] [Zh ''HTTP 4xx and 5xx''] ''amber'',
       MetricCard [Zh ''error rate''] [Raw (formatPercent (Some errorRate) 2)]
         [Raw (formatNumber (Some (int (length (ov_sites d))))), Zh '' sites''] (if 1 / 20 < errorRate then ''red'' else ''emerald''),
       Grp ''card'' ([Txt [Zh ''traffic trend''], Txt [Zh ''hourly, in the local time zone'']] @ metric_tabs PickMetric @
         [OverviewLineChart (ov_series d) (ovp_metric s)]),
       Grp ''card'' ([Txt [Zh ''status codes''], Txt [Raw (formatNumber (Some (ot_requests t))), Zh '' requests'']] @
         (if ov_status_codes d \<noteq> [] then map (status_code_row (ot_requests t)) (take 8 (ov_status_codes d))
          else [EmptyState [Zh ''no status codes''] None])),
       Grp ''card'' ([Txt [Zh ''traffic of the sites''], Txt [Zh ''last 24 hours, each site has its analysis'']] @
         (if ov_sites d \<noteq> [] then
            [sort_head [Zh ''site''] ByName (ovp_sort s), sort_head [Zh ''requests''] ByRequests (ovp_sort s),
             sort_head [Zh ''traffic''] ByBytes (ovp_sort s)] @
            map site_traffic_row (pg_items p) @ [ListPagination p [Zh ''sites''] False OverviewPageTo []]
          else [EmptyState [Zh ''no sites''] (Some [Zh ''shown once a site has traffic''])]))])"

definition OverviewPage :: "(string \<Rightarrow> string \<Rightarrow> int) \<Rightarrow> overview_page \<Rightarrow> overview_event view list" where
  "OverviewPage collate s =
     [PageHeader [Zh ''overview''] (Some [Zh ''traffic and state of the last 24 hours''])
       [Txt (case q_data (ovp_query s) of None \<Rightarrow> [Zh ''waiting for data''] | Some d \<Rightarrow> [Zh ''updated ''] @ formatDateTime (Some (ov_to d))),
        Btn [Zh ''refresh the overview''] (ovp_fetching s) RefreshOverview]] @
     only_if (q_loading (ovp_query s)) [PageLoading 4] @
     (case q_error (ovp_query s) of None \<Rightarrow> [] | Some e \<Rightarrow> [PageError [Zh ''loading failed''] e]) @
     (case q_data (ovp_query s) of None \<Rightarrow> [] | Some d \<Rightarrow> overview_content collate s d)"

fun overview_enabled :: "(string \<Rightarrow> string \<Rightarrow> int) \<Rightarrow> overview_page \<Rightarrow> overview_event \<Rightarrow> bool" where
  "overview_enabled collate s (OverviewArrives q) \<longleftrightarrow> True"
| "overview_enabled collate s (OverviewFetching b) \<longleftrightarrow> True"
| "overview_enabled collate s e \<longleftrightarrow> offers (OverviewPage collate s) e"

section \<open>One site\<close>

record overview_site_page =
  osp_siteId :: string
  osp_query :: "overview query"
  osp_metric :: metric
  osp_page :: nat

datatype overview_site_event = PickSiteMetric metric | StatusPageTo int | SiteOverviewArrives "overview query"

definition analysed_site :: "overview_site_page \<Rightarrow> overview_site option" where
  "analysed_site s = Option.bind (q_data (osp_query s)) (\<lambda>d. find (\<lambda>x. os_id x = osp_siteId s) (ov_sites d))"

definition statusPagination :: "overview_site_page \<Rightarrow> overview_status_code pagination" where
  "statusPagination s =
     useListPagination (case analysed_site s of None \<Rightarrow> [] | Some x \<Rightarrow> os_status_codes x) LIST_PAGE_SIZE (osp_page s)"

fun overview_site_step :: "(overview_site_event, overview_site_page) component" where
  "overview_site_step (PickSiteMetric m) s = (s\<lparr>osp_metric := m\<rparr>, [])"
| "overview_site_step (StatusPageTo k) s = (s\<lparr>osp_page := setPage (statusPagination s) k\<rparr>, [])"
| "overview_site_step (SiteOverviewArrives q) s = (s\<lparr>osp_query := q\<rparr>, [])"

definition overview_site_init :: "string \<Rightarrow> overview query \<Rightarrow> overview_site_page" where
  "overview_site_init i q = \<lparr>osp_siteId = i, osp_query = q, osp_metric = Requests, osp_page = 1\<rparr>"

definition SiteSummary :: "ui_text \<Rightarrow> string \<Rightarrow> 'e view" where
  "SiteSummary label v = Grp ''summary'' [Txt label, Txt [Raw v]]"

definition site_analysis :: "overview_site_page \<Rightarrow> overview_site \<Rightarrow> overview_site_event view list" where
  "site_analysis s x =
     [SiteSummary [Zh ''requests''] (formatNumber (Some (os_requests x))),
      SiteSummary [Zh ''traffic''] (formatBytes (Some (os_bytes x))),
      SiteSummary [Zh ''error rate''] (formatPercent (Some (ratio (os_error_requests x) (os_requests x))) 2),
      Grp ''card'' ([Txt [Zh ''trend of the site''], Txt [Zh ''hourly'']] @ metric_tabs PickSiteMetric @
        [OverviewLineChart (os_series x) (osp_metric s)]),
      Grp ''card'' ([Txt [Zh ''HTTP status codes''], Txt [Zh ''by requests, descending'']] @
        (if os_status_codes x \<noteq> [] then
           map (\<lambda>c. Grp ''code'' [Txt [Raw ''HTTP '', Raw (int_str (osc_code c))],
             Txt [Raw (formatNumber (Some (osc_requests c))), Zh '' (middle dot) '',
                  Raw (formatPercent (Some (ratio (osc_requests c) (os_requests x))) 1)]]) (pg_items (statusPagination s)) @
           [ListPagination (statusPagination s) [Zh ''status codes''] False StatusPageTo []]
         else [EmptyState [Zh ''no status codes''] None]))]"

definition OverviewSitePage :: "overview_site_page \<Rightarrow> overview_site_event view list" where
  "OverviewSitePage s =
     [PageHeader (case analysed_site s of None \<Rightarrow> [Zh ''requests of the site''] | Some x \<Rightarrow> [Raw (os_name x)])
       (Some (case analysed_site s of None \<Rightarrow> [Zh ''traffic of the site, last 24 hours'']
              | Some x \<Rightarrow> if js_join '', '' (os_domains x) \<noteq> [] then [Raw (js_join '', '' (os_domains x))]
                          else [Zh ''traffic of the site, last 24 hours'']))
       ([Lnk ''/overview'' [Txt [Zh ''back to the overview'']]] @
        (case analysed_site s of None \<Rightarrow> [] | Some x \<Rightarrow> [Lnk (''/sites/'' @ encodeURIComponent (os_id x)) [Txt [Zh ''manage the site'']]]))] @
     only_if (q_loading (osp_query s)) [PageLoading 4] @
     (case q_error (osp_query s) of None \<Rightarrow> [] | Some e \<Rightarrow> [PageError [Zh ''loading failed''] e]) @
     only_if (q_data (osp_query s) \<noteq> None \<and> analysed_site s = None)
       [EmptyState [Zh ''site not found''] (Some [Zh ''it may have been deleted''])] @
     (case analysed_site s of None \<Rightarrow> [] | Some x \<Rightarrow> site_analysis s x)"

fun overview_site_enabled :: "overview_site_page \<Rightarrow> overview_site_event \<Rightarrow> bool" where
  "overview_site_enabled s (SiteOverviewArrives q) \<longleftrightarrow> True"
| "overview_site_enabled s e \<longleftrightarrow> offers (OverviewSitePage s) e"

section \<open>Comparators\<close>

text \<open>A consistent comparator: opposite signs for swapped arguments, and transitive.\<close>

definition total_compare :: "('a \<Rightarrow> 'a \<Rightarrow> int) \<Rightarrow> bool" where
  "total_compare c \<longleftrightarrow> (\<forall>a b. c a b \<le> 0 \<longleftrightarrow> 0 \<le> c b a) \<and> (\<forall>a b d. c a b \<le> 0 \<longrightarrow> c b d \<le> 0 \<longrightarrow> c a d \<le> 0)"

lemma total_compareD:
  assumes "total_compare c"
  shows "c a b \<le> 0 \<longleftrightarrow> 0 \<le> c b a" "c a b \<le> 0 \<Longrightarrow> c b d \<le> 0 \<Longrightarrow> c a d \<le> 0" "c a b = 0 \<longleftrightarrow> c b a = 0" "c a b < 0 \<longleftrightarrow> 0 < c b a"
proof -
  have s: "c a b \<le> 0 \<longleftrightarrow> 0 \<le> c b a" "c b a \<le> 0 \<longleftrightarrow> 0 \<le> c a b" using assms by (auto simp: total_compare_def)
  then show "c a b \<le> 0 \<longleftrightarrow> 0 \<le> c b a" "c a b = 0 \<longleftrightarrow> c b a = 0" "c a b < 0 \<longleftrightarrow> 0 < c b a" by linarith+
  show "c a b \<le> 0 \<Longrightarrow> c b d \<le> 0 \<Longrightarrow> c a d \<le> 0" using assms unfolding total_compare_def by blast
qed

lemma total_compare_on: "total_compare c \<Longrightarrow> total_compare (\<lambda>l r. c (f l) (f r))"
  unfolding total_compare_def by blast

lemma total_compare_diff: "total_compare (\<lambda>l r. f l - f r)"
  by (auto simp: total_compare_def)

lemma total_compare_neg:
  assumes "total_compare c"
  shows "total_compare (\<lambda>l r. - c l r)"
proof -
  have "- c a d \<le> 0" if "- c a b \<le> 0" "- c b d \<le> 0" for a b d
    using that total_compareD(1) [OF assms, of b a] total_compareD(1) [OF assms, of d b] total_compareD(1) [OF assms, of d a]
      total_compareD(2) [OF assms, of d b a] by simp
  moreover have "- c a b \<le> 0 \<longleftrightarrow> 0 \<le> - c b a" for a b using total_compareD(1) [OF assms, of b a] by simp
  ultimately show ?thesis unfolding total_compare_def by blast
qed

lemma total_compare_then:
  assumes "total_compare c" "total_compare d"
  shows "total_compare (\<lambda>l r. if c l r \<noteq> 0 then c l r else d l r)"
proof -
  let ?e = "\<lambda>l r. if c l r \<noteq> 0 then c l r else d l r"
  have "?e x z \<le> 0" if "?e x y \<le> 0" "?e y z \<le> 0" for x y z
  proof -
    have le: "c x y \<le> 0" "c y z \<le> 0" using that by (auto split: if_splits)
    then have xz: "c x z \<le> 0" using total_compareD(2) [OF assms(1)] by blast
    show ?thesis
    proof (cases "c x z = 0")
      case True
      then have "c z x \<le> 0" using total_compareD(3) [OF assms(1), of x z] by simp
      then have "c z y \<le> 0" "c y x \<le> 0" using total_compareD(2) [OF assms(1)] le by blast+
      then have "c x y = 0" "c y z = 0"
        using le total_compareD(1) [OF assms(1), of y x] total_compareD(1) [OF assms(1), of z y] by linarith+
      then show ?thesis using that True total_compareD(2) [OF assms(2), of x y z] by simp
    qed (use xz in simp)
  qed
  moreover have "?e x y \<le> 0 \<longleftrightarrow> 0 \<le> ?e y x" for x y
    using total_compareD(1,3,4) [OF assms(1), of x y] total_compareD(1) [OF assms(2), of x y] by auto
  ultimately show ?thesis unfolding total_compare_def by blast
qed

lemma insert_by_mset [simp]: "mset (insert_by c x ys) = add_mset x (mset ys)"
  by (induction ys) auto

lemma insert_by_set [simp]: "set (insert_by c x ys) = insert x (set ys)"
  by (induction ys) auto

lemma insert_by_sorted:
  assumes "total_compare c" "sorted_wrt (\<lambda>a b. c a b \<le> 0) ys"
  shows "sorted_wrt (\<lambda>a b. c a b \<le> 0) (insert_by c x ys)"
  using assms(2)
proof (induction ys)
  case (Cons y ys)
  show ?case
  proof (cases "c y x \<le> 0")
    case True
    then show ?thesis using Cons by auto
  next
    case False
    then have "c x y \<le> 0" using total_compareD(1) [OF assms(1), of x y] by simp
    then show ?thesis using Cons.prems False total_compareD(2) [OF assms(1), of x y] by auto
  qed
qed simp

lemma js_sort_mset: "mset (js_sort c xs) = mset xs"
proof -
  have "mset (fold (insert_by c) xs ys) = mset xs + mset ys" for ys by (induction xs arbitrary: ys) simp_all
  then show ?thesis by (simp add: js_sort_def)
qed

lemma js_sort_sorted:
  assumes "total_compare c"
  shows "sorted_wrt (\<lambda>a b. c a b \<le> 0) (js_sort c xs)"
proof -
  have "sorted_wrt (\<lambda>a b. c a b \<le> 0) ys \<Longrightarrow> sorted_wrt (\<lambda>a b. c a b \<le> 0) (fold (insert_by c) xs ys)" for ys
    by (induction xs arbitrary: ys) (simp_all add: insert_by_sorted [OF assms])
  then show ?thesis by (simp add: js_sort_def)
qed

lemma key_compare_total: "total_compare collate \<Longrightarrow> total_compare (key_compare collate k)"
  by (cases k) (simp_all add: key_compare_def [abs_def] total_compare_on total_compare_diff)

lemma site_compare_total:
  assumes "total_compare collate"
  shows "total_compare (site_compare collate so)"
proof -
  let ?k = "\<lambda>l r. if so_direction so = Desc then - key_compare collate (so_key so) l r else key_compare collate (so_key so) l r"
  have k: "total_compare ?k"
    using key_compare_total [OF assms] total_compare_neg [OF key_compare_total [OF assms]] by (cases "so_direction so") simp_all
  have "total_compare (\<lambda>l r. if collate (overviewSiteName l) (overviewSiteName r) \<noteq> 0 then collate (overviewSiteName l) (overviewSiteName r)
      else collate (os_id l) (os_id r))"
    by (rule total_compare_then) (rule total_compare_on [OF assms])+
  moreover have "site_compare collate so = (\<lambda>l r. if ?k l r \<noteq> 0 then ?k l r
      else if collate (overviewSiteName l) (overviewSiteName r) \<noteq> 0 then collate (overviewSiteName l) (overviewSiteName r)
      else collate (os_id l) (os_id r))"
    by (auto simp: site_compare_def Let_def fun_eq_iff)
  ultimately show ?thesis using total_compare_then [OF k] by simp
qed

section \<open>Properties\<close>

text \<open>
  C30. The table is a sorted copy of the data: sorting neither loses nor repeats a site, the chosen column is in the
  chosen direction, and sites that agree in it stand in the order of their names whatever the direction.
\<close>

theorem overview_sort_correct:
  assumes "total_compare collate"
  shows "mset (sortOverviewSites collate xs so) = mset xs \<and>
    sorted_wrt (\<lambda>l r. if so_direction so = Asc then key_compare collate (so_key so) l r \<le> 0 else key_compare collate (so_key so) r l \<le> 0)
      (sortOverviewSites collate xs so) \<and>
    sorted_wrt (\<lambda>l r. key_compare collate (so_key so) l r = 0 \<longrightarrow> collate (overviewSiteName l) (overviewSiteName r) \<le> 0)
      (sortOverviewSites collate xs so)"
proof -
  have s: "sorted_wrt (\<lambda>l r. site_compare collate so l r \<le> 0) (sortOverviewSites collate xs so)"
    unfolding sortOverviewSites_def by (rule js_sort_sorted [OF site_compare_total [OF assms]])
  have k: "if so_direction so = Asc then key_compare collate (so_key so) l r \<le> 0 else key_compare collate (so_key so) r l \<le> 0"
    if "site_compare collate so l r \<le> 0" for l r
    using that total_compareD(1,3) [OF key_compare_total [OF assms], of "so_key so" r l]
    by (cases "so_direction so"; cases "key_compare collate (so_key so) l r = 0") (simp_all add: site_compare_def Let_def)
  have n: "key_compare collate (so_key so) l r = 0 \<longrightarrow> collate (overviewSiteName l) (overviewSiteName r) \<le> 0"
    if "site_compare collate so l r \<le> 0" for l r
    using that by (auto simp: site_compare_def Let_def split: if_splits)
  show ?thesis
  proof (intro conjI)
    show "mset (sortOverviewSites collate xs so) = mset xs" by (simp only: sortOverviewSites_def js_sort_mset)
  qed (rule sorted_wrt_mono_rel [OF _ s], use k n in blast)+
qed

text \<open>
  A table head does what it announces: the direction its label names is the one the table has after it is used,
  the first page is shown, and using it again reverses the order.
\<close>

theorem overview_sort_announced:
  "let t = fst (overview_step collate (SortSites k) s) in
     so_key (ovp_sort t) = k \<and> ovp_page t = 1 \<and>
     live_buttons (sort_head label k (ovp_sort s)) =
       [[Zh ''sort by ''] @ label @ [Zh (if so_direction (ovp_sort t) = Asc then '', ascending'' else '', descending'')]] \<and>
     so_direction (ovp_sort (fst (overview_step collate (SortSites k) t))) = flip_direction (so_direction (ovp_sort t))"
  by (simp add: Let_def handleSiteSort_def next_sort_def sort_head_def setPage_def sitesPagination_def pagination_fields)

text \<open>
  The colour of the line is a variable of the chart's style sheet, in the light theme and in the dark one, and its value
  is the metric's colour.
\<close>

lemma overview_line_colored:
  "\<exists>r1 r2. ChartStyle i (overview_config m) = Some (r1 @ ''\<newline>'' @ r2) \<and>
     (\<forall>r \<in> {r1, r2}. \<exists>pre. r = pre @ ''  --color-'' @ metric_key m @ '': '' @ metric_color m @ '';\<newline>}\<newline>'') \<and>
     line_color m = ''var(--color-'' @ metric_key m @ '')''"
proof -
  have c: "colorConfig (overview_config m) = overview_config m" by (cases m) (simp_all add: colorConfig_def overview_config_def labelled_def)
  have l: "style_line th (metric_key m, labelled (metric_label m) (metric_color m)) =
      ''  --color-'' @ metric_key m @ '': '' @ metric_color m @ '';''" for th
    by (cases m) (simp_all add: style_line_def labelled_def)
  let ?r = "\<lambda>x. style_rule i (overview_config m) x"
  have r: "\<exists>pre. ?r x = pre @ ''  --color-'' @ metric_key m @ '': '' @ metric_color m @ '';\<newline>}\<newline>''" for x
    by (rule exI [of _ "''\<newline>'' @ snd x @ '' [data-chart='' @ i @ ''] {\<newline>''"])
      (simp only: style_rule_def overview_config_def list.map js_join.simps l append_assoc append_Cons append_Nil)
  have "ChartStyle i (overview_config m) = Some (?r (''light'', []) @ ''\<newline>'' @ ?r (''dark'', ''.dark''))"
    unfolding ChartStyle_def c THEMES_def by (simp add: overview_config_def)
  then show ?thesis using r by (intro exI [of _ "?r (''light'', [])"] exI [of _ "?r (''dark'', ''.dark'')"]) (simp add: line_color_def)
qed

text \<open>
  The tooltip of the trend shows the metric and its value, and nothing else: the time of the point, which it was to be
  labelled with, is never shown.
\<close>

lemma overview_tooltip_no_time:
  assumes "ti_value it \<noteq> VUndefined" "truthy_str (ti_name it)" "\<not> ti_type_none it"
  shows "ChartTooltipContent (overview_config m) (overview_tooltip m) True label [it] =
    [Grp ''tooltip'' [Grp ''item'' [Txt (metric_label m), Txt (metric_format m (value_count (ti_value it)))]]]"
  using assms by (subst tooltip_one_line [of _ "\<lambda>v n it. [metric_label m, metric_format m (value_count v)]"]) (simp_all add: overview_tooltip_def)

section \<open>Examples\<close>

definition sample_overview_site :: "string \<Rightarrow> int \<Rightarrow> overview_site" where
  "sample_overview_site i n = \<lparr>os_id = i, os_name = i, os_domains = [], os_requests = n, os_bytes = 0, os_error_requests = 0,
     os_status_codes = [], os_series = []\<rparr>"

theorem overview_sort_correct_witness:
  "mset (sortOverviewSites (\<lambda>a b. int (length a) - int (length b)) [sample_overview_site ''a'' 1, sample_overview_site ''b'' 2]
      \<lparr>so_key = ByRequests, so_direction = Desc\<rparr>) = mset [sample_overview_site ''a'' 1, sample_overview_site ''b'' 2]"
proof -
  have "total_compare (\<lambda>a b :: string. int (length a) - int (length b))" by (rule total_compare_diff)
  from overview_sort_correct [OF this] show ?thesis by blast
qed

section \<open>In the session\<close>

interpretation overview_session: silent_page "overview_enabled collate" "overview_step collate" for collate
proof
  show "f \<in> set (snd (overview_step collate e s)) \<Longrightarrow> \<not> is_send f \<and> f \<noteq> DispatchUnauthorized" for f e s
    by (cases e) (auto split: if_splits)
qed

interpretation site_overview_session: silent_page overview_site_enabled overview_site_step
proof
  show "f \<in> set (snd (overview_site_step e s)) \<Longrightarrow> \<not> is_send f \<and> f \<noteq> DispatchUnauthorized" for f e s
    by (cases e) (auto split: if_splits)
qed

end
