(* ===== verification/Query.thy ===== *)
theory Query
  imports Format
begin

text \<open>
  What the console's queries are written with: \<open>Date.prototype.toISOString\<close>, whose result \<open>Date.parse\<close>
  reads back, and \<open>URLSearchParams\<close>, whose result the receiver decodes to the parameters.
\<close>

section \<open>Instants\<close>

text \<open>The civil date of a day number, counting years and months off; instants from 1970 to 9999.\<close>

definition year_days :: "nat \<Rightarrow> nat" where
  "year_days y = (if leap_year y then 366 else 365)"

lemma year_days_pos [simp]: "0 < year_days y"
  by (simp add: year_days_def)

lemma month_days_pos [simp]: "0 < month_days y m"
  by (simp add: month_days_def)

function civil_year :: "nat \<Rightarrow> nat \<Rightarrow> nat \<times> nat" where
  "civil_year n y = (if n < year_days y then (y, n) else civil_year (n - year_days y) (Suc y))"
  by auto
termination
  by (relation "measure fst") (auto simp: not_less intro: diff_less less_le_trans [OF year_days_pos])

function civil_month :: "nat \<Rightarrow> nat \<Rightarrow> nat \<Rightarrow> nat \<times> nat" where
  "civil_month y n m = (if n < month_days y m \<or> 12 \<le> m then (m, n) else civil_month y (n - month_days y m) (Suc m))"
  by auto
termination
  by (relation "measure (\<lambda>(y, n, m). 12 - m)") auto

declare civil_year.simps [simp del] civil_month.simps [simp del]

definition padded :: "nat \<Rightarrow> nat \<Rightarrow> string" where
  "padded k n = pad_zeros k (nat_str n)"

definition toISOString :: "int \<Rightarrow> string" where
  "toISOString t =
     (let days = nat (t div 86400000); ms = nat (t mod 86400000);
          (y, yd) = civil_year days 1970; (m, md) = civil_month y yd 1;
          minutes = ms div 60000; millis = ms mod 60000
      in padded 4 y @ ''-'' @ padded 2 m @ ''-'' @ padded 2 (Suc md) @ ''T'' @
         padded 2 (minutes div 60) @ '':'' @ padded 2 (minutes mod 60) @ '':'' @
         padded 2 (millis div 1000) @ ''.'' @ padded 3 (millis mod 1000) @ ''Z'')"

subsection \<open>Days\<close>

lemma ceil_div_Suc:
  assumes "0 < (k :: nat)"
  shows "(Suc y + (k - 1)) div k = (y + (k - 1)) div k + (if y mod k = 0 then 1 else 0)"
proof -
  obtain q r where y: "y = k * q + r" "r < k" using assms by (metis mult_div_mod_eq mod_less_divisor)
  show ?thesis
  proof (cases "r = 0")
    case True
    have "(Suc y + (k - 1)) div k = (k + k * q) div k" "(y + (k - 1)) div k = ((k - 1) + k * q) div k"
      using y True assms by (simp_all add: add.commute)
    moreover have "((k - 1) + k * q) div k = q" using assms by (subst div_mult_self2) simp_all
    ultimately show ?thesis using y True assms by simp
  next
    case False
    have d: "(a + k * (q + 1)) div k = q + 1" if "a < k" for a using that by (subst div_mult_self2) simp_all
    have "Suc y + (k - 1) = r + k * (q + 1)" "y + (k - 1) = (r - 1) + k * (q + 1)"
      using y False assms by (simp_all add: algebra_simps)
    moreover have "y mod k \<noteq> 0" using y False by simp
    ultimately show ?thesis using d [of r] d [of "r - 1"] y by simp
  qed
qed

definition ceil_div :: "nat \<Rightarrow> nat \<Rightarrow> nat" where
  "ceil_div k y = (y + (k - 1)) div k"

lemma ceil_div_Suc': "0 < k \<Longrightarrow> ceil_div k (Suc y) = ceil_div k y + (if k dvd y then 1 else 0)"
  using ceil_div_Suc [of k y] by (simp only: ceil_div_def mod_eq_0_iff_dvd)

lemma leap_days_ceil: "leap_days y = int (ceil_div 4 y) - int (ceil_div 100 y) + int (ceil_div 400 y)"
  by (simp add: leap_days_def ceil_div_def)

lemma leap_year_dvd: "leap_year y \<longleftrightarrow> 4 dvd y \<and> (\<not> 100 dvd y \<or> 400 dvd y)"
  by (simp only: leap_year_def mod_eq_0_iff_dvd)

lemma leap_days_Suc: "leap_days (Suc y) = leap_days y + (if leap_year y then 1 else 0)"
proof -
  have d: "100 dvd y \<Longrightarrow> 4 dvd y" "400 dvd y \<Longrightarrow> 100 dvd y"
    using dvd_trans [of 4 100 y] dvd_trans [of 100 400 y] by simp_all
  have "ceil_div 4 (Suc y) = ceil_div 4 y + (if 4 dvd y then 1 else 0)"
    "ceil_div 100 (Suc y) = ceil_div 100 y + (if 100 dvd y then 1 else 0)"
    "ceil_div 400 (Suc y) = ceil_div 400 y + (if 400 dvd y then 1 else 0)"
    by (rule ceil_div_Suc', simp)+
  then show ?thesis using d unfolding leap_days_ceil leap_year_dvd
    by (cases "400 dvd y"; cases "100 dvd y"; cases "4 dvd y") simp_all
qed

definition year_start :: "nat \<Rightarrow> int" where
  "year_start y = 365 * int y + leap_days y - 719528"

lemma year_start_Suc: "year_start (Suc y) = year_start y + int (year_days y)"
  by (simp add: year_start_def leap_days_Suc year_days_def)

lemma year_start_mono: "x \<le> y \<Longrightarrow> year_start x \<le> year_start y"
proof (induction y)
  case (Suc y)
  then show ?case by (cases "x = Suc y") (simp_all add: year_start_Suc)
qed simp

lemma year_start_values: "year_start 1970 = 0" "year_start 10000 = 2932897"
  by (simp_all add: year_start_def leap_days_def)

lemma day_number_split:
  "day_number y m d = year_start y + int (sum_list (map (month_days y) [1 ..< m])) + int d - 1"
  by (simp add: day_number_def year_start_def)

lemma civil_year_correct:
  "civil_year n y = (y', n') \<Longrightarrow> year_start y' + int n' = year_start y + int n \<and> n' < year_days y' \<and> y \<le> y'"
proof (induction n y rule: civil_year.induct)
  case (1 n y)
  show ?case
  proof (cases "n < year_days y")
    case True
    then show ?thesis using 1(2) by (simp add: civil_year.simps [of n])
  next
    case False
    then show ?thesis using 1 by (simp add: civil_year.simps [of n] year_start_Suc)
  qed
qed

lemma month_sum: "sum_list (map (month_days y) [1 ..< 13]) = year_days y"
proof -
  have "[1 ..< 13] = [1, 2, 3, 4, 5, 6, 7, 8, 9, 10, 11, 12 :: nat]" by (simp add: upt_conv_Cons)
  then show ?thesis by (simp add: month_days_def year_days_def)
qed

lemma months_Suc: "1 \<le> m \<Longrightarrow> sum_list (map (month_days y) [1 ..< Suc m]) = sum_list (map (month_days y) [1 ..< m]) + month_days y m"
  by simp

lemma civil_month_correct:
  "civil_month y n m = (m', n') \<Longrightarrow> 1 \<le> m \<Longrightarrow> m \<le> 12 \<Longrightarrow> sum_list (map (month_days y) [1 ..< m]) + n < year_days y \<Longrightarrow>
     sum_list (map (month_days y) [1 ..< m']) + n' = sum_list (map (month_days y) [1 ..< m]) + n \<and> n' < month_days y m' \<and> 1 \<le> m' \<and> m' \<le> 12"
proof (induction y n m rule: civil_month.induct)
  case (1 y n m)
  show ?case
  proof (cases "n < month_days y m")
    case True
    then show ?thesis using 1(2-) by (simp add: civil_month.simps [of y n])
  next
    case False
    have "m \<noteq> 12"
    proof
      assume "m = 12"
      then have "sum_list (map (month_days y) [1 ..< m]) + month_days y m = year_days y"
        using months_Suc [of 12 y] month_sum [of y] by simp
      then show False using 1(5) False by simp
    qed
    then have m: "m < 12" using 1(4) by simp
    then have "civil_month y (n - month_days y m) (Suc m) = (m', n')"
      using 1(2) False by (simp add: civil_month.simps [of y n m])
    moreover have "sum_list (map (month_days y) [1 ..< Suc m]) + (n - month_days y m) = sum_list (map (month_days y) [1 ..< m]) + n"
      unfolding months_Suc [OF 1(3)] using False by simp
    ultimately show ?thesis using 1(1) [of] False m 1(3,5) by simp
  qed
qed


subsection \<open>Reading the digits back\<close>

lemma nat_str_length: "n < 10 ^ k \<Longrightarrow> 0 < k \<Longrightarrow> length (nat_str n) \<le> k"
proof (induction n arbitrary: k rule: nat_str.induct)
  case (1 n)
  show ?case
  proof (cases "n < 10")
    case True
    then show ?thesis using 1(3) by (simp add: nat_str.simps [of n])
  next
    case False
    then obtain j where k: "k = Suc j" "0 < j" using 1(2,3) by (cases k; cases "k - 1") auto
    have "n div 10 < 10 ^ j" using 1(2) k by (simp add: div_less_iff_less_mult mult.commute)
    then have "length (nat_str (n div 10)) \<le> j" using 1(1) [OF False] k by blast
    then show ?thesis using False k by (simp add: nat_str.simps [of n])
  qed
qed

lemma foldl_zeros: "foldl (\<lambda>a c. 10 * a + digit_value c) 0 (replicate j CHR ''0'') = 0"
  by (induction j) (simp_all add: digit_value_def)

lemma read_nat_zeros: "read_nat (replicate j CHR ''0'' @ s) = read_nat s"
  unfolding read_nat_def by (simp only: foldl_append foldl_zeros)

lemma padded_facts:
  assumes "n < 10 ^ k" "0 < k"
  shows "length (padded k n) = k" "list_all is_digit (padded k n)" "read_nat (padded k n) = n"
proof -
  show "length (padded k n) = k" using nat_str_length [OF assms] by (simp add: padded_def pad_zeros_def)
  show "list_all is_digit (padded k n)"
    using nat_str_digits [of _ n] by (auto simp: padded_def pad_zeros_def list_all_iff is_digit_def)
  show "read_nat (padded k n) = n" by (simp add: padded_def pad_zeros_def read_nat_zeros)
qed

lemma digits_padded:
  assumes "n < 10 ^ k" "0 < k"
  shows "digits k (padded k n @ r) = Some (n, r)"
  using padded_facts [OF assms] by (simp add: digits_def)

lemma digits2 [simp]: "n < 100 \<Longrightarrow> digits 2 (padded 2 n @ r) = Some (n, r)"
  by (rule digits_padded) simp_all

lemma digits4 [simp]: "n < 10000 \<Longrightarrow> digits 4 (padded 4 n @ r) = Some (n, r)"
  by (rule digits_padded) simp_all

lemma skip_char_Cons [simp]: "skip_char c (d # s) = (if c = d then Some s else None)"
  by (simp add: skip_char_def)

lemma parse_millis_padded:
  assumes "n < 1000"
  shows "parse_millis (CHR ''.'' # padded 3 n @ ''Z'') = Some (n, ''Z'')"
proof -
  have p: "length (padded 3 n) = 3" "list_all is_digit (padded 3 n)" "read_nat (padded 3 n) = n"
    using padded_facts [of n 3] assms by simp_all
  have "takeWhile is_digit (padded 3 n @ ''Z'') = padded 3 n"
    using p(2) by (simp add: takeWhile_append2 list_all_iff) (simp add: is_digit_def)
  then show ?thesis using p by (auto simp: parse_millis_def Let_def)
qed

lemma parse_time_padded:
  assumes "h < 24" "mi < 60" "sec < 60" "ms < 1000"
  shows "parse_time (padded 2 h @ CHR '':'' # padded 2 mi @ CHR '':'' # padded 2 sec @ CHR ''.'' # padded 3 ms @ ''Z'')
     = Some ((h * 60 + mi) * 60000 + (sec * 1000 + ms), ''Z'')"
  using assms by (simp add: parse_time_def parse_seconds_def parse_millis_padded)

lemma iso_parse:
  assumes "0 \<le> t" "t < 253402300800000"
  shows "js_date_parse (toISOString t) = Some t"
proof -
  define days ms where "days = nat (t div 86400000)" and "ms = nat (t mod 86400000)"
  obtain y yd where y: "civil_year days 1970 = (y, yd)" by fastforce
  obtain m md where m: "civil_month y yd 1 = (m, md)" by fastforce
  have days: "days < 2932897" using assms by (simp add: days_def nat_less_iff div_less_iff_less_mult)
  have ms: "ms < 86400000" using assms by (simp add: ms_def nat_less_iff)
  have "0 \<le> t div 86400000" using assms(1) by (simp add: pos_imp_zdiv_nonneg_iff)
  then have t: "t = int days * 86400000 + int ms" by (simp add: days_def ms_def)
  have c: "year_start y + int yd = int days" "yd < year_days y"
    using civil_year_correct [OF y] by (simp_all add: year_start_values)
  have "y < 10000"
  proof (rule ccontr)
    assume "\<not> y < 10000"
    then have "year_start 10000 \<le> year_start y" by (intro year_start_mono) simp
    then show False using c(1) days by (simp add: year_start_values)
  qed
  have mo: "sum_list (map (month_days y) [1 ..< m]) + md = yd" "md < month_days y m" "1 \<le> m" "m \<le> 12"
    using civil_month_correct [OF m] c(2) by simp_all
  have "month_days y m \<le> 31" by (simp add: month_days_def)
  then have md: "Suc md < 100" "Suc md \<le> month_days y m" using mo(2) by simp_all
  have date: "parse_date (padded 4 y @ CHR ''-'' # padded 2 m @ CHR ''-'' # padded 2 (Suc md) @ r) = Some (day_number y m (Suc md), r)" for r
    using \<open>y < 10000\<close> mo md by (simp add: parse_date_def)
  have dn: "day_number y m (Suc md) = int days"
    using c(1) mo(1) by (simp add: day_number_split flip: of_nat_add)
  define mins millis where "mins = ms div 60000" and "millis = ms mod 60000"
  have "mins < 1440" using ms by (simp add: mins_def div_less_iff_less_mult)
  then have b: "mins div 60 < 24" "mins mod 60 < 60" by (simp_all add: div_less_iff_less_mult)
  have "millis < 60000" by (simp add: millis_def)
  then have b2: "millis div 1000 < 60" "millis mod 1000 < 1000" by (simp_all add: div_less_iff_less_mult)
  have time: "(mins div 60 * 60 + mins mod 60) * 60000 + (millis div 1000 * 1000 + millis mod 1000) = ms"
    by (simp add: mins_def millis_def)
  have iso: "toISOString t = padded 4 y @ CHR ''-'' # padded 2 m @ CHR ''-'' # padded 2 (Suc md) @ CHR ''T'' #
      padded 2 (mins div 60) @ CHR '':'' # padded 2 (mins mod 60) @ CHR '':'' # padded 2 (millis div 1000) @ CHR ''.'' #
      padded 3 (millis mod 1000) @ ''Z''"
    using m by (simp add: toISOString_def Let_def y flip: days_def ms_def mins_def millis_def)
  show ?thesis
    unfolding js_date_parse_def iso date
    using parse_time_padded [OF b b2] time by (simp add: parse_offset_def dn t)
qed

text \<open>
  An instant printed by \<open>toISOString\<close> is read back exactly, to the millisecond, by the parser the formats and
  charts use: for every instant from 1970 to 9999 the calendar arithmetic in both directions agrees.
\<close>

theorem iso_roundtrip:
  assumes "0 \<le> t" "t < 253402300800000"
  shows "js_date_parse (toISOString t) = Some t \<and> (\<forall>u. 0 \<le> u \<longrightarrow> u < 253402300800000 \<longrightarrow> toISOString u = toISOString t \<longrightarrow> u = t)"
  using iso_parse [OF assms] iso_parse by (metis option.inject)

theorem iso_roundtrip_witness: "js_date_parse (toISOString 1700000000123) = Some 1700000000123"
  using iso_roundtrip [of 1700000000123] by simp

section \<open>Parameters\<close>

text \<open>\<open>application/x-www-form-urlencoded\<close>: letters, digits and \<open>* - . _\<close> stay, a space is a plus.\<close>

definition form_kept :: "char \<Rightarrow> bool" where
  "form_kept c \<longleftrightarrow> is_digit c \<or> 65 \<le> byte c \<and> byte c \<le> 90 \<or> 97 \<le> byte c \<and> byte c \<le> 122 \<or> byte c \<in> {42, 45, 46, 95}"

definition form_char :: "char \<Rightarrow> string" where
  "form_char c =
     (if form_kept c then [c] else if c = CHR '' '' then ''+''
      else [CHR ''%'', hex_char (byte c div 16), hex_char (byte c mod 16)])"

definition form_encode :: "string \<Rightarrow> string" where
  "form_encode s = concat (map form_char s)"

fun form_decode :: "string \<Rightarrow> string" where
  "form_decode [] = []"
| "form_decode (c # s) =
     (if c = CHR ''+'' then CHR '' '' # form_decode s
      else if c = CHR ''%'' then
        (case s of a # b # r \<Rightarrow> char_of (16 * hex_value a + hex_value b) # form_decode r | _ \<Rightarrow> c # form_decode s)
      else c # form_decode s)"

text \<open>The serialization of the parameters, and how a receiver takes it apart.\<close>

definition param_str :: "string \<times> string \<Rightarrow> string" where
  "param_str p = form_encode (fst p) @ ''='' @ form_encode (snd p)"

definition params_str :: "(string \<times> string) list \<Rightarrow> string" where
  "params_str ps = js_join ''&'' (map param_str ps)"

definition parse_param :: "string \<Rightarrow> string \<times> string" where
  "parse_param w = (form_decode (takeWhile (\<lambda>c. c \<noteq> CHR ''='') w), form_decode (tl (dropWhile (\<lambda>c. c \<noteq> CHR ''='') w)))"

definition parse_params :: "string \<Rightarrow> (string \<times> string) list" where
  "parse_params s = map parse_param (filter (\<lambda>w. w \<noteq> []) (js_split (\<lambda>c. c = CHR ''&'') s))"

lemma form_kept_facts: "\<not> form_kept CHR ''+''" "\<not> form_kept CHR ''%''" "\<not> form_kept CHR '' ''" "\<not> form_kept CHR ''=''" "\<not> form_kept CHR ''&''"
  by (simp_all add: form_kept_def is_digit_def)

lemma form_decode_char: "form_decode (form_char c @ s) = c # form_decode s"
proof (cases "form_kept c \<or> c = CHR '' ''")
  case True
  then show ?thesis using form_kept_facts by (auto simp: form_char_def)
next
  case False
  have "16 * hex_value (hex_char (byte c div 16)) + hex_value (hex_char (byte c mod 16)) = byte c" by simp
  with False show ?thesis by (simp add: form_char_def)
qed

lemma form_decode_encode [simp]: "form_decode (form_encode s) = s"
  by (induction s) (simp_all add: form_encode_def form_decode_char)

interpretation form: codec form_encode "\<lambda>s. Some (form_decode s)"
  by unfold_locales simp

lemma hex_char_kept: "n < 16 \<Longrightarrow> form_kept (hex_char n)"
  by (auto simp: hex_char_def form_kept_def is_digit_def)

lemma form_encode_chars: "d \<in> set (form_encode s) \<Longrightarrow> form_kept d \<or> d = CHR ''+'' \<or> d = CHR ''%''"
  using hex_char_kept [OF byte_div_less] hex_char_kept
  by (auto simp: form_encode_def form_char_def split: if_splits)

lemma form_encode_no: "CHR ''='' \<notin> set (form_encode s)" "CHR ''&'' \<notin> set (form_encode s)"
  using form_encode_chars [of "CHR ''=''" s] form_encode_chars [of "CHR ''&''" s] form_kept_facts by auto

lemma parse_param_str [simp]: "parse_param (param_str p) = p"
proof -
  have "\<forall>c \<in> set (form_encode (fst p)). c \<noteq> CHR ''=''" using form_encode_no(1) by metis
  then show ?thesis by (simp add: parse_param_def param_str_def takeWhile_append dropWhile_append)
qed

lemma split_join_amp:
  assumes "\<forall>w \<in> set ws. CHR ''&'' \<notin> set w" "ws \<noteq> []"
  shows "js_split (\<lambda>c. c = CHR ''&'') (js_join ''&'' ws) = ws"
  using assms
proof (induction "''&''" ws rule: js_join.induct)
  case (2 w)
  then have "\<forall>c \<in> set w. \<not> c = CHR ''&''" by (metis list.set_intros(1))
  then show ?case by (simp add: js_split_word)
next
  case (3 w v ws)
  have "js_split (\<lambda>c. c = CHR ''&'') (w @ CHR ''&'' # js_join ''&'' (v # ws)) = w # js_split (\<lambda>c. c = CHR ''&'') (js_join ''&'' (v # ws))"
    using 3 by (intro js_split_sep) auto
  then show ?case using 3 by simp
qed simp

lemma parse_params_str [simp]: "parse_params (params_str ps) = ps"
proof (cases "ps = []")
  case False
  have w: "\<forall>w \<in> set (map param_str ps). CHR ''&'' \<notin> set w" using form_encode_no(2) by (auto simp: param_str_def)
  have "js_split (\<lambda>c. c = CHR ''&'') (params_str ps) = map param_str ps"
    unfolding params_str_def by (rule split_join_amp [OF w]) (use False in simp)
  moreover have "filter (\<lambda>w. w \<noteq> []) (map param_str ps) = map param_str ps" by (simp add: filter_id_conv param_str_def)
  ultimately show ?thesis by (simp add: parse_params_def o_def)
qed (simp add: params_str_def parse_params_def)

interpretation params: codec params_str "\<lambda>s. Some (parse_params s)"
  by unfold_locales simp

end
