(* ===== verification/Logs.thy ===== *)
theory Logs
  imports Widgets Query
begin

text \<open>
  The access logs (frontend/src/features/logs/logs-page.tsx, log-detail-page.tsx): the draft of the filters, the
  search that was applied, whose address is the key of its query, the pages of the result, and one entry.
\<close>

section \<open>The search\<close>

record log_filters =
  flt_range :: string
  flt_site_id :: string
  flt_node_id :: string
  flt_method :: string
  flt_status :: string
  flt_path :: string
  flt_client_ip :: string
  flt_cache_status :: string

definition log_defaults :: log_filters where
  "log_defaults = \<lparr>flt_range = ''1'', flt_site_id = [], flt_node_id = [], flt_method = [], flt_status = [], flt_path = [],
     flt_client_ip = [], flt_cache_status = []\<rparr>"

record log_search = log_filters +
  lsr_from :: string
  lsr_to :: string

definition appliedSearch :: "log_filters \<Rightarrow> int \<Rightarrow> log_search" where
  "appliedSearch f now =
     log_filters.extend f \<lparr>lsr_from = toISOString (now - js_number (flt_range f) * 60 * 60 * 1000), lsr_to = toISOString now\<rparr>"

text \<open>The filters in the order they are appended; an empty one is left out.\<close>

definition filter_params :: "('a) log_filters_scheme \<Rightarrow> (string \<times> string) list" where
  "filter_params f = filter (\<lambda>p. snd p \<noteq> [])
     [(''site_id'', flt_site_id f), (''node_id'', flt_node_id f), (''method'', flt_method f), (''status'', flt_status f),
      (''path'', flt_path f), (''client_ip'', flt_client_ip f), (''cache_status'', flt_cache_status f)]"

definition logSearchURL :: "log_search \<Rightarrow> int \<Rightarrow> string" where
  "logSearchURL x offset = ''/api/logs?'' @
     params_str ([(''from'', lsr_from x), (''to'', lsr_to x), (''offset'', int_str offset)] @ filter_params x)"

section \<open>State\<close>

text \<open>\<open>lg_now\<close> is the clock the handlers read; \<open>lg_logs\<close> holds the query of every address.\<close>

record logs_page =
  lg_now :: int
  lg_draft :: log_filters
  lg_search :: log_search
  lg_offset :: int
  lg_sites :: "site list query"
  lg_nodes :: "node list query"
  lg_logs :: "string \<Rightarrow> log_page query"
  lg_fetching :: bool

datatype logs_event =
    EditFilters log_filters
  | SubmitSearch | ResetSearch
  | PreviousLogs | NextLogs
  | OpenLog string
  | LogsArrive string "log_page query"
  | LogSitesArrive "site list query"
  | LogNodesArrive "node list query"
  | LogsFetching bool
  | LogsClock int

definition logs_url :: "logs_page \<Rightarrow> string" where
  "logs_url s = logSearchURL (lg_search s) (lg_offset s)"

definition logs_query :: "logs_page \<Rightarrow> log_page query" where
  "logs_query s = lg_logs s (logs_url s)"

definition logs_page_size :: "logs_page \<Rightarrow> int" where
  "logs_page_size s = (case q_data (logs_query s) of None \<Rightarrow> 0 | Some d \<Rightarrow> lp_page_size d)"

fun logs_step :: "(logs_event, logs_page) component" where
  "logs_step (EditFilters f) s = (s\<lparr>lg_draft := f\<rparr>, [])"
| "logs_step SubmitSearch s = (s\<lparr>lg_offset := 0, lg_search := appliedSearch (lg_draft s) (lg_now s)\<rparr>, [])"
| "logs_step ResetSearch s =
     (s\<lparr>lg_draft := log_defaults, lg_offset := 0, lg_search := appliedSearch log_defaults (lg_now s)\<rparr>, [])"
| "logs_step PreviousLogs s = (s\<lparr>lg_offset := max 0 (lg_offset s - logs_page_size s)\<rparr>, [])"
| "logs_step NextLogs s = (s\<lparr>lg_offset := lg_offset s + logs_page_size s\<rparr>, [])"
| "logs_step (OpenLog i) s = (s, if i \<noteq> [] then [Navigate (''/logs/'' @ encodeURIComponent i) False] else [])"
| "logs_step (LogsArrive u q) s = (s\<lparr>lg_logs := (lg_logs s)(u := q)\<rparr>, [])"
| "logs_step (LogSitesArrive q) s = (s\<lparr>lg_sites := q\<rparr>, [])"
| "logs_step (LogNodesArrive q) s = (s\<lparr>lg_nodes := q\<rparr>, [])"
| "logs_step (LogsFetching b) s = (s\<lparr>lg_fetching := b\<rparr>, [])"
| "logs_step (LogsClock t) s = (s\<lparr>lg_now := t\<rparr>, [])"

definition logs_init :: "int \<Rightarrow> (string \<Rightarrow> log_page query) \<Rightarrow> site list query \<Rightarrow> node list query \<Rightarrow> logs_page" where
  "logs_init now qs sq nq =
     \<lparr>lg_now = now, lg_draft = log_defaults, lg_search = appliedSearch log_defaults now, lg_offset = 0, lg_sites = sq, lg_nodes = nq,
      lg_logs = qs, lg_fetching = True\<rparr>"

section \<open>The view\<close>

definition siteName :: "site list option \<Rightarrow> string \<Rightarrow> string" where
  "siteName xs i = nullish (map_option s_name (Option.bind xs (find (\<lambda>x. s_id x = i)))) i"

definition logNodeName :: "node list option \<Rightarrow> string \<Rightarrow> string" where
  "logNodeName xs i = nullish (map_option n_name (Option.bind xs (find (\<lambda>x. n_id x = i)))) i"

definition FilterSelect :: "ui_text \<Rightarrow> string \<Rightarrow> (string \<Rightarrow> 'e) \<Rightarrow> (string \<times> ui_text) list \<Rightarrow> 'e view" where
  "FilterSelect label v change options = Sel label options v False change"

text \<open>The choice "all" stands for the empty filter.\<close>

definition all_or :: "string \<Rightarrow> string" where
  "all_or v = (if v = ''all'' then [] else v)"

definition same_labels :: "string list \<Rightarrow> (string \<times> ui_text) list" where
  "same_labels vs = map (\<lambda>v. (v, [Raw v])) vs"

definition range_options :: "(string \<times> ui_text) list" where
  "range_options = [(''1'', [Zh ''last hour'']), (''6'', [Zh ''last 6 hours'']), (''24'', [Zh ''last 24 hours'']), (''168'', [Zh ''last 7 days''])]"

definition filter_form :: "logs_page \<Rightarrow> logs_event view" where
  "filter_form s =
     (let d = lg_draft s in
      Form
       [FilterSelect [Zh ''time range''] (flt_range d) (\<lambda>v. EditFilters (d\<lparr>flt_range := v\<rparr>)) range_options,
        FilterSelect [Zh ''site''] (str_or (flt_site_id d) ''all'') (\<lambda>v. EditFilters (d\<lparr>flt_site_id := all_or v\<rparr>))
          ((''all'', [Zh ''all sites'']) # map (\<lambda>x. (s_id x, [Raw (s_name x)])) (nullish (q_data (lg_sites s)) [])),
        FilterSelect [Zh ''node''] (str_or (flt_node_id d) ''all'') (\<lambda>v. EditFilters (d\<lparr>flt_node_id := all_or v\<rparr>))
          ((''all'', [Zh ''all nodes'']) # map (\<lambda>x. (n_id x, [Raw (n_name x)])) (nullish (q_data (lg_nodes s)) [])),
        FilterSelect [Zh ''method''] (str_or (flt_method d) ''all'') (\<lambda>v. EditFilters (d\<lparr>flt_method := all_or v\<rparr>))
          ((''all'', [Zh ''all methods'']) # same_labels [''GET'', ''POST'', ''PUT'', ''DELETE'', ''HEAD'']),
        FilterSelect [Zh ''status''] (str_or (flt_status d) ''all'') (\<lambda>v. EditFilters (d\<lparr>flt_status := all_or v\<rparr>))
          ((''all'', [Zh ''all states'']) # same_labels [''2xx'', ''3xx'', ''4xx'', ''5xx'']),
        FilterSelect [Zh ''cache''] (str_or (flt_cache_status d) ''all'') (\<lambda>v. EditFilters (d\<lparr>flt_cache_status := all_or v\<rparr>))
          ((''all'', [Zh ''all states'']) # same_labels [''HIT'', ''MISS'', ''BYPASS'', ''EXPIRED'', ''STALE'', ''UPDATING'', ''REVALIDATED'']),
        Inp ''log-path'' [MaxLength 512] (flt_path d) False (\<lambda>v. EditFilters (d\<lparr>flt_path := v\<rparr>)),
        Inp ''log-ip'' [] (flt_client_ip d) False (\<lambda>v. EditFilters (d\<lparr>flt_client_ip := v\<rparr>)),
        Btn [Zh ''reset the filters''] False ResetSearch]
       [Zh ''search''] False SubmitSearch)"

definition log_row :: "logs_page \<Rightarrow> access_log \<Rightarrow> logs_event view" where
  "log_row s x = Grp ''row''
     (only_if (al_id x \<noteq> []) [Btn [Zh ''open the request '', Raw (al_method x), Raw '' '', Raw (al_path x)] False (OpenLog (al_id x))] @
      [Txt (formatDateTime (Some (al_timestamp x))), Txt [Raw (al_method x)], Txt [Raw (al_path x)], HTTPStatusBadge (al_status x),
       Txt [Raw (al_client_ip x)], Txt [Raw (siteName (q_data (lg_sites s)) (al_site_id x))],
       Txt [Raw (logNodeName (q_data (lg_nodes s)) (al_node_id x))], StatusBadge (str_or (al_cache_status x) ''UNCACHED'') None,
       Txt [Raw (formatNumber (Some (al_duration_ms x))), Raw '' ms''], Txt [Raw (formatBytes (Some (al_bytes x)))]])"

text \<open>The number of the page; without a page size it is no number, as the quotient.\<close>

definition page_number :: "log_page \<Rightarrow> piece" where
  "page_number d =
     (if lp_page_size d = 0 then Quotient (lp_offset d) 0 else Raw (int_str (lp_offset d div lp_page_size d + 1)))"

definition log_results :: "logs_page \<Rightarrow> log_page \<Rightarrow> logs_event view" where
  "log_results s d = Grp ''card''
     ((if lp_logs d \<noteq> [] then map (log_row s) (lp_logs d)
       else [EmptyState [Zh ''no matching logs''] (Some [Zh ''change the filters and search again''])]) @
      [Txt [Zh ''page '', page_number d, Zh '', entries '', Raw (nat_str (length (lp_logs d)))],
       Btn [Zh ''previous page''] (lg_offset s = 0 \<or> lg_fetching s) PreviousLogs,
       Btn [Zh ''next page''] (\<not> lp_has_more d \<or> lg_fetching s) NextLogs])"

definition LogsPage :: "logs_page \<Rightarrow> logs_event view list" where
  "LogsPage s =
     [PageHeader [Zh ''logs''] (Some [Zh ''the access logs of the last 7 days'']) [Txt [Zh ''20 a page'']], filter_form s] @
     only_if (q_loading (logs_query s)) [PageLoading 3] @
     (case q_error (logs_query s) of None \<Rightarrow> [] | Some e \<Rightarrow> [PageError [Zh ''the search failed''] e]) @
     (case q_data (logs_query s) of None \<Rightarrow> [] | Some d \<Rightarrow> [log_results s d])"

fun logs_enabled :: "logs_page \<Rightarrow> logs_event \<Rightarrow> bool" where
  "logs_enabled s (LogsArrive u q) \<longleftrightarrow> True"
| "logs_enabled s (LogSitesArrive q) \<longleftrightarrow> True"
| "logs_enabled s (LogNodesArrive q) \<longleftrightarrow> True"
| "logs_enabled s (LogsFetching b) \<longleftrightarrow> True"
| "logs_enabled s (LogsClock t) \<longleftrightarrow> lg_now s \<le> t"
| "logs_enabled s e \<longleftrightarrow> offers (LogsPage s) e"

inductive logs_reach :: "logs_page \<Rightarrow> bool" where
  logs_start: "604800000 \<le> now \<Longrightarrow> logs_reach (logs_init now qs sq nq)"
| logs_move: "logs_reach s \<Longrightarrow> logs_enabled s e \<Longrightarrow> logs_reach (fst (logs_step e s))"

section \<open>One entry\<close>

record log_detail =
  ld_logId :: string
  ld_log :: "access_log query"
  ld_sites :: "site list query"
  ld_nodes :: "node list query"
  ld_copy :: copy_button

datatype log_detail_event =
    BackToLogs | CopyRequestId copy_event | EntryArrives "access_log query" | EntrySitesArrive "site list query" | EntryNodesArrive "node list query"

definition log_detail_path :: "log_detail \<Rightarrow> string option" where
  "log_detail_path s = (if ld_logId s \<noteq> [] then Some (''/api/logs/'' @ encodeURIComponent (ld_logId s)) else None)"

fun log_detail_step :: "(log_detail_event, log_detail) component" where
  "log_detail_step BackToLogs s = (s, [Navigate ''/logs'' False])"
| "log_detail_step (CopyRequestId c) s = (s\<lparr>ld_copy := copy_step c (ld_copy s)\<rparr>, [])"
| "log_detail_step (EntryArrives q) s = (s\<lparr>ld_log := q\<rparr>, [])"
| "log_detail_step (EntrySitesArrive q) s = (s\<lparr>ld_sites := q\<rparr>, [])"
| "log_detail_step (EntryNodesArrive q) s = (s\<lparr>ld_nodes := q\<rparr>, [])"

definition log_detail_init :: "string \<Rightarrow> access_log query \<Rightarrow> site list query \<Rightarrow> node list query \<Rightarrow> log_detail" where
  "log_detail_init i q sq nq = \<lparr>ld_logId = i, ld_log = q, ld_sites = sq, ld_nodes = nq, ld_copy = \<lparr>cb_copied = False\<rparr>\<rparr>"

definition log_headers :: "access_log \<Rightarrow> (string \<times> string) list" where
  "log_headers x = filter (\<lambda>h. snd h \<noteq> [])
     [(''Host'', al_host x), (''User-Agent'', al_user_agent x), (''Referer'', al_referer x),
      (''Content-Type'', al_content_type x), (''Accept'', al_accept x), (''Range'', al_range x)]"

definition DetailRow :: "ui_text \<Rightarrow> string \<Rightarrow> 'e view" where
  "DetailRow label v = Grp ''detail'' [Txt label, Txt [Raw v]]"

definition LogMetric :: "ui_text \<Rightarrow> ui_text \<Rightarrow> 'e view" where
  "LogMetric label v = Grp ''metric'' [Txt label, Txt v]"

definition log_protocol :: "access_log \<Rightarrow> ui_text" where
  "log_protocol x =
     (let ps = filter (\<lambda>w. w \<noteq> []) [upper (al_scheme x), al_protocol x] in
      if ps = [] then [Raw ''--''] else join_text (Zh '' (middle dot) '') (map (\<lambda>w. [Raw w]) ps))"

definition LogDetails :: "access_log \<Rightarrow> string \<Rightarrow> string \<Rightarrow> copy_button \<Rightarrow> log_detail_event view list" where
  "LogDetails x site node copied =
     [Grp ''card''
       [Txt [Raw (al_method x)], HTTPStatusBadge (al_status x), StatusBadge (str_or (al_cache_status x) ''UNCACHED'') None,
        Txt [Raw (al_path x)], Txt [Zh ''request '', Raw (al_id x)],
        Btn (CopyTooltip copied [Zh ''copy the request id'']) False (CopyRequestId CopyWritten),
        LogMetric [Zh ''client''] [Raw (str_or (al_client_ip x) ''--'')], LogMetric [Zh ''site''] [Raw (str_or site (al_site_id x))],
        LogMetric [Zh ''node''] [Raw (str_or node (al_node_id x))],
        LogMetric [Zh ''duration''] [Raw (formatNumber (Some (al_duration_ms x)) @ '' ms'')],
        LogMetric [Zh ''request size''] [Raw (formatBytes (Some (al_request_bytes x)))],
        LogMetric [Zh ''response size''] [Raw (formatBytes (Some (al_bytes x)))],
        LogMetric [Zh ''protocol''] (log_protocol x), LogMetric [Zh ''upstream''] [Raw (str_or (al_upstream x) ''--'')]],
      Grp ''card''
       [Txt [Zh ''upstream response''], Txt [Zh ''connection and result of the origin''],
        DetailRow [Zh ''upstream address''] (str_or (al_upstream x) ''--''), DetailRow [Zh ''upstream status''] (str_or (al_upstream_status x) ''--''),
        DetailRow [Zh ''upstream response time''] (str_or (al_upstream_response_time x) ''--''),
        DetailRow [Zh ''response Content-Type''] (str_or (al_response_content_type x) ''--'')],
      Grp ''card''
       ([Txt [Zh ''request headers''], Txt [Zh ''the common headers the edge records'']] @
        (if log_headers x \<noteq> [] then map (\<lambda>h. DetailRow [Raw (fst h)] (snd h)) (log_headers x) else [Txt [Zh ''no request headers'']]))]"

definition LogDetailPage :: "log_detail \<Rightarrow> log_detail_event view list" where
  "LogDetailPage s =
     [PageHeader [Zh ''request details''] (map_option (\<lambda>x. formatDateTime (Some (al_timestamp x))) (q_data (ld_log s)))
       [Btn [Zh ''back to the logs''] False BackToLogs]] @
     only_if (ld_logId s \<noteq> [] \<and> q_loading (ld_log s)) [PageLoading 3] @
     (case q_error (ld_log s) of None \<Rightarrow> [] | Some e \<Rightarrow> [PageError [Zh ''the request failed to load''] e]) @
     (case q_data (ld_log s) of
        None \<Rightarrow> []
      | Some x \<Rightarrow> LogDetails x (siteName (q_data (ld_sites s)) (al_site_id x)) (logNodeName (q_data (ld_nodes s)) (al_node_id x)) (ld_copy s)) @
     only_if (ld_logId s = []) [EmptyState [Zh ''the log id is missing''] None]"

fun log_detail_enabled :: "log_detail \<Rightarrow> log_detail_event \<Rightarrow> bool" where
  "log_detail_enabled s (CopyRequestId CopyTimeout) \<longleftrightarrow> cb_copied (ld_copy s)"
| "log_detail_enabled s (EntryArrives q) \<longleftrightarrow> True"
| "log_detail_enabled s (EntrySitesArrive q) \<longleftrightarrow> True"
| "log_detail_enabled s (EntryNodesArrive q) \<longleftrightarrow> True"
| "log_detail_enabled s e \<longleftrightarrow> offers (LogDetailPage s) e"

section \<open>What the search asks for\<close>

definition valid_range :: "string \<Rightarrow> bool" where
  "valid_range v \<longleftrightarrow> v \<in> fst ` set range_options"

lemma valid_range_hours: "valid_range v \<Longrightarrow> js_number v \<in> {1, 6, 24, 168}"
proof -
  have "js_number ''1'' = 1" "js_number ''6'' = 6" "js_number ''24'' = 24" "js_number ''168'' = 168" by code_simp+
  then show "valid_range v \<Longrightarrow> ?thesis" by (auto simp: valid_range_def range_options_def)
qed

lemma offers_LogsPage:
  assumes "offers (LogsPage s) e"
  shows "(\<exists>f. e = EditFilters f \<and> (valid_range (flt_range (lg_draft s)) \<longrightarrow> valid_range (flt_range f))) \<or> e \<in> {SubmitSearch, ResetSearch} \<or>
    (e = PreviousLogs \<and> lg_offset s \<noteq> 0) \<or> (e = NextLogs \<and> (\<exists>d. q_data (logs_query s) = Some d \<and> lp_has_more d)) \<or> (\<exists>i. e = OpenLog i \<and> i \<noteq> [])"
proof -
  have row: "\<exists>i. e = OpenLog i \<and> i \<noteq> []" if "fires (log_row s x) e" for x using that by (auto simp: log_row_def)
  consider v where "e = EditFilters ((lg_draft s)\<lparr>flt_range := v\<rparr>)" "v \<in> fst ` set range_options"
    | f where "e = EditFilters f" "flt_range f = flt_range (lg_draft s)" | "e \<in> {SubmitSearch, ResetSearch}"
    | d where "q_data (logs_query s) = Some d" "fires (log_results s d) e"
    using assms by (auto simp: LogsPage_def filter_form_def FilterSelect_def Let_def split: option.splits)
  then show ?thesis
  proof cases
    case (4 d)
    then show ?thesis by (auto simp: log_results_def offers_map dest: row split: if_splits)
  qed (auto simp: valid_range_def)
qed

text \<open>The applied search is that of some valid filters at a past instant.\<close>

definition logs_inv :: "logs_page \<Rightarrow> bool" where
  "logs_inv s \<longleftrightarrow> valid_range (flt_range (lg_draft s)) \<and> 604800000 \<le> lg_now s \<and>
     (\<exists>f t. lg_search s = appliedSearch f t \<and> valid_range (flt_range f) \<and> 604800000 \<le> t \<and> t \<le> lg_now s)"

lemma logs_step_inv:
  assumes "logs_inv s" "logs_enabled s e"
  shows "logs_inv (fst (logs_step e s))"
proof -
  have d: "valid_range (flt_range log_defaults)" by (simp add: valid_range_def log_defaults_def range_options_def)
  have g: "(\<exists>f. e = EditFilters f \<and> (valid_range (flt_range (lg_draft s)) \<longrightarrow> valid_range (flt_range f)))" if "e = EditFilters f" for f
    using offers_LogsPage [of s e] assms(2) that by simp
  show ?thesis
    using assms d g by (cases e) (auto simp: logs_inv_def intro: order_trans)
qed

lemma logs_reach_inv: "logs_reach s \<Longrightarrow> logs_inv s"
proof (induction rule: logs_reach.induct)
  case (logs_start now qs sq nq)
  moreover have "valid_range (flt_range log_defaults)" by (simp add: valid_range_def log_defaults_def range_options_def)
  ultimately show ?case by (auto simp: logs_inv_def logs_init_def)
qed (simp add: logs_step_inv)

lemma filter_params_extend [simp]: "filter_params (appliedSearch f t) = filter_params f"
  by (simp add: filter_params_def appliedSearch_def log_filters.defs)

lemma appliedSearch_times [simp]:
  "lsr_from (appliedSearch f t) = toISOString (t - js_number (flt_range f) * 60 * 60 * 1000)" "lsr_to (appliedSearch f t) = toISOString t"
  by (simp_all add: appliedSearch_def log_filters.defs)

section \<open>Properties\<close>


text \<open>
  Editing the filters searches for nothing: what is shown belongs to the applied search, which only submitting,
  resetting and turning the page change; submitting starts the drafted filters at their first page.
\<close>

theorem log_search_applied:
  "(e \<notin> {SubmitSearch, ResetSearch, PreviousLogs, NextLogs} \<longrightarrow> logs_url (fst (logs_step e s)) = logs_url s) \<and>
   logs_url (fst (logs_step SubmitSearch s)) = logSearchURL (appliedSearch (lg_draft s) (lg_now s)) 0 \<and>
   fst (logs_step ResetSearch s) = fst (logs_step SubmitSearch (s\<lparr>lg_draft := log_defaults\<rparr>))"
  by (cases e) (simp_all add: logs_url_def)

lemma logs_url_offset: "logSearchURL x a = logSearchURL x b \<longleftrightarrow> a = b"
  using params.enc_eq_iff decimal.enc_eq_iff by (simp add: logSearchURL_def)

text \<open>
  Turning a page and back returns to the very result: after the next page has arrived, the previous page is the
  query left before, with the data it had, and no other.
\<close>

theorem log_pages_return:
  assumes "0 \<le> lg_offset s" "0 < logs_page_size s" "q_data q = Some d" "lp_page_size d = logs_page_size s"
  shows "let t = fst (run logs_step [NextLogs, LogsArrive (logSearchURL (lg_search s) (lg_offset s + logs_page_size s)) q, PreviousLogs] s)
     in logs_url t = logs_url s \<and> logs_query t = logs_query s"
proof -
  let ?u = "logSearchURL (lg_search s) (lg_offset s + logs_page_size s)"
  let ?m = "s\<lparr>lg_offset := lg_offset s + logs_page_size s, lg_logs := (lg_logs s)(?u := q)\<rparr>"
  have m: "logs_page_size ?m = logs_page_size s"
    using assms(3,4) by (simp add: logs_page_size_def logs_query_def logs_url_def)
  have t: "fst (run logs_step [NextLogs, LogsArrive ?u q, PreviousLogs] s) = ?m\<lparr>lg_offset := lg_offset s\<rparr>"
    using assms(1) m by simp
  have "?u \<noteq> logs_url s" using assms(2) by (simp add: logs_url_def logs_url_offset)
  then show ?thesis unfolding t by (simp add: Let_def logs_query_def logs_url_def)
qed

section \<open>Examples\<close>

definition sample_logs :: logs_page where
  "sample_logs = logs_init 1700000000000 (\<lambda>_. \<lparr>q_data = Some \<lparr>lp_logs = [], lp_from = [], lp_to = [], lp_offset = 0, lp_page_size = 20,
     lp_has_more = True\<rparr>, q_error = None\<rparr>) \<lparr>q_data = None, q_error = None\<rparr> \<lparr>q_data = None, q_error = None\<rparr>"


theorem log_search_applied_witness: "logs_url (fst (logs_step (EditFilters log_defaults) sample_logs)) = logs_url sample_logs"
  using log_search_applied [of "EditFilters log_defaults" sample_logs] by simp

theorem log_pages_return_witness:
  "logs_url (fst (run logs_step [NextLogs, LogsArrive (logSearchURL (lg_search sample_logs) 20) (logs_query sample_logs), PreviousLogs] sample_logs))
     = logs_url sample_logs"
proof -
  have p: "lg_offset sample_logs = 0" "logs_page_size sample_logs = 20" "\<exists>d. q_data (logs_query sample_logs) = Some d \<and> lp_page_size d = 20"
    by (simp_all add: sample_logs_def logs_init_def logs_page_size_def logs_query_def)
  then show ?thesis using log_pages_return [of sample_logs "logs_query sample_logs"] by (auto simp: Let_def)
qed

section \<open>In the session\<close>

interpretation logs_session: silent_page logs_enabled logs_step
proof
  show "f \<in> set (snd (logs_step e s)) \<Longrightarrow> \<not> is_send f \<and> f \<noteq> DispatchUnauthorized" for f e s
    by (cases e) (auto split: if_splits)
qed

interpretation log_session: silent_page log_detail_enabled log_detail_step
proof
  show "f \<in> set (snd (log_detail_step e s)) \<Longrightarrow> \<not> is_send f \<and> f \<noteq> DispatchUnauthorized" for f e s
    by (cases e) (auto split: if_splits)
qed

end
