(* ===== verification/Security.thy ===== *)
theory Security
  imports Widgets
begin

text \<open>
  The security page (frontend/src/features/security/security-page.tsx): access policies, rate limits,
  bans, hits and the state of the edges, with the two policy dialogs.  The page behind an open dialog
  is inert, as the dialog component documents.  A dialog's form lives while it is open; a request
  whose dialog was closed is still in flight, which \<open>sec_oldPolicySaves\<close> and \<open>sec_oldRateSaves\<close> count.
\<close>

section \<open>The forms\<close>

record policy_form =
  pf_existing :: "security_policy option"
  pf_name :: string
  pf_priority :: int
  pf_action :: policy_action
  pf_duration :: int
  pf_enabled :: bool
  pf_pattern :: string
  pf_pending :: bool

definition open_policy_form :: "security_policy option \<Rightarrow> policy_form" where
  "open_policy_form x =
     (case x of
        None \<Rightarrow> \<lparr>pf_existing = None, pf_name = [], pf_priority = 100, pf_action = Act_ban,
                 pf_duration = 21600, pf_enabled = True, pf_pattern = [], pf_pending = False\<rparr>
      | Some p \<Rightarrow> \<lparr>pf_existing = Some p, pf_name = sp_name p, pf_priority = sp_priority p, pf_action = sp_action p,
                   pf_duration = nullish (sp_ban_duration_seconds p) 21600, pf_enabled = sp_enabled p,
                   pf_pattern = sp_pattern p, pf_pending = False\<rparr>)"

definition policy_body :: "policy_form \<Rightarrow> json" where
  "policy_body f = JObject
     [(''name'', JString (pf_name f)), (''enabled'', JBool (pf_enabled f)), (''pattern'', JString (pf_pattern f)),
      (''action'', JString (policy_action_str (pf_action f))),
      (''ban_duration_seconds'', JInt (if pf_action f = Act_ban then pf_duration f else 0)),
      (''priority'', JInt (pf_priority f))]"

definition policy_request :: "string \<Rightarrow> policy_form \<Rightarrow> request" where
  "policy_request csrf f =
     (case pf_existing f of
        None \<Rightarrow> api_request csrf ''/api/security/policies'' (json_init ''POST'' (policy_body f))
      | Some p \<Rightarrow> api_request csrf (''/api/security/policies/'' @ encodeURIComponent (sp_id p)) (json_init ''PUT'' (policy_body f)))"

record rate_form =
  rf_existing :: "rate_limit_policy option"
  rf_name :: string
  rf_rps :: int
  rf_enabled :: bool
  rf_conditional :: bool
  rf_classes :: "int list"
  rf_banEnabled :: bool
  rf_banAfter :: int
  rf_banDuration :: int
  rf_pending :: bool

definition open_rate_form :: "rate_limit_policy option \<Rightarrow> rate_form" where
  "open_rate_form x =
     (case x of
        None \<Rightarrow> \<lparr>rf_existing = None, rf_name = [], rf_rps = 20, rf_enabled = True, rf_conditional = False,
                 rf_classes = [4, 5], rf_banEnabled = False, rf_banAfter = 3, rf_banDuration = 3600, rf_pending = False\<rparr>
      | Some r \<Rightarrow> \<lparr>rf_existing = Some r, rf_name = rl_name r, rf_rps = rl_requests_per_second r, rf_enabled = rl_enabled r,
                   rf_conditional = rl_response_condition_enabled r,
                   rf_classes = nullish (rl_response_status_classes r) [4, 5], rf_banEnabled = rl_ban_enabled r,
                   rf_banAfter = rl_ban_after_consecutive_429 r, rf_banDuration = rl_ban_duration_seconds r,
                   rf_pending = False\<rparr>)"

definition rate_body :: "rate_form \<Rightarrow> json" where
  "rate_body f = JObject
     [(''name'', JString (rf_name f)), (''enabled'', JBool (rf_enabled f)), (''requests_per_second'', JInt (rf_rps f)),
      (''response_condition_enabled'', JBool (rf_conditional f)),
      (''response_status_classes'', JArray (map JInt (if rf_conditional f then rf_classes f else []))),
      (''ban_enabled'', JBool (rf_banEnabled f)), (''ban_after_consecutive_429'', JInt (rf_banAfter f)),
      (''ban_duration_seconds'', JInt (rf_banDuration f))]"

definition rate_request :: "string \<Rightarrow> rate_form \<Rightarrow> request" where
  "rate_request csrf f =
     (case rf_existing f of
        None \<Rightarrow> api_request csrf ''/api/security/rate-limit-policies'' (json_init ''POST'' (rate_body f))
      | Some p \<Rightarrow> api_request csrf (''/api/security/rate-limit-policies/'' @ encodeURIComponent (rl_id p))
                   (json_init ''PUT'' (rate_body f)))"

text \<open>
  The check boxes of the status classes (digits, which the string order of \<open>sort\<close> leaves in numeric
  order) and the switch that turns bans on.
\<close>

definition toggle_class :: "int \<Rightarrow> bool \<Rightarrow> rate_form \<Rightarrow> rate_form" where
  "toggle_class code checked f =
     f\<lparr>rf_classes := (if checked then sort (rf_classes f @ [code]) else filter (\<lambda>c. c \<noteq> code) (rf_classes f))\<rparr>"

definition set_ban_enabled :: "bool \<Rightarrow> rate_form \<Rightarrow> rate_form" where
  "set_ban_enabled checked f =
     (if checked
      then (let errorClasses = filter (\<lambda>c. c = 4 \<or> c = 5) (rf_classes f)
            in f\<lparr>rf_banEnabled := True, rf_conditional := True,
                 rf_classes := (if errorClasses \<noteq> [] then errorClasses else [4, 5])\<rparr>)
      else f\<lparr>rf_banEnabled := False\<rparr>)"

definition rate_submit_disabled :: "rate_form \<Rightarrow> bool" where
  "rate_submit_disabled f \<longleftrightarrow> rf_pending f \<or> (rf_conditional f \<and> rf_classes f = []) \<or>
     (rf_banEnabled f \<and> (\<not> rf_conditional f \<or> list_ex (\<lambda>c. c \<noteq> 4 \<and> c \<noteq> 5) (rf_classes f) \<or>
        rf_banAfter f < 1 \<or> 100 < rf_banAfter f))"

section \<open>The page's state\<close>

datatype remove_kind = RemovePolicy | RemoveRate

record security_page =
  sec_csrf :: string
  sec_query :: "security_overview query"
  sec_tab :: string
  sec_pages :: "nat list"
  sec_policy :: "policy_form option"
  sec_rate :: "rate_form option"
  sec_remove :: "(remove_kind \<times> string \<times> string) option"
  sec_deploy :: bool
  sec_removing :: bool
  sec_unban :: bool
  sec_oldPolicySaves :: nat
  sec_oldRateSaves :: nat

datatype sec_event =
    SecTab string
  | SecPageTo nat int
  | Deploy
  | OpenPolicy "security_policy option"
  | OpenRate "rate_limit_policy option"
  | AskRemove remove_kind string string
  | TypeRemove string | CloseRemove | ConfirmRemove
  | Unban string
  | EditPolicyForm policy_form | ClosePolicy | SubmitPolicy
  | EditRateForm rate_form | CloseRate | SubmitRate
  | DeployArrives "js_error + security_overview"
  | RemoveArrives "js_error + security_overview"
  | UnbanArrives "js_error + security_overview"
  | PolicyArrives bool "js_error + security_overview"
  | RateArrives bool "js_error + security_overview"
  | SecDataArrives "security_overview query"

definition deploy_request :: "string \<Rightarrow> request" where
  "deploy_request csrf = api_request csrf ''/api/security/deploy'' (method_init ''POST'')"

definition remove_request :: "string \<Rightarrow> remove_kind \<times> string \<times> string \<Rightarrow> request" where
  "remove_request csrf t =
     api_request csrf
       (''/api/security/'' @ (case fst t of RemovePolicy \<Rightarrow> ''policies'' | RemoveRate \<Rightarrow> ''rate-limit-policies'') @ ''/''
          @ encodeURIComponent (fst (snd t))) (method_init ''DELETE'')"

definition unban_request :: "string \<Rightarrow> string \<Rightarrow> request" where
  "unban_request csrf ip = api_request csrf (''/api/security/bans/'' @ encodeURIComponent ip) (method_init ''DELETE'')"

text \<open>\<open>setQueryData(["security"], data)\<close>.\<close>

definition applyResult :: "security_overview \<Rightarrow> security_page \<Rightarrow> security_page" where
  "applyResult d s = s\<lparr>sec_query := \<lparr>q_data = Some d, q_error = None\<rparr>\<rparr>"

text \<open>Closing a dialog unmounts its form; a request it sent goes on.\<close>

definition close_policy :: "security_page \<Rightarrow> security_page" where
  "close_policy s =
     s\<lparr>sec_policy := None,
       sec_oldPolicySaves := sec_oldPolicySaves s + (case sec_policy s of Some f \<Rightarrow> if pf_pending f then 1 else 0 | None \<Rightarrow> 0)\<rparr>"

definition close_rate :: "security_page \<Rightarrow> security_page" where
  "close_rate s =
     s\<lparr>sec_rate := None,
       sec_oldRateSaves := sec_oldRateSaves s + (case sec_rate s of Some f \<Rightarrow> if rf_pending f then 1 else 0 | None \<Rightarrow> 0)\<rparr>"

text \<open>The request of a save has settled: of the open dialog, or of one closed before.\<close>

definition policy_settled :: "bool \<Rightarrow> security_page \<Rightarrow> security_page" where
  "policy_settled own s =
     (if own then s\<lparr>sec_policy := map_option (pf_pending_update (\<lambda>_. False)) (sec_policy s)\<rparr>
      else s\<lparr>sec_oldPolicySaves := sec_oldPolicySaves s - 1\<rparr>)"

definition rate_settled :: "bool \<Rightarrow> security_page \<Rightarrow> security_page" where
  "rate_settled own s =
     (if own then s\<lparr>sec_rate := map_option (rf_pending_update (\<lambda>_. False)) (sec_rate s)\<rparr>
      else s\<lparr>sec_oldRateSaves := sec_oldRateSaves s - 1\<rparr>)"

definition sec_failed :: "security_page \<Rightarrow> js_error \<Rightarrow> security_page \<times> effect list" where
  "sec_failed s e = (s, [ToastError (errorMessage e)])"

text \<open>\<open>setPage\<close> of the five lists.\<close>

definition sec_turn :: "security_page \<Rightarrow> nat \<Rightarrow> int \<Rightarrow> nat" where
  "sec_turn s i k =
     (let n = (case q_data (sec_query s) of None \<Rightarrow> 0
         | Some d \<Rightarrow> [length (so_policies d), length (so_rate_limit_policies d), length (so_bans d),
                     length (so_events d), length (so_nodes d)] ! i)
      in nat (max 1 (min k (int (total_pages n LIST_PAGE_SIZE)))))"

fun security_step :: "(sec_event, security_page) component" where
  "security_step (SecTab t) s = (s\<lparr>sec_tab := t\<rparr>, [])"
| "security_step (SecPageTo i k) s = (s\<lparr>sec_pages := (sec_pages s)[i := sec_turn s i k]\<rparr>, [])"
| "security_step Deploy s = (s\<lparr>sec_deploy := True\<rparr>, [Send (deploy_request (sec_csrf s))])"
| "security_step (OpenPolicy x) s = (s\<lparr>sec_policy := Some (open_policy_form x)\<rparr>, [])"
| "security_step (OpenRate x) s = (s\<lparr>sec_rate := Some (open_rate_form x)\<rparr>, [])"
| "security_step (AskRemove k i n) s = (s\<lparr>sec_remove := Some (k, i, n)\<rparr>, [])"
| "security_step (TypeRemove v) s = (s, [])"
| "security_step CloseRemove s = (s\<lparr>sec_remove := None\<rparr>, [])"
| "security_step ConfirmRemove s =
     (case sec_remove s of None \<Rightarrow> (s, [])
      | Some t \<Rightarrow> (s\<lparr>sec_removing := True\<rparr>, [Send (remove_request (sec_csrf s) t)]))"
| "security_step (Unban ip) s = (s\<lparr>sec_unban := True\<rparr>, [Send (unban_request (sec_csrf s) ip)])"
| "security_step (EditPolicyForm f) s = (s\<lparr>sec_policy := Some f\<rparr>, [])"
| "security_step ClosePolicy s = (close_policy s, [])"
| "security_step SubmitPolicy s =
     (case sec_policy s of None \<Rightarrow> (s, [])
      | Some f \<Rightarrow> (s\<lparr>sec_policy := Some (f\<lparr>pf_pending := True\<rparr>)\<rparr>, [Send (policy_request (sec_csrf s) f)]))"
| "security_step (EditRateForm f) s = (s\<lparr>sec_rate := Some f\<rparr>, [])"
| "security_step CloseRate s = (close_rate s, [])"
| "security_step SubmitRate s =
     (case sec_rate s of None \<Rightarrow> (s, [])
      | Some f \<Rightarrow> (s\<lparr>sec_rate := Some (f\<lparr>rf_pending := True\<rparr>)\<rparr>, [Send (rate_request (sec_csrf s) f)]))"
| "security_step (DeployArrives res) s =
     settle res (\<lambda>d. (applyResult d (s\<lparr>sec_deploy := False\<rparr>), [ToastSuccess [Zh ''security policies published again'']]))
       (sec_failed (s\<lparr>sec_deploy := False\<rparr>))"
| "security_step (RemoveArrives res) s =
     settle res (\<lambda>d. (applyResult d (s\<lparr>sec_removing := False, sec_remove := None\<rparr>),
                      [ToastSuccess [Zh ''policy deleted and published'']])) (sec_failed (s\<lparr>sec_removing := False\<rparr>))"
| "security_step (UnbanArrives res) s =
     settle res (\<lambda>d. (applyResult d (s\<lparr>sec_unban := False\<rparr>), [ToastSuccess [Zh ''the ban was lifted'']]))
       (sec_failed (s\<lparr>sec_unban := False\<rparr>))"
| "security_step (PolicyArrives own res) s =
     settle res (\<lambda>d. (close_policy (applyResult d (policy_settled own s)), [ToastSuccess [Zh ''access policy saved and published'']]))
       (sec_failed (policy_settled own s))"
| "security_step (RateArrives own res) s =
     settle res (\<lambda>d. (close_rate (applyResult d (rate_settled own s)), [ToastSuccess [Zh ''rate limit saved and published'']]))
       (sec_failed (rate_settled own s))"
| "security_step (SecDataArrives q) s = (s\<lparr>sec_query := q\<rparr>, [])"

section \<open>Derived values\<close>

definition enabled_policies :: "security_overview \<Rightarrow> nat" where
  "enabled_policies d =
     length (filter sp_enabled (so_policies d)) + length (filter rl_enabled (so_rate_limit_policies d))"

definition eligibleNodes :: "security_overview \<Rightarrow> security_node list" where
  "eligibleNodes d = filter (\<lambda>n. sn_status n \<in> {Node_active, Node_draining}) (so_nodes d)"

definition capableNodes :: "security_overview \<Rightarrow> security_node list" where
  "capableNodes d = filter (\<lambda>n. sn_capable n \<and> sn_rate_limit_capable n) (eligibleNodes d)"

definition node_ready :: "security_node \<Rightarrow> bool" where
  "node_ready n \<longleftrightarrow> sn_configured n \<and> sn_rate_limit_configured n \<and> 0 < sn_desired_version n \<and>
     sn_desired_version n \<le> sn_applied_version n"

definition appliedNodes :: "security_overview \<Rightarrow> security_node list" where
  "appliedNodes d = filter node_ready (capableNodes d)"

definition duration_options :: "(string \<times> ui_text) list" where
  "duration_options =
     [(''3600'', [Zh ''1 hour'']), (''21600'', [Zh ''6 hours'']), (''43200'', [Zh ''12 hours'']),
      (''86400'', [Zh ''24 hours'']), (''259200'', [Zh ''3 days'']), (''604800'', [Zh ''7 days''])]"

definition durationLabel :: "int option \<Rightarrow> ui_text" where
  "durationLabel seconds =
     (case seconds of
        None \<Rightarrow> [Raw ''--'']
      | Some n \<Rightarrow>
          (case map_of [(3600, ''1 hour''), (21600, ''6 hours''), (43200, ''12 hours''), (86400, ''24 hours''),
                        (259200, ''3 days''), (604800, ''7 days'')] n of
             Some l \<Rightarrow> [Zh l] | None \<Rightarrow> [Raw ''--'']))"

definition nodeName :: "security_overview \<Rightarrow> string option \<Rightarrow> string" where
  "nodeName d i =
     opt_or (map_option sn_name (find (\<lambda>n. Some (sn_id n) = i) (so_nodes d))) (opt_or i ''--'')"

definition condition_label :: "rate_limit_policy \<Rightarrow> ui_text" where
  "condition_label r =
     (if rl_response_condition_enabled r then
        (case rl_response_status_classes r of
           None \<Rightarrow> [Zh ''no effective condition'']
         | Some [] \<Rightarrow> [Zh ''no effective condition'']
         | Some cs \<Rightarrow> join_text (Zh ''(enumeration comma)'') (map (\<lambda>c. [Raw (int_str c @ ''xx'')]) cs))
      else [Zh ''all requests''])"

definition escalation_label :: "rate_limit_policy \<Rightarrow> ui_text" where
  "escalation_label r =
     (if rl_ban_enabled r
      then [Zh ''after '', Raw (formatNumber (Some (rl_ban_after_consecutive_429 r))), Zh '' consecutive 429 ban for '']
           @ durationLabel (Some (rl_ban_duration_seconds r))
      else [Zh ''only returns 429''])"

definition ban_meta :: "security_overview \<Rightarrow> ui_text" where
  "ban_meta d =
     (if int (length (so_bans d)) < so_active_ban_count d
      then [Raw (int_str (so_active_ban_count d)), Zh '' in all, the first '', Raw (nat_str (length (so_bans d))), Zh '' shown'']
      else [Raw (int_str (so_active_ban_count d)), Zh '' entries''])"

definition dash :: "string option \<Rightarrow> ui_text" where
  "dash x = [Raw (opt_or x ''--'')]"

section \<open>The view\<close>

definition enabled_badge :: "bool \<Rightarrow> 'e view" where
  "enabled_badge b = StatusBadge (if b then ''succeeded'' else ''pending'') (Some [Zh (if b then ''enabled'' else ''disabled'')])"

definition SectionHeader :: "ui_text \<Rightarrow> ui_text \<Rightarrow> 'e view list \<Rightarrow> 'e view" where
  "SectionHeader title meta action = Grp ''section'' ([Txt title, Txt meta] @ action)"

definition DataFrame :: "bool \<Rightarrow> ui_text \<Rightarrow> 'e view list \<Rightarrow> 'e view list \<Rightarrow> 'e view" where
  "DataFrame is_empty emptyTitle footer children =
     Grp ''frame'' (if is_empty then [EmptyState emptyTitle None] else children @ footer)"

definition policy_row :: "security_policy \<Rightarrow> sec_event view" where
  "policy_row p = Grp ''row''
     ([Txt [Raw (sp_name p)]] @ only_if (sp_builtin p) [Txt [Zh ''built-in policy'']] @
      [Txt [Raw (sp_pattern p)],
       Txt (case sp_action p of Act_ban \<Rightarrow> [Zh ''IP ban '', Zh ''(middle dot) ''] @ durationLabel (sp_ban_duration_seconds p)
            | Act_block \<Rightarrow> [Zh ''block only'']),
       Txt [Raw (formatNumber (Some (sp_priority p)))], enabled_badge (sp_enabled p),
       Btn [Zh ''edit the policy''] False (OpenPolicy (Some p))] @
      only_if (\<not> sp_builtin p) [Btn [Zh ''delete the policy''] False (AskRemove RemovePolicy (sp_id p) (sp_name p))])"

definition rate_row :: "rate_limit_policy \<Rightarrow> sec_event view" where
  "rate_row r = Grp ''row''
     [Txt [Raw (rl_name r)], Txt [Zh ''client IP''],
      Txt [Raw (formatNumber (Some (rl_requests_per_second r))), Zh '' requests/second''],
      Txt (condition_label r), Txt (escalation_label r), enabled_badge (rl_enabled r),
      Btn [Zh ''edit the rate limit''] False (OpenRate (Some r)),
      Btn [Zh ''delete the rate limit''] False (AskRemove RemoveRate (rl_id r) (rl_name r))]"

definition ban_row :: "security_overview \<Rightarrow> bool \<Rightarrow> security_ban \<Rightarrow> sec_event view" where
  "ban_row d pending b = Grp ''row''
     [Txt [Raw (sb_ip b)], Txt (dash (sb_policy_name b)), Txt [Raw (nodeName d (sb_trigger_node_id b))],
      Txt (dash (sb_method b) @ [Zh '' (middle dot) ''] @ dash (sb_host b)), Txt (dash (sb_path b)),
      Txt (formatDateTime (Some (sb_expires_at b))), Btn [Zh ''lift the ban''] pending (Unban (sb_ip b))]"

definition hit_row :: "security_overview \<Rightarrow> security_event \<Rightarrow> sec_event view" where
  "hit_row d h = Grp ''row''
     [Txt (formatDateTime (Some (se_observed_at h))), Txt [Raw (se_client_ip h)], Txt (dash (se_policy_name h)),
      Txt [Raw (nodeName d (se_node_id h))], Txt (dash (se_method h) @ [Zh '' (middle dot) ''] @ dash (se_host h)),
      Txt [Raw (se_path h)], Txt [Zh (case se_action h of Act_ban \<Rightarrow> ''IP ban'' | Act_block \<Rightarrow> ''block only'')]]"

definition capability_label :: "bool \<Rightarrow> bool \<Rightarrow> ui_text" where
  "capability_label capable configured =
     [Zh (if capable then if configured then ''configured'' else ''to be configured'' else ''needs an upgrade'')]"

definition security_node_row :: "security_node \<Rightarrow> sec_event view" where
  "security_node_row n = Grp ''row''
     [Txt [Raw (sn_name n)], StatusBadge (node_status_str (sn_status n)) None,
      Txt (capability_label (sn_capable n) (sn_configured n)),
      Txt (capability_label (sn_rate_limit_capable n) (sn_rate_limit_configured n)),
      Txt [Zh ''wanted v'', Raw (int_str (sn_desired_version n)), Zh '' present v'', Raw (int_str (sn_applied_version n))],
      (if truthy_str (sn_last_error n) then StatusBadge ''failed'' (Some [Zh ''node error''])
       else if node_ready n then StatusBadge ''succeeded'' (Some [Zh ''applied''])
       else StatusBadge ''applying'' (Some [Zh ''waiting to be applied'']))]"

definition security_tabs :: "(string \<times> ui_text) list" where
  "security_tabs = [(''policies'', [Zh ''access policies'']), (''rate'', [Zh ''rate limits'']), (''bans'', [Zh ''active bans'']),
     (''events'', [Zh ''recent hits'']), (''nodes'', [Zh ''edge coverage''])]"

definition tab_content :: "security_overview \<Rightarrow> security_page \<Rightarrow> sec_event view list" where
  "tab_content d s =
     (let pg = (\<lambda>i. sec_pages s ! i) in
      if sec_tab s = ''policies'' then
        (let p = useListPagination (so_policies d) LIST_PAGE_SIZE (pg 0) in
         [SectionHeader [Zh ''access policies''] [Zh ''matched by priority on the normalized path''] [Btn [Zh ''add''] False (OpenPolicy None)],
          DataFrame (so_policies d = []) [Zh ''no access policies''] [ListPagination p [Zh ''policies''] False (SecPageTo 0) []]
            (map policy_row (pg_items p))])
      else if sec_tab s = ''rate'' then
        (let p = useListPagination (so_rate_limit_policies d) LIST_PAGE_SIZE (pg 1) in
         [SectionHeader [Zh ''rate limits''] [Zh ''one-second windows per client IP on the edge''] [Btn [Zh ''add''] False (OpenRate None)],
          DataFrame (so_rate_limit_policies d = []) [Zh ''no rate limits''] [ListPagination p [Zh ''policies''] False (SecPageTo 1) []]
            (map rate_row (pg_items p))])
      else if sec_tab s = ''bans'' then
        (let p = useListPagination (so_bans d) LIST_PAGE_SIZE (pg 2) in
         [SectionHeader [Zh ''active bans''] (ban_meta d) [],
          DataFrame (so_bans d = []) [Zh ''no active bans''] [ListPagination p [Zh ''bans''] False (SecPageTo 2) []]
            (map (ban_row d (sec_unban s)) (pg_items p))])
      else if sec_tab s = ''events'' then
        (let p = useListPagination (so_events d) LIST_PAGE_SIZE (pg 3) in
         [SectionHeader [Zh ''recent hits''] [Zh ''kept for 7 days, at most 20 per page''] [],
          DataFrame (so_events d = []) [Zh ''no hits''] [ListPagination p [Zh ''hits''] False (SecPageTo 3) []]
            (map (hit_row d) (pg_items p))])
      else
        (let p = useListPagination (so_nodes d) LIST_PAGE_SIZE (pg 4) in
         [SectionHeader [Zh ''edge deployment''] [Zh ''capabilities and applied versions''] [],
          DataFrame (so_nodes d = []) [Zh ''no nodes''] [ListPagination p [Zh ''nodes''] False (SecPageTo 4) []]
            (map security_node_row (pg_items p))]))"

definition Summary :: "ui_text \<Rightarrow> ui_text \<Rightarrow> 'e view" where
  "Summary label v = Grp ''summary'' [Txt label, Txt v]"

definition of_text :: "nat \<Rightarrow> nat \<Rightarrow> ui_text" where
  "of_text a b = [Raw (nat_str a), Raw '' / '', Raw (nat_str b)]"

definition security_body :: "security_page \<Rightarrow> sec_event view list" where
  "security_body s =
     [PageHeader [Zh ''security''] (Some [Zh ''access policies, rate limits and active bans''])
        [Btn [Zh ''publish again''] (sec_deploy s) Deploy, Btn [Zh ''access policy''] False (OpenPolicy None)]] @
     only_if (q_loading (sec_query s)) [PageLoading 4] @
     (case q_error (sec_query s) of None \<Rightarrow> [] | Some e \<Rightarrow> [PageError [Zh ''loading failed''] e]) @
     (case q_data (sec_query s) of
        None \<Rightarrow> []
      | Some d \<Rightarrow>
          only_if (truthy_str (so_deployment_error d))
            [Txt [Zh ''some policies could not be published''], Txt (dash (so_deployment_error d))] @
          [Summary [Zh ''enabled policies''] [Raw (formatNumber (Some (int (enabled_policies d))))],
           Summary [Zh ''active bans''] [Raw (formatNumber (Some (so_active_ban_count d)))],
           Summary [Zh ''capability coverage''] (of_text (length (capableNodes d)) (length (eligibleNodes d))),
           Summary [Zh ''applied on''] (of_text (length (appliedNodes d)) (length (capableNodes d))),
           Sel [] security_tabs (sec_tab s) False SecTab] @
          tab_content d s)"

definition num_input :: "string \<Rightarrow> int \<Rightarrow> int \<Rightarrow> int \<Rightarrow> (int \<Rightarrow> 'e) \<Rightarrow> 'e view" where
  "num_input l lo hi n f = Inp l [NumRange (Some lo) (Some hi), Required] (int_str n) False (\<lambda>v. f (js_number v))"

definition PolicyDialogShell :: "policy_form \<Rightarrow> sec_event view" where
  "PolicyDialogShell f = Grp ''dialog''
     [Txt [Zh (if pf_existing f \<noteq> None then ''edit the access policy'' else ''add an access policy'')],
      Txt [Zh ''a safe subset of PCRE, published when saved''], Btn [Zh ''close''] False ClosePolicy,
      Form
        ([Inp ''policy-name'' [Required, MaxLength 80] (pf_name f) False (\<lambda>v. EditPolicyForm (f\<lparr>pf_name := v\<rparr>)),
          num_input ''policy-priority'' 1 10000 (pf_priority f) (\<lambda>n. EditPolicyForm (f\<lparr>pf_priority := n\<rparr>)),
          Sel [Zh ''action''] [(''ban'', [Zh ''IP ban'']), (''block'', [Zh ''block the request only''])]
            (policy_action_str (pf_action f)) False
            (\<lambda>v. EditPolicyForm (f\<lparr>pf_action := (if v = ''ban'' then Act_ban else Act_block)\<rparr>))] @
         only_if (pf_action f = Act_ban)
           [Sel [Zh ''ban duration''] duration_options (int_str (pf_duration f)) False
              (\<lambda>v. EditPolicyForm (f\<lparr>pf_duration := js_number v\<rparr>))] @
         [Chk [Zh ''enable the policy''] (pf_enabled f) False (\<lambda>b. EditPolicyForm (f\<lparr>pf_enabled := b\<rparr>)),
          Inp ''policy-pattern'' [Required, MaxLength 2048] (pf_pattern f) False (\<lambda>v. EditPolicyForm (f\<lparr>pf_pattern := v\<rparr>)),
          Btn [Zh ''cancel''] False ClosePolicy])
        [Zh ''save and publish''] (pf_pending f) SubmitPolicy]"

definition class_boxes :: "rate_form \<Rightarrow> sec_event view list" where
  "class_boxes f =
     map (\<lambda>code. Chk [Raw (int_str code @ ''xx'')] (code \<in> set (rf_classes f)) (rf_banEnabled f \<and> code < 4)
            (\<lambda>b. EditRateForm (toggle_class code b f))) [2, 3, 4, 5]"

definition RateDialogShell :: "rate_form \<Rightarrow> sec_event view" where
  "RateDialogShell f = Grp ''dialog''
     [Txt [Zh (if rf_existing f \<noteq> None then ''edit the rate limit'' else ''add a rate limit'')],
      Txt [Zh ''counted per client IP in one-second windows on the edge''], Btn [Zh ''close''] False CloseRate,
      Form
        ([Inp ''rate-name'' [Required, MaxLength 80] (rf_name f) False (\<lambda>v. EditRateForm (f\<lparr>rf_name := v\<rparr>)),
          num_input ''rate-rps'' 1 100000 (rf_rps f) (\<lambda>n. EditRateForm (f\<lparr>rf_rps := n\<rparr>)),
          Chk [Zh ''enable the policy''] (rf_enabled f) False (\<lambda>b. EditRateForm (f\<lparr>rf_enabled := b\<rparr>)),
          Chk [Zh ''count certain responses only''] (rf_conditional f) (rf_banEnabled f)
            (\<lambda>b. EditRateForm (f\<lparr>rf_conditional := b\<rparr>))] @
         only_if (rf_conditional f) (class_boxes f) @
         [Chk [Zh ''ban the IP after repeated excess''] (rf_banEnabled f) False (\<lambda>b. EditRateForm (set_ban_enabled b f))] @
         only_if (rf_banEnabled f)
           [num_input ''rate-ban-after'' 1 100 (rf_banAfter f) (\<lambda>n. EditRateForm (f\<lparr>rf_banAfter := n\<rparr>)),
            Sel [Zh ''ban duration''] duration_options (int_str (rf_banDuration f)) False
              (\<lambda>v. EditRateForm (f\<lparr>rf_banDuration := js_number v\<rparr>))] @
         [Btn [Zh ''cancel''] False CloseRate])
        [Zh ''save and publish''] (rate_submit_disabled f) SubmitRate]"

definition modal_open :: "security_page \<Rightarrow> bool" where
  "modal_open s \<longleftrightarrow> sec_policy s \<noteq> None \<or> sec_rate s \<noteq> None \<or> sec_remove s \<noteq> None"

definition SecurityPage :: "security_page \<Rightarrow> sec_event view list" where
  "SecurityPage s =
     (if modal_open s then [] else security_body s) @
     (case sec_policy s of None \<Rightarrow> [] | Some f \<Rightarrow> [PolicyDialogShell f]) @
     (case sec_rate s of None \<Rightarrow> [] | Some f \<Rightarrow> [RateDialogShell f]) @
     ConfirmDialog (sec_remove s \<noteq> None) [Zh ''delete the security policy'']
       [Zh ''deleting '', Raw (case sec_remove s of None \<Rightarrow> [] | Some t \<Rightarrow> snd (snd t)), Zh '' publishes all edges again'']
       [Zh ''delete and publish''] None (sec_removing s) [] TypeRemove CloseRemove ConfirmRemove"

fun security_enabled :: "security_page \<Rightarrow> sec_event \<Rightarrow> bool" where
  "security_enabled s (DeployArrives r) \<longleftrightarrow> sec_deploy s"
| "security_enabled s (RemoveArrives r) \<longleftrightarrow> sec_removing s"
| "security_enabled s (UnbanArrives r) \<longleftrightarrow> sec_unban s"
| "security_enabled s (PolicyArrives own r) \<longleftrightarrow>
     (if own then (case sec_policy s of None \<Rightarrow> False | Some f \<Rightarrow> pf_pending f) else 0 < sec_oldPolicySaves s)"
| "security_enabled s (RateArrives own r) \<longleftrightarrow>
     (if own then (case sec_rate s of None \<Rightarrow> False | Some f \<Rightarrow> rf_pending f) else 0 < sec_oldRateSaves s)"
| "security_enabled s (SecDataArrives q) \<longleftrightarrow> True"
| "security_enabled s e \<longleftrightarrow> offers (SecurityPage s) e"

definition security_init :: "string \<Rightarrow> security_page" where
  "security_init csrf =
     \<lparr>sec_csrf = csrf, sec_query = \<lparr>q_data = None, q_error = None\<rparr>, sec_tab = ''policies'', sec_pages = replicate 5 1,
      sec_policy = None, sec_rate = None, sec_remove = None, sec_deploy = False, sec_removing = False,
      sec_unban = False, sec_oldPolicySaves = 0, sec_oldRateSaves = 0\<rparr>"

inductive security_reach :: "security_page \<Rightarrow> bool" where
  start: "security_reach (security_init csrf)"
| step: "security_reach s \<Longrightarrow> security_enabled s e \<Longrightarrow> security_reach (fst (security_step e s))"


section \<open>What can be raised\<close>

lemma fires_PolicyDialogShell:
  "fires (PolicyDialogShell f) e \<Longrightarrow>
     e = ClosePolicy \<or> (\<exists>g. e = EditPolicyForm g \<and> pf_existing g = pf_existing f \<and> pf_pending g = pf_pending f) \<or>
     (e = SubmitPolicy \<and> \<not> pf_pending f \<and> pf_name f \<noteq> [] \<and> js_length (pf_name f) \<le> 80 \<and>
      1 \<le> pf_priority f \<and> pf_priority f \<le> 10000 \<and> pf_pattern f \<noteq> [] \<and> js_length (pf_pattern f) \<le> 2048)"
  by (auto simp: PolicyDialogShell_def num_input_def field_ok_def)

definition rate_valid :: "rate_form \<Rightarrow> bool" where
  "rate_valid f \<longleftrightarrow>
     rf_name f \<noteq> [] \<and> js_length (rf_name f) \<le> 80 \<and> 1 \<le> rf_rps f \<and> rf_rps f \<le> 100000 \<and>
     (rf_conditional f \<longrightarrow> rf_classes f \<noteq> []) \<and>
     (rf_banEnabled f \<longrightarrow> rf_conditional f \<and> set (rf_classes f) \<subseteq> {4, 5} \<and> 1 \<le> rf_banAfter f \<and> rf_banAfter f \<le> 100)"

definition rate_inv :: "rate_form \<Rightarrow> bool" where
  "rate_inv f \<longleftrightarrow> (rf_banEnabled f \<longrightarrow> rf_conditional f \<and> set (rf_classes f) \<subseteq> {4, 5})"

lemma set_ban_enabled_inv: "rate_inv (set_ban_enabled b f)"
  by (auto simp: rate_inv_def set_ban_enabled_def Let_def)

lemma toggle_class_inv: "rate_inv f \<Longrightarrow> \<not> (rf_banEnabled f \<and> code < 4) \<Longrightarrow> code \<in> {2, 3, 4, 5} \<Longrightarrow> rate_inv (toggle_class code b f)"
  by (auto simp: rate_inv_def toggle_class_def)

lemma fires_class_boxes:
  "offers (class_boxes f) e \<Longrightarrow>
     \<exists>code \<in> {2, 3, 4, 5}. \<not> (rf_banEnabled f \<and> code < 4) \<and> e = EditRateForm (toggle_class code (code \<notin> set (rf_classes f)) f)"
  by (auto simp: class_boxes_def)

lemma class_boxes_edit: "offers (class_boxes f) e \<Longrightarrow> \<exists>g. e = EditRateForm g"
  using fires_class_boxes by blast

lemma rate_dialog_events:
  assumes "fires (RateDialogShell f) e"
  shows "e = CloseRate \<or> e = SubmitRate \<or> offers (class_boxes f) e \<or> (\<exists>b. e = EditRateForm (set_ban_enabled b f)) \<or>
    (\<not> rf_banEnabled f \<and> (\<exists>b. e = EditRateForm (f\<lparr>rf_conditional := b\<rparr>))) \<or>
    (\<exists>v. e = EditRateForm (f\<lparr>rf_name := v\<rparr>)) \<or> (\<exists>v. e = EditRateForm (f\<lparr>rf_rps := v\<rparr>)) \<or>
    (\<exists>v. e = EditRateForm (f\<lparr>rf_enabled := v\<rparr>)) \<or> (\<exists>v. e = EditRateForm (f\<lparr>rf_banAfter := v\<rparr>)) \<or>
    (\<exists>v. e = EditRateForm (f\<lparr>rf_banDuration := v\<rparr>))"
  using assms by (simp add: RateDialogShell_def num_input_def image_iff) blast

lemma rate_edit_cases:
  assumes "fires (RateDialogShell f) (EditRateForm g)"
  shows "rf_existing g = rf_existing f \<and> rf_pending g = rf_pending f \<and> (rate_inv f \<longrightarrow> rate_inv g)"
proof -
  consider "offers (class_boxes f) (EditRateForm g)" | b where "g = set_ban_enabled b f"
    | b where "\<not> rf_banEnabled f" "g = f\<lparr>rf_conditional := b\<rparr>" | v where "g = f\<lparr>rf_name := v\<rparr>"
    | v where "g = f\<lparr>rf_rps := v\<rparr>" | v where "g = f\<lparr>rf_enabled := v\<rparr>" | v where "g = f\<lparr>rf_banAfter := v\<rparr>"
    | v where "g = f\<lparr>rf_banDuration := v\<rparr>"
    using rate_dialog_events [OF assms] by auto
  then show ?thesis
  proof cases
    case 1
    then obtain code where "code \<in> {2, 3, 4, 5}" "\<not> (rf_banEnabled f \<and> code < 4)"
      "g = toggle_class code (code \<notin> set (rf_classes f)) f"
      using fires_class_boxes by blast
    then show ?thesis using toggle_class_inv [of f code] by (simp add: toggle_class_def)
  next
    case 2
    then show ?thesis using set_ban_enabled_inv [of b f] by (simp add: set_ban_enabled_def Let_def)
  qed (simp_all add: rate_inv_def)
qed

lemma fires_rate_submit:
  assumes "fires (RateDialogShell f) SubmitRate"
  shows "\<not> rf_pending f \<and> rate_valid f"
proof -
  have nb: "\<not> offers (class_boxes f) SubmitRate" using class_boxes_edit [of f SubmitRate] by auto
  have d: "\<not> rate_submit_disabled f" and n: "field_ok [Required, MaxLength 80] (rf_name f)"
    and r: "field_ok [NumRange (Some 1) (Some 100000), Required] (int_str (rf_rps f))"
    using assms nb by (auto simp: RateDialogShell_def num_input_def)
  have "set (rf_classes f) \<subseteq> {4, 5}" if "rf_banEnabled f"
    using d that by (auto simp: rate_submit_disabled_def list_ex_iff)
  then show ?thesis using d n r by (auto simp: rate_submit_disabled_def rate_valid_def field_ok_def)
qed

lemma fires_RateDialogShell:
  assumes "fires (RateDialogShell f) e"
  shows "e = CloseRate \<or> (\<exists>g. e = EditRateForm g) \<or> (e = SubmitRate \<and> \<not> rf_pending f \<and> rate_valid f)"
proof -
  have "e = CloseRate \<or> (\<exists>g. e = EditRateForm g) \<or> e = SubmitRate"
    using rate_dialog_events [OF assms] class_boxes_edit [of f e] by blast
  then show ?thesis using fires_rate_submit [of f] assms by blast
qed

lemma fires_rows [simp]:
  "fires (policy_row p) e \<longleftrightarrow> e = OpenPolicy (Some p) \<or>
     (\<not> sp_builtin p \<and> e = AskRemove RemovePolicy (sp_id p) (sp_name p))"
  "fires (rate_row r) e \<longleftrightarrow> e = OpenRate (Some r) \<or> e = AskRemove RemoveRate (rl_id r) (rl_name r)"
  "fires (ban_row d pend b) e \<longleftrightarrow> \<not> pend \<and> e = Unban (sb_ip b)"
  "\<not> fires (hit_row d h) e" "\<not> fires (security_node_row n) e" "\<not> fires (Summary l v) e"
  "fires (SectionHeader t m as) e \<longleftrightarrow> offers as e"
  "fires (DataFrame em t fo ch) e \<longleftrightarrow> \<not> em \<and> (offers ch e \<or> offers fo e)"
  by (auto simp: policy_row_def rate_row_def ban_row_def hit_row_def security_node_row_def Summary_def
      SectionHeader_def DataFrame_def enabled_badge_def)

lemma offers_tab_content:
  assumes "offers (tab_content d s) e"
  shows "(\<exists>x. e = OpenPolicy x) \<or> (\<exists>x. e = OpenRate x) \<or> (\<exists>i k. e = SecPageTo i k) \<or>
    (\<exists>r \<in> set (so_rate_limit_policies d). e = AskRemove RemoveRate (rl_id r) (rl_name r)) \<or>
    (\<exists>p \<in> set (so_policies d). \<not> sp_builtin p \<and> e = AskRemove RemovePolicy (sp_id p) (sp_name p)) \<or>
    (\<exists>b \<in> set (so_bans d). \<not> sec_unban s \<and> e = Unban (sb_ip b))"
proof -
  note sub = subsetD [OF pagination_subset]
  show ?thesis
    using assms
    by (simp add: tab_content_def Let_def offers_map split: if_splits) (blast dest: sub)+
qed

lemma offers_security_body:
  assumes "offers (security_body s) e"
  shows "(e = Deploy \<and> \<not> sec_deploy s) \<or> (\<exists>x. e = OpenPolicy x) \<or> (\<exists>x. e = OpenRate x) \<or>
    (\<exists>t. e = SecTab t) \<or> (\<exists>i k. e = SecPageTo i k) \<or>
    (\<exists>d. q_data (sec_query s) = Some d \<and>
       ((\<exists>r \<in> set (so_rate_limit_policies d). e = AskRemove RemoveRate (rl_id r) (rl_name r)) \<or>
        (\<exists>p \<in> set (so_policies d). \<not> sp_builtin p \<and> e = AskRemove RemovePolicy (sp_id p) (sp_name p)) \<or>
        (\<exists>b \<in> set (so_bans d). \<not> sec_unban s \<and> e = Unban (sb_ip b))))"
proof (cases "q_data (sec_query s)")
  case None
  then show ?thesis using assms by (auto simp: security_body_def split: option.splits)
next
  case (Some d)
  have "e = Deploy \<and> \<not> sec_deploy s \<or> e = OpenPolicy None \<or> (\<exists>t. e = SecTab t) \<or> offers (tab_content d s) e"
    using assms Some by (auto simp: security_body_def split: option.splits)
  then show ?thesis using offers_tab_content [of d s e] Some by blast
qed

lemma offers_SecurityPage:
  assumes "offers (SecurityPage s) e"
  shows "(\<not> modal_open s \<and> offers (security_body s) e) \<or> (\<exists>f. sec_policy s = Some f \<and> fires (PolicyDialogShell f) e) \<or>
    (\<exists>f. sec_rate s = Some f \<and> fires (RateDialogShell f) e) \<or>
    (sec_remove s \<noteq> None \<and> (e = CloseRemove \<or> (e = ConfirmRemove \<and> \<not> sec_removing s)))"
  using assms by (auto simp: SecurityPage_def offers_ConfirmDialog split: if_splits option.splits)

section \<open>Laws\<close>

lemma integral_bodies [simp]: "integral (policy_body f)" "integral (rate_body g)"
  by (simp_all add: policy_body_def rate_body_def)


definition sample_rate :: rate_form where
  "sample_rate = (open_rate_form None)\<lparr>rf_name := ''api''\<rparr>"


text \<open>The dialog of a new rate limit keeps the escalation to a ban consistent.\<close>

lemma rate_reach_new:
  "security_reach s \<Longrightarrow> sec_rate s = Some f \<Longrightarrow> rf_existing f = None \<Longrightarrow> rate_inv f"
proof (induction arbitrary: f rule: security_reach.induct)
  case (start csrf)
  then show ?case by (simp add: security_init_def)
next
  case (step s e)
  show ?case
  proof (cases e)
    case (OpenRate x)
    then show ?thesis using step.prems
      by (cases x) (auto simp: open_rate_form_def rate_inv_def)
  next
    case (EditRateForm g)
    then have "offers (SecurityPage s) (EditRateForm g)" using step.hyps(2) by simp
    then obtain f0 where f0: "sec_rate s = Some f0" "fires (RateDialogShell f0) (EditRateForm g)"
      using offers_SecurityPage offers_security_body [of s "EditRateForm g"] fires_PolicyDialogShell [of _ "EditRateForm g"]
      by blast
    then show ?thesis
      using rate_edit_cases [OF f0(2)] step.IH [OF f0(1)] step.prems EditRateForm by simp
  next
    case SubmitRate
    then show ?thesis using step.prems step.IH by (auto simp: rate_inv_def split: option.splits)
  next
    case (RateArrives own res)
    then show ?thesis using step.prems step.IH
      by (cases res) (auto simp: close_rate_def rate_settled_def applyResult_def sec_failed_def rate_inv_def split: if_splits)
  next
    case (PolicyArrives own res)
    then show ?thesis using step.prems step.IH
      by (cases res) (auto simp: close_policy_def policy_settled_def applyResult_def sec_failed_def split: if_splits)
  next
    case (DeployArrives res)
    then show ?thesis using step.prems step.IH by (cases res) (auto simp: applyResult_def sec_failed_def)
  next
    case (RemoveArrives res)
    then show ?thesis using step.prems step.IH by (cases res) (auto simp: applyResult_def sec_failed_def)
  next
    case (UnbanArrives res)
    then show ?thesis using step.prems step.IH by (cases res) (auto simp: applyResult_def sec_failed_def)
  qed (use step.prems step.IH in \<open>auto simp: close_policy_def close_rate_def split: option.splits\<close>)
qed

text \<open>
  In a dialog opened for a new rate limit the escalation to a ban is never inconsistent, whatever is
  clicked: while it is on, responses are counted by class and only error classes are chosen, so the
  submit button is refused for an empty choice or a count out of range, never for an inconsistency.
\<close>

theorem new_rate_limit_consistent:
  assumes "security_reach s" "sec_rate s = Some f" "rf_existing f = None" "rf_banEnabled f"
  shows "rf_conditional f \<and> set (rf_classes f) \<subseteq> {4, 5} \<and>
    (rate_submit_disabled f \<longleftrightarrow> rf_pending f \<or> rf_classes f = [] \<or> rf_banAfter f < 1 \<or> 100 < rf_banAfter f)"
  using rate_reach_new [OF assms(1-3)] assms(4)
  by (auto simp: rate_inv_def rate_submit_disabled_def list_ex_iff)

text \<open>
  A built-in policy cannot be removed: the console asks to delete an access policy only if the policy
  listed under that identifier is not built in, and only from the page, never through an open dialog.
\<close>

theorem builtin_policies_stay:
  assumes "security_enabled s (AskRemove RemovePolicy i n)"
  shows "\<not> modal_open s \<and> (\<exists>d. q_data (sec_query s) = Some d \<and>
    (\<exists>p \<in> set (so_policies d). sp_id p = i \<and> sp_name p = n \<and> \<not> sp_builtin p))"
proof -
  have "offers (SecurityPage s) (AskRemove RemovePolicy i n)" using assms by simp
  then have "\<not> modal_open s \<and> offers (security_body s) (AskRemove RemovePolicy i n)"
    using offers_SecurityPage [of s "AskRemove RemovePolicy i n"] fires_PolicyDialogShell [of _ "AskRemove RemovePolicy i n"]
      fires_RateDialogShell [of _ "AskRemove RemovePolicy i n"] by blast
  then show ?thesis using offers_security_body [of s "AskRemove RemovePolicy i n"] by auto
qed

definition sample_policy :: security_policy where
  "sample_policy = \<lparr>sp_id = ''p1'', sp_builtin = False, sp_name = ''admin'', sp_enabled = True, sp_pattern = ''^/admin'',
     sp_action = Act_block, sp_ban_duration_seconds = None, sp_priority = 10, sp_created_at = [], sp_updated_at = []\<rparr>"

definition sample_overview :: security_overview where
  "sample_overview = \<lparr>so_policies = [sample_policy], so_rate_limit_policies = [], so_bans = [], so_active_ban_count = 0,
     so_events = [], so_nodes = [], so_deployment_error = None\<rparr>"

lemma sample_page_items:
  "pg_items (useListPagination [x] LIST_PAGE_SIZE (Suc 0)) = [x]"
  by (simp add: pagination_fields LIST_PAGE_SIZE_def total_pages_def)

theorem builtin_policies_stay_witness: "\<not> sp_builtin sample_policy"
proof -
  let ?s = "(security_init ''t'')\<lparr>sec_query := \<lparr>q_data = Some sample_overview, q_error = None\<rparr>\<rparr>"
  have "security_enabled ?s (AskRemove RemovePolicy ''p1'' ''admin'')"
    by (simp add: SecurityPage_def modal_open_def security_init_def security_body_def tab_content_def Let_def
        sample_overview_def sample_page_items) (simp add: sample_policy_def)
  from builtin_policies_stay [OF this] show ?thesis
    by (auto simp: security_init_def sample_overview_def)
qed

lemma new_dialogs_offered:
  assumes "\<not> modal_open s"
  shows "security_enabled s (OpenPolicy None)"
  using assms by (simp add: SecurityPage_def security_body_def)

lemma reach_step: "security_reach s \<Longrightarrow> security_enabled s e \<Longrightarrow> security_step e s = (s', fx) \<Longrightarrow> security_reach s'"
  using security_reach.step by (metis fst_conv)

theorem new_rate_limit_consistent_witness:
  "rf_conditional (set_ban_enabled True (open_rate_form None))"
proof -
  let ?s0 = "security_init ''t''" and ?f = "open_rate_form None"
  let ?s1 = "?s0\<lparr>sec_query := \<lparr>q_data = Some sample_overview, q_error = None\<rparr>\<rparr>"
  let ?s2 = "?s1\<lparr>sec_tab := ''rate''\<rparr>" let ?s3 = "?s2\<lparr>sec_rate := Some ?f\<rparr>"
  let ?s4 = "?s3\<lparr>sec_rate := Some (set_ban_enabled True ?f)\<rparr>"
  have r1: "security_reach ?s1"
    by (rule reach_step [OF security_reach.start, of _ "SecDataArrives \<lparr>q_data = Some sample_overview, q_error = None\<rparr>"]) simp_all
  have r2: "security_reach ?s2"
    by (rule reach_step [OF r1, of "SecTab ''rate''"])
      (simp_all add: SecurityPage_def modal_open_def security_init_def security_body_def security_tabs_def)
  have r3: "security_reach ?s3"
    by (rule reach_step [OF r2, of "OpenRate None"])
      (simp_all add: SecurityPage_def modal_open_def security_init_def security_body_def tab_content_def Let_def)
  have r4: "security_reach ?s4"
    by (rule reach_step [OF r3, of "EditRateForm (set_ban_enabled True ?f)"])
      (simp_all add: SecurityPage_def modal_open_def security_init_def RateDialogShell_def open_rate_form_def)
  have "rf_existing (set_ban_enabled True ?f) = None" "rf_banEnabled (set_ban_enabled True ?f)"
    by (simp_all add: set_ban_enabled_def open_rate_form_def Let_def)
  then show ?thesis using new_rate_limit_consistent [OF r4] by simp
qed

text \<open>
  A save that was left behind interferes with the next one: a dialog can be closed while its request is
  in flight and another one opened; when the first request succeeds, the second dialog is closed too and
  what was typed there is lost.
\<close>

theorem stale_save_closes_next_dialog:
  "\<exists>s f d. security_reach s \<and> sec_policy s = Some f \<and> \<not> pf_pending f \<and> pf_name f = ''second'' \<and>
     security_enabled s (PolicyArrives False (Inr d)) \<and>
     sec_policy (fst (security_step (PolicyArrives False (Inr d)) s)) = None"
proof -
  let ?s0 = "security_init ''t''" and ?f0 = "open_policy_form None"
  let ?f1 = "?f0\<lparr>pf_name := ''first''\<rparr>" let ?f2 = "?f1\<lparr>pf_pattern := ''x''\<rparr>" let ?f3 = "?f2\<lparr>pf_pending := True\<rparr>"
  let ?g = "?f0\<lparr>pf_name := ''second''\<rparr>"
  let ?s1 = "?s0\<lparr>sec_policy := Some ?f0\<rparr>" let ?s2 = "?s0\<lparr>sec_policy := Some ?f1\<rparr>"
  let ?s3 = "?s0\<lparr>sec_policy := Some ?f2\<rparr>" let ?s4 = "?s0\<lparr>sec_policy := Some ?f3\<rparr>"
  let ?s5 = "?s0\<lparr>sec_oldPolicySaves := 1\<rparr>" let ?s6 = "?s5\<lparr>sec_policy := Some ?f0\<rparr>" let ?s7 = "?s5\<lparr>sec_policy := Some ?g\<rparr>"
  have len: "js_length ''first'' = 5" "js_length ''second'' = 6" "js_length ''x'' = 1"
    "int_literal ''100''" "int_str 100 = ''100''" "read_int ''100'' = 100"
    by code_simp+
  note view = SecurityPage_def modal_open_def security_init_def security_body_def PolicyDialogShell_def num_input_def
    open_policy_form_def field_ok_def typable_def len
  have r1: "security_reach ?s1"
    by (rule reach_step [OF security_reach.start, of _ "OpenPolicy None"]) (simp_all add: view)
  have r2: "security_reach ?s2"
    by (rule reach_step [OF r1, of "EditPolicyForm ?f1"]) (auto simp: view)
  have r3: "security_reach ?s3"
    by (rule reach_step [OF r2, of "EditPolicyForm ?f2"]) (auto simp: view)
  have r4: "security_reach ?s4"
    by (rule reach_step [OF r3, of SubmitPolicy]) (simp_all add: view)
  have r5: "security_reach ?s5"
    by (rule reach_step [OF r4, of ClosePolicy]) (simp_all add: view close_policy_def)
  have r6: "security_reach ?s6"
    by (rule reach_step [OF r5, of "OpenPolicy None"]) (simp_all add: view)
  have r7: "security_reach ?s7"
    by (rule reach_step [OF r6, of "EditPolicyForm ?g"]) (auto simp: view)
  have "security_enabled ?s7 (PolicyArrives False (Inr sample_overview))" by simp
  moreover have "sec_policy (fst (security_step (PolicyArrives False (Inr sample_overview)) ?s7)) = None"
    by (simp add: close_policy_def)
  moreover have "\<not> pf_pending ?g" "pf_name ?g = ''second''" by (simp_all add: open_policy_form_def)
  moreover have "sec_policy ?s7 = Some ?g" by simp
  ultimately show ?thesis using r7 by blast
qed

section \<open>In the session\<close>

interpretation security_session: session_page security_enabled security_step sec_csrf "\<lambda>s. True"
proof
  fix r e s
  show "Send r \<in> set (snd (security_step e s)) \<Longrightarrow> authorised (sec_csrf s) r"
    by (cases e) (auto simp: settle_send sec_failed_def deploy_request_def remove_request_def unban_request_def policy_request_def
        rate_request_def starts_with_Cons Let_def split: sum.splits option.splits prod.splits remove_kind.splits)
  show "security_enabled s e \<Longrightarrow> sec_csrf (fst (security_step e s)) = sec_csrf s \<and> True"
    by (cases e) (simp_all add: settle_def sec_failed_def applyResult_def close_policy_def close_rate_def policy_settled_def
        rate_settled_def split: sum.splits option.splits)
  show "DispatchUnauthorized \<in> set (snd (security_step e s)) \<Longrightarrow> Send r \<notin> set (snd (security_step e s))"
    by (cases e) (auto simp: settle_send sec_failed_def split: sum.splits option.splits)
qed

end
