(* ===== verification/Monitoring.thy ===== *)
theory Monitoring
  imports Widgets
begin

text \<open>
  The monitoring page (frontend/src/features/monitoring/monitoring-page.tsx): the score of every node, the
  results of the TCP probes, and the targets with their dialogs.  The rename dialog is mounted afresh
  for each target; a rename it sent goes on when the dialog is left, and \<open>mon_oldRenames\<close> counts those.
\<close>

section \<open>State\<close>

record monitoring_page =
  mon_csrf :: string
  mon_query :: "monitoring_overview query"
  mon_tab :: string
  mon_nodesPage :: nat
  mon_resultsPage :: nat
  mon_targetsPage :: nat
  mon_createOpen :: bool
  mon_name :: string
  mon_address :: string
  mon_creating :: bool
  mon_edit :: "monitoring_target option"
  mon_editName :: string
  mon_renaming :: bool
  mon_oldRenames :: nat
  mon_remove :: "monitoring_target option"
  mon_removing :: bool
  mon_toggling :: bool

datatype monitoring_event =
    RefreshMonitoring
  | MonitoringTab string
  | NodesPage int | ResultsPage int | TargetsPage int
  | OpenHistory string
  | AskCreateTarget | CloseCreateTarget | TypeTargetName string | TypeTargetAddress string | SubmitTarget
  | ToggleTarget monitoring_target bool
  | AskRename monitoring_target | TypeNewName string | CloseRename | SubmitRename
  | AskRemove monitoring_target | CloseRemoveTarget | ConfirmRemoveTarget
  | TargetCreated "js_error + monitoring_target"
  | TargetToggled "js_error + monitoring_target"
  | TargetRenamed bool "js_error + monitoring_target"
  | TargetRemoved "js_error + bool"
  | MonitoringArrives "monitoring_overview query"

section \<open>Derived data\<close>

definition mon_nodes :: "monitoring_page \<Rightarrow> monitoring_node list" where
  "mon_nodes s = (case q_data (mon_query s) of None \<Rightarrow> [] | Some d \<Rightarrow> mo_nodes d)"

definition mon_targets :: "monitoring_page \<Rightarrow> monitoring_target list" where
  "mon_targets s = (case q_data (mon_query s) of None \<Rightarrow> [] | Some d \<Rightarrow> mo_targets d)"

definition mon_results :: "monitoring_page \<Rightarrow> (monitoring_node \<times> monitoring_probe_result) list" where
  "mon_results s = concat (map (\<lambda>n. map (Pair n) (mn_results n)) (mon_nodes s))"

definition enabledTargets :: "monitoring_page \<Rightarrow> monitoring_target list" where
  "enabledTargets s = filter mt_enabled (mon_targets s)"

definition monitoringCapableNodes :: "monitoring_page \<Rightarrow> monitoring_node list" where
  "monitoringCapableNodes s = filter mn_capable (mon_nodes s)"

definition healthy_line :: "monitoring_page \<Rightarrow> int" where
  "healthy_line s = nullish (map_option mo_healthy_score (q_data (mon_query s))) 80"

definition healthyNodes :: "monitoring_page \<Rightarrow> monitoring_node list" where
  "healthyNodes s =
     filter (\<lambda>n. \<not> mn_stale n \<and> (case mn_score n of None \<Rightarrow> False | Some x \<Rightarrow> healthy_line s \<le> x)) (monitoringCapableNodes s)"

definition autoPaused :: "monitoring_page \<Rightarrow> int option" where
  "autoPaused s = map_option (\<lambda>d. int (length (filter mn_monitor_auto_paused (mo_nodes d)))) (q_data (mon_query s))"

definition monitoringState :: "int \<Rightarrow> monitoring_node \<Rightarrow> string \<times> ui_text" where
  "monitoringState line n =
     (if \<not> mn_capable n then (''pending'', [Zh ''to be upgraded''])
      else (case mn_score n of
              None \<Rightarrow> (''pending'', [Zh ''waiting for reports''])
            | Some x \<Rightarrow>
                if mn_stale n then (''pending'', [Zh ''data outdated''])
                else if line \<le> x then (''succeeded'', [Zh ''normal'']) else (''failed'', [Zh ''abnormal''])))"

section \<open>Requests\<close>

definition target_path :: "string \<Rightarrow> string" where
  "target_path i = ''/api/monitoring/targets/'' @ encodeURIComponent i"

definition toggle_request :: "string \<Rightarrow> string \<Rightarrow> bool \<Rightarrow> request" where
  "toggle_request csrf i b = api_request csrf (target_path i) (json_init ''PUT'' (JObject [(''enabled'', JBool b)]))"

definition remove_target_request :: "string \<Rightarrow> monitoring_target \<Rightarrow> request" where
  "remove_target_request csrf t = api_request csrf (target_path (mt_id t)) (method_init ''DELETE'')"

definition create_target_request :: "string \<Rightarrow> string \<Rightarrow> string \<Rightarrow> request" where
  "create_target_request csrf n a = api_request csrf ''/api/monitoring/targets''
     (json_init ''POST'' (JObject [(''name'', JString n), (''address'', JString a)]))"

definition rename_request :: "string \<Rightarrow> monitoring_target option \<Rightarrow> string \<Rightarrow> request" where
  "rename_request csrf t n = api_request csrf (target_path (case t of None \<Rightarrow> [] | Some x \<Rightarrow> mt_id x))
     (json_init ''PUT'' (JObject [(''name'', JString n)]))"

section \<open>Handlers\<close>

text \<open>\<open>setEditTarget\<close> with the dialog's key: the form of another target is a new one.\<close>

definition setEditTarget :: "monitoring_target option \<Rightarrow> monitoring_page \<Rightarrow> monitoring_page" where
  "setEditTarget t s =
     (if map_option mt_id t = map_option mt_id (mon_edit s) then s\<lparr>mon_edit := t\<rparr>
      else s\<lparr>mon_edit := t, mon_editName := (case t of None \<Rightarrow> [] | Some x \<Rightarrow> mt_name x), mon_renaming := False,
             mon_oldRenames := mon_oldRenames s + (if mon_renaming s then 1 else 0)\<rparr>)"

definition mon_refresh :: effect where
  "mon_refresh = Invalidate [''monitoring'']"

definition mon_failed :: "monitoring_page \<Rightarrow> js_error \<Rightarrow> monitoring_page \<times> effect list" where
  "mon_failed s e = (s, [ToastError (errorMessage e)])"

definition renamed :: "bool \<Rightarrow> monitoring_page \<Rightarrow> monitoring_page" where
  "renamed own s = (if own then s\<lparr>mon_renaming := False\<rparr> else s\<lparr>mon_oldRenames := mon_oldRenames s - 1\<rparr>)"

text \<open>The tabs are mounted while there are data, and start with the nodes.\<close>

definition mon_arrives :: "monitoring_overview query \<Rightarrow> monitoring_page \<Rightarrow> monitoring_page" where
  "mon_arrives q s = s\<lparr>mon_query := q, mon_tab := (if q_data q = None then ''nodes'' else mon_tab s)\<rparr>"

fun monitoring_step :: "(monitoring_event, monitoring_page) component" where
  "monitoring_step RefreshMonitoring s = (s, [Refetch [''monitoring'']])"
| "monitoring_step (MonitoringTab t) s = (s\<lparr>mon_tab := t\<rparr>, [])"
| "monitoring_step (NodesPage k) s =
     (s\<lparr>mon_nodesPage := setPage (useListPagination (mon_nodes s) LIST_PAGE_SIZE (mon_nodesPage s)) k\<rparr>, [])"
| "monitoring_step (ResultsPage k) s =
     (s\<lparr>mon_resultsPage := setPage (useListPagination (mon_results s) LIST_PAGE_SIZE (mon_resultsPage s)) k\<rparr>, [])"
| "monitoring_step (TargetsPage k) s =
     (s\<lparr>mon_targetsPage := setPage (useListPagination (mon_targets s) LIST_PAGE_SIZE (mon_targetsPage s)) k\<rparr>, [])"
| "monitoring_step (OpenHistory i) s = (s, [Navigate (''/monitoring/nodes/'' @ encodeURIComponent i) False])"
| "monitoring_step AskCreateTarget s = (s\<lparr>mon_createOpen := True\<rparr>, [])"
| "monitoring_step CloseCreateTarget s = (s\<lparr>mon_createOpen := False\<rparr>, [])"
| "monitoring_step (TypeTargetName v) s = (s\<lparr>mon_name := v\<rparr>, [])"
| "monitoring_step (TypeTargetAddress v) s = (s\<lparr>mon_address := v\<rparr>, [])"
| "monitoring_step SubmitTarget s =
     (s\<lparr>mon_creating := True\<rparr>, [Send (create_target_request (mon_csrf s) (mon_name s) (mon_address s))])"
| "monitoring_step (ToggleTarget t b) s = (s\<lparr>mon_toggling := True\<rparr>, [Send (toggle_request (mon_csrf s) (mt_id t) b)])"
| "monitoring_step (AskRename t) s = (setEditTarget (Some t) s, [])"
| "monitoring_step (TypeNewName v) s = (s\<lparr>mon_editName := v\<rparr>, [])"
| "monitoring_step CloseRename s = (setEditTarget None s, [])"
| "monitoring_step SubmitRename s =
     (s\<lparr>mon_renaming := True\<rparr>, [Send (rename_request (mon_csrf s) (mon_edit s) (mon_editName s))])"
| "monitoring_step (AskRemove t) s = (s\<lparr>mon_remove := Some t\<rparr>, [])"
| "monitoring_step CloseRemoveTarget s = (s\<lparr>mon_remove := None\<rparr>, [])"
| "monitoring_step ConfirmRemoveTarget s =
     (case mon_remove s of
        None \<Rightarrow> (s, []) | Some t \<Rightarrow> (s\<lparr>mon_removing := True\<rparr>, [Send (remove_target_request (mon_csrf s) t)]))"
| "monitoring_step (TargetCreated r) s =
     settle r (\<lambda>_. (s\<lparr>mon_creating := False, mon_name := [], mon_address := [], mon_createOpen := False\<rparr>,
         [mon_refresh, ToastSuccess [Zh ''probe target added'']]))
       (mon_failed (s\<lparr>mon_creating := False\<rparr>))"
| "monitoring_step (TargetToggled r) s =
     settle r (\<lambda>t. (s\<lparr>mon_toggling := False\<rparr>,
         [mon_refresh, ToastSuccess [Zh (if mt_enabled t then ''probe target enabled'' else ''probe target disabled'')]]))
       (mon_failed (s\<lparr>mon_toggling := False\<rparr>))"
| "monitoring_step (TargetRenamed own r) s =
     settle r (\<lambda>_. (setEditTarget None (renamed own s), [mon_refresh, ToastSuccess [Zh ''probe target renamed'']]))
       (mon_failed (renamed own s))"
| "monitoring_step (TargetRemoved r) s =
     settle r (\<lambda>_. (s\<lparr>mon_removing := False, mon_remove := None\<rparr>, [mon_refresh, ToastSuccess [Zh ''probe target deleted'']]))
       (mon_failed (s\<lparr>mon_removing := False\<rparr>))"
| "monitoring_step (MonitoringArrives q) s = (mon_arrives q s, [])"

section \<open>The view\<close>

definition MonitoringSummary :: "ui_text \<Rightarrow> ui_text \<Rightarrow> ui_text \<Rightarrow> bool \<Rightarrow> 'e view" where
  "MonitoringSummary label v detail danger = Grp (if danger then ''summary danger'' else ''summary'') [Txt label, Txt v, Txt detail]"

definition summaries :: "monitoring_page \<Rightarrow> monitoring_overview \<Rightarrow> 'e view list" where
  "summaries s d =
     [MonitoringSummary [Zh ''enabled targets''] [Raw (formatNumber (Some (int (length (enabledTargets s)))))]
        [Raw (int_str (mo_interval_seconds d)), Zh '' seconds, '', Raw (int_str (mo_attempts_per_round d)), Zh '' attempts a round''] False,
      MonitoringSummary [Zh ''coverage''] [Raw (nat_str (length (monitoringCapableNodes s))), Raw '' / '', Raw (nat_str (length (mo_nodes d)))]
        [Zh ''nodes that support it''] False,
      MonitoringSummary [Zh ''normal now''] [Raw (nat_str (length (healthyNodes s))), Raw '' / '', Raw (nat_str (length (monitoringCapableNodes s)))]
        [Zh ''healthy from '', Raw (int_str (mo_healthy_score d)), Zh '' points''] False,
      MonitoringSummary [Zh ''paused automatically''] [Raw (formatNumber (autoPaused s))]
        [Zh ''after '', Raw (int_str (mo_auto_pause_after d)), Zh '' abnormal rounds''] (nullish (autoPaused s) 0 \<noteq> 0)]"

definition opt_fixed :: "rat option \<Rightarrow> string \<Rightarrow> ui_text" where
  "opt_fixed v u = (case v of None \<Rightarrow> [Raw ''--''] | Some x \<Rightarrow> [Raw (to_fixed 1 x), Raw u])"

definition NodeRow :: "int \<Rightarrow> monitoring_node \<Rightarrow> monitoring_event view" where
  "NodeRow line n = Grp ''row''
     ([Btn [Zh ''probe history of '', Raw (mn_name n)] False (OpenHistory (mn_node_id n)),
       Txt [Raw (mn_name n)], Txt [Raw (mn_public_ipv4 n)],
       StatusBadge (node_status_str (mn_status n)) (if mn_monitor_auto_paused n then Some [Zh ''paused by monitoring''] else None),
       StatusBadge (fst (monitoringState line n)) (Some (snd (monitoringState line n)))] @
      (case mn_score n of None \<Rightarrow> [Txt [Raw ''--'']] | Some x \<Rightarrow> [Txt [Raw (int_str x)], Grp (''progress '' @ int_str x) []]) @
      [Txt (opt_fixed (mn_success_rate n) ''%''), Txt (opt_fixed (mn_average_latency_ms n) '' ms''),
       Txt [Raw (formatNumber (Some (mn_consecutive_abnormal n)))], Txt (formatDateTime (mn_last_checked_at n))])"

definition result_row :: "monitoring_node \<times> monitoring_probe_result \<Rightarrow> 'e view" where
  "result_row nr =
     (let n = fst nr; r = snd nr; succeeded = mp_successful_attempts r = mp_attempts r in
      Grp ''row''
       ([Txt [Raw (mn_name n)], Txt [Raw (mn_public_ipv4 n)], Txt [Raw (mp_target_name r)], Txt [Raw (mp_address r)],
         StatusBadge (if succeeded then ''succeeded'' else ''failed'') (Some [Zh (if succeeded then ''reachable'' else ''abnormal'')])] @
        only_if (truthy_str (mp_error r)) [Txt [Raw (the (mp_error r))]] @
        [Txt [Raw (int_str (mp_successful_attempts r)), Raw '' / '', Raw (int_str (mp_attempts r))],
         Txt (if mp_successful_attempts r \<noteq> 0 then [Raw (to_fixed 1 (mp_average_latency_ms r)), Raw '' ms''] else [Raw ''--'']),
         Txt (formatDateTime (Some (mp_checked_at r)))]))"

definition target_row :: "bool \<Rightarrow> monitoring_target \<Rightarrow> monitoring_event view" where
  "target_row toggling t = Grp ''row''
     [Txt [Raw (mt_name t)], Txt [Raw (mt_address t)],
      Chk [Zh (if mt_enabled t then ''disable '' else ''enable ''), Raw (mt_name t)] (mt_enabled t) toggling (ToggleTarget t),
      Txt [Zh (if mt_enabled t then ''enabled'' else ''disabled'')], Txt (formatDateTime (Some (mt_updated_at t))),
      Btn [Zh ''rename '', Raw (mt_name t)] False (AskRename t), Btn [Zh ''delete '', Raw (mt_name t)] False (AskRemove t)]"

definition monitoring_tabs :: "(string \<times> ui_text) list" where
  "monitoring_tabs = [(''nodes'', [Zh ''node scores'']), (''results'', [Zh ''probe results'']), (''targets'', [Zh ''targets''])]"

definition paged_rows :: "'a list \<Rightarrow> nat \<Rightarrow> ('a \<Rightarrow> 'e view) \<Rightarrow> ui_text \<Rightarrow> (int \<Rightarrow> 'e) \<Rightarrow> ui_text \<Rightarrow> 'e view list" where
  "paged_rows xs requested row label turn none =
     (if xs = [] then [EmptyState none None]
      else (let p = useListPagination xs LIST_PAGE_SIZE requested in
            map row (pg_items p) @ [ListPagination p label False turn []]))"

definition monitoring_tab :: "monitoring_page \<Rightarrow> monitoring_overview \<Rightarrow> monitoring_event view list" where
  "monitoring_tab s d =
     (if mon_tab s = ''nodes'' then
        paged_rows (mo_nodes d) (mon_nodesPage s) (NodeRow (mo_healthy_score d)) [Zh ''nodes''] NodesPage [Zh ''no edge nodes'']
      else if mon_tab s = ''results'' then
        paged_rows (mon_results s) (mon_resultsPage s) result_row [Zh ''results''] ResultsPage [Zh ''waiting for results'']
      else if mon_tab s = ''targets'' then
        paged_rows (mo_targets d) (mon_targetsPage s) (target_row (mon_toggling s)) [Zh ''targets''] TargetsPage [Zh ''no probe targets'']
      else [])"

definition monitoring_body :: "monitoring_page \<Rightarrow> monitoring_event view list" where
  "monitoring_body s =
     [PageHeader [Zh ''monitoring''] (Some [Zh ''reachability, latency and scheduling of the edges''])
       [Btn [Zh ''refresh the monitoring data''] False RefreshMonitoring, Btn [Zh ''add a target''] False AskCreateTarget]] @
     only_if (q_loading (mon_query s)) [PageLoading 4] @
     (case q_error (mon_query s) of None \<Rightarrow> [] | Some e \<Rightarrow> [PageError [Zh ''loading failed''] e]) @
     (case q_data (mon_query s) of
        None \<Rightarrow> []
      | Some d \<Rightarrow>
          summaries s d @
          only_if (enabledTargets s = [])
            [EmptyState [Zh ''no enabled probe target''] (Some [Zh ''the edges report once a target is added or enabled''])] @
          map (\<lambda>t. Btn (snd t) False (MonitoringTab (fst t))) monitoring_tabs @ monitoring_tab s d)"

definition CreateTargetDialog :: "monitoring_page \<Rightarrow> monitoring_event view list" where
  "CreateTargetDialog s = only_if (mon_createOpen s)
     [Grp ''dialog''
       [Txt [Zh ''add a probe target''], Txt [Zh ''the target of TCP connections''], Btn [Zh ''close''] False CloseCreateTarget,
        Form [Inp ''monitoring-name'' [MaxLength 64] (mon_name s) False TypeTargetName,
              Inp ''monitoring-address'' [] (mon_address s) False TypeTargetAddress,
              Btn [Zh ''cancel''] (mon_creating s) CloseCreateTarget]
          [Zh ''add''] (js_trim (mon_name s) = [] \<or> js_trim (mon_address s) = [] \<or> mon_creating s) SubmitTarget]]"

definition rename_disabled :: "monitoring_page \<Rightarrow> bool" where
  "rename_disabled s \<longleftrightarrow>
     (case mon_edit s of
        None \<Rightarrow> True
      | Some t \<Rightarrow> js_trim (mon_editName s) = [] \<or> js_trim (mon_editName s) = mt_name t \<or> mon_renaming s)"

definition EditTargetDialog :: "monitoring_page \<Rightarrow> monitoring_event view list" where
  "EditTargetDialog s =
     (case mon_edit s of
        None \<Rightarrow> []
      | Some t \<Rightarrow>
          [Grp ''dialog''
            [Txt [Zh ''rename the probe target''], Txt [Raw (mt_address t)], Btn [Zh ''close''] False CloseRename,
             Form [Inp ''monitoring-edit-name'' [MaxLength 64] (mon_editName s) False TypeNewName,
                   Btn [Zh ''cancel''] (mon_renaming s) CloseRename]
               [Zh ''save''] (rename_disabled s) SubmitRename]])"

definition remove_dialog :: "monitoring_page \<Rightarrow> monitoring_event view list" where
  "remove_dialog s =
     ConfirmDialog (mon_remove s \<noteq> None) [Zh ''delete the probe target'']
       [Zh ''deletes the current results of '', (case mon_remove s of None \<Rightarrow> Zh ''the target'' | Some t \<Rightarrow> Raw (mt_name t)),
        Raw '' ('', (case mon_remove s of None \<Rightarrow> Zh ''unknown address'' | Some t \<Rightarrow> Raw (mt_address t)), Raw '')'']
       [Zh ''delete''] None (mon_removing s) [] (\<lambda>_. CloseRemoveTarget) CloseRemoveTarget ConfirmRemoveTarget"

definition mon_modal :: "monitoring_page \<Rightarrow> bool" where
  "mon_modal s \<longleftrightarrow> mon_createOpen s \<or> mon_edit s \<noteq> None \<or> mon_remove s \<noteq> None"

definition MonitoringPage :: "monitoring_page \<Rightarrow> monitoring_event view list" where
  "MonitoringPage s = only_if (\<not> mon_modal s) (monitoring_body s) @ CreateTargetDialog s @ EditTargetDialog s @ remove_dialog s"

fun monitoring_enabled :: "monitoring_page \<Rightarrow> monitoring_event \<Rightarrow> bool" where
  "monitoring_enabled s (TargetCreated r) \<longleftrightarrow> mon_creating s"
| "monitoring_enabled s (TargetToggled r) \<longleftrightarrow> mon_toggling s"
| "monitoring_enabled s (TargetRenamed own r) \<longleftrightarrow> (if own then mon_renaming s else 0 < mon_oldRenames s)"
| "monitoring_enabled s (TargetRemoved r) \<longleftrightarrow> mon_removing s"
| "monitoring_enabled s (MonitoringArrives q) \<longleftrightarrow> True"
| "monitoring_enabled s e \<longleftrightarrow> offers (MonitoringPage s) e"

definition monitoring_init :: "string \<Rightarrow> monitoring_overview query \<Rightarrow> monitoring_page" where
  "monitoring_init csrf q =
     \<lparr>mon_csrf = csrf, mon_query = q, mon_tab = ''nodes'', mon_nodesPage = 1, mon_resultsPage = 1, mon_targetsPage = 1,
      mon_createOpen = False, mon_name = [], mon_address = [], mon_creating = False, mon_edit = None, mon_editName = [],
      mon_renaming = False, mon_oldRenames = 0, mon_remove = None, mon_removing = False, mon_toggling = False\<rparr>"

inductive monitoring_reach :: "monitoring_page \<Rightarrow> bool" where
  monitoring_start: "monitoring_reach (monitoring_init csrf q)"
| monitoring_move: "monitoring_reach s \<Longrightarrow> monitoring_enabled s e \<Longrightarrow> monitoring_reach (fst (monitoring_step e s))"

section \<open>What the page offers\<close>

text \<open>What holds of the state when the operator can raise an event.\<close>

fun monitoring_guard :: "monitoring_page \<Rightarrow> monitoring_event \<Rightarrow> bool" where
  "monitoring_guard s (ToggleTarget t b) \<longleftrightarrow> \<not> mon_modal s \<and> \<not> mon_toggling s \<and> t \<in> set (mon_targets s) \<and> b = (\<not> mt_enabled t)"
| "monitoring_guard s (AskRename t) \<longleftrightarrow> \<not> mon_modal s \<and> t \<in> set (mon_targets s)"
| "monitoring_guard s (AskRemove t) \<longleftrightarrow> \<not> mon_modal s \<and> t \<in> set (mon_targets s)"
| "monitoring_guard s (OpenHistory i) \<longleftrightarrow> \<not> mon_modal s \<and> i \<in> mn_node_id ` set (mon_nodes s)"
| "monitoring_guard s AskCreateTarget \<longleftrightarrow> \<not> mon_modal s"
| "monitoring_guard s CloseCreateTarget \<longleftrightarrow> mon_createOpen s"
| "monitoring_guard s (TypeTargetName v) \<longleftrightarrow> mon_createOpen s \<and> js_length v \<le> 64"
| "monitoring_guard s (TypeTargetAddress v) \<longleftrightarrow> mon_createOpen s"
| "monitoring_guard s SubmitTarget \<longleftrightarrow> mon_createOpen s \<and> \<not> mon_creating s \<and> js_trim (mon_name s) \<noteq> [] \<and>
     js_length (mon_name s) \<le> 64 \<and> js_trim (mon_address s) \<noteq> []"
| "monitoring_guard s (TypeNewName v) \<longleftrightarrow> mon_edit s \<noteq> None \<and> js_length v \<le> 64"
| "monitoring_guard s CloseRename \<longleftrightarrow> mon_edit s \<noteq> None"
| "monitoring_guard s SubmitRename \<longleftrightarrow> \<not> mon_renaming s \<and> js_length (mon_editName s) \<le> 64 \<and> js_trim (mon_editName s) \<noteq> [] \<and>
     (\<exists>t. mon_edit s = Some t \<and> js_trim (mon_editName s) \<noteq> mt_name t)"
| "monitoring_guard s CloseRemoveTarget \<longleftrightarrow> mon_remove s \<noteq> None"
| "monitoring_guard s ConfirmRemoveTarget \<longleftrightarrow> mon_remove s \<noteq> None \<and> \<not> mon_removing s"
| "monitoring_guard s (TargetCreated r) \<longleftrightarrow> False"
| "monitoring_guard s (TargetToggled r) \<longleftrightarrow> False"
| "monitoring_guard s (TargetRenamed own r) \<longleftrightarrow> False"
| "monitoring_guard s (TargetRemoved r) \<longleftrightarrow> False"
| "monitoring_guard s (MonitoringArrives q) \<longleftrightarrow> False"
| "monitoring_guard s e \<longleftrightarrow> \<not> mon_modal s"

lemma offers_paged_rows:
  "offers (paged_rows xs r row l turn none) e \<Longrightarrow> (\<exists>k. e = turn k) \<or> (\<exists>x \<in> set xs. fires (row x) e)"
  using pagination_subset [of xs LIST_PAGE_SIZE r]
  by (auto simp: paged_rows_def Let_def offers_map split: if_splits)

lemma fires_NodeRow [simp]: "fires (NodeRow line n) e \<longleftrightarrow> e = OpenHistory (mn_node_id n)"
  by (auto simp: NodeRow_def split: option.split)

lemma fires_result_row [simp]: "\<not> fires (result_row r) e"
  by (simp add: result_row_def Let_def)

lemma fires_target_row [simp]:
  "fires (target_row b t) e \<longleftrightarrow> (\<not> b \<and> e = ToggleTarget t (\<not> mt_enabled t)) \<or> e = AskRename t \<or> e = AskRemove t"
  by (auto simp: target_row_def)

lemma Summary_inert [simp]: "\<not> fires (MonitoringSummary l v d b) e"
  by (simp add: MonitoringSummary_def)

lemma offers_monitoring_tab:
  assumes "offers (monitoring_tab s d) e" "q_data (mon_query s) = Some d" "\<not> mon_modal s"
  shows "monitoring_guard s e"
proof -
  have t: "mo_nodes d = mon_nodes s" "mo_targets d = mon_targets s" using assms(2) by (simp_all add: mon_nodes_def mon_targets_def)
  show ?thesis
    using assms(1,3) by (auto simp: monitoring_tab_def t dest!: offers_paged_rows split: if_splits)
qed

lemma offers_monitoring_body:
  assumes "offers (monitoring_body s) e" "\<not> mon_modal s"
  shows "monitoring_guard s e"
proof -
  consider "e = RefreshMonitoring" | "e = AskCreateTarget" | t where "e = MonitoringTab t"
    | d where "q_data (mon_query s) = Some d" "offers (monitoring_tab s d) e"
    using assms(1) by (auto simp: monitoring_body_def summaries_def offers_map split: option.splits)
  then show ?thesis using assms(2) offers_monitoring_tab by cases auto
qed

lemma offers_MonitoringPage:
  assumes "offers (MonitoringPage s) e"
  shows "monitoring_guard s e"
proof -
  consider "\<not> mon_modal s" "offers (monitoring_body s) e" | "offers (CreateTargetDialog s) e" | "offers (EditTargetDialog s) e"
    | "offers (remove_dialog s) e"
    using assms by (auto simp: MonitoringPage_def)
  then show ?thesis
  proof cases
    case 1
    then show ?thesis by (simp add: offers_monitoring_body)
  next
    case 2
    then show ?thesis by (auto simp: CreateTargetDialog_def field_ok_def typable_def)
  next
    case 3
    then show ?thesis by (auto simp: EditTargetDialog_def field_ok_def typable_def rename_disabled_def split: option.splits)
  next
    case 4
    then show ?thesis by (auto simp: remove_dialog_def offers_ConfirmDialog)
  qed
qed


section \<open>Well-formed states\<close>

definition open_dialog_count :: "monitoring_page \<Rightarrow> nat" where
  "open_dialog_count s = (if mon_createOpen s then 1 else 0) + (if mon_edit s \<noteq> None then 1 else 0) + (if mon_remove s \<noteq> None then 1 else 0)"

text \<open>The tab is one of the three, the pages are positive, one dialog at most is open, and a rename in flight has its dialog.\<close>

definition monitoring_wf :: "monitoring_page \<Rightarrow> bool" where
  "monitoring_wf s \<longleftrightarrow> mon_tab s \<in> fst ` set monitoring_tabs \<and> 1 \<le> mon_nodesPage s \<and> 1 \<le> mon_resultsPage s \<and> 1 \<le> mon_targetsPage s \<and>
     open_dialog_count s \<le> 1 \<and> (mon_renaming s \<longrightarrow> mon_edit s \<noteq> None)"

lemma modal_count: "mon_modal s \<longleftrightarrow> open_dialog_count s \<noteq> 0"
  by (simp add: mon_modal_def open_dialog_count_def)

lemma setEditTarget_parts [simp]:
  "mon_edit (setEditTarget t s) = t" "mon_createOpen (setEditTarget t s) = mon_createOpen s" "mon_remove (setEditTarget t s) = mon_remove s"
  "mon_tab (setEditTarget t s) = mon_tab s" "mon_nodesPage (setEditTarget t s) = mon_nodesPage s"
  "mon_resultsPage (setEditTarget t s) = mon_resultsPage s" "mon_targetsPage (setEditTarget t s) = mon_targetsPage s"
  by (simp_all add: setEditTarget_def)

lemma setEditTarget_renaming: "mon_renaming (setEditTarget t s) \<Longrightarrow> mon_renaming s \<and> map_option mt_id t = map_option mt_id (mon_edit s)"
  by (simp add: setEditTarget_def split: if_splits)

lemma setEditTarget_wf:
  "monitoring_wf s \<Longrightarrow> t = None \<or> \<not> mon_modal s \<Longrightarrow> monitoring_wf (setEditTarget t s)"
  using setEditTarget_renaming [of t s]
  by (auto simp: monitoring_wf_def open_dialog_count_def mon_modal_def split: if_splits)

lemma offers_tab: "offers (MonitoringPage s) (MonitoringTab t) \<Longrightarrow> t \<in> fst ` set monitoring_tabs"
proof -
  have "\<not> offers (monitoring_tab s d) (MonitoringTab t)" for d
    by (auto simp: monitoring_tab_def dest!: offers_paged_rows split: if_splits)
  moreover assume "offers (MonitoringPage s) (MonitoringTab t)"
  ultimately show ?thesis
    by (auto simp: MonitoringPage_def monitoring_body_def summaries_def CreateTargetDialog_def EditTargetDialog_def remove_dialog_def
        offers_ConfirmDialog offers_map split: option.splits)
qed

lemma renamed_wf: "monitoring_wf s \<Longrightarrow> monitoring_wf (renamed own s)"
  by (simp add: monitoring_wf_def renamed_def open_dialog_count_def)

lemma monitoring_step_wf:
  assumes "monitoring_wf s" "monitoring_enabled s e"
  shows "monitoring_wf (fst (monitoring_step e s))"
proof -
  have g: "monitoring_guard s e" if "offers (MonitoringPage s) e" using that by (rule offers_MonitoringPage)
  show ?thesis
  proof (cases e)
    case (MonitoringTab t)
    then show ?thesis using assms offers_tab [of s t] by (simp add: monitoring_wf_def open_dialog_count_def)
  next
    case (AskRename t)
    then show ?thesis using assms g by (simp add: setEditTarget_wf)
  next
    case CloseRename
    then show ?thesis using assms(1) by (simp add: setEditTarget_wf)
  next
    case AskCreateTarget
    then show ?thesis using assms g by (auto simp: monitoring_wf_def open_dialog_count_def mon_modal_def)
  next
    case (AskRemove t)
    then show ?thesis using assms g by (auto simp: monitoring_wf_def open_dialog_count_def mon_modal_def)
  next
    case SubmitRename
    then show ?thesis using assms g by (auto simp: monitoring_wf_def open_dialog_count_def)
  next
    case (TargetCreated r)
    then show ?thesis using assms(1) by (cases r) (auto simp: mon_failed_def monitoring_wf_def open_dialog_count_def)
  next
    case (TargetToggled r)
    then show ?thesis using assms(1) by (cases r) (auto simp: mon_failed_def monitoring_wf_def open_dialog_count_def)
  next
    case (TargetRenamed own r)
    then show ?thesis using renamed_wf [OF assms(1), of own] by (cases r) (simp_all add: mon_failed_def setEditTarget_wf)
  next
    case (TargetRemoved r)
    then show ?thesis using assms(1) by (cases r) (auto simp: mon_failed_def monitoring_wf_def open_dialog_count_def)
  next
    case (MonitoringArrives q)
    then show ?thesis using assms(1) by (simp add: mon_arrives_def monitoring_wf_def open_dialog_count_def monitoring_tabs_def)
  next
    case ConfirmRemoveTarget
    then show ?thesis using assms(1) by (auto simp: monitoring_wf_def open_dialog_count_def split: option.split if_splits)
  qed (use assms(1) setPage_range(1) in \<open>auto simp: monitoring_wf_def open_dialog_count_def\<close>)
qed

lemma monitoring_init_wf: "monitoring_wf (monitoring_init csrf q)"
  by (simp add: monitoring_init_def monitoring_wf_def monitoring_tabs_def open_dialog_count_def)

lemma monitoring_reach_wf: "monitoring_reach s \<Longrightarrow> monitoring_wf s"
  by (induction rule: monitoring_reach.induct) (simp_all add: monitoring_step_wf monitoring_init_wf)

fun monitoring_arrival :: "monitoring_event \<Rightarrow> bool" where
  "monitoring_arrival (TargetCreated r) \<longleftrightarrow> True"
| "monitoring_arrival (TargetToggled r) \<longleftrightarrow> True"
| "monitoring_arrival (TargetRenamed own r) \<longleftrightarrow> True"
| "monitoring_arrival (TargetRemoved r) \<longleftrightarrow> True"
| "monitoring_arrival (MonitoringArrives q) \<longleftrightarrow> True"
| "monitoring_arrival e \<longleftrightarrow> False"

section \<open>Properties\<close>

text \<open>
  C33. The state stays well formed: one of the three panels is shown, every page number shown is one of the pager's, at
  most one dialog is open, and a rename is in flight only while its dialog is there.
\<close>

theorem monitoring_well_formed:
  assumes "monitoring_reach s"
  shows "mon_tab s \<in> {''nodes'', ''results'', ''targets''} \<and> open_dialog_count s \<le> 1 \<and> (mon_renaming s \<longrightarrow> mon_edit s \<noteq> None) \<and>
    (let p = useListPagination (mon_nodes s) LIST_PAGE_SIZE (mon_nodesPage s) in 1 \<le> pg_page p \<and> pg_page p \<le> pg_totalPages p) \<and>
    (let p = useListPagination (mon_results s) LIST_PAGE_SIZE (mon_resultsPage s) in 1 \<le> pg_page p \<and> pg_page p \<le> pg_totalPages p) \<and>
    (let p = useListPagination (mon_targets s) LIST_PAGE_SIZE (mon_targetsPage s) in 1 \<le> pg_page p \<and> pg_page p \<le> pg_totalPages p)"
  using monitoring_reach_wf [OF assms] by (auto simp: monitoring_wf_def monitoring_tabs_def pagination_fields Let_def)

text \<open>
  The summary and the table agree: the nodes counted as normal are exactly those whose row says so, whatever
  the order in which the two decide, and a node counts as normal only if it is capable, and as capable only
  if it is listed.
\<close>

theorem monitoring_summary_agrees:
  "healthyNodes s = filter (\<lambda>n. monitoringState (healthy_line s) n = (''succeeded'', [Zh ''normal''])) (mon_nodes s) \<and>
   length (healthyNodes s) \<le> length (monitoringCapableNodes s) \<and> length (monitoringCapableNodes s) \<le> length (mon_nodes s) \<and>
   (\<forall>n \<in> set (mon_nodes s). n \<notin> set (monitoringCapableNodes s) \<longrightarrow> snd (monitoringState (healthy_line s) n) = [Zh ''to be upgraded''])"
proof -
  have "(mn_capable n \<and> \<not> mn_stale n \<and> (case mn_score n of None \<Rightarrow> False | Some x \<Rightarrow> healthy_line s \<le> x))
      \<longleftrightarrow> monitoringState (healthy_line s) n = (''succeeded'', [Zh ''normal''])" for n
    by (auto simp: monitoringState_def split: option.split)
  then have "healthyNodes s = filter (\<lambda>n. monitoringState (healthy_line s) n = (''succeeded'', [Zh ''normal''])) (mon_nodes s)"
    unfolding healthyNodes_def monitoringCapableNodes_def filter_filter by simp
  moreover have "length (healthyNodes s) \<le> length (monitoringCapableNodes s)" "length (monitoringCapableNodes s) \<le> length (mon_nodes s)"
    unfolding healthyNodes_def by (rule length_filter_le) (simp add: monitoringCapableNodes_def)
  ultimately show ?thesis by (simp add: monitoringCapableNodes_def monitoringState_def)
qed


text \<open>
  A finding: the answer to a rename whose dialog was left closes the rename dialog of whatever target is open by
  then, and what was typed into it is lost without a request.
\<close>

theorem stale_rename_discards:
  assumes "mon_edit s = Some b" "0 < mon_oldRenames s"
  shows "monitoring_enabled s (TargetRenamed False (Inr a)) \<and>
    (let (t, fx) = monitoring_step (TargetRenamed False (Inr a)) s
     in mon_edit t = None \<and> mon_editName t = [] \<and> sends fx = 0)"
  using assms by (simp add: setEditTarget_def renamed_def mon_refresh_def)

section \<open>Examples\<close>

definition sample_target :: "string \<Rightarrow> monitoring_target" where
  "sample_target i = \<lparr>mt_id = i, mt_name = i, mt_address = ''192.0.2.1:443'', mt_enabled = True, mt_created_at = [], mt_updated_at = []\<rparr>"

definition sample_monitoring :: monitoring_page where
  "sample_monitoring = (monitoring_init ''t'' \<lparr>q_data = Some \<lparr>mo_targets = [sample_target ''a'', sample_target ''b''], mo_nodes = [],
     mo_interval_seconds = 30, mo_attempts_per_round = 3, mo_healthy_score = 80, mo_auto_pause_after = 3\<rparr>, q_error = None\<rparr>)
     \<lparr>mon_tab := ''targets''\<rparr>"

lemma sample_monitoring_parts:
  "\<exists>d. q_data (mon_query sample_monitoring) = Some d \<and> mo_targets d = [sample_target ''a'', sample_target ''b'']"
  "mon_tab sample_monitoring = ''targets''" "\<not> mon_modal sample_monitoring" "\<not> mon_toggling sample_monitoring" "mon_targetsPage sample_monitoring = 1"
  by (simp_all add: sample_monitoring_def monitoring_init_def mon_modal_def)

lemma sample_row_enabled:
  assumes "fires (target_row False (sample_target ''b'')) e"
  shows "offers (MonitoringPage sample_monitoring) e"
proof -
  obtain d where d: "q_data (mon_query sample_monitoring) = Some d" "mo_targets d = [sample_target ''a'', sample_target ''b'']"
    using sample_monitoring_parts(1) by blast
  have "pg_items (useListPagination [sample_target ''a'', sample_target ''b''] LIST_PAGE_SIZE 1) = [sample_target ''a'', sample_target ''b'']"
    by (simp add: useListPagination_def LIST_PAGE_SIZE_def total_pages_def)
  then have "offers (monitoring_tab sample_monitoring d) e"
    using assms sample_monitoring_parts d(2) by (simp add: monitoring_tab_def paged_rows_def Let_def offers_map)
  then show ?thesis using sample_monitoring_parts(3) d by (simp add: MonitoringPage_def monitoring_body_def)
qed

theorem monitoring_well_formed_witness:
  "let s = monitoring_init ''t'' \<lparr>q_data = None, q_error = None\<rparr>
   in open_dialog_count s \<le> 1 \<and> 1 \<le> pg_page (useListPagination (mon_nodes s) LIST_PAGE_SIZE (mon_nodesPage s))"
  using monitoring_well_formed [OF monitoring_start [of "''t''" "\<lparr>q_data = None, q_error = None\<rparr>"]] by (simp add: Let_def)


theorem stale_rename_discards_witness:
  "mon_edit (fst (monitoring_step (TargetRenamed False (Inr (sample_target ''a'')))
     (fst (run monitoring_step [AskRename (sample_target ''a''), TypeNewName ''x'', SubmitRename, CloseRename, AskRename (sample_target ''b'')] sample_monitoring)))) = None"
proof -
  let ?s = "fst (run monitoring_step [AskRename (sample_target ''a''), TypeNewName ''x'', SubmitRename, CloseRename, AskRename (sample_target ''b'')] sample_monitoring)"
  have "mon_edit ?s = Some (sample_target ''b'')" "0 < mon_oldRenames ?s"
    by (simp_all add: setEditTarget_def sample_monitoring_def monitoring_init_def sample_target_def)
  from stale_rename_discards [OF this] show ?thesis by (simp add: Let_def split_def)
qed

section \<open>In the session\<close>

interpretation monitoring_session: session_page monitoring_enabled monitoring_step mon_csrf "\<lambda>s. True"
proof
  fix r e s
  show "Send r \<in> set (snd (monitoring_step e s)) \<Longrightarrow> authorised (mon_csrf s) r"
    by (cases e) (auto simp: settle_send mon_failed_def mon_refresh_def toggle_request_def remove_target_request_def create_target_request_def
        rename_request_def target_path_def starts_with_Cons split: sum.splits option.splits)
  show "monitoring_enabled s e \<Longrightarrow> mon_csrf (fst (monitoring_step e s)) = mon_csrf s \<and> True"
    by (cases e) (simp_all add: settle_def mon_failed_def renamed_def setEditTarget_def mon_arrives_def split: sum.splits option.splits)
  show "DispatchUnauthorized \<in> set (snd (monitoring_step e s)) \<Longrightarrow> Send r \<notin> set (snd (monitoring_step e s))"
    by (cases e) (auto simp: settle_send mon_failed_def mon_refresh_def split: sum.splits option.splits)
qed

end
