(* ===== verification/MonitoringHistory.thy ===== *)
theory MonitoringHistory
  imports Widgets Charts "HOL-Library.AList"
begin

text \<open>
  The probe history of a node (frontend/src/features/monitoring/monitoring-node-history-page.tsx): the choice
  of the range, whose previous data stay on screen while the next are fetched, the legend that hides
  targets, and the data of the chart, a row per instant with a column per target.
\<close>

section \<open>The data of the chart\<close>

definition historyRanges :: "(history_range \<times> ui_text) list" where
  "historyRanges =
     [(Range_1h, [Zh ''1 hour'']), (Range_6h, [Zh ''6 hours'']), (Range_12h, [Zh ''12 hours'']), (Range_24h, [Zh ''24 hours'']),
      (Range_7d, [Zh ''7 days''])]"

definition chartColors :: "string list" where
  "chartColors = [''var(--chart-1)'', ''var(--chart-2)'', ''var(--chart-3)'', ''var(--chart-4)'', ''var(--chart-5)'']"

record chart_series =
  chs_series :: monitoring_history_series
  chs_dataKey :: string
  chs_color :: string

text \<open>\<open>HistoryChartPoint\<close>: the columns are the properties beside the two named ones.\<close>

record chart_point =
  cp_timestamp :: int
  cp_isoTime :: string
  cp_values :: "(string \<times> rat option) list"

definition data_key :: "nat \<Rightarrow> string" where
  "data_key i = ''target_'' @ nat_str i"

definition allChartSeries :: "monitoring_history_series list \<Rightarrow> chart_series list" where
  "allChartSeries ss =
     map (\<lambda>(i, s). \<lparr>chs_series = s, chs_dataKey = data_key i, chs_color = chartColors ! (i mod length chartColors)\<rparr>) (enumerate 0 ss)"

definition visibleChartSeries :: "string list \<Rightarrow> chart_series list \<Rightarrow> chart_series list" where
  "visibleChartSeries hidden cs = filter (\<lambda>c. mhs_target_id (chs_series c) \<notin> set hidden) cs"

definition chartConfig :: "chart_series list \<Rightarrow> chart_config" where
  "chartConfig cs = map (\<lambda>c. (chs_dataKey c, labelled [Raw (mhs_name (chs_series c))] (chs_color c))) cs"

text \<open>The map of the rows keeps the order of insertion; a point whose time is no date is skipped.\<close>

definition add_point :: "string \<Rightarrow> monitoring_history_point \<Rightarrow> (int \<times> chart_point) list \<Rightarrow> (int \<times> chart_point) list" where
  "add_point key p m =
     (case js_date_parse (mhp_time p) of
        None \<Rightarrow> m
      | Some t \<Rightarrow>
          let row = (case map_of m t of
                       None \<Rightarrow> \<lparr>cp_timestamp = t, cp_isoTime = mhp_time p, cp_values = []\<rparr> | Some r \<Rightarrow> r)
          in AList.update t (row\<lparr>cp_values := AList.update key (mhp_average_latency_ms p) (cp_values row)\<rparr>) m)"

definition add_series :: "chart_series \<Rightarrow> (int \<times> chart_point) list \<Rightarrow> (int \<times> chart_point) list" where
  "add_series c m = fold (add_point (chs_dataKey c)) (mhs_points (chs_series c)) m"

definition buildChartData :: "chart_series list \<Rightarrow> chart_point list" where
  "buildChartData cs = sort_key cp_timestamp (map snd (fold add_series cs []))"

record history_totals =
  ht_attempts :: int
  ht_successes :: int

definition add_totals :: "monitoring_history_point \<Rightarrow> history_totals \<Rightarrow> history_totals" where
  "add_totals p h = h\<lparr>ht_attempts := ht_attempts h + mhp_attempts p, ht_successes := ht_successes h + mhp_successful_attempts p\<rparr>"

definition historyTotals :: "monitoring_history_series list \<Rightarrow> history_totals" where
  "historyTotals ss = fold (\<lambda>s h. fold add_totals (mhs_points s) h) ss \<lparr>ht_attempts = 0, ht_successes = 0\<rparr>"

definition success_rate :: "history_totals \<Rightarrow> rat" where
  "success_rate h = of_int (100 * ht_successes h) / of_int (ht_attempts h)"

definition success_text :: "history_totals \<Rightarrow> ui_text" where
  "success_text h = (if ht_attempts h \<noteq> 0 then [Raw (to_fixed 1 (success_rate h)), Raw ''%''] else [Raw ''--''])"

text \<open>The label of the time axis; a value that is not a number has none.\<close>

definition formatAxisTime :: "int option \<Rightarrow> history_range \<Rightarrow> ui_text" where
  "formatAxisTime t r =
     (case t of None \<Rightarrow> []
      | Some ms \<Rightarrow> [LocalTime (if r = Range_7d then ''month, day, hours and minutes, 24 hours'' else ''hours and minutes, 24 hours'') ms])"

definition formatBucket :: "int \<Rightarrow> ui_text" where
  "formatBucket seconds =
     (if 3600 \<le> seconds then [Quotient seconds 3600, Zh '' hours'']
      else if 60 \<le> seconds then [Quotient seconds 60, Zh '' minutes''] else [Raw (int_str seconds), Zh '' seconds''])"

section \<open>State\<close>

text \<open>
  Each node and range has its query.  \<open>hp_last\<close> is the one whose own data were current last: they are the
  placeholder of one that has none yet.
\<close>

type_synonym range_key = "string \<times> history_range"

record history_page =
  hp_nodeId :: string
  hp_range :: history_range
  hp_hidden :: "string list"
  hp_queries :: "range_key \<Rightarrow> monitoring_history query"
  hp_last :: "range_key option"
  hp_fetching :: bool

datatype history_event =
    SetRange history_range
  | ShowNode string
  | ShowTarget string bool
  | RefreshHistory
  | HistoryArrives range_key "monitoring_history query"
  | HistoryFetching bool

definition history_key :: "history_page \<Rightarrow> range_key" where
  "history_key s = (hp_nodeId s, hp_range s)"

definition own_query :: "history_page \<Rightarrow> monitoring_history query" where
  "own_query s = hp_queries s (history_key s)"

definition history_data :: "history_page \<Rightarrow> monitoring_history option" where
  "history_data s =
     (case q_data (own_query s) of
        Some d \<Rightarrow> Some d
      | None \<Rightarrow> if q_error (own_query s) = None then Option.bind (hp_last s) (\<lambda>k. q_data (hp_queries s k)) else None)"

definition history_path :: "history_page \<Rightarrow> string" where
  "history_path s = ''/api/monitoring/nodes/'' @ encodeURIComponent (hp_nodeId s) @ ''/history?range='' @ history_range_str (hp_range s)"

text \<open>After every update the observer remembers the current query if it has data.\<close>

definition remember :: "history_page \<Rightarrow> history_page" where
  "remember s = (if q_data (own_query s) \<noteq> None then s\<lparr>hp_last := Some (history_key s)\<rparr> else s)"

definition setVisible :: "string \<Rightarrow> bool \<Rightarrow> string list \<Rightarrow> string list" where
  "setVisible i checked hidden =
     (if checked then filter (\<lambda>x. x \<noteq> i) hidden else if i \<in> set hidden then hidden else hidden @ [i])"

fun history_step :: "(history_event, history_page) component" where
  "history_step (SetRange r) s = (remember (s\<lparr>hp_range := r\<rparr>), [])"
| "history_step (ShowNode n) s = (remember (s\<lparr>hp_nodeId := n\<rparr>), [])"
| "history_step (ShowTarget i checked) s = (s\<lparr>hp_hidden := setVisible i checked (hp_hidden s)\<rparr>, [])"
| "history_step RefreshHistory s = (s, [Refetch [''monitoring-history'', hp_nodeId s, history_range_str (hp_range s)]])"
| "history_step (HistoryArrives k q) s = (remember (s\<lparr>hp_queries := (hp_queries s)(k := q)\<rparr>), [])"
| "history_step (HistoryFetching b) s = (s\<lparr>hp_fetching := b\<rparr>, [])"

section \<open>The view\<close>

definition HistoryDatum :: "ui_text \<Rightarrow> 'e view \<Rightarrow> 'e view" where
  "HistoryDatum label v = Grp ''datum'' [Txt label, v]"

definition legend_entry :: "string list \<Rightarrow> chart_series \<Rightarrow> history_event view" where
  "legend_entry hidden c =
     (let s = chs_series c; visible = mhs_target_id s \<notin> set hidden in
      Grp (''entry '' @ chs_color c)
       [Chk [Zh (if visible then ''hide '' else ''show ''), Raw (mhs_name s)] visible False (ShowTarget (mhs_target_id s)),
        Txt [Raw (mhs_name s)], Txt (success_text (historyTotals [s])), Txt [Raw (mhs_address s)]])"

text \<open>The texts of the tooltip: the time of the row, and each line's name and value.\<close>

definition chart_row :: "chart_point \<Rightarrow> (string \<times> chart_value) list" where
  "chart_row p = [(''timestamp'', VNum (of_int (cp_timestamp p))), (''isoTime'', VText [Raw (cp_isoTime p)])] @
     map (\<lambda>(k, v). (k, case v of None \<Rightarrow> VNull | Some x \<Rightarrow> VNum x)) (cp_values p)"

definition tooltip_label :: "tooltip_item list \<Rightarrow> ui_text" where
  "tooltip_label payload =
     formatDateTime (Some (case payload of [] \<Rightarrow> []
       | it # _ \<Rightarrow> (case row_field it ''isoTime'' of VText [Raw s] \<Rightarrow> s | _ \<Rightarrow> [])))"

definition tooltip_name :: "chart_config \<Rightarrow> string \<Rightarrow> ui_text" where
  "tooltip_name config k = nullish (Option.bind (map_of config k) ce_label) [Raw k]"

definition latency_text :: "chart_value \<Rightarrow> ui_text" where
  "latency_text v = [Raw (to_fixed 1 (case v of VNum r \<Rightarrow> r | _ \<Rightarrow> 0)), Raw '' ms'']"

definition history_tooltip :: "chart_config \<Rightarrow> tooltip_props" where
  "history_tooltip config =
     default_tooltip\<lparr>tp_indicator := Line, tp_labelFormatter := Some (\<lambda>v. tooltip_label),
       tp_formatter := Some (\<lambda>v n it. [tooltip_name config n, latency_text v])\<rparr>"

text \<open>The chart: a line per series, drawn through the rows that have a value of it, at the time and the value.\<close>

definition MonitoringHistoryChart :: "chart_point list \<Rightarrow> chart_series list \<Rightarrow> chart_config \<Rightarrow> history_range \<Rightarrow> 'e view" where
  "MonitoringHistoryChart rows cs config r = ChartContainer None [] config
     (map (\<lambda>c. Grp (''line '' @ chs_dataKey c @ '' '' @ chs_color c)
        (concat (map (\<lambda>p. case Option.bind (map_of (cp_values p) (chs_dataKey c)) id of
            None \<Rightarrow> []
          | Some v \<Rightarrow> [Grp ''point'' [Txt (formatAxisTime (Some (cp_timestamp p)) r),
                                      Txt [Quotient (fst (quotient_of v)) (snd (quotient_of v))]]]) rows))) cs)"

definition history_card :: "history_page \<Rightarrow> monitoring_history \<Rightarrow> history_event view list" where
  "history_card s d =
     (let cs = allChartSeries (mh_series d); vis = visibleChartSeries (hp_hidden s) cs in
      if \<not> mh_available d then [EmptyState [Zh ''the history is not available''] (map_option (\<lambda>x. [Raw x]) (mh_unavailable_reason d))]
      else if mh_series d \<noteq> [] then
        [Grp ''card''
          ([Txt [Zh ''TCP latency''], Txt (formatDateTime (Some (mh_from d)) @ [Zh '' to ''] @ formatDateTime (Some (mh_to d)))] @
           map (legend_entry (hp_hidden s)) cs @
           [if vis \<noteq> [] then MonitoringHistoryChart (buildChartData vis) vis (chartConfig vis) (hp_range s)
            else EmptyState [Zh ''choose at least one target''] None])]
      else [EmptyState [Zh ''no history yet''] (Some [Zh ''the curve appears after the next round of probes''])])"

definition history_content :: "history_page \<Rightarrow> monitoring_history \<Rightarrow> history_event view list" where
  "history_content s d =
     (let n = mh_node d in
      [HistoryDatum [Zh ''node state''] (StatusBadge (node_status_str (hn_status n))
         (if hn_monitor_auto_paused n then Some [Zh ''paused by monitoring''] else None)),
       HistoryDatum [Zh ''targets''] (Txt [Raw (formatNumber (Some (int (length (mh_series d))))), Zh '' targets'']),
       HistoryDatum [Zh ''TCP success rate''] (Txt (success_text (historyTotals (mh_series d)))),
       HistoryDatum [Zh ''interval''] (Txt (formatBucket (mh_bucket_seconds d)))] @
      map (\<lambda>r. Btn (snd r) False (SetRange (fst r))) historyRanges @ history_card s d)"

definition MonitoringNodeHistoryPage :: "history_page \<Rightarrow> history_event view list" where
  "MonitoringNodeHistoryPage s =
     [PageHeader (case history_data s of None \<Rightarrow> [Zh ''probe history''] | Some d \<Rightarrow> [Raw (hn_name (mh_node d))])
        (Some (case history_data s of None \<Rightarrow> [Zh ''TCP probe history of the node'']
               | Some d \<Rightarrow> [Raw (hn_public_ipv4 (mh_node d)), Zh '', TCP probe history'']))
        [Lnk ''/monitoring'' [Txt [Zh ''back to monitoring'']], Btn [Zh ''refresh the history''] (hp_fetching s) RefreshHistory]] @
     only_if (history_data s = None \<and> q_error (own_query s) = None) [PageLoading 4] @
     (case q_error (own_query s) of None \<Rightarrow> [] | Some e \<Rightarrow> [PageError [Zh ''the history failed to load''] e]) @
     (case history_data s of None \<Rightarrow> [] | Some d \<Rightarrow> history_content s d)"

fun history_enabled :: "history_page \<Rightarrow> history_event \<Rightarrow> bool" where
  "history_enabled s (HistoryArrives k q) \<longleftrightarrow> True"
| "history_enabled s (ShowNode n) \<longleftrightarrow> True"
| "history_enabled s (HistoryFetching b) \<longleftrightarrow> True"
| "history_enabled s e \<longleftrightarrow> offers (MonitoringNodeHistoryPage s) e"

definition history_init :: "string \<Rightarrow> (range_key \<Rightarrow> monitoring_history query) \<Rightarrow> history_page" where
  "history_init n qs = remember
     \<lparr>hp_nodeId = n, hp_range = Range_24h, hp_hidden = [], hp_queries = qs, hp_last = None, hp_fetching = True\<rparr>"


section \<open>The rows\<close>

text \<open>The value in the row of an instant and the column of a key.\<close>

definition cell :: "(int \<times> chart_point) list \<Rightarrow> int \<Rightarrow> string \<Rightarrow> rat option option" where
  "cell m t k = Option.bind (map_of m t) (\<lambda>r. map_of (cp_values r) k)"

definition rows_ok :: "(int \<times> chart_point) list \<Rightarrow> bool" where
  "rows_ok m \<longleftrightarrow> distinct (map fst m) \<and> (\<forall>(t, r) \<in> set m. cp_timestamp r = t)"

definition at_time :: "int \<Rightarrow> monitoring_history_point \<Rightarrow> bool" where
  "at_time t p \<longleftrightarrow> js_date_parse (mhp_time p) = Some t"

text \<open>What a column should show: the last of the series' points of that instant.\<close>

definition last_value :: "int \<Rightarrow> monitoring_history_point list \<Rightarrow> rat option option" where
  "last_value t ps = (case filter (at_time t) ps of [] \<Rightarrow> None | qs \<Rightarrow> Some (mhp_average_latency_ms (last qs)))"

definition times_of :: "monitoring_history_point list \<Rightarrow> int set" where
  "times_of ps = {t. \<exists>p \<in> set ps. at_time t p}"

lemma last_value_Cons:
  "last_value t (p # ps) =
     (case last_value t ps of Some v \<Rightarrow> Some v | None \<Rightarrow> if at_time t p then Some (mhp_average_latency_ms p) else None)"
  by (auto simp: last_value_def split: list.split)

lemma cell_add_point:
  "cell (add_point k p m) t j = (if j = k \<and> at_time t p then Some (mhp_average_latency_ms p) else cell m t j)"
  by (auto simp: cell_def add_point_def at_time_def Let_def update_conv' split: option.split)

lemma add_point_keys: "fst ` set (add_point k p m) = fst ` set m \<union> times_of [p]"
  by (auto simp: add_point_def times_of_def at_time_def Let_def dom_update split: option.split)

lemma add_point_ok:
  assumes "rows_ok m"
  shows "rows_ok (add_point k p m)"
proof (cases "js_date_parse (mhp_time p)")
  case (Some t)
  let ?row = "case map_of m t of None \<Rightarrow> \<lparr>cp_timestamp = t, cp_isoTime = mhp_time p, cp_values = []\<rparr> | Some r \<Rightarrow> r"
  have "cp_timestamp ?row = t" using assms by (auto simp: rows_ok_def dest: map_of_SomeD split: option.split)
  moreover have "set (AList.update t x m) \<subseteq> insert (t, x) (set m)" for x by (induction m) auto
  ultimately show ?thesis using assms Some distinct_update [of m t]
    by (fastforce simp: add_point_def rows_ok_def Let_def)
qed (use assms in \<open>simp add: add_point_def\<close>)

lemma cell_points:
  "cell (fold (add_point k) ps m) t j = (if j = k then (case last_value t ps of None \<Rightarrow> cell m t j | Some v \<Rightarrow> Some v) else cell m t j)"
proof (induction ps arbitrary: m)
  case (Cons p ps)
  then show ?case by (simp add: cell_add_point last_value_Cons split: option.split)
qed (simp add: last_value_def)

lemma points_keys: "fst ` set (fold (add_point k) ps m) = fst ` set m \<union> times_of ps"
  by (induction ps arbitrary: m) (auto simp: add_point_keys times_of_def)

lemma points_ok: "rows_ok m \<Longrightarrow> rows_ok (fold (add_point k) ps m)"
  by (induction ps arbitrary: m) (simp_all add: add_point_ok)

definition series_points :: "chart_series \<Rightarrow> monitoring_history_point list" where
  "series_points c = mhs_points (chs_series c)"

lemma series_ok: "rows_ok m \<Longrightarrow> rows_ok (fold add_series cs m)"
  by (induction cs arbitrary: m) (simp_all add: add_series_def points_ok)

lemma series_keys: "fst ` set (fold add_series cs m) = fst ` set m \<union> (\<Union>c \<in> set cs. times_of (series_points c))"
  by (induction cs arbitrary: m) (auto simp: add_series_def points_keys series_points_def)

lemma cell_series:
  assumes "distinct (map chs_dataKey cs)"
  shows "cell (fold add_series cs m) t j =
     (case find (\<lambda>c. chs_dataKey c = j) cs of
        None \<Rightarrow> cell m t j
      | Some c \<Rightarrow> (case last_value t (series_points c) of None \<Rightarrow> cell m t j | Some v \<Rightarrow> Some v))"
  using assms
proof (induction cs arbitrary: m)
  case (Cons c cs)
  have n: "chs_dataKey c \<notin> chs_dataKey ` set cs" using Cons.prems by simp
  have "chs_dataKey d \<noteq> chs_dataKey c" if "d \<in> set cs" for d using n that by (metis imageI)
  then have "find (\<lambda>d. chs_dataKey d = chs_dataKey c) cs = None" by (simp add: find_None_iff)
  then show ?case using Cons by (auto simp: add_series_def cell_points series_points_def split: option.split)
qed simp

lemma distinct_sort_map: "distinct (map f xs) \<Longrightarrow> distinct (map f (sort_key f xs))"
  by (simp add: distinct_map)

lemma rows_of_map:
  assumes "rows_ok m"
  shows "sorted_wrt (<) (map cp_timestamp (sort_key cp_timestamp (map snd m)))"
    "cp_timestamp ` set (sort_key cp_timestamp (map snd m)) = fst ` set m"
    "r \<in> set (sort_key cp_timestamp (map snd m)) \<Longrightarrow> map_of m (cp_timestamp r) = Some r"
proof -
  have e: "map cp_timestamp (map snd m) = map fst m" using assms by (auto simp: rows_ok_def)
  have "distinct (map cp_timestamp (sort_key cp_timestamp (map snd m)))"
  proof -
    have "distinct (map cp_timestamp (map snd m))" unfolding e using assms by (simp add: rows_ok_def)
    then show ?thesis by (rule distinct_sort_map)
  qed
  then show "sorted_wrt (<) (map cp_timestamp (sort_key cp_timestamp (map snd m)))"
    using sorted_sort_key [of cp_timestamp "map snd m"] by (simp add: strict_sorted_iff)
  have "cp_timestamp ` set (map snd m) = fst ` set m" using arg_cong [OF e, of set] by (simp add: image_image)
  then show "cp_timestamp ` set (sort_key cp_timestamp (map snd m)) = fst ` set m" by simp
  assume "r \<in> set (sort_key cp_timestamp (map snd m))"
  then obtain t where "(t, r) \<in> set m" by auto
  then show "map_of m (cp_timestamp r) = Some r" using assms by (auto simp: rows_ok_def)
qed

lemma nat_str_inject [simp]: "nat_str a = nat_str b \<longleftrightarrow> a = b"
  by (metis read_nat_str)

lemma data_keys_distinct: "distinct (map chs_dataKey (visibleChartSeries hidden (allChartSeries ss)))"
proof -
  have "map chs_dataKey (allChartSeries ss) = map data_key [0 ..< length ss]"
    by (rule nth_equalityI) (simp_all add: allChartSeries_def nth_enumerate_eq split_def)
  then have "distinct (map chs_dataKey (allChartSeries ss))" by (simp add: distinct_map inj_on_def data_key_def)
  then show ?thesis by (simp add: visibleChartSeries_def distinct_map_filter)
qed


section \<open>Properties\<close>

text \<open>
  C28. The chart shows exactly the probes: its rows are in strictly increasing order of time, there is a row for an
  instant exactly when a visible target has a point of that instant, and in it the column of a target holds that
  target's last point of the instant, and nothing when it has none.
\<close>

theorem chart_data_correct:
  assumes "cs = visibleChartSeries hidden (allChartSeries ss)"
  shows "sorted_wrt (<) (map cp_timestamp (buildChartData cs)) \<and>
    cp_timestamp ` set (buildChartData cs) = {t. \<exists>c \<in> set cs. \<exists>p \<in> set (mhs_points (chs_series c)). js_date_parse (mhp_time p) = Some t} \<and>
    (\<forall>r \<in> set (buildChartData cs). \<forall>c \<in> set cs.
       map_of (cp_values r) (chs_dataKey c) = last_value (cp_timestamp r) (mhs_points (chs_series c)))"
proof -
  let ?m = "fold add_series cs []"
  have ok: "rows_ok ?m" by (rule series_ok) (simp add: rows_ok_def)
  have d: "distinct (map chs_dataKey cs)" unfolding assms by (rule data_keys_distinct)
  have "map_of (cp_values r) (chs_dataKey c) = last_value (cp_timestamp r) (mhs_points (chs_series c))"
    if r: "r \<in> set (buildChartData cs)" and c: "c \<in> set cs" for r c
  proof -
    have "map_of ?m (cp_timestamp r) = Some r" using rows_of_map(3) [OF ok] r by (simp add: buildChartData_def)
    then have v: "cell ?m (cp_timestamp r) (chs_dataKey c) = map_of (cp_values r) (chs_dataKey c)" by (simp add: cell_def)
    have "find (\<lambda>x. chs_dataKey x = chs_dataKey c) cs = Some c"
      using d c by (induction cs) auto
    then show ?thesis using cell_series [OF d, of "[]" "cp_timestamp r" "chs_dataKey c"] v
      by (simp add: series_points_def cell_def split: option.splits)
  qed
  then show ?thesis
    using rows_of_map(1,2) [OF ok] series_keys [of cs "[]"]
    by (auto simp: buildChartData_def times_of_def at_time_def series_points_def)
qed

lemma fold_totals:
  "ht_attempts (fold add_totals ps h) = ht_attempts h + sum_list (map mhp_attempts ps)"
  "ht_successes (fold add_totals ps h) = ht_successes h + sum_list (map mhp_successful_attempts ps)"
  by (induction ps arbitrary: h) (simp_all add: add_totals_def)

lemma fold_series_totals:
  "ht_attempts (fold (\<lambda>s h. fold add_totals (mhs_points s) h) ss h)
     = ht_attempts h + sum_list (map mhp_attempts (concat (map mhs_points ss)))"
  "ht_successes (fold (\<lambda>s h. fold add_totals (mhs_points s) h) ss h)
     = ht_successes h + sum_list (map mhp_successful_attempts (concat (map mhs_points ss)))"
  by (induction ss arbitrary: h) (simp_all add: fold_totals)

lemma sum_between:
  "\<forall>p \<in> set ps. 0 \<le> mhp_successful_attempts p \<and> mhp_successful_attempts p \<le> mhp_attempts p \<Longrightarrow>
     0 \<le> sum_list (map mhp_successful_attempts ps) \<and> sum_list (map mhp_successful_attempts ps) \<le> sum_list (map mhp_attempts ps)"
  by (induction ps) auto

text \<open>
  The rates are rates: when every round reports between none and all of its attempts as successful, the total
  lies between 0 and 100 percent whenever it is shown, the header's numbers are the sums of the legend's,
  and no division by zero is printed.
\<close>

theorem history_rate_bounds:
  assumes "\<forall>s \<in> set ss. \<forall>p \<in> set (mhs_points s). 0 \<le> mhp_successful_attempts p \<and> mhp_successful_attempts p \<le> mhp_attempts p"
  shows "let h = historyTotals ss in
     (ht_attempts h = 0 \<longrightarrow> success_text h = [Raw ''--'']) \<and> 0 \<le> success_rate h \<and> success_rate h \<le> 100 \<and>
     ht_attempts h = sum_list (map (\<lambda>s. ht_attempts (historyTotals [s])) ss) \<and>
     ht_successes h = sum_list (map (\<lambda>s. ht_successes (historyTotals [s])) ss)"
proof -
  have h: "ht_attempts (historyTotals ss) = sum_list (map mhp_attempts (concat (map mhs_points ss)))"
    "ht_successes (historyTotals ss) = sum_list (map mhp_successful_attempts (concat (map mhs_points ss)))" for ss
    by (simp_all add: historyTotals_def fold_series_totals)
  have b: "0 \<le> ht_successes (historyTotals ss) \<and> ht_successes (historyTotals ss) \<le> ht_attempts (historyTotals ss)"
    unfolding h using assms by (intro sum_between) auto
  have "0 \<le> success_rate (historyTotals ss) \<and> success_rate (historyTotals ss) \<le> 100"
  proof (cases "ht_attempts (historyTotals ss) = 0")
    case False
    then have pos: "0 < (of_int (ht_attempts (historyTotals ss)) :: rat)" using b by simp
    have "(of_int (ht_successes (historyTotals ss)) :: rat) \<le> of_int (ht_attempts (historyTotals ss))"
      "0 \<le> (of_int (ht_successes (historyTotals ss)) :: rat)" using b by simp_all
    then show ?thesis using pos by (simp add: success_rate_def field_simps)
  qed (simp add: success_rate_def)
  moreover have "sum_list (map mhp_attempts (concat (map mhs_points ss))) = sum_list (map (\<lambda>s. sum_list (map mhp_attempts (mhs_points s))) ss)"
    "sum_list (map mhp_successful_attempts (concat (map mhs_points ss))) = sum_list (map (\<lambda>s. sum_list (map mhp_successful_attempts (mhs_points s))) ss)"
    by (induction ss) simp_all
  ultimately show ?thesis by (simp add: Let_def h success_text_def)
qed

inductive history_reach :: "history_page \<Rightarrow> bool" where
  history_start: "history_reach (history_init n qs)"
| history_move: "history_reach s \<Longrightarrow> history_enabled s e \<Longrightarrow> history_reach (fst (history_step e s))"

definition remembers :: "history_page \<Rightarrow> bool" where
  "remembers s \<longleftrightarrow> (q_data (own_query s) \<noteq> None \<longrightarrow> hp_last s = Some (history_key s))"

lemma remember_parts [simp]:
  "hp_queries (remember s) = hp_queries s" "hp_range (remember s) = hp_range s" "hp_nodeId (remember s) = hp_nodeId s"
  "history_key (remember s) = history_key s" "own_query (remember s) = own_query s"
  by (simp_all add: remember_def own_query_def history_key_def)

lemma remembers_remember: "remembers (remember s)"
  by (simp add: remembers_def) (simp add: remember_def)

lemma history_reach_remembers: "history_reach s \<Longrightarrow> remembers s"
proof (induction rule: history_reach.induct)
  case (history_move s e)
  then show ?case by (cases e) (simp_all add: remembers_remember, simp_all add: remembers_def own_query_def history_key_def)
qed (simp add: history_init_def remembers_remember)

text \<open>
  Changing the range never blanks the page: while the new range has neither data nor an error, what was shown
  stays; its own data replace it when they arrive, and only a failure takes it away.
\<close>

theorem range_switch_keeps_data:
  assumes "history_reach s" "history_data s = Some d" "q_error (hp_queries s (hp_nodeId s, r)) = None"
  shows "history_data (fst (history_step (SetRange r) s)) = Some (nullish (q_data (hp_queries s (hp_nodeId s, r))) d)"
proof -
  let ?t = "fst (history_step (SetRange r) s)"
  have q: "own_query ?t = hp_queries s (hp_nodeId s, r)" by (simp add: own_query_def history_key_def)
  show ?thesis
  proof (cases "q_data (hp_queries s (hp_nodeId s, r))")
    case None
    then have l: "hp_last ?t = hp_last s" by (simp add: remember_def own_query_def history_key_def)
    have "Option.bind (hp_last s) (\<lambda>k. q_data (hp_queries s k)) = Some d"
    proof (cases "q_data (own_query s)")
      case (Some x)
      then have "hp_last s = Some (history_key s)" using history_reach_remembers [OF assms(1)] by (simp add: remembers_def)
      then show ?thesis using Some assms(2) by (simp add: history_data_def own_query_def)
    qed (use assms(2) in \<open>simp add: history_data_def split: if_splits\<close>)
    then show ?thesis unfolding history_data_def q using None assms(3) l by simp
  next
    case (Some x)
    then show ?thesis unfolding history_data_def q by simp
  qed
qed

section \<open>The tooltip and the colours of the chart\<close>

text \<open>
  What the chart library hands to the tooltip at a row: an item per line that has a value there, with the properties of
  the line and the row; \<open>props\<close> are the library's own.
\<close>

definition history_item :: "chart_point \<Rightarrow> (chart_series \<Rightarrow> (string \<times> chart_value) list) \<Rightarrow> chart_series \<times> rat \<Rightarrow> tooltip_item" where
  "history_item r props cv =
     \<lparr>ti_dataKey = Some (chs_dataKey (fst cv)), ti_name = Some (chs_dataKey (fst cv)), ti_value = VNum (snd cv),
      ti_color = Some (chs_color (fst cv)), ti_type_none = False, ti_props = props (fst cv), ti_row = Some (chart_row r)\<rparr>"

lemma tooltip_own_name:
  assumes "distinct (map chs_dataKey cs)" "c \<in> set cs"
  shows "tooltip_name (chartConfig cs) (chs_dataKey c) = [Raw (mhs_name (chs_series c))]"
proof -
  have "map_of (chartConfig cs) (chs_dataKey c) = Some (labelled [Raw (mhs_name (chs_series c))] (chs_color c))"
    using assms by (intro map_of_is_SomeI) (auto simp: chartConfig_def comp_def)
  then show ?thesis by (simp add: tooltip_name_def labelled_def)
qed

lemma visible_key_named: "c \<in> set (visibleChartSeries hidden (allChartSeries ss)) \<Longrightarrow> chs_dataKey c \<noteq> []"
  by (auto simp: visibleChartSeries_def allChartSeries_def data_key_def)

text \<open>
  C39. At every row of the chart the tooltip names the visible targets that have a value there, each by its own name with
  its latency to one decimal; the time of the row heads the list when there are at least two of them, and is not shown
  when there is one.
\<close>

theorem history_tooltip_content:
  assumes "cs = visibleChartSeries hidden (allChartSeries ss)" "fst ` set cvs \<subseteq> set cs" "cvs \<noteq> []"
  shows "ChartTooltipContent (chartConfig cs) (history_tooltip (chartConfig cs)) True label (map (history_item r props) cvs) =
    [Grp ''tooltip'' (only_if (2 \<le> length cvs) [Txt (formatDateTime (Some (cp_isoTime r)))] @
       map (\<lambda>(c, v). Grp ''item'' [Txt [Raw (mhs_name (chs_series c))], Txt [Raw (to_fixed 1 v), Raw '' ms'']]) cvs)]"
proof -
  let ?config = "chartConfig cs" and ?pl = "map (history_item r props) cvs"
  let ?f = "\<lambda>v n (it :: tooltip_item). [tooltip_name ?config n, latency_text v]"
  have tp: "tp_indicator (history_tooltip ?config) = Line" "tp_formatter (history_tooltip ?config) = Some ?f"
    "tp_labelFormatter (history_tooltip ?config) = Some (\<lambda>v. tooltip_label)" "\<not> tp_hideLabel (history_tooltip ?config)"
    by (simp_all add: history_tooltip_def default_tooltip_def)
  have k: "chs_dataKey (fst cv) \<noteq> []" if "cv \<in> set cvs" for cv using visible_key_named assms(1,2) that by blast
  have "tooltip_name ?config (chs_dataKey c) = [Raw (mhs_name (chs_series c))]" if "(c, v) \<in> set cvs" for c v
    using that assms(2) by (intro tooltip_own_name) (auto simp: assms(1) data_keys_distinct image_iff)
  then have rows: "map (\<lambda>it. Grp ''item'' (map Txt (?f (ti_value it) (the (ti_name it)) it))) ?pl =
      map (\<lambda>(c, v). Grp ''item'' [Txt [Raw (mhs_name (chs_series c))], Txt [Raw (to_fixed 1 v), Raw '' ms'']]) cvs"
    by (auto simp: history_item_def latency_text_def)
  show ?thesis
  proof (cases "length cvs = 1")
    case True
    then obtain cv where cv: "cvs = [cv]" by (auto simp: length_Suc_conv)
    have h: "ChartTooltipContent ?config (history_tooltip ?config) True label ?pl =
        [Grp ''tooltip'' (map (\<lambda>it. Grp ''item'' (map Txt (?f (ti_value it) (the (ti_name it)) it))) ?pl)]"
      using tp k cv by (simp add: tooltip_one_line [of _ ?f] history_item_def)
    show ?thesis unfolding h rows using cv by simp
  next
    case False
    then have l: "2 \<le> length cvs" using assms(3) by (cases cvs) (auto simp: Suc_le_eq)
    have lab: "tooltip_label ?pl = formatDateTime (Some (cp_isoTime r))"
      using assms(3) by (cases cvs) (simp_all add: tooltip_label_def row_field_def history_item_def chart_row_def)
    have two: "2 \<le> length ?pl" using l by simp
    have items: "\<forall>it \<in> set ?pl. ti_value it \<noteq> VUndefined \<and> truthy_str (ti_name it) \<and> \<not> ti_type_none it"
      using k by (simp add: history_item_def)
    have h: "ChartTooltipContent ?config (history_tooltip ?config) True label ?pl =
        [Grp ''tooltip'' (Txt (tooltip_label ?pl) # map (\<lambda>it. Grp ''item'' (map Txt (?f (ti_value it) (the (ti_name it)) it))) ?pl)]"
      using tooltip_more_lines [OF two tp(2-4) items, of ?config label] by (simp only: simp_thms)
    show ?thesis unfolding h rows lab using l by simp
  qed
qed

text \<open>
  C35. The style sheet of the chart, which is put into the page as it is, holds no character beside letters, digits and
  the sheet's own punctuation, whatever names, addresses and identifiers the control plane gives the targets.
\<close>

theorem history_style_safe:
  assumes "ChartStyle i (chartConfig (visibleChartSeries hidden (allChartSeries ss))) = Some css" "list_all style_char i"
  shows "list_all style_char css"
proof (rule chart_style_chars [OF assms])
  have colors: "list_all style_char x" if "x \<in> set chartColors" for x
    using that by (auto simp: chartColors_def style_char_def is_alnum_def is_digit_def)
  have colors: "list_all style_char (chartColors ! (n mod length chartColors))" for n
    by (rule colors [OF nth_mem]) (simp add: chartColors_def)
  have keys: "list_all style_char (data_key n)" for n
    using nat_str_digits by (auto simp: data_key_def style_char_def is_alnum_def list_all_iff is_digit_def)
  show "\<forall>(k, e) \<in> set (chartConfig (visibleChartSeries hidden (allChartSeries ss))).
      list_all style_char k \<and> ce_theme e = None \<and> list_all style_char (nullish (ce_color e) [])"
    using keys colors by (auto simp: chartConfig_def visibleChartSeries_def allChartSeries_def labelled_def)
qed

section \<open>Examples\<close>

definition sample_point :: "string \<Rightarrow> int \<Rightarrow> monitoring_history_point" where
  "sample_point t k = \<lparr>mhp_time = t, mhp_attempts = 3, mhp_successful_attempts = k, mhp_success_rate = 0,
     mhp_average_latency_ms = Some 1, mhp_failed_rounds = 0\<rparr>"

definition sample_series :: "monitoring_history_series" where
  "sample_series = \<lparr>mhs_target_id = ''a'', mhs_name = ''A'', mhs_address = [], mhs_points = [sample_point ''1970-01-01T00:00:01Z'' 2]\<rparr>"

definition sample_history :: history_page where
  "sample_history = history_init ''n'' ((\<lambda>_. \<lparr>q_data = None, q_error = None\<rparr>)
     ((''n'', Range_24h) := \<lparr>q_data = Some \<lparr>mh_available = True, mh_unavailable_reason = None,
        mh_node = \<lparr>hn_id = ''n'', hn_name = ''n'', hn_public_ipv4 = [], hn_status = Node_active, hn_monitor_auto_paused = False\<rparr>,
        mh_range = Range_24h, mh_from = [], mh_to = [], mh_bucket_seconds = 60, mh_series = [sample_series]\<rparr>, q_error = None\<rparr>))"

theorem chart_data_correct_witness:
  "1000 \<in> cp_timestamp ` set (buildChartData (visibleChartSeries [] (allChartSeries [sample_series])))"
proof -
  have "js_date_parse ''1970-01-01T00:00:01Z'' = Some 1000"
    by (simp add: js_date_parse_def parse_date_def digits_def skip_char_def parse_time_def parse_seconds_def parse_millis_def parse_offset_def
        day_number_def month_days_def leap_days_def read_nat_def is_digit_def digit_value_def)
  then show ?thesis
    using chart_data_correct [OF refl, of "[]" "[sample_series]"]
    by (simp add: visibleChartSeries_def allChartSeries_def sample_series_def sample_point_def)
qed

theorem history_rate_bounds_witness: "success_rate (historyTotals [sample_series]) \<le> 100"
  using history_rate_bounds [of "[sample_series]"] by (simp add: sample_series_def sample_point_def Let_def)

theorem history_tooltip_content_witness:
  "texts (hd (ChartTooltipContent (chartConfig (allChartSeries [sample_series, sample_series]))
     (history_tooltip (chartConfig (allChartSeries [sample_series, sample_series]))) True VUndefined
     (map (history_item \<lparr>cp_timestamp = 1000, cp_isoTime = [], cp_values = []\<rparr> (\<lambda>_. []))
        [(hd (allChartSeries [sample_series, sample_series]), 3 / 2)]))) =
   [[Raw ''A''], [Raw ''1.5'', Raw '' ms'']]"
proof -
  let ?cs = "allChartSeries [sample_series, sample_series]"
  have c: "?cs = visibleChartSeries [] (allChartSeries [sample_series, sample_series])" "?cs \<noteq> []"
    by (simp_all add: visibleChartSeries_def allChartSeries_def)
  have s: "fst ` set [(hd ?cs, 3 / 2 :: rat)] \<subseteq> set ?cs" using c(2) by simp
  have n: "mhs_name (chs_series (hd ?cs)) = ''A''" by (simp add: allChartSeries_def sample_series_def)
  have d: "to_fixed 1 (3 / 2) = ''1.5''" by code_simp
  show ?thesis unfolding history_tooltip_content [OF c(1) s not_Cons_self2] using n d by simp
qed

theorem history_style_safe_witness:
  "CHR ''<'' \<notin> set (the (ChartStyle ''chart-r1'' (chartConfig (visibleChartSeries [] (allChartSeries [sample_series])))))"
proof -
  let ?config = "chartConfig (visibleChartSeries [] (allChartSeries [sample_series]))"
  have "list_all style_char ''chart-r1''" by (simp add: style_char_def is_alnum_def is_digit_def)
  moreover have "colorConfig ?config \<noteq> []"
    by (simp add: colorConfig_def chartConfig_def visibleChartSeries_def allChartSeries_def labelled_def chartColors_def)
  then have "ChartStyle ''chart-r1'' ?config = Some (the (ChartStyle ''chart-r1'' ?config))" by (simp add: ChartStyle_def)
  ultimately have "list_all style_char (the (ChartStyle ''chart-r1'' ?config))" using history_style_safe by blast
  then show ?thesis by (auto simp: list_all_iff style_char_def is_alnum_def is_digit_def)
qed

theorem range_switch_keeps_data_witness:
  "history_data (fst (history_step (SetRange Range_1h) sample_history)) = history_data sample_history"
proof -
  have q: "hp_queries sample_history (''n'', Range_1h) = \<lparr>q_data = None, q_error = None\<rparr>" "history_data sample_history \<noteq> None"
    by (simp_all add: sample_history_def history_init_def history_data_def own_query_def remember_def history_key_def)
  then obtain d where "history_data sample_history = Some d" by blast
  moreover have "history_reach sample_history" "hp_nodeId sample_history = ''n''"
    unfolding sample_history_def by (rule history_start) (simp add: history_init_def)
  ultimately show ?thesis using range_switch_keeps_data [of sample_history d Range_1h] q(1) by simp
qed

section \<open>In the session\<close>

interpretation history_session: silent_page history_enabled history_step
proof
  show "f \<in> set (snd (history_step e s)) \<Longrightarrow> \<not> is_send f \<and> f \<noteq> DispatchUnauthorized" for f e s
    by (cases e) (auto split: if_splits)
qed

end
