(* ===== verification/Nodes.thy ===== *)
theory Nodes
  imports Widgets
begin

text \<open>
  The list of edge nodes with its two dialogs (frontend/src/features/nodes/nodes-page.tsx): adding a node
  and the result of a bulk upgrade.
\<close>

record bulk_item =
  bi_node_id :: string
  bi_name :: string
  bi_state :: string
  bi_detail :: "string option"

record bulk_result =
  bu_created :: int
  bu_already_active :: int
  bu_up_to_date :: int
  bu_blocked :: int
  bu_results :: "bulk_item list"

record nodes_page =
  nl_csrf :: string
  nl_query :: "node list query"
  nl_page :: nat
  nl_bulk :: bool
  nl_bulkResult :: "bulk_result option"
  nl_bulkPage :: nat
  nl_createOpen :: bool
  nl_name :: string
  nl_ip :: string
  nl_create :: bool

datatype nodes_event =
    NodesPageTo int | RefreshNodes | ManageNode string
  | BulkUpgrade | CloseBulk | BulkPageTo int
  | OpenCreate | CloseCreate | TypeName string | TypeIP string | SubmitCreate
  | BulkArrives "js_error + bulk_result"
  | CreateArrives "js_error + node"
  | NodesArrive "node list query"

definition activeUpgrade :: "node_upgrade_task option \<Rightarrow> bool" where
  "activeUpgrade t \<longleftrightarrow> map_option ut_status t \<in> {Some Upg_queued, Some Upg_applying}"

text \<open>\<open>refetchInterval\<close> of the list, in milliseconds.\<close>

definition nodes_poll :: "node list option \<Rightarrow> nat" where
  "nodes_poll ns = (if list_ex (\<lambda>n. activeUpgrade (n_upgrade_task n)) (nullish ns []) then 5000 else 20000)"

definition bulk_request :: "string \<Rightarrow> request" where
  "bulk_request csrf = api_request csrf ''/api/nodes/upgrade-all'' (method_init ''POST'')"

definition create_body :: "string \<Rightarrow> string \<Rightarrow> json" where
  "create_body name ip = JObject [(''name'', JString name), (''public_ipv4'', JString ip)]"

definition create_request :: "string \<Rightarrow> string \<Rightarrow> string \<Rightarrow> request" where
  "create_request csrf name ip = api_request csrf ''/api/nodes'' (json_init ''POST'' (create_body name ip))"

definition nodes_data :: "nodes_page \<Rightarrow> node list" where
  "nodes_data s = nullish (q_data (nl_query s)) []"

definition bulk_items :: "nodes_page \<Rightarrow> bulk_item list" where
  "bulk_items s = (case nl_bulkResult s of None \<Rightarrow> [] | Some r \<Rightarrow> bu_results r)"

definition nodes_failed :: "nodes_page \<Rightarrow> js_error \<Rightarrow> nodes_page \<times> effect list" where
  "nodes_failed s e = (s, [ToastError (errorMessage e)])"

fun nodes_step :: "(nodes_event, nodes_page) component" where
  "nodes_step (NodesPageTo k) s =
     (s\<lparr>nl_page := setPage (useListPagination (nodes_data s) LIST_PAGE_SIZE (nl_page s)) k\<rparr>, [])"
| "nodes_step RefreshNodes s = (s, [Refetch [''nodes'']])"
| "nodes_step (ManageNode i) s = (s, [Navigate (''/nodes/'' @ encodeURIComponent i) False])"
| "nodes_step BulkUpgrade s = (s\<lparr>nl_bulk := True\<rparr>, [Send (bulk_request (nl_csrf s))])"
| "nodes_step CloseBulk s = (s\<lparr>nl_bulkResult := None\<rparr>, [])"
| "nodes_step (BulkPageTo k) s =
     (s\<lparr>nl_bulkPage := setPage (useListPagination (bulk_items s) LIST_PAGE_SIZE (nl_bulkPage s)) k\<rparr>, [])"
| "nodes_step OpenCreate s = (s\<lparr>nl_createOpen := True\<rparr>, [])"
| "nodes_step CloseCreate s = (s\<lparr>nl_createOpen := False\<rparr>, [])"
| "nodes_step (TypeName v) s = (s\<lparr>nl_name := v\<rparr>, [])"
| "nodes_step (TypeIP v) s = (s\<lparr>nl_ip := v\<rparr>, [])"
| "nodes_step SubmitCreate s =
     (s\<lparr>nl_create := True\<rparr>, [Send (create_request (nl_csrf s) (nl_name s) (nl_ip s))])"
| "nodes_step (BulkArrives res) s =
     settle res (\<lambda>r. (s\<lparr>nl_bulk := False, nl_bulkResult := Some r\<rparr>,
         [Invalidate [''nodes''], ToastSuccess [Raw (int_str (bu_created r)), Zh '' upgrade tasks created'']]))
       (nodes_failed (s\<lparr>nl_bulk := False\<rparr>))"
| "nodes_step (CreateArrives res) s =
     settle res (\<lambda>n. (s\<lparr>nl_create := False, nl_name := [], nl_ip := [], nl_createOpen := False\<rparr>,
         [Invalidate [''nodes''], ToastSuccess [Zh ''node added'']]))
       (nodes_failed (s\<lparr>nl_create := False\<rparr>))"
| "nodes_step (NodesArrive q) s = (s\<lparr>nl_query := q\<rparr>, [])"

section \<open>The view\<close>

definition version_text :: "string option \<Rightarrow> ui_text \<Rightarrow> ui_text" where
  "version_text v other = (if truthy_str v then [Raw ''v'', Raw (the v)] else other)"

definition upgrade_cell :: "node \<Rightarrow> 'e view" where
  "upgrade_cell n =
     (case n_upgrade_task n of
        Some t \<Rightarrow>
          if activeUpgrade (Some t) then StatusBadge (upgrade_status_str (ut_status t)) None
          else if n_upgrade_up_to_date n then StatusBadge ''succeeded'' (Some [Zh ''latest''])
          else if n_can_upgrade n then StatusBadge ''ready'' (Some [Zh ''can be upgraded''])
          else Txt (if truthy_str (n_upgrade_blocker n) then [Raw (the (n_upgrade_blocker n))] else [Zh ''cannot be upgraded''])
      | None \<Rightarrow>
          if n_upgrade_up_to_date n then StatusBadge ''succeeded'' (Some [Zh ''latest''])
          else if n_can_upgrade n then StatusBadge ''ready'' (Some [Zh ''can be upgraded''])
          else Txt (if truthy_str (n_upgrade_blocker n) then [Raw (the (n_upgrade_blocker n))] else [Zh ''cannot be upgraded'']))"

definition node_row :: "node \<Rightarrow> nodes_event view" where
  "node_row n = Grp ''row''
     [Txt [Raw (n_name n)], Txt [Raw (n_id n)], StatusBadge (node_status_str (n_status n)) None,
      Txt [Raw (n_public_ipv4 n)],
      Txt (if truthy_str (n_last_heartbeat_at n) then formatDateTime (n_last_heartbeat_at n) else [Zh ''not registered yet'']),
      Txt (version_text (n_agent_version n) [Zh ''version unknown'']),
      Txt [Zh ''configuration v'', Raw (formatNumber (Some (n_applied_version n)))], upgrade_cell n,
      Lnk (''/nodes/'' @ encodeURIComponent (n_id n)) [Btn [Zh ''manage '', Raw (n_name n)] False (ManageNode (n_id n))]]"

definition CreateNodeDialog :: "nodes_page \<Rightarrow> nodes_event view list" where
  "CreateNodeDialog s = only_if (nl_createOpen s)
     [Grp ''dialog''
       [Txt [Zh ''add an edge node''], Txt [Zh ''the deployment command is generated on its page''],
        Btn [Zh ''close''] False CloseCreate,
        Form [Inp ''node-name'' [Required, MaxLength 80] (nl_name s) False TypeName,
              Inp ''node-ip'' [Required] (nl_ip s) False TypeIP, Btn [Zh ''cancel''] False CloseCreate]
          [Zh ''create the node''] (nl_create s) SubmitCreate]]"

definition bulkStateLabel :: "string \<Rightarrow> ui_text" where
  "bulkStateLabel st =
     (case map_of [(''created'', ''created''), (''already_active'', ''in progress''), (''up_to_date'', ''latest''),
                   (''blocked'', ''blocked'')] st of Some l \<Rightarrow> [Zh l] | None \<Rightarrow> [Raw st])"

definition bulkStateStatus :: "string \<Rightarrow> string" where
  "bulkStateStatus st =
     nullish (map_of [(''created'', ''queued''), (''already_active'', ''applying''), (''up_to_date'', ''succeeded''),
                      (''blocked'', ''failed'')] st) st"

definition BulkResultDialog :: "nodes_page \<Rightarrow> nodes_event view list" where
  "BulkResultDialog s =
     (case nl_bulkResult s of
        None \<Rightarrow> []
      | Some r \<Rightarrow>
          (let p = useListPagination (bu_results r) LIST_PAGE_SIZE (nl_bulkPage s) in
           [Grp ''dialog''
             ([Txt [Zh ''result of the bulk upgrade''],
               Txt [Zh ''created '', Raw (int_str (bu_created r)), Zh '', in progress '', Raw (int_str (bu_already_active r)),
                    Zh '', latest '', Raw (int_str (bu_up_to_date r)), Zh '', blocked '', Raw (int_str (bu_blocked r))]] @
              map (\<lambda>it. Grp ''row'' [Txt [Raw (bi_name it)],
                     StatusBadge (bulkStateStatus (bi_state it)) (Some (bulkStateLabel (bi_state it))),
                     Txt [Raw (opt_or (bi_detail it) ''--'')]]) (pg_items p) @
              [ListPagination p [Zh ''results''] False BulkPageTo [], Btn [Zh ''done''] False CloseBulk,
               Btn [Zh ''close''] False CloseBulk])]))"

definition nodes_body :: "nodes_page \<Rightarrow> nodes_event view list" where
  "nodes_body s =
     (let upgradeable = length (filter n_can_upgrade (nodes_data s));
          p = useListPagination (nodes_data s) LIST_PAGE_SIZE (nl_page s)
      in [PageHeader [Zh ''nodes''] (Some [Zh ''edges, versions and operations''])
            [Btn ([Zh ''upgrade all''] @ (if upgradeable \<noteq> 0 then [Raw '' ('', Raw (nat_str upgradeable), Raw '')''] else []))
               (nodes_data s = [] \<or> nl_bulk s) BulkUpgrade,
             Btn [Zh ''add a node''] False OpenCreate]] @
         only_if (q_loading (nl_query s)) [PageLoading 4] @
         (case q_error (nl_query s) of None \<Rightarrow> [] | Some e \<Rightarrow> [PageError [Zh ''loading failed''] e]) @
         (case q_data (nl_query s) of
            None \<Rightarrow> []
          | Some ns \<Rightarrow>
              (if ns = [] then [EmptyState [Zh ''no edge nodes''] (Some [Zh ''add a node, then generate its deployment command''])]
               else map node_row (pg_items p) @
                    [ListPagination p [Zh ''nodes''] False NodesPageTo [Btn [Zh ''refresh the nodes''] False RefreshNodes]])))"

definition NodesPage :: "nodes_page \<Rightarrow> nodes_event view list" where
  "NodesPage s =
     (if nl_createOpen s \<or> nl_bulkResult s \<noteq> None then [] else nodes_body s) @ CreateNodeDialog s @ BulkResultDialog s"

fun nodes_enabled :: "nodes_page \<Rightarrow> nodes_event \<Rightarrow> bool" where
  "nodes_enabled s (BulkArrives r) \<longleftrightarrow> nl_bulk s"
| "nodes_enabled s (CreateArrives r) \<longleftrightarrow> nl_create s"
| "nodes_enabled s (NodesArrive q) \<longleftrightarrow> True"
| "nodes_enabled s e \<longleftrightarrow> offers (NodesPage s) e"

section \<open>Laws\<close>

lemma upgrade_cell_inert [simp]: "\<not> fires (upgrade_cell n) e"
  by (simp add: upgrade_cell_def split: option.splits)

lemma offers_NodesPage:
  assumes "offers (NodesPage s) e"
  shows "(e = BulkUpgrade \<and> nodes_data s \<noteq> [] \<and> \<not> nl_bulk s) \<or> e = OpenCreate \<or> (\<exists>i. e = ManageNode i) \<or>
    (\<exists>k. e = NodesPageTo k) \<or> e = RefreshNodes \<or> (\<exists>k. e = BulkPageTo k) \<or> e = CloseBulk \<or> e = CloseCreate \<or>
    (\<exists>v. e = TypeName v) \<or> (\<exists>v. e = TypeIP v) \<or>
    (e = SubmitCreate \<and> nl_createOpen s \<and> \<not> nl_create s \<and> nl_name s \<noteq> [] \<and> js_length (nl_name s) \<le> 80 \<and> nl_ip s \<noteq> [])"
  using assms
  by (auto simp: NodesPage_def nodes_body_def CreateNodeDialog_def BulkResultDialog_def Let_def offers_map
      node_row_def field_ok_def split: if_splits option.splits)

lemma nodes_step_sends:
  "sends (snd (nodes_step e s)) = (case e of BulkUpgrade \<Rightarrow> 1 | SubmitCreate \<Rightarrow> 1 | _ \<Rightarrow> 0)"
proof (cases e)
  case (BulkArrives r)
  then show ?thesis by (cases r) (simp_all add: nodes_failed_def)
next
  case (CreateArrives r)
  then show ?thesis by (cases r) (simp_all add: nodes_failed_def)
qed simp_all

fun create_event :: "nodes_event \<Rightarrow> bool" where
  "create_event BulkUpgrade \<longleftrightarrow> False"
| "create_event e \<longleftrightarrow> True"

fun is_create_arrival :: "nodes_event \<Rightarrow> bool" where
  "is_create_arrival (CreateArrives r) \<longleftrightarrow> True"
| "is_create_arrival e \<longleftrightarrow> False"

interpretation create_node: single_flight
  "\<lambda>s e. nodes_enabled s e \<and> create_event e" nodes_step nl_create is_create_arrival "\<lambda>_. True"
proof (unfold_locales, goal_cases)
  case (1 s e)
  have "\<not> nl_create s" if "e = SubmitCreate" using 1 that offers_NodesPage [of s SubmitCreate] by auto
  then show ?case unfolding nodes_step_sends using 1(2)
    by (cases e) (auto simp: settle_def nodes_failed_def split: sum.splits)
qed simp

fun bulk_event :: "nodes_event \<Rightarrow> bool" where
  "bulk_event SubmitCreate \<longleftrightarrow> False"
| "bulk_event e \<longleftrightarrow> True"

fun is_bulk_arrival :: "nodes_event \<Rightarrow> bool" where
  "is_bulk_arrival (BulkArrives r) \<longleftrightarrow> True"
| "is_bulk_arrival e \<longleftrightarrow> False"

interpretation bulk_upgrade: single_flight
  "\<lambda>s e. nodes_enabled s e \<and> bulk_event e" nodes_step nl_bulk is_bulk_arrival "\<lambda>_. True"
proof (unfold_locales, goal_cases)
  case (1 s e)
  have "\<not> nl_bulk s" if "e = BulkUpgrade" using 1 that offers_NodesPage [of s BulkUpgrade] by auto
  then show ?case unfolding nodes_step_sends using 1(2)
    by (cases e) (auto simp: settle_def nodes_failed_def split: sum.splits)
qed simp

text \<open>
  Adding nodes is one request at a time: however the user types, submits, closes and reopens the dialog,
  the number of creation requests is the number of answers received, plus one while a request is in
  flight; no double click creates a node twice.
\<close>

theorem create_node_single_flight:
  assumes "\<not> nl_create s" "possible (\<lambda>s e. nodes_enabled s e \<and> create_event e) nodes_step es s"
  shows "sends (snd (run nodes_step es s))
       = length (filter is_create_arrival es) + (if nl_create (fst (run nodes_step es s)) then 1 else 0)"
  using create_node.run_balance [OF TrueI assms(2)] assms(1) by simp

definition nodes_init :: "string \<Rightarrow> nodes_page" where
  "nodes_init csrf = \<lparr>nl_csrf = csrf, nl_query = \<lparr>q_data = None, q_error = None\<rparr>, nl_page = 1, nl_bulk = False,
     nl_bulkResult = None, nl_bulkPage = 1, nl_createOpen = False, nl_name = [], nl_ip = [], nl_create = False\<rparr>"

theorem create_node_single_flight_witness:
  "sends (snd (run nodes_step [OpenCreate, TypeName ''e1'', TypeIP ''192.0.2.1'', SubmitCreate] (nodes_init ''t''))) = 1"
proof -
  have l: "js_length ''e1'' = 2" by code_simp
  have "possible (\<lambda>s e. nodes_enabled s e \<and> create_event e) nodes_step
      [OpenCreate, TypeName ''e1'', TypeIP ''192.0.2.1'', SubmitCreate] (nodes_init ''t'')"
    by (simp add: nodes_init_def NodesPage_def nodes_body_def CreateNodeDialog_def BulkResultDialog_def Let_def
        typable_def field_ok_def l)
  from create_node_single_flight [OF _ this] show ?thesis by (simp add: nodes_init_def)
qed

section \<open>In the session\<close>

interpretation nodes_session: session_page nodes_enabled nodes_step nl_csrf "\<lambda>s. True"
proof
  fix r e s
  show "Send r \<in> set (snd (nodes_step e s)) \<Longrightarrow> authorised (nl_csrf s) r"
    by (cases e) (auto simp: settle_send nodes_failed_def bulk_request_def create_request_def starts_with_Cons split: sum.splits)
  show "nodes_enabled s e \<Longrightarrow> nl_csrf (fst (nodes_step e s)) = nl_csrf s \<and> True"
    by (cases e) (simp_all add: settle_def nodes_failed_def split: sum.splits)
  show "DispatchUnauthorized \<in> set (snd (nodes_step e s)) \<Longrightarrow> Send r \<notin> set (snd (nodes_step e s))"
    by (cases e) (auto simp: settle_send nodes_failed_def split: sum.splits)
qed

end
