(* ===== verification/NodeDetail.thy ===== *)
theory NodeDetail
  imports Nodes
begin

text \<open>
  The page of one node (frontend/src/features/nodes/node-detail-page.tsx): its status, deployment and
  upgrade actions, the uninstall procedure, the two forms for the cache quota and the nginx capacity, and
  what it reports.
\<close>

section \<open>State\<close>

text \<open>
  The quota and capacity forms are remounted when the stored values change (their \<open>key\<close>), so their state
  keeps the values it was mounted with; \<open>old\<close> counts requests of unmounted instances.
\<close>

record quota_form =
  qf_settings :: node_cache_settings
  qf_override :: bool
  qf_size :: int
  qf_pending :: bool

record capacity_form =
  cf_capacity :: nginx_capacity
  cf_draft :: nginx_capacity
  cf_pending :: bool

datatype confirm_kind = Force | Delete

record node_page =
  np_id :: string
  np_csrf :: string
  np_detail :: "node_detail query"
  np_cache :: "node_cache_status query"
  np_uninstall :: "node_uninstall_status option"
  np_command :: string
  np_confirm :: "confirm_kind option"
  np_confirmText :: string
  np_status :: bool
  np_commandPending :: bool
  np_upgrade :: bool
  np_action :: bool
  np_forced :: bool
  np_delete :: bool
  np_quota :: "quota_form option"
  np_capacity :: "capacity_form option"
  np_oldForms :: nat
  np_sitesPage :: nat
  np_blockersPage :: nat

datatype uninstall_action = Prepare | GenerateCommand | Cancel

datatype node_event =
    Refresh | BackToNodes
  | SetStatus node_status
  | GenerateInstall
  | Upgrade
  | Action uninstall_action
  | AskForce | AskDelete | TypeConfirm string | CloseConfirm | ConfirmForce | ConfirmDeleteNode
  | CloseCommand
  | EditQuota quota_form | SubmitQuota
  | EditCapacity capacity_form | SubmitCapacity
  | SitesPageTo int | BlockersPageTo int | ViewSite string
  | StatusArrives "js_error + unit"
  | CommandArrives "js_error + string"
  | UpgradeArrives "js_error + node"
  | ActionArrives "js_error + node_uninstall_status"
  | DeleteNodeArrives "js_error + unit"
  | QuotaArrives bool "js_error + node_cache_settings"
  | CapacityArrives bool "js_error + node"
  | DetailArrives "node_detail query"
  | CacheArrives "node_cache_status query"
  | UninstallArrives "node_uninstall_status option"

section \<open>Requests\<close>

definition node_path :: "node_page \<Rightarrow> string" where
  "node_path s = ''/api/nodes/'' @ encodeURIComponent (np_id s)"

definition page_node :: "node_page \<Rightarrow> node option" where
  "page_node s = map_option nd_node (q_data (np_detail s))"

definition node_status_request :: "node_status \<Rightarrow> node_page \<Rightarrow> request" where
  "node_status_request st s =
     api_request (np_csrf s) (node_path s @ ''/status'') (json_init ''POST'' (JObject [(''status'', JString (node_status_str st))]))"

definition install_request :: "node_page \<Rightarrow> request" where
  "install_request s = api_request (np_csrf s) (node_path s @ ''/enrollment-token'') (method_init ''POST'')"

definition upgrade_request :: "node_page \<Rightarrow> request" where
  "upgrade_request s = api_request (np_csrf s) (node_path s @ ''/upgrade'') (method_init ''POST'')"

text \<open>The panel uses the identifier of the node it shows.\<close>

definition action_request :: "uninstall_action \<Rightarrow> node \<Rightarrow> node_page \<Rightarrow> request" where
  "action_request a n s =
     (let base = ''/api/nodes/'' @ encodeURIComponent (n_id n) @ ''/uninstall'' in
      case a of
        Prepare \<Rightarrow> api_request (np_csrf s) base (method_init ''POST'')
      | GenerateCommand \<Rightarrow> api_request (np_csrf s) (base @ ''/command'') (method_init ''POST'')
      | Cancel \<Rightarrow> api_request (np_csrf s) base (method_init ''DELETE''))"

definition confirmation_body :: "node_page \<Rightarrow> json" where
  "confirmation_body s =
     JObject (case page_node s of None \<Rightarrow> [] | Some n \<Rightarrow> [(''confirmation'', JString (n_name n))])"

definition force_request :: "node_page \<Rightarrow> request" where
  "force_request s =
     api_request (np_csrf s) (node_path s @ ''/uninstall/force-complete'') (json_init ''POST'' (confirmation_body s))"

definition delete_node_request :: "node_page \<Rightarrow> request" where
  "delete_node_request s = api_request (np_csrf s) (node_path s) (json_init ''DELETE'' (confirmation_body s))"

definition quota_body :: "quota_form \<Rightarrow> json" where
  "quota_body f = JObject [(''cache_max_size_gb'', if qf_override f then JInt (qf_size f) else JNull)]"

definition quota_request :: "quota_form \<Rightarrow> node_page \<Rightarrow> request" where
  "quota_request f s = api_request (np_csrf s) (node_path s @ ''/cache'') (json_init ''PUT'' (quota_body f))"

definition capacity_body :: "nginx_capacity \<Rightarrow> json" where
  "capacity_body c = JObject
     [(''worker_processes'', JInt (nc_worker_processes c)), (''worker_connections'', JInt (nc_worker_connections c)),
      (''worker_rlimit_nofile'', JInt (nc_worker_rlimit_nofile c))]"

definition capacity_request :: "capacity_form \<Rightarrow> node_page \<Rightarrow> request" where
  "capacity_request f s =
     api_request (np_csrf s) (node_path s @ ''/nginx-capacity'') (json_init ''PUT'' (capacity_body (cf_draft f)))"

section \<open>Handlers\<close>

definition open_quota :: "node_cache_settings \<Rightarrow> quota_form" where
  "open_quota c = \<lparr>qf_settings = c, qf_override = (ncs_override_size_gb c \<noteq> None),
     qf_size = nullish (ncs_override_size_gb c) (ncs_default_size_gb c), qf_pending = False\<rparr>"

definition open_capacity :: "nginx_capacity \<Rightarrow> capacity_form" where
  "open_capacity c = \<lparr>cf_capacity = c, cf_draft = c, cf_pending = False\<rparr>"

text \<open>The keys of the two forms.\<close>

definition same_quota_key :: "node_cache_settings \<Rightarrow> node_cache_settings \<Rightarrow> bool" where
  "same_quota_key a b \<longleftrightarrow> ncs_default_size_gb a = ncs_default_size_gb b \<and> ncs_override_size_gb a = ncs_override_size_gb b"

definition mount_quota :: "node_detail option \<Rightarrow> quota_form option \<Rightarrow> quota_form option" where
  "mount_quota d f =
     (case d of
        None \<Rightarrow> None
      | Some x \<Rightarrow>
          (case f of
             Some g \<Rightarrow> if same_quota_key (qf_settings g) (nd_cache x) then Some (g\<lparr>qf_settings := nd_cache x\<rparr>)
                       else Some (open_quota (nd_cache x))
           | None \<Rightarrow> Some (open_quota (nd_cache x))))"

definition mount_capacity :: "node_detail option \<Rightarrow> capacity_form option \<Rightarrow> capacity_form option" where
  "mount_capacity d f =
     (case d of
        None \<Rightarrow> None
      | Some x \<Rightarrow>
          (case f of
             Some g \<Rightarrow> if cf_capacity g = n_nginx_capacity (nd_node x) then Some g
                       else Some (open_capacity (n_nginx_capacity (nd_node x)))
           | None \<Rightarrow> Some (open_capacity (n_nginx_capacity (nd_node x)))))"

definition pending_count :: "bool \<Rightarrow> nat" where
  "pending_count b = (if b then 1 else 0)"

definition form_pending :: "node_page \<Rightarrow> nat" where
  "form_pending s =
     pending_count (case np_quota s of None \<Rightarrow> False | Some f \<Rightarrow> qf_pending f) +
     pending_count (case np_capacity s of None \<Rightarrow> False | Some f \<Rightarrow> cf_pending f)"

definition detail_arrives :: "node_detail query \<Rightarrow> node_page \<Rightarrow> node_page" where
  "detail_arrives q s =
     (let s1 = s\<lparr>np_detail := q, np_quota := mount_quota (q_data q) (np_quota s),
                 np_capacity := mount_capacity (q_data q) (np_capacity s)\<rparr>
      in s1\<lparr>np_oldForms := np_oldForms s + (form_pending s - form_pending s1)\<rparr>)"

text \<open>The page as it is mounted, with what the query client has of the node.\<close>

definition node_init :: "string \<Rightarrow> string \<Rightarrow> node_detail query \<Rightarrow> node_cache_status query \<Rightarrow> node_uninstall_status option \<Rightarrow> node_page" where
  "node_init csrf i q c u = detail_arrives q
     \<lparr>np_id = i, np_csrf = csrf, np_detail = q, np_cache = c, np_uninstall = u, np_command = [], np_confirm = None,
      np_confirmText = [], np_status = False, np_commandPending = False, np_upgrade = False, np_action = False,
      np_forced = False, np_delete = False, np_quota = None, np_capacity = None, np_oldForms = 0, np_sitesPage = 1,
      np_blockersPage = 1\<rparr>"

definition refresh :: "node_page \<Rightarrow> effect list" where
  "refresh s = [Invalidate [''node'', np_id s], Invalidate [''nodes''], Invalidate [''node-uninstall'', np_id s]]"

definition saved_effects :: "ui_text \<Rightarrow> node_page \<Rightarrow> effect list" where
  "saved_effects t s = [ToastSuccess t, Invalidate [''node'', np_id s], Invalidate [''nodes'']]"

definition node_failed :: "node_page \<Rightarrow> js_error \<Rightarrow> node_page \<times> effect list" where
  "node_failed s e = (s, [ToastError (errorMessage e)])"

definition close_confirm :: "node_page \<Rightarrow> node_page" where
  "close_confirm s = s\<lparr>np_confirm := None, np_confirmText := []\<rparr>"

text \<open>
  An uninstall request has settled.  A forced completion was awaited by the confirmation dialog, which
  then closes.
\<close>

definition action_succeeded :: "node_uninstall_status \<Rightarrow> node_page \<Rightarrow> node_page \<times> effect list" where
  "action_succeeded r s =
     (let s1 = s\<lparr>np_action := False, np_forced := False,
                 np_command := (if truthy_str (nu_uninstall_command r) then the (nu_uninstall_command r) else np_command s)\<rparr>
      in (if np_forced s then close_confirm s1 else s1,
          ToastSuccess [Zh ''uninstallation updated''] # refresh s))"

definition quota_settled :: "bool \<Rightarrow> node_page \<Rightarrow> node_page" where
  "quota_settled own s =
     (if own then s\<lparr>np_quota := map_option (qf_pending_update (\<lambda>_. False)) (np_quota s)\<rparr>
      else s\<lparr>np_oldForms := np_oldForms s - 1\<rparr>)"

definition capacity_settled :: "bool \<Rightarrow> node_page \<Rightarrow> node_page" where
  "capacity_settled own s =
     (if own then s\<lparr>np_capacity := map_option (cf_pending_update (\<lambda>_. False)) (np_capacity s)\<rparr>
      else s\<lparr>np_oldForms := np_oldForms s - 1\<rparr>)"

definition capacity_supported :: "node_page \<Rightarrow> bool" where
  "capacity_supported s = (case page_node s of None \<Rightarrow> False | Some n \<Rightarrow> ''nginx_capacity_v1'' \<in> set (n_capabilities n))"

definition site_list :: "node_page \<Rightarrow> node_site list" where
  "site_list s = (case q_data (np_detail s) of None \<Rightarrow> [] | Some d \<Rightarrow> nd_sites d)"

definition blocker_list :: "node_page \<Rightarrow> uninstall_blocker list" where
  "blocker_list s = (case np_uninstall s of None \<Rightarrow> [] | Some u \<Rightarrow> nu_blockers u)"

fun node_step :: "(node_event, node_page) component" where
  "node_step Refresh s = (s, refresh s)"
| "node_step BackToNodes s = (s, [Navigate ''/nodes'' False])"
| "node_step (SetStatus st) s = (s\<lparr>np_status := True\<rparr>, [Send (node_status_request st s)])"
| "node_step GenerateInstall s = (s\<lparr>np_commandPending := True\<rparr>, [Send (install_request s)])"
| "node_step Upgrade s = (s\<lparr>np_upgrade := True\<rparr>, [Send (upgrade_request s)])"
| "node_step (Action a) s =
     (case page_node s of None \<Rightarrow> (s, []) | Some n \<Rightarrow> (s\<lparr>np_action := True\<rparr>, [Send (action_request a n s)]))"
| "node_step AskForce s = (s\<lparr>np_confirm := Some Force\<rparr>, [])"
| "node_step AskDelete s = (s\<lparr>np_confirm := Some Delete\<rparr>, [])"
| "node_step (TypeConfirm v) s = (s\<lparr>np_confirmText := v\<rparr>, [])"
| "node_step CloseConfirm s = (close_confirm s, [])"
| "node_step ConfirmForce s = (s\<lparr>np_action := True, np_forced := True\<rparr>, [Send (force_request s)])"
| "node_step ConfirmDeleteNode s = (s\<lparr>np_delete := True\<rparr>, [Send (delete_node_request s)])"
| "node_step CloseCommand s = (s\<lparr>np_command := []\<rparr>, [])"
| "node_step (EditQuota f) s = (s\<lparr>np_quota := Some f\<rparr>, [])"
| "node_step SubmitQuota s =
     (case np_quota s of None \<Rightarrow> (s, [])
      | Some f \<Rightarrow> (s\<lparr>np_quota := Some (f\<lparr>qf_pending := True\<rparr>)\<rparr>, [Send (quota_request f s)]))"
| "node_step (EditCapacity f) s = (s\<lparr>np_capacity := Some f\<rparr>, [])"
| "node_step SubmitCapacity s =
     (case np_capacity s of None \<Rightarrow> (s, [])
      | Some f \<Rightarrow> (s\<lparr>np_capacity := Some (f\<lparr>cf_pending := True\<rparr>)\<rparr>, [Send (capacity_request f s)]))"
| "node_step (SitesPageTo k) s =
     (s\<lparr>np_sitesPage := setPage (useListPagination (site_list s) LIST_PAGE_SIZE (np_sitesPage s)) k\<rparr>, [])"
| "node_step (BlockersPageTo k) s =
     (s\<lparr>np_blockersPage := setPage (useListPagination (blocker_list s) LIST_PAGE_SIZE (np_blockersPage s)) k\<rparr>, [])"
| "node_step (ViewSite i) s = (s, [Navigate (''/sites/'' @ encodeURIComponent i) False])"
| "node_step (StatusArrives r) s =
     settle r (\<lambda>_. (s\<lparr>np_status := False\<rparr>, ToastSuccess [Zh ''node status updated''] # refresh s))
       (node_failed (s\<lparr>np_status := False\<rparr>))"
| "node_step (CommandArrives r) s =
     settle r (\<lambda>c. (s\<lparr>np_commandPending := False, np_command := c\<rparr>, [])) (node_failed (s\<lparr>np_commandPending := False\<rparr>))"
| "node_step (UpgradeArrives r) s =
     settle r (\<lambda>_. (s\<lparr>np_upgrade := False\<rparr>, ToastSuccess [Zh ''online upgrade started''] # refresh s))
       (node_failed (s\<lparr>np_upgrade := False\<rparr>))"
| "node_step (ActionArrives r) s =
     settle r (\<lambda>u. action_succeeded u s) (node_failed (s\<lparr>np_action := False, np_forced := False\<rparr>))"
| "node_step (DeleteNodeArrives r) s =
     settle r (\<lambda>_. (close_confirm (s\<lparr>np_delete := False\<rparr>),
         [ToastSuccess [Zh ''node record deleted''], Invalidate [''nodes''], Navigate ''/nodes'' False]))
       (node_failed (s\<lparr>np_delete := False\<rparr>))"
| "node_step (QuotaArrives own r) s =
     settle r (\<lambda>_. (quota_settled own s, saved_effects [Zh ''cache quota saved''] s)) (node_failed (quota_settled own s))"
| "node_step (CapacityArrives own r) s =
     settle r (\<lambda>_. (capacity_settled own s,
         saved_effects [Zh (if capacity_supported s then ''nginx capacity sent'' else ''nginx capacity saved, applied when deployed again'')] s))
       (node_failed (capacity_settled own s))"
| "node_step (DetailArrives q) s = (detail_arrives q s, [])"
| "node_step (CacheArrives q) s = (s\<lparr>np_cache := q\<rparr>, [])"
| "node_step (UninstallArrives u) s = (s\<lparr>np_uninstall := u\<rparr>, [])"

text \<open>The uninstall status is polled until its job has come to an end.\<close>

definition uninstall_poll :: "node_uninstall_status option \<Rightarrow> nat option" where
  "uninstall_poll u =
     (case Option.bind u nu_job of
        None \<Rightarrow> None
      | Some j \<Rightarrow> if uj_status j \<notin> {''succeeded'', ''forced'', ''canceled''} then Some 5000 else None)"

section \<open>The view\<close>

definition Datum :: "ui_text \<Rightarrow> ui_text \<Rightarrow> 'e view" where
  "Datum label v = Grp ''datum'' [Txt label, Txt v]"

definition clamp_percent :: "rat \<Rightarrow> rat" where
  "clamp_percent v = max 0 (min 100 v)"

definition Usage :: "ui_text \<Rightarrow> rat \<Rightarrow> ui_text \<Rightarrow> 'e view" where
  "Usage label v detail = Grp ''usage''
     [Txt label, Txt [Raw (to_fixed 1 (max 0 v)), Raw ''%''], Grp (''progress '' @ to_fixed 0 (clamp_percent v)) [], Txt detail]"

definition share_percent :: "int \<Rightarrow> int \<Rightarrow> rat" where
  "share_percent used whole = (if whole = 0 then 0 else of_int used / of_int whole * 100)"

definition NodeSummary :: "node_detail \<Rightarrow> node_event view" where
  "NodeSummary d = (let n = nd_node d in Grp ''card''
     ([Txt [Zh ''summary''], Txt [Zh ''agent and configuration''], StatusBadge (node_status_str (n_status n)) None,
       Datum [Zh ''last heartbeat''] (formatDateTime (n_last_heartbeat_at n)),
       Datum [Zh ''applied configuration''] [Raw ''v'', Raw (formatNumber (Some (n_applied_version n)))],
       Datum [Zh ''agent version''] (version_text (n_agent_version n) [Raw ''--'']),
       Datum [Zh ''target version''] (version_text (n_target_agent_version n) [Raw ''--'']),
       Datum [Zh ''agent digest''] [Raw (shortHash (n_agent_sha256 n))],
       Datum [Zh ''sites''] [Raw (nat_str (length (nd_sites d)))]] @
      only_if (truthy_str (n_last_error n)) [Txt [Zh ''the node reports an error''], Txt [Raw (the (n_last_error n))]]))"

definition MachineStatus :: "node_detail \<Rightarrow> node_event view" where
  "MachineStatus d =
     (let m = nd_machine d in
      case (if nm_available m then nm_report m else None) of
        None \<Rightarrow> Grp ''card'' [Txt [Zh ''machine''],
                  Txt (if truthy_str (nm_unavailable_reason m) then [Raw (the (nm_unavailable_reason m))] else [Zh ''no metrics''])]
      | Some r \<Rightarrow> Grp ''card''
          [Txt [Zh ''machine''],
           Txt ([Raw (mr_distribution r), Raw '' '', Raw (mr_version r), Raw (int_str (mr_cpu_logical_cores r)), Zh '' cores, up '']
                @ formatDuration (Some (mr_uptime_seconds r))),
           (if nm_stale m then StatusBadge ''failed'' (Some [Zh ''stale'']) else StatusBadge ''active'' (Some [Zh ''fresh''])),
           Usage [Raw ''CPU''] (mr_cpu_usage_percent r)
             [Zh ''load '', Raw (to_fixed 2 (mr_load_1 r)), Raw '' / '', Raw (to_fixed 2 (mr_load_5 r)), Raw '' / '', Raw (to_fixed 2 (mr_load_15 r))],
           Usage [Zh ''memory''] (share_percent (mr_memory_used_bytes r) (mr_memory_total_bytes r))
             [Raw (formatBytes (Some (mr_memory_used_bytes r))), Raw '' / '', Raw (formatBytes (Some (mr_memory_total_bytes r)))],
           Usage [Zh ''disk''] (share_percent (mr_disk_used_bytes r) (mr_disk_total_bytes r))
             [Raw (formatBytes (Some (mr_disk_used_bytes r))), Raw '' / '', Raw (formatBytes (Some (mr_disk_total_bytes r)))],
           Txt (if mr_network_interface r \<noteq> [] then [Raw (mr_network_interface r)] else [Zh ''default interface'']),
           Txt [Zh ''in '', Raw (formatBytes (Some (mr_network_rx_bytes_per_second r))), Raw ''/s''],
           Txt [Zh ''out '', Raw (formatBytes (Some (mr_network_tx_bytes_per_second r))), Raw ''/s''],
           Txt ([Zh ''collected at ''] @ formatDateTime (Some (mr_collected_at r)))])"

definition CacheStatus :: "node_cache_status query \<Rightarrow> node_event view" where
  "CacheStatus q =
     (case q_error q of
        Some e \<Rightarrow> PageError [Zh ''cache status failed to load''] e
      | None \<Rightarrow>
          (case q_data q of
             None \<Rightarrow> Grp ''card'' [Txt [Zh ''cache''], Txt [Zh ''loading'']]
           | Some c \<Rightarrow> (let st = nca_storage c in Grp ''card''
               ([Txt [Zh ''cache''],
                 Txt (if nca_available c then [Zh ''last 24 hours, last access ''] @ formatDateTime (nca_last_seen_at c)
                      else [Raw (opt_or (nca_unavailable_reason c) [])]),
                 Datum [Zh ''hit rate''] [Raw (formatPercent (Some (nca_hit_rate c)) 2)],
                 Datum [Zh ''lookups''] [Raw (formatNumber (Some (nca_cache_lookups c)))],
                 Datum [Zh ''bypassed''] [Raw (formatNumber (Some (nca_bypasses c)))],
                 Datum [Zh ''uncached''] [Raw (formatNumber (Some (nca_uncached c)))]] @
                (if cst_available st
                 then [Txt [Zh ''cache space''],
                       Txt [Raw (formatBytes (Some (cst_used_bytes st))), Raw '' / '', Raw (formatBytes (Some (cst_total_bytes st)))],
                       Grp (''progress '' @ to_fixed 1 (share_percent (cst_used_bytes st) (cst_total_bytes st))) [],
                       Txt ((if cst_stale st then [Zh ''stale, ''] else []) @ [Zh ''collected at ''] @ formatDateTime (cst_collected_at st))]
                 else [Txt [Raw (opt_or (cst_unavailable_reason st) [])]]) @
                map (\<lambda>x. Grp ''status'' [StatusBadge (csc_status x) None, Txt [Raw (formatNumber (Some (csc_requests x)))]])
                  (nca_statuses c)))))"

definition AssignedSites :: "node_page \<Rightarrow> node_event view" where
  "AssignedSites s =
     (let p = useListPagination (site_list s) LIST_PAGE_SIZE (np_sitesPage s) in Grp ''card''
       ([Txt [Zh ''sites''], Txt [Zh ''node assignment of the draft configurations'']] @
        (if site_list s \<noteq> [] then
           map (\<lambda>x. Grp ''row'' [Txt [Raw (ns_name x)], Txt [Raw (js_join '', '' (ns_domains x))],
                  (if ns_published x then StatusBadge ''succeeded'' (Some [Zh ''published'']) else StatusBadge ''pending'' (Some [Zh ''not published''])),
                  Txt [Zh (if ns_cache_enabled x then ''on'' else ''off'')],
                  Lnk (''/sites/'' @ encodeURIComponent (ns_id x)) [Btn [Zh ''view''] False (ViewSite (ns_id x))]]) (pg_items p) @
           [ListPagination p [Zh ''sites''] False SitesPageTo []]
         else [EmptyState [Zh ''no sites''] None])))"

definition CacheQuotaSettings :: "quota_form \<Rightarrow> node_event view" where
  "CacheQuotaSettings f = Grp ''card''
     [Txt [Zh ''cache quota''],
      Txt [Zh ''configured '', Raw (int_str (if qf_override f then qf_size f else ncs_default_size_gb (qf_settings f))), Raw '' GB''],
      Form
        [Chk [Zh ''override the global quota''] (qf_override f) False (\<lambda>b. EditQuota (f\<lparr>qf_override := b\<rparr>)),
         Txt [Zh ''global default '', Raw (int_str (ncs_default_size_gb (qf_settings f))), Raw '' GB''],
         Inp ''node-cache-size'' (NumRange (Some 1) (Some 1024) # (if qf_override f then [Required] else []))
           (int_str (qf_size f)) (\<not> qf_override f) (\<lambda>v. EditQuota (f\<lparr>qf_size := js_number v\<rparr>)),
         Txt [Zh ''sent to the node when saved'']]
        [Zh ''save the cache configuration''] (qf_pending f) SubmitQuota]"

definition capacity_field :: "string \<Rightarrow> int \<Rightarrow> int \<Rightarrow> int \<Rightarrow> (int \<Rightarrow> node_event) \<Rightarrow> node_event view" where
  "capacity_field l lo hi n f = Inp l [NumRange (Some lo) (Some hi), Required] (int_str n) False (\<lambda>v. f (js_number v))"

definition NginxCapacitySettings :: "bool \<Rightarrow> capacity_form \<Rightarrow> node_event view" where
  "NginxCapacitySettings supported f = (let d = cf_draft f in Grp ''card''
     [Txt [Zh ''nginx capacity''],
      Txt [Zh (if supported then ''default: automatic processes, 4096 connections, 65536 files''
               else ''applied once the node has been upgraded'')],
      Form
        [capacity_field ''nginx-worker-processes'' 0 128 (nc_worker_processes d)
           (\<lambda>n. EditCapacity (f\<lparr>cf_draft := d\<lparr>nc_worker_processes := n\<rparr>\<rparr>)),
         capacity_field ''nginx-worker-connections'' 256 65535 (nc_worker_connections d)
           (\<lambda>n. EditCapacity (f\<lparr>cf_draft := d\<lparr>nc_worker_connections := n\<rparr>\<rparr>)),
         capacity_field ''nginx-worker-nofile'' 1024 65536 (nc_worker_rlimit_nofile d)
           (\<lambda>n. EditCapacity (f\<lparr>cf_draft := d\<lparr>nc_worker_rlimit_nofile := n\<rparr>\<rparr>))]
        [Zh ''save the capacity''] (cf_pending f) SubmitCapacity])"

definition status_buttons :: "node \<Rightarrow> bool \<Rightarrow> node_event view list" where
  "status_buttons n pending =
     only_if (n_status n = Node_active) [Btn [Zh ''pause scheduling''] pending (SetStatus Node_draining)] @
     only_if (n_status n = Node_draining) [Btn [Zh ''resume''] pending (SetStatus Node_active)] @
     only_if (n_status n \<in> {Node_pending, Node_active, Node_draining}) [Btn [Zh ''revoke''] pending (SetStatus Node_revoked)] @
     only_if (n_status n = Node_revoked) [Btn [Zh ''authorize again''] pending (SetStatus Node_active)]"

definition operations_card :: "node \<Rightarrow> node_page \<Rightarrow> node_event view" where
  "operations_card n s = Grp ''card''
     ([Txt [Zh ''node operations''], Txt [Zh ''status, deployment and online upgrade'']] @
      status_buttons n (np_status s) @
      [Btn [Zh ''generate the deployment command''] (np_commandPending s) GenerateInstall,
       Btn [Zh ''online upgrade''] (\<not> n_can_upgrade n \<or> np_upgrade s) Upgrade] @
      only_if (truthy_str (n_upgrade_blocker n)) [Txt [Raw (the (n_upgrade_blocker n))]])"

definition uninstall_job_of :: "node_uninstall_status option \<Rightarrow> uninstall_job option" where
  "uninstall_job_of u =
     (case Option.bind u nu_job of None \<Rightarrow> None | Some j \<Rightarrow> if uj_status j = ''canceled'' then None else Some j)"

definition can_prepare :: "node \<Rightarrow> bool" where
  "can_prepare n \<longleftrightarrow> n_status n = Node_draining \<or> n_status n = Node_revoked"

definition deletable :: "node \<Rightarrow> bool" where
  "deletable n \<longleftrightarrow> n_status n = Node_uninstalled \<or>
     (n_status n = Node_pending \<and> \<not> truthy_str (n_last_heartbeat_at n) \<and> n_applied_version n = 0)"

definition blocker_text :: "uninstall_blocker \<Rightarrow> ui_text" where
  "blocker_text b =
     (if truthy_str (ub_site_name b) then [Raw (the (ub_site_name b)), Zh '': '', Raw (ub_detail b)] else [Raw (ub_detail b)])"

definition UninstallPanel :: "node \<Rightarrow> node_page \<Rightarrow> node_event view" where
  "UninstallPanel n s =
     (let u = np_uninstall s; job = uninstall_job_of u; pending = np_action s;
          st = (case job of None \<Rightarrow> [] | Some j \<Rightarrow> uj_status j);
          wait = (case u of None \<Rightarrow> 0 | Some x \<Rightarrow> nu_ready_in_seconds x);
          p = useListPagination (blocker_list s) LIST_PAGE_SIZE (np_blockersPage s)
      in Grp ''card''
        ([Txt [Zh ''uninstall and delete''], Txt [Zh ''taken out of scheduling and DNS first, then uninstalled remotely'']] @
         (case job of
            None \<Rightarrow> [Btn [Zh ''prepare the uninstallation''] (\<not> can_prepare n \<or> pending) (Action Prepare)]
          | Some j \<Rightarrow>
              [Txt [Zh ''uninstallation''], StatusBadge (uj_status j) None] @
              only_if (wait \<noteq> 0) [Txt [Zh ''waiting for DNS, about '', Raw (int_str wait), Zh '' seconds'']] @
              only_if (truthy_str (uj_detail j)) [Txt [Raw (the (uj_detail j))]] @
              map (\<lambda>b. Txt (blocker_text b)) (pg_items p) @
              only_if (1 < pg_totalPages p) [ListPagination p [Zh ''blockers''] False BlockersPageTo []] @
              only_if (case u of None \<Rightarrow> False | Some x \<Rightarrow> nu_can_generate_command x)
                [Btn [Zh ''generate the uninstall command''] pending (Action GenerateCommand)] @
              only_if (st \<in> {''preparing'', ''ready'', ''failed''}) [Btn [Zh ''cancel the uninstallation''] pending (Action Cancel)] @
              only_if (u \<noteq> None \<and> blocker_list s = [] \<and> wait = 0 \<and> st \<in> {''preparing'', ''ready'', ''running'', ''failed''})
                [Btn [Zh ''complete by force''] pending AskForce]) @
         [Btn [Zh ''delete the node record''] (\<not> deletable n \<or> pending) AskDelete] @
         only_if (\<not> can_prepare n \<and> job = None \<and> \<not> deletable n)
           [Txt [Zh ''pause scheduling or revoke the node before preparing'']]))"

definition node_body :: "node_page \<Rightarrow> node_event view list" where
  "node_body s =
     [PageHeader (case page_node s of None \<Rightarrow> [Zh ''node''] | Some n \<Rightarrow> [Raw (n_name n)])
        (Some (case page_node s of None \<Rightarrow> [Zh ''state and operations of the node'']
               | Some n \<Rightarrow> [Raw (n_public_ipv4 n), Zh '' (middle dot) '', Raw (n_id n)]))
        [Lnk ''/nodes'' [Btn [Zh ''back to the nodes''] False BackToNodes], Btn [Zh ''refresh the node''] False Refresh]] @
     only_if (q_loading (np_detail s)) [PageLoading 4] @
     (case q_error (np_detail s) of None \<Rightarrow> [] | Some e \<Rightarrow> [PageError [Zh ''the node failed to load''] e]) @
     (case q_data (np_detail s) of
        None \<Rightarrow> []
      | Some d \<Rightarrow>
          [NodeSummary d, MachineStatus d, CacheStatus (np_cache s), AssignedSites s] @
          (case np_quota s of None \<Rightarrow> [] | Some f \<Rightarrow> [CacheQuotaSettings f]) @
          (case np_capacity s of None \<Rightarrow> [] | Some f \<Rightarrow> [NginxCapacitySettings (capacity_supported s) f]) @
          [operations_card (nd_node d) s, UninstallPanel (nd_node d) s])"

definition CommandDialog :: "string \<Rightarrow> node_event view list" where
  "CommandDialog command = only_if (command \<noteq> [])
     [Grp ''dialog'' [Txt [Zh ''node command''], Txt [Zh ''run it in a root shell of the edge server''], Txt [Raw command],
        Btn [Zh ''done''] False CloseCommand, Btn [Zh ''close''] False CloseCommand]]"

definition node_modal :: "node_page \<Rightarrow> bool" where
  "node_modal s \<longleftrightarrow> np_command s \<noteq> [] \<or> np_confirm s \<noteq> None"

definition NodeDetailPage :: "node_page \<Rightarrow> node_event view list" where
  "NodeDetailPage s =
     (let nm = map_option n_name (page_node s) in
      (if node_modal s then [] else node_body s) @ CommandDialog (np_command s) @
      ConfirmDialog (np_confirm s = Some Force) [Zh ''complete the uninstallation by force'']
        [Zh ''only after the remote clean-up was verified by hand''] [Zh ''complete by force''] nm (np_action s)
        (np_confirmText s) TypeConfirm CloseConfirm ConfirmForce @
      ConfirmDialog (np_confirm s = Some Delete) [Zh ''delete the node record''] [Zh ''this cannot be undone'']
        [Zh ''delete for good''] nm (np_delete s) (np_confirmText s) TypeConfirm CloseConfirm ConfirmDeleteNode)"

fun node_enabled :: "node_page \<Rightarrow> node_event \<Rightarrow> bool" where
  "node_enabled s (StatusArrives r) \<longleftrightarrow> np_status s"
| "node_enabled s (CommandArrives r) \<longleftrightarrow> np_commandPending s"
| "node_enabled s (UpgradeArrives r) \<longleftrightarrow> np_upgrade s"
| "node_enabled s (ActionArrives r) \<longleftrightarrow> np_action s"
| "node_enabled s (DeleteNodeArrives r) \<longleftrightarrow> np_delete s"
| "node_enabled s (QuotaArrives own r) \<longleftrightarrow>
     (if own then (case np_quota s of None \<Rightarrow> False | Some f \<Rightarrow> qf_pending f) else 0 < np_oldForms s)"
| "node_enabled s (CapacityArrives own r) \<longleftrightarrow>
     (if own then (case np_capacity s of None \<Rightarrow> False | Some f \<Rightarrow> cf_pending f) else 0 < np_oldForms s)"
| "node_enabled s (DetailArrives q) \<longleftrightarrow> True"
| "node_enabled s (CacheArrives q) \<longleftrightarrow> True"
| "node_enabled s (UninstallArrives u) \<longleftrightarrow> True"
| "node_enabled s e \<longleftrightarrow> offers (NodeDetailPage s) e"

section \<open>What can be raised\<close>

lemma inert_cards [simp]:
  "\<not> fires (NodeSummary d) e" "\<not> fires (MachineStatus d) e" "\<not> fires (CacheStatus q) e"
proof -
  show "\<not> fires (NodeSummary d) e" by (simp add: NodeSummary_def Let_def Datum_def)
  show "\<not> fires (MachineStatus d) e" by (auto simp: MachineStatus_def Let_def Usage_def split: option.splits)
  show "\<not> fires (CacheStatus q) e"
    by (auto simp: CacheStatus_def Let_def Datum_def offers_map split: option.splits)
qed

lemma fires_AssignedSites: "fires (AssignedSites s) e \<Longrightarrow> (\<exists>i. e = ViewSite i) \<or> (\<exists>k. e = SitesPageTo k)"
  by (auto simp: AssignedSites_def Let_def offers_map split: if_splits)

definition quota_valid :: "quota_form \<Rightarrow> bool" where
  "quota_valid f \<longleftrightarrow> (qf_override f \<longrightarrow> 1 \<le> qf_size f \<and> qf_size f \<le> 1024)"

definition capacity_valid :: "nginx_capacity \<Rightarrow> bool" where
  "capacity_valid c \<longleftrightarrow> 0 \<le> nc_worker_processes c \<and> nc_worker_processes c \<le> 128 \<and>
     256 \<le> nc_worker_connections c \<and> nc_worker_connections c \<le> 65535 \<and>
     1024 \<le> nc_worker_rlimit_nofile c \<and> nc_worker_rlimit_nofile c \<le> 65536"

lemma int_str_not_Nil [simp]: "int_str n \<noteq> []"
  by (simp add: int_str_def)

lemma fires_CacheQuotaSettings:
  assumes "fires (CacheQuotaSettings f) e"
  shows "(\<exists>g. e = EditQuota g) \<or> (e = SubmitQuota \<and> \<not> qf_pending f \<and> quota_valid f)"
  using assms by (auto simp: CacheQuotaSettings_def field_ok_def quota_valid_def split: if_splits)

lemma fires_NginxCapacitySettings:
  assumes "fires (NginxCapacitySettings b f) e"
  shows "(\<exists>g. e = EditCapacity g) \<or> (e = SubmitCapacity \<and> \<not> cf_pending f \<and> capacity_valid (cf_draft f))"
  using assms by (auto simp: NginxCapacitySettings_def capacity_field_def Let_def field_ok_def capacity_valid_def)

text \<open>The transitions of a node's status the console can ask for.\<close>

fun may_become :: "node_status \<Rightarrow> node_status \<Rightarrow> bool" where
  "may_become Node_active st \<longleftrightarrow> st = Node_draining \<or> st = Node_revoked"
| "may_become Node_draining st \<longleftrightarrow> st = Node_active \<or> st = Node_revoked"
| "may_become Node_pending st \<longleftrightarrow> st = Node_revoked"
| "may_become Node_revoked st \<longleftrightarrow> st = Node_active"
| "may_become Node_uninstalling st \<longleftrightarrow> False"
| "may_become Node_uninstalled st \<longleftrightarrow> False"

lemma offers_status_buttons:
  "offers (status_buttons n pending) e \<longleftrightarrow> \<not> pending \<and> (\<exists>st. e = SetStatus st \<and> may_become (n_status n) st)"
  by (cases "n_status n") (auto simp: status_buttons_def)

definition action_ok :: "node_page \<Rightarrow> node \<Rightarrow> uninstall_action \<Rightarrow> bool" where
  "action_ok s n a \<longleftrightarrow>
     (case (a, uninstall_job_of (np_uninstall s)) of
        (Prepare, None) \<Rightarrow> can_prepare n
      | (GenerateCommand, Some j) \<Rightarrow> (\<exists>u. np_uninstall s = Some u \<and> nu_can_generate_command u)
      | (Cancel, Some j) \<Rightarrow> uj_status j \<in> {''preparing'', ''ready'', ''failed''}
      | _ \<Rightarrow> False)"

definition force_ok :: "node_page \<Rightarrow> bool" where
  "force_ok s \<longleftrightarrow> (\<exists>u j. np_uninstall s = Some u \<and> uninstall_job_of (Some u) = Some j \<and> nu_blockers u = [] \<and>
     nu_ready_in_seconds u = 0 \<and> uj_status j \<in> {''preparing'', ''ready'', ''running'', ''failed''})"

lemma fires_UninstallPanel:
  assumes "fires (UninstallPanel n s) e"
  shows "(\<exists>a. e = Action a \<and> \<not> np_action s \<and> action_ok s n a) \<or> (e = AskForce \<and> \<not> np_action s \<and> force_ok s) \<or>
    (e = AskDelete \<and> \<not> np_action s \<and> deletable n) \<or> (\<exists>k. e = BlockersPageTo k)"
proof (cases "uninstall_job_of (np_uninstall s)")
  case None
  then show ?thesis using assms by (auto simp: UninstallPanel_def Let_def action_ok_def)
next
  case (Some j)
  have f: "force_ok s" if "np_uninstall s \<noteq> None" "blocker_list s = []"
    "(case np_uninstall s of None \<Rightarrow> 0 | Some x \<Rightarrow> nu_ready_in_seconds x) = 0"
    "uj_status j \<in> {''preparing'', ''ready'', ''running'', ''failed''}"
    using that Some by (auto simp: force_ok_def blocker_list_def)
  have g: "action_ok s n GenerateCommand" if "case np_uninstall s of None \<Rightarrow> False | Some x \<Rightarrow> nu_can_generate_command x"
    using that Some by (auto simp: action_ok_def split: option.splits)
  have c: "action_ok s n Cancel" if "uj_status j \<in> {''preparing'', ''ready'', ''failed''}"
    using that Some by (simp add: action_ok_def)
  from assms Some show ?thesis
    by (simp add: UninstallPanel_def Let_def offers_map del: insert_iff) (use f g c in blast)
qed

lemma offers_node_body:
  assumes "offers (node_body s) e"
  shows "e = BackToNodes \<or> e = Refresh \<or>
    (\<exists>f. np_quota s = Some f \<and> fires (CacheQuotaSettings f) e) \<or>
    (\<exists>f b. np_capacity s = Some f \<and> fires (NginxCapacitySettings b f) e) \<or>
    (\<exists>n. page_node s = Some n \<and> (fires (operations_card n s) e \<or> fires (UninstallPanel n s) e)) \<or>
    (\<exists>i. e = ViewSite i) \<or> (\<exists>k. e = SitesPageTo k)"
proof (cases "q_data (np_detail s)")
  case None
  then show ?thesis using assms by (auto simp: node_body_def split: option.splits)
next
  case (Some d)
  then have "page_node s = Some (nd_node d)" by (simp add: page_node_def)
  moreover have "e = BackToNodes \<or> e = Refresh \<or> fires (AssignedSites s) e \<or>
      (\<exists>f. np_quota s = Some f \<and> fires (CacheQuotaSettings f) e) \<or>
      (\<exists>f. np_capacity s = Some f \<and> fires (NginxCapacitySettings (capacity_supported s) f) e) \<or>
      fires (operations_card (nd_node d) s) e \<or> fires (UninstallPanel (nd_node d) s) e"
    using assms Some by (auto simp: node_body_def split: option.splits)
  ultimately show ?thesis using fires_AssignedSites [of s e] by blast
qed

lemma fires_operations_card:
  assumes "fires (operations_card n s) e"
  shows "(\<exists>st. e = SetStatus st \<and> \<not> np_status s \<and> may_become (n_status n) st) \<or> (e = GenerateInstall \<and> \<not> np_commandPending s) \<or>
    (e = Upgrade \<and> n_can_upgrade n \<and> \<not> np_upgrade s)"
  using assms by (auto simp: operations_card_def offers_status_buttons)

lemma offers_NodeDetailPage:
  assumes "offers (NodeDetailPage s) e"
  shows "(\<not> node_modal s \<and> offers (node_body s) e) \<or> e = CloseCommand \<or> e = CloseConfirm \<or> (\<exists>v. e = TypeConfirm v) \<or>
    (e = ConfirmForce \<and> np_confirm s = Some Force \<and> \<not> np_action s \<and>
       confirm_allowed (map_option n_name (page_node s)) (np_confirmText s)) \<or>
    (e = ConfirmDeleteNode \<and> np_confirm s = Some Delete \<and> \<not> np_delete s \<and>
       confirm_allowed (map_option n_name (page_node s)) (np_confirmText s))"
  using assms
  by (auto simp: NodeDetailPage_def CommandDialog_def Let_def offers_ConfirmDialog split: if_splits)

text \<open>What the page guarantees of an event when it lets the operator raise it.\<close>

fun guard :: "node_page \<Rightarrow> node_event \<Rightarrow> bool" where
  "guard s SubmitQuota \<longleftrightarrow> (\<exists>f. np_quota s = Some f \<and> \<not> qf_pending f \<and> quota_valid f)"
| "guard s SubmitCapacity \<longleftrightarrow> (\<exists>f. np_capacity s = Some f \<and> \<not> cf_pending f \<and> capacity_valid (cf_draft f))"
| "guard s (SetStatus st) \<longleftrightarrow> (\<exists>n. page_node s = Some n \<and> \<not> np_status s \<and> may_become (n_status n) st)"
| "guard s GenerateInstall \<longleftrightarrow> \<not> np_commandPending s"
| "guard s Upgrade \<longleftrightarrow> (\<exists>n. page_node s = Some n \<and> n_can_upgrade n \<and> \<not> np_upgrade s)"
| "guard s (Action a) \<longleftrightarrow> (\<exists>n. page_node s = Some n \<and> \<not> np_action s \<and> action_ok s n a)"
| "guard s AskForce \<longleftrightarrow> \<not> np_action s \<and> force_ok s"
| "guard s AskDelete \<longleftrightarrow> (\<exists>n. page_node s = Some n \<and> \<not> np_action s \<and> deletable n)"
| "guard s ConfirmForce \<longleftrightarrow> np_confirm s = Some Force \<and> \<not> np_action s \<and>
     confirm_allowed (map_option n_name (page_node s)) (np_confirmText s)"
| "guard s ConfirmDeleteNode \<longleftrightarrow> np_confirm s = Some Delete \<and> \<not> np_delete s \<and>
     confirm_allowed (map_option n_name (page_node s)) (np_confirmText s)"
| "guard s e \<longleftrightarrow> \<not> (\<exists>r. e = StatusArrives r) \<and> \<not> (\<exists>r. e = CommandArrives r) \<and> \<not> (\<exists>r. e = UpgradeArrives r) \<and>
     \<not> (\<exists>r. e = ActionArrives r) \<and> \<not> (\<exists>r. e = DeleteNodeArrives r) \<and> \<not> (\<exists>b r. e = QuotaArrives b r) \<and>
     \<not> (\<exists>b r. e = CapacityArrives b r)"

lemma offers_guard:
  assumes "offers (NodeDetailPage s) e"
  shows "guard s e"
proof -
  consider "offers (node_body s) e" | "e = CloseCommand \<or> e = CloseConfirm \<or> (\<exists>v. e = TypeConfirm v)"
    | "e = ConfirmForce \<and> guard s ConfirmForce" | "e = ConfirmDeleteNode \<and> guard s ConfirmDeleteNode"
    using offers_NodeDetailPage [OF assms] by (simp only: guard.simps) blast
  then show ?thesis
  proof cases
    case 1
    from offers_node_body [OF 1] consider "e = BackToNodes \<or> e = Refresh \<or> (\<exists>i. e = ViewSite i) \<or> (\<exists>k. e = SitesPageTo k)"
      | f where "np_quota s = Some f" "fires (CacheQuotaSettings f) e"
      | f b where "np_capacity s = Some f" "fires (NginxCapacitySettings b f) e"
      | n where "page_node s = Some n" "fires (operations_card n s) e"
      | n where "page_node s = Some n" "fires (UninstallPanel n s) e"
      by metis
    then show ?thesis
    proof cases
      case 1
      then show ?thesis by auto
    next
      case (2 f)
      then show ?thesis using fires_CacheQuotaSettings [OF 2(2)] by auto
    next
      case (3 f b)
      then show ?thesis using fires_NginxCapacitySettings [OF 3(2)] by auto
    next
      case (4 n)
      then show ?thesis using fires_operations_card [OF 4(2)] by auto
    next
      case (5 n)
      then show ?thesis using fires_UninstallPanel [OF 5(2)] by auto
    qed
  qed auto
qed

lemma enabled_guard [dest]:
  assumes "node_enabled s e"
  shows "case e of
      StatusArrives r \<Rightarrow> np_status s
    | CommandArrives r \<Rightarrow> np_commandPending s
    | UpgradeArrives r \<Rightarrow> np_upgrade s
    | ActionArrives r \<Rightarrow> np_action s
    | DeleteNodeArrives r \<Rightarrow> np_delete s
    | QuotaArrives own r \<Rightarrow> True | CapacityArrives own r \<Rightarrow> True
    | DetailArrives q \<Rightarrow> True | CacheArrives q \<Rightarrow> True | UninstallArrives u \<Rightarrow> True
    | _ \<Rightarrow> guard s e"
  using assms by (cases e) (auto dest: offers_guard)


section \<open>Properties\<close>

lemma node_guard: "node_enabled s e \<Longrightarrow> e \<in> {SubmitQuota, SubmitCapacity, GenerateInstall, Upgrade, ConfirmForce, ConfirmDeleteNode}
    \<or> (\<exists>st. e = SetStatus st) \<or> (\<exists>a. e = Action a) \<Longrightarrow> guard s e"
  by (auto intro: offers_guard)

lemma node_step_send_cases:
  assumes "Send r \<in> set (snd (node_step e s))"
  obtains st where "e = SetStatus st" "r = node_status_request st s"
  | "e = GenerateInstall" "r = install_request s"
  | "e = Upgrade" "r = upgrade_request s"
  | a n where "e = Action a" "page_node s = Some n" "r = action_request a n s"
  | "e = ConfirmForce" "r = force_request s"
  | "e = ConfirmDeleteNode" "r = delete_node_request s"
  | f where "e = SubmitQuota" "np_quota s = Some f" "r = quota_request f s"
  | f where "e = SubmitCapacity" "np_capacity s = Some f" "r = capacity_request f s"
  using assms
  by (cases e) (auto simp: settle_def node_failed_def action_succeeded_def refresh_def saved_effects_def Let_def
      split: option.splits sum.splits)

lemma node_request_parts:
  "rq_path (node_status_request st s) = node_path s @ ''/status''"
  "rq_body (node_status_request st s) = Some (stringify (JObject [(''status'', JString (node_status_str st))]))"
  "rq_body (install_request s) = None" "rq_body (upgrade_request s) = None" "rq_body (action_request a n s) = None"
  "rq_path (force_request s) = node_path s @ ''/uninstall/force-complete''"
  "rq_body (force_request s) = Some (stringify (confirmation_body s))"
  "rq_path (delete_node_request s) = node_path s" "rq_method (delete_node_request s) = ''DELETE''"
  "rq_body (delete_node_request s) = Some (stringify (confirmation_body s))"
  "rq_path (quota_request f s) = node_path s @ ''/cache''" "rq_body (quota_request f s) = Some (stringify (quota_body f))"
  "rq_path (capacity_request c s) = node_path s @ ''/nginx-capacity''"
  "rq_body (capacity_request c s) = Some (stringify (capacity_body (cf_draft c)))"
  by (simp_all add: node_status_request_def install_request_def upgrade_request_def action_request_def force_request_def
      delete_node_request_def quota_request_def capacity_request_def json_init_def method_init_def Let_def
      split: uninstall_action.split)

text \<open>
  The status of a node changes only along the allowed transitions: a status request leaves only for a
  loaded node, one at a time, for a status its current one may become (nothing leads out of
  uninstalling or uninstalled), and its body is that status.
\<close>

theorem node_status_transition:
  assumes "node_enabled s (SetStatus st)"
  shows "\<not> np_status s \<and> (\<exists>n. page_node s = Some n \<and> may_become (n_status n) st \<and>
      n_status n \<notin> {Node_uninstalling, Node_uninstalled}) \<and>
    (\<exists>r b. snd (node_step (SetStatus st) s) = [Send r] \<and> rq_path r = node_path s @ ''/status'' \<and> rq_body r = Some b \<and>
       json_parse b = Some (JObject [(''status'', JString (node_status_str st))]))"
proof -
  have "guard s (SetStatus st)" using assms by (intro node_guard) auto
  then obtain n where n: "page_node s = Some n" "\<not> np_status s" "may_become (n_status n) st" by auto
  then have "n_status n \<notin> {Node_uninstalling, Node_uninstalled}" by (cases "n_status n") auto
  with n show ?thesis by (simp add: node_request_parts json_parse_stringify)
qed



text \<open>
  What the two node forms send is valid: the quota is null exactly when the node inherits the global one,
  and otherwise between 1 and 1024 GB; the nginx capacity lies within the limits of its three fields.
\<close>

theorem node_forms_valid:
  assumes "node_enabled s e" "e = SubmitQuota \<or> e = SubmitCapacity"
  shows "(e = SubmitQuota \<longrightarrow> (\<exists>f r b. np_quota s = Some f \<and> \<not> qf_pending f \<and> snd (node_step e s) = [Send r] \<and> rq_body r = Some b \<and>
      json_parse b = Some (JObject [(''cache_max_size_gb'', if qf_override f then JInt (qf_size f) else JNull)]) \<and>
      (qf_override f \<longrightarrow> 1 \<le> qf_size f \<and> qf_size f \<le> 1024))) \<and>
    (e = SubmitCapacity \<longrightarrow> (\<exists>f r b. np_capacity s = Some f \<and> \<not> cf_pending f \<and> snd (node_step e s) = [Send r] \<and> rq_body r = Some b \<and>
      json_parse b = Some (capacity_body (cf_draft f)) \<and> capacity_valid (cf_draft f)))"
proof -
  have g: "guard s e" using assms by (intro node_guard) auto
  from assms(2) show ?thesis
  proof
    assume e: "e = SubmitQuota"
    then obtain f where f: "np_quota s = Some f" "\<not> qf_pending f" "quota_valid f" using g by auto
    then have "json_parse (stringify (quota_body f)) = Some (quota_body f)"
      by (simp add: quota_body_def json_parse_stringify)
    then show ?thesis using e f by (auto simp: node_request_parts quota_valid_def quota_body_def)
  next
    assume e: "e = SubmitCapacity"
    then obtain f where "np_capacity s = Some f" "\<not> cf_pending f" "capacity_valid (cf_draft f)" using g by auto
    then show ?thesis using e by (simp add: node_request_parts capacity_body_def json_parse_stringify)
  qed
qed

text \<open>
  A poll does not disturb what is being typed: as long as the stored quota and default are the same, the
  quota form keeps the operator's choice and size; when they have changed it starts again from the stored ones.
\<close>

theorem quota_form_survives_poll:
  assumes "q_data q = Some d" "np_quota s = Some f"
  shows "\<exists>g. np_quota (fst (node_step (DetailArrives q) s)) = Some g \<and> qf_settings g = nd_cache d \<and>
    (if same_quota_key (qf_settings f) (nd_cache d)
     then qf_override g = qf_override f \<and> qf_size g = qf_size f \<and> qf_pending g = qf_pending f
     else g = open_quota (nd_cache d))"
  using assms by (simp add: detail_arrives_def Let_def mount_quota_def open_quota_def)

fun uninstall_event :: "node_event \<Rightarrow> bool" where
  "uninstall_event (SetStatus st) \<longleftrightarrow> False"
| "uninstall_event GenerateInstall \<longleftrightarrow> False"
| "uninstall_event Upgrade \<longleftrightarrow> False"
| "uninstall_event ConfirmDeleteNode \<longleftrightarrow> False"
| "uninstall_event SubmitQuota \<longleftrightarrow> False"
| "uninstall_event SubmitCapacity \<longleftrightarrow> False"
| "uninstall_event e \<longleftrightarrow> True"

fun is_action_arrival :: "node_event \<Rightarrow> bool" where
  "is_action_arrival (ActionArrives r) \<longleftrightarrow> True"
| "is_action_arrival e \<longleftrightarrow> False"

lemmas node_outcomes = settle_def node_failed_def action_succeeded_def close_confirm_def refresh_def saved_effects_def
  quota_settled_def capacity_settled_def detail_arrives_def

interpretation uninstall: single_flight
  "\<lambda>s e. node_enabled s e \<and> uninstall_event e" node_step np_action is_action_arrival "\<lambda>_. True"
proof (unfold_locales, goal_cases)
  case (1 s e)
  have g: "guard s e" if "(\<exists>a. e = Action a) \<or> e = ConfirmForce" using 1 that by (intro node_guard) auto
  show ?case
  proof (cases e)
    case (Action a)
    then show ?thesis using g by auto
  next
    case ConfirmForce
    then show ?thesis using g by auto
  qed (use 1(2) in \<open>auto simp: node_outcomes Let_def split: sum.splits\<close>)
qed simp

text \<open>
  The uninstall procedure takes one step at a time: over any course of events the number of its requests
  is the number of answers received, plus one while a request is in flight.
\<close>

theorem uninstall_single_flight:
  assumes "\<not> np_action s" "possible (\<lambda>s e. node_enabled s e \<and> uninstall_event e) node_step es s"
  shows "sends (snd (run node_step es s))
       = length (filter is_action_arrival es) + (if np_action (fst (run node_step es s)) then 1 else 0)"
  using uninstall.run_balance [OF TrueI assms(2)] assms(1) by simp


section \<open>Examples\<close>

definition sample_node :: node where
  "sample_node =
     \<lparr>n_id = ''n1'', n_name = ''e1'', n_public_ipv4 = ''192.0.2.1'', n_cache_max_size_gb = None,
      n_nginx_capacity = \<lparr>nc_worker_processes = 0, nc_worker_connections = 4096, nc_worker_rlimit_nofile = 65536\<rparr>,
      n_status = Node_draining, n_monitor_auto_paused = False, n_capabilities = [], n_agent_version = None,
      n_agent_sha256 = None, n_active_upgrade_task_id = None, n_last_heartbeat_at = None, n_applied_version = 3,
      n_last_error = None, n_created_at = [], n_updated_at = [], n_target_agent_sha256 = None,
      n_target_agent_version = None, n_upgrade_capable = False, n_upgrade_up_to_date = False, n_can_upgrade = False,
      n_upgrade_blocker = None, n_upgrade_task = None\<rparr>"

definition sample_detail :: node_detail where
  "sample_detail =
     \<lparr>nd_node = sample_node,
      nd_machine = \<lparr>nm_available = False, nm_unavailable_reason = None, nm_stale = False, nm_report = None\<rparr>,
      nd_cache = \<lparr>ncs_default_size_gb = 10, ncs_override_size_gb = Some 20, ncs_effective_size_gb = 20\<rparr>, nd_sites = []\<rparr>"

definition sample_node_page :: node_page where
  "sample_node_page =
     \<lparr>np_id = ''n1'', np_csrf = ''t'', np_detail = \<lparr>q_data = Some sample_detail, q_error = None\<rparr>,
      np_cache = \<lparr>q_data = None, q_error = None\<rparr>, np_uninstall = None, np_command = [], np_confirm = None,
      np_confirmText = [], np_status = False, np_commandPending = False, np_upgrade = False, np_action = False,
      np_forced = False, np_delete = False, np_quota = Some (open_quota (nd_cache sample_detail)),
      np_capacity = Some (open_capacity (n_nginx_capacity sample_node)), np_oldForms = 0, np_sitesPage = 1, np_blockersPage = 1\<rparr>"

lemma sample_node_facts:
  "page_node sample_node_page = Some sample_node" "node_modal sample_node_page = False"
  "np_status sample_node_page = False" "np_action sample_node_page = False" "np_uninstall sample_node_page = None"
  "q_data (np_detail sample_node_page) = Some sample_detail" "nd_node sample_detail = sample_node"
  "np_quota sample_node_page = Some (open_quota (nd_cache sample_detail))" "n_status sample_node = Node_draining"
  "n_name sample_node = ''e1''"
  by (simp_all add: page_node_def node_modal_def sample_node_page_def sample_detail_def sample_node_def)

lemma sample_card:
  "fires (operations_card sample_node sample_node_page) e \<or> fires (UninstallPanel sample_node sample_node_page) e \<or>
   fires (CacheQuotaSettings (open_quota (nd_cache sample_detail))) e \<Longrightarrow> offers (NodeDetailPage sample_node_page) e"
  by (auto simp: NodeDetailPage_def node_body_def sample_node_facts Let_def)

theorem node_status_transition_witness:
  "\<exists>n. page_node sample_node_page = Some n \<and> may_become (n_status n) Node_active"
proof -
  have "node_enabled sample_node_page (SetStatus Node_active)"
    by (simp add: sample_card operations_card_def offers_status_buttons sample_node_facts)
  from node_status_transition [OF this] show ?thesis by blast
qed

definition sample_confirming :: node_page where
  "sample_confirming = sample_node_page\<lparr>np_confirm := Some Delete, np_confirmText := ''e1''\<rparr>"



theorem node_forms_valid_witness:
  "\<exists>f. np_quota sample_node_page = Some f \<and> qf_override f \<and> 1 \<le> qf_size f \<and> qf_size f \<le> 1024"
proof -
  have l: "int_literal ''20''" "int_str 20 = ''20''" "read_int ''20'' = 20" by code_simp+
  have "fires (CacheQuotaSettings (open_quota (nd_cache sample_detail))) SubmitQuota"
    using l by (simp add: CacheQuotaSettings_def open_quota_def sample_detail_def field_ok_def)
  then have "node_enabled sample_node_page SubmitQuota" by (simp add: sample_card)
  from node_forms_valid [OF this disjI1 [OF refl]] show ?thesis
    by (simp add: sample_node_facts) (simp add: open_quota_def sample_detail_def)
qed

theorem quota_form_survives_poll_witness:
  "map_option qf_size (np_quota (fst (node_step (DetailArrives \<lparr>q_data = Some sample_detail, q_error = None\<rparr>)
      (sample_node_page\<lparr>np_quota := Some ((open_quota (nd_cache sample_detail))\<lparr>qf_size := 33\<rparr>)\<rparr>)))) = Some 33"
  using quota_form_survives_poll [of "\<lparr>q_data = Some sample_detail, q_error = None\<rparr>" sample_detail
      "sample_node_page\<lparr>np_quota := Some ((open_quota (nd_cache sample_detail))\<lparr>qf_size := 33\<rparr>)\<rparr>"
      "(open_quota (nd_cache sample_detail))\<lparr>qf_size := 33\<rparr>"]
  by (auto simp: same_quota_key_def open_quota_def)

theorem uninstall_single_flight_witness:
  "sends (snd (run node_step [Action Prepare] sample_node_page)) = 1"
proof -
  have "uninstall_job_of (np_uninstall sample_node_page) = None" by (simp add: uninstall_job_of_def sample_node_facts)
  then have "fires (UninstallPanel sample_node sample_node_page) (Action Prepare)"
    by (simp add: UninstallPanel_def Let_def can_prepare_def sample_node_facts)
  then have "possible (\<lambda>s e. node_enabled s e \<and> uninstall_event e) node_step [Action Prepare] sample_node_page"
    by (simp add: sample_card)
  from uninstall_single_flight [OF _ this] show ?thesis by (simp add: sample_node_facts)
qed

section \<open>In the session\<close>

interpretation node_session: session_page node_enabled node_step np_csrf "\<lambda>s. True"
proof
  fix r e s
  show "Send r \<in> set (snd (node_step e s)) \<Longrightarrow> authorised (np_csrf s) r"
    by (elim node_step_send_cases) (simp_all add: node_status_request_def install_request_def upgrade_request_def action_request_def
        force_request_def delete_node_request_def quota_request_def capacity_request_def node_path_def starts_with_Cons Let_def
        split: uninstall_action.split)
  show "node_enabled s e \<Longrightarrow> np_csrf (fst (node_step e s)) = np_csrf s \<and> True"
    by (cases e) (simp_all add: settle_def node_failed_def action_succeeded_def close_confirm_def quota_settled_def capacity_settled_def
        detail_arrives_def Let_def split: sum.splits option.splits)
  show "DispatchUnauthorized \<in> set (snd (node_step e s)) \<Longrightarrow> Send r \<notin> set (snd (node_step e s))"
    by (cases e) (auto simp: settle_send node_failed_def action_succeeded_def refresh_def saved_effects_def Let_def
        split: sum.splits option.splits)
qed

end
