(* ===== verification/SiteDraft.thy ===== *)
theory SiteDraft
  imports Widgets
begin

text \<open>
  The site form (frontend/src/features/sites/site-detail-page.tsx): the draft it edits, the request
  body it makes of the draft, and the form's sections as views.  Every control of the form calls
  \<open>setDraft\<close> with a changed copy of the draft, so the views are parametric in the event \<open>ev\<close> that
  carries the new draft.
\<close>

section \<open>The draft\<close>

record site_draft =
  dr_name :: string
  dr_domains :: string
  dr_node_ids :: "string list"
  dr_primary_url :: string
  dr_primary_host :: string
  dr_primary_sni :: string
  dr_backup_enabled :: bool
  dr_backup_url :: string
  dr_backup_host :: string
  dr_backup_sni :: string
  dr_passthrough :: bool
  dr_client_max_body_size_mb :: int
  dr_client_keepalive_timeout_seconds :: int
  dr_read_write_timeout_seconds :: int
  dr_inherit_dns_ttl :: bool
  dr_dns_ttl_seconds :: int
  dr_tcp_only :: bool
  dr_tcp_forwards :: "tcp_forward list"
  dr_enabled :: bool

definition emptyDraft :: "int \<Rightarrow> site_draft" where
  "emptyDraft ttl =
     \<lparr>dr_name = [], dr_domains = [], dr_node_ids = [], dr_primary_url = ''https://'',
      dr_primary_host = [], dr_primary_sni = [], dr_backup_enabled = False, dr_backup_url = [],
      dr_backup_host = [], dr_backup_sni = [], dr_passthrough = False,
      dr_client_max_body_size_mb = 128, dr_client_keepalive_timeout_seconds = 120,
      dr_read_write_timeout_seconds = 120, dr_inherit_dns_ttl = True, dr_dns_ttl_seconds = ttl,
      dr_tcp_only = False, dr_tcp_forwards = [], dr_enabled = True\<rparr>"

definition emptyForward :: tcp_forward where
  "emptyForward =
     \<lparr>f_name = [], f_listen_port = 0, f_listen_tls = True, f_upstream_host = [], f_upstream_port = 0,
      f_upstream_tls = True, f_upstream_tls_server_name = Some [], f_connect_timeout_seconds = 10,
      f_idle_timeout_seconds = 300\<rparr>"

definition draftFromSite :: "site \<Rightarrow> int \<Rightarrow> site_draft" where
  "draftFromSite site ttl =
     \<lparr>dr_name = s_name site, dr_domains = js_join '', '' (s_domains site), dr_node_ids = s_node_ids site,
      dr_primary_url = o_url (s_primary_origin site),
      dr_primary_host = o_host_header (s_primary_origin site),
      dr_primary_sni = opt_or (o_tls_server_name (s_primary_origin site)) [],
      dr_backup_enabled = (s_backup_origin site \<noteq> None),
      dr_backup_url = (case s_backup_origin site of None \<Rightarrow> [] | Some b \<Rightarrow> o_url b),
      dr_backup_host = (case s_backup_origin site of None \<Rightarrow> [] | Some b \<Rightarrow> o_host_header b),
      dr_backup_sni = (case s_backup_origin site of None \<Rightarrow> [] | Some b \<Rightarrow> opt_or (o_tls_server_name b) []),
      dr_passthrough = s_passthrough site,
      dr_client_max_body_size_mb = s_client_max_body_size_mb site,
      dr_client_keepalive_timeout_seconds = s_client_keepalive_timeout_seconds site,
      dr_read_write_timeout_seconds = s_read_write_timeout_seconds site,
      dr_inherit_dns_ttl = (s_dns_ttl_seconds site = None),
      dr_dns_ttl_seconds = nullish (s_dns_ttl_seconds site) ttl,
      dr_tcp_only = s_tcp_only site, dr_tcp_forwards = s_tcp_forwards site, dr_enabled = s_enabled site\<rparr>"

section \<open>The request body\<close>

text \<open>\<open>/[\n,]/\<close> and \<open>/^(https|wss|grpcs):/i\<close>.\<close>

definition list_separator :: "char \<Rightarrow> bool" where
  "list_separator c \<longleftrightarrow> byte c = 10 \<or> c = CHR '',''"

definition splitList :: "string \<Rightarrow> string list" where
  "splitList value = split_trim list_separator value"

definition tls_url :: "string \<Rightarrow> bool" where
  "tls_url url \<longleftrightarrow>
     starts_with (lower url) ''https:'' \<or> starts_with (lower url) ''wss:'' \<or> starts_with (lower url) ''grpcs:''"

record site_payload =
  pl_name :: string
  pl_domains :: "string list"
  pl_node_ids :: "string list"
  pl_primary_origin :: origin
  pl_backup_origin :: "origin option"
  pl_passthrough :: bool
  pl_client_max_body_size_mb :: int
  pl_client_keepalive_timeout_seconds :: int
  pl_read_write_timeout_seconds :: int
  pl_dns_ttl_seconds :: "int option"
  pl_tcp_only :: bool
  pl_tcp_forwards :: "tcp_forward list"
  pl_enabled :: bool

definition draft_origin :: "string \<Rightarrow> string \<Rightarrow> string \<Rightarrow> origin" where
  "draft_origin url host sni =
     \<lparr>o_url = url, o_host_header = host, o_tls_server_name = Some (if tls_url url then sni else []), o_enabled = True\<rparr>"

definition sitePayload :: "site_draft \<Rightarrow> site_payload" where
  "sitePayload d =
     \<lparr>pl_name = dr_name d, pl_domains = splitList (dr_domains d), pl_node_ids = dr_node_ids d,
      pl_primary_origin = draft_origin (dr_primary_url d) (dr_primary_host d) (dr_primary_sni d),
      pl_backup_origin =
        (if dr_backup_enabled d \<and> js_trim (dr_backup_url d) \<noteq> []
         then Some (draft_origin (dr_backup_url d) (dr_backup_host d) (dr_backup_sni d)) else None),
      pl_passthrough = dr_passthrough d, pl_client_max_body_size_mb = dr_client_max_body_size_mb d,
      pl_client_keepalive_timeout_seconds = dr_client_keepalive_timeout_seconds d,
      pl_read_write_timeout_seconds = dr_read_write_timeout_seconds d,
      pl_dns_ttl_seconds = (if dr_inherit_dns_ttl d then None else Some (dr_dns_ttl_seconds d)),
      pl_tcp_only = dr_tcp_only d, pl_tcp_forwards = dr_tcp_forwards d, pl_enabled = dr_enabled d\<rparr>"

text \<open>The JSON of the parts, in property order; an undefined member is left out.\<close>

definition strings_json :: "string list \<Rightarrow> json" where
  "strings_json ss = JArray (map JString ss)"

definition forward_json :: "tcp_forward \<Rightarrow> json" where
  "forward_json f = JObject
     ([(''name'', JString (f_name f)), (''listen_port'', JInt (f_listen_port f)),
       (''listen_tls'', JBool (f_listen_tls f)), (''upstream_host'', JString (f_upstream_host f)),
       (''upstream_port'', JInt (f_upstream_port f)), (''upstream_tls'', JBool (f_upstream_tls f))] @
      (case f_upstream_tls_server_name f of None \<Rightarrow> []
       | Some s \<Rightarrow> [(''upstream_tls_server_name'', JString s)]) @
      [(''connect_timeout_seconds'', JInt (f_connect_timeout_seconds f)),
       (''idle_timeout_seconds'', JInt (f_idle_timeout_seconds f))])"

definition origin_json :: "origin \<Rightarrow> json" where
  "origin_json o1 = JObject
     ([(''url'', JString (o_url o1)), (''host_header'', JString (o_host_header o1))] @
      (case o_tls_server_name o1 of None \<Rightarrow> [] | Some s \<Rightarrow> [(''tls_server_name'', JString s)]) @
      [(''enabled'', JBool (o_enabled o1))])"

definition payload_json :: "site_payload \<Rightarrow> json" where
  "payload_json p = JObject
     ([(''name'', JString (pl_name p)), (''domains'', strings_json (pl_domains p)),
       (''node_ids'', strings_json (pl_node_ids p)), (''primary_origin'', origin_json (pl_primary_origin p)),
       (''passthrough'', JBool (pl_passthrough p)),
       (''client_max_body_size_mb'', JInt (pl_client_max_body_size_mb p)),
       (''client_keepalive_timeout_seconds'', JInt (pl_client_keepalive_timeout_seconds p)),
       (''read_write_timeout_seconds'', JInt (pl_read_write_timeout_seconds p)),
       (''dns_ttl_seconds'', case pl_dns_ttl_seconds p of None \<Rightarrow> JNull | Some t \<Rightarrow> JInt t),
       (''tcp_only'', JBool (pl_tcp_only p)), (''tcp_forwards'', JArray (map forward_json (pl_tcp_forwards p))),
       (''enabled'', JBool (pl_enabled p))] @
      (case pl_backup_origin p of None \<Rightarrow> [] | Some b \<Rightarrow> [(''backup_origin'', origin_json b)]))"

text \<open>\<open>JSON.stringify(draft)\<close>, the form's baseline.\<close>

definition draft_json :: "site_draft \<Rightarrow> json" where
  "draft_json d = JObject
     [(''name'', JString (dr_name d)), (''domains'', JString (dr_domains d)),
      (''node_ids'', strings_json (dr_node_ids d)), (''primary_url'', JString (dr_primary_url d)),
      (''primary_host'', JString (dr_primary_host d)), (''primary_sni'', JString (dr_primary_sni d)),
      (''backup_enabled'', JBool (dr_backup_enabled d)), (''backup_url'', JString (dr_backup_url d)),
      (''backup_host'', JString (dr_backup_host d)), (''backup_sni'', JString (dr_backup_sni d)),
      (''passthrough'', JBool (dr_passthrough d)),
      (''client_max_body_size_mb'', JInt (dr_client_max_body_size_mb d)),
      (''client_keepalive_timeout_seconds'', JInt (dr_client_keepalive_timeout_seconds d)),
      (''read_write_timeout_seconds'', JInt (dr_read_write_timeout_seconds d)),
      (''inherit_dns_ttl'', JBool (dr_inherit_dns_ttl d)), (''dns_ttl_seconds'', JInt (dr_dns_ttl_seconds d)),
      (''tcp_only'', JBool (dr_tcp_only d)), (''tcp_forwards'', JArray (map forward_json (dr_tcp_forwards d))),
      (''enabled'', JBool (dr_enabled d))]"

section \<open>The form\<close>

definition num_field :: "string \<Rightarrow> int option \<Rightarrow> int option \<Rightarrow> bool \<Rightarrow> bool \<Rightarrow> int \<Rightarrow> (int \<Rightarrow> 'e) \<Rightarrow> 'e view" where
  "num_field l lo hi required disabled n f =
     Inp l (NumRange lo hi # (if required then [Required] else [])) (int_str n) disabled (\<lambda>s. f (js_number s))"

definition BasicSettings :: "site_draft \<Rightarrow> (site_draft \<Rightarrow> 'e) \<Rightarrow> 'e view" where
  "BasicSettings d ev = Grp ''card''
     [Txt [Zh ''basic configuration''], Txt [Zh ''name and domains of the site''],
      Inp ''site-name'' [Required, MaxLength 100] (dr_name d) False (\<lambda>v. ev (d\<lparr>dr_name := v\<rparr>)),
      Inp ''site-domains'' [] (dr_domains d) False (\<lambda>v. ev (d\<lparr>dr_domains := v\<rparr>)),
      Txt [Zh ''separated by commas or line breaks''],
      Chk [Zh ''enable the site''] (dr_enabled d) False (\<lambda>b. ev (d\<lparr>dr_enabled := b\<rparr>)),
      Txt [Zh ''once disabled the next publication withdraws the entry'']]"

text \<open>The field of the TLS server name is shown for TLS URLs only.\<close>

definition OriginFields ::
  "ui_text \<Rightarrow> bool \<Rightarrow> string \<Rightarrow> string \<Rightarrow> string \<Rightarrow> (string \<Rightarrow> string \<Rightarrow> string \<Rightarrow> 'e) \<Rightarrow> 'e view" where
  "OriginFields title required url host sni onChange = Grp ''origin''
     ([Txt title,
       Inp ''url'' (if required then [Required] else []) url False (\<lambda>v. onChange v host sni),
       Inp ''host'' [] host False (\<lambda>v. onChange url v sni)] @
      only_if (tls_url url) [Inp ''sni'' [] sni False (\<lambda>v. onChange url host v)])"

definition TrafficSettings :: "site_draft \<Rightarrow> (site_draft \<Rightarrow> 'e) \<Rightarrow> 'e view" where
  "TrafficSettings d ev = Grp ''card''
     ([Txt [Zh ''traffic and origins''], Txt [Zh ''the HTTP protocols or plain TCP/TLS forwarding''],
       Sel [] [(''http'', [Raw ''HTTP / gRPC / WS'']), (''tcp'', [Zh ''TCP / TLS only''])]
         (if dr_tcp_only d then ''tcp'' else ''http'') False (\<lambda>v. ev (d\<lparr>dr_tcp_only := (v = ''tcp'')\<rparr>))] @
      only_if (\<not> dr_tcp_only d)
        ([OriginFields [Zh ''primary origin''] True (dr_primary_url d) (dr_primary_host d) (dr_primary_sni d)
            (\<lambda>u h s. ev (d\<lparr>dr_primary_url := u, dr_primary_host := h, dr_primary_sni := s\<rparr>)),
          Chk [Zh ''backup origin''] (dr_backup_enabled d) False (\<lambda>b. ev (d\<lparr>dr_backup_enabled := b\<rparr>)),
          Txt [Zh ''used when the primary origin is unavailable'']] @
         only_if (dr_backup_enabled d)
           [OriginFields [Zh ''backup origin''] False (dr_backup_url d) (dr_backup_host d) (dr_backup_sni d)
              (\<lambda>u h s. ev (d\<lparr>dr_backup_url := u, dr_backup_host := h, dr_backup_sni := s\<rparr>))] @
         [num_field ''body-size'' (Some 1) (Some 1024) True False (dr_client_max_body_size_mb d)
            (\<lambda>n. ev (d\<lparr>dr_client_max_body_size_mb := n\<rparr>)),
          num_field ''client-keepalive-timeout'' (Some 15) (Some 3600) True False
            (dr_client_keepalive_timeout_seconds d) (\<lambda>n. ev (d\<lparr>dr_client_keepalive_timeout_seconds := n\<rparr>)),
          num_field ''rw-timeout'' (Some 1) None True False (dr_read_write_timeout_seconds d)
            (\<lambda>n. ev (d\<lparr>dr_read_write_timeout_seconds := n\<rparr>)),
          Chk [Zh ''pass through to the origin''] (dr_passthrough d) False (\<lambda>b. ev (d\<lparr>dr_passthrough := b\<rparr>)),
          Txt [Zh ''no cache, proxied straight to the origin''],
          Chk [Zh ''inherit the global DNS TTL''] (dr_inherit_dns_ttl d) False (\<lambda>b. ev (d\<lparr>dr_inherit_dns_ttl := b\<rparr>)),
          Txt [Zh ''60 to 300 seconds''],
          num_field ''site DNS TTL'' (Some 60) (Some 300) False (dr_inherit_dns_ttl d) (dr_dns_ttl_seconds d)
            (\<lambda>n. ev (d\<lparr>dr_dns_ttl_seconds := n\<rparr>))]) @
      only_if (dr_tcp_only d)
        [Txt [Zh ''plain TCP/TLS mode''], Txt [Zh ''no HTTP entry is created, configure at least one TCP port below'']])"

text \<open>Nodes that can carry the site.\<close>

definition selectable_node :: "node \<Rightarrow> bool" where
  "selectable_node n \<longleftrightarrow> n_status n \<notin> {Node_revoked, Node_uninstalling, Node_uninstalled}"

definition toggle_node :: "string list \<Rightarrow> string \<Rightarrow> bool \<Rightarrow> string list" where
  "toggle_node selected i v = (if v then selected @ [i] else filter (\<lambda>j. j \<noteq> i) selected)"

definition NodeSelector :: "node list \<Rightarrow> string list \<Rightarrow> nat \<Rightarrow> (string list \<Rightarrow> 'e) \<Rightarrow> (int \<Rightarrow> 'e) \<Rightarrow> 'e view" where
  "NodeSelector nodes selected page onChange turn =
     (let available = filter selectable_node nodes;
          pagination = useListPagination available LIST_PAGE_SIZE page
      in Grp ''card''
           ([Txt [Zh ''edge nodes''], Txt [Zh ''choose the nodes that carry this site'']] @
            (if available \<noteq> [] then
               map (\<lambda>n. Grp ''label''
                      [Chk [Raw (n_name n)] (n_id n \<in> set selected) False (\<lambda>v. onChange (toggle_node selected (n_id n) v)),
                       Txt [Raw (n_public_ipv4 n)], StatusBadge (node_status_str (n_status n)) None])
                 (pg_items pagination) @
               [ListPagination pagination [Zh ''nodes''] False turn []]
             else [EmptyState [Zh ''no node available''] (Some [Zh ''add an edge node or authorize one again''])])))"

text \<open>\<open>tcp_forwards.map((item, current) => current === index ? { ...item, ...values } : item)\<close>.\<close>

definition update_forward :: "site_draft \<Rightarrow> nat \<Rightarrow> (tcp_forward \<Rightarrow> tcp_forward) \<Rightarrow> site_draft" where
  "update_forward d i f =
     d\<lparr>dr_tcp_forwards := map (\<lambda>(k, x). if k = i then f x else x) (enumerate 0 (dr_tcp_forwards d))\<rparr>"

definition remove_forward :: "site_draft \<Rightarrow> nat \<Rightarrow> site_draft" where
  "remove_forward d i =
     d\<lparr>dr_tcp_forwards := map snd (filter (\<lambda>(k, x). k \<noteq> i) (enumerate 0 (dr_tcp_forwards d)))\<rparr>"

definition add_forward :: "site_draft \<Rightarrow> site_draft" where
  "add_forward d = d\<lparr>dr_tcp_forwards := dr_tcp_forwards d @ [emptyForward]\<rparr>"

definition port_text :: "int \<Rightarrow> string" where
  "port_text n = (if n = 0 then [] else int_str n)"

definition port_field :: "string \<Rightarrow> int \<Rightarrow> (int \<Rightarrow> 'e) \<Rightarrow> 'e view" where
  "port_field l n f = Inp l [Required, NumRange (Some 1) (Some 65535)] (port_text n) False (\<lambda>s. f (js_number s))"

definition connect_timeouts :: "(string \<times> ui_text) list" where
  "connect_timeouts = [(''5'', [Zh ''5 seconds'']), (''10'', [Zh ''10 seconds'']), (''30'', [Zh ''30 seconds'']),
                       (''60'', [Zh ''60 seconds''])]"

definition idle_timeouts :: "(string \<times> ui_text) list" where
  "idle_timeouts = [(''300'', [Zh ''5 minutes'']), (''900'', [Zh ''15 minutes'']), (''1800'', [Zh ''30 minutes'']),
                    (''3600'', [Zh ''60 minutes''])]"

definition forward_row :: "site_draft \<Rightarrow> (site_draft \<Rightarrow> 'e) \<Rightarrow> nat \<Rightarrow> tcp_forward \<Rightarrow> 'e view" where
  "forward_row d ev i f =
     (let upd = (\<lambda>g. ev (update_forward d i g)) in
      Grp ''forward''
        ([Inp ''tcp-name'' [Required, MaxLength 100] (f_name f) False (\<lambda>v. upd (f_name_update (\<lambda>_. v))),
          port_field ''tcp-listen'' (f_listen_port f) (\<lambda>n. upd (f_listen_port_update (\<lambda>_. n))),
          Inp ''tcp-host'' [Required] (f_upstream_host f) False (\<lambda>v. upd (f_upstream_host_update (\<lambda>_. v))),
          port_field ''tcp-upstream'' (f_upstream_port f) (\<lambda>n. upd (f_upstream_port_update (\<lambda>_. n))),
          Sel [Zh ''connect timeout''] connect_timeouts (int_str (f_connect_timeout_seconds f)) False
            (\<lambda>v. upd (f_connect_timeout_seconds_update (\<lambda>_. js_number v))),
          Sel [Zh ''idle timeout''] idle_timeouts (int_str (f_idle_timeout_seconds f)) False
            (\<lambda>v. upd (f_idle_timeout_seconds_update (\<lambda>_. js_number v))),
          Chk [Zh ''entry TLS''] (f_listen_tls f) False (\<lambda>b. upd (f_listen_tls_update (\<lambda>_. b))),
          Chk [Zh ''upstream TLS''] (f_upstream_tls f) False (\<lambda>b. upd (f_upstream_tls_update (\<lambda>_. b)))] @
         only_if (f_upstream_tls f)
           [Inp ''tcp-sni'' [] (opt_or (f_upstream_tls_server_name f) []) False
              (\<lambda>v. upd (f_upstream_tls_server_name_update (\<lambda>_. Some v)))] @
         [Btn [Zh ''delete the TCP forward''] False (ev (remove_forward d i))]))"

definition TCPForwards :: "site_draft \<Rightarrow> (site_draft \<Rightarrow> 'e) \<Rightarrow> nat \<Rightarrow> (int \<Rightarrow> 'e) \<Rightarrow> 'e view" where
  "TCPForwards d ev page turn =
     (let pagination = useListPagination (dr_tcp_forwards d) LIST_PAGE_SIZE page in
      Grp ''card''
        ([Txt [Zh ''TCP / TLS forwarding''], Txt [Zh ''may be used beside the HTTP entry, at most 32 ports''],
          Btn [Zh ''add a port''] (32 \<le> length (dr_tcp_forwards d)) (ev (add_forward d))] @
         (if dr_tcp_forwards d \<noteq> [] then
            map (\<lambda>(k, f). forward_row d ev (pg_startIndex pagination + k) f) (enumerate 0 (pg_items pagination)) @
            [ListPagination pagination [Zh ''forwarded ports''] False turn []]
          else [EmptyState [Zh ''no TCP forwarding configured'']
                  (Some (if dr_tcp_only d then [Zh ''the plain TCP mode needs at least one listening port'']
                         else [Zh ''optional: forward layer-four ports for the site'']))])))"


section \<open>The serialised draft identifies the draft\<close>

lemma forward_json_inject [simp]: "forward_json f = forward_json g \<longleftrightarrow> f = g"
  by (cases f; cases g) (auto simp: forward_json_def split: option.splits)

lemma map_forward_json_inject: "map forward_json fs = map forward_json gs \<longleftrightarrow> fs = gs"
  by (metis forward_json_inject inj_def inj_map_eq_map)

lemma strings_json_inject [simp]: "strings_json xs = strings_json ys \<longleftrightarrow> xs = ys"
proof -
  have "inj JString" by (simp add: inj_def)
  then show ?thesis by (simp add: strings_json_def)
qed

lemma draft_json_inject: "draft_json d = draft_json d' \<longleftrightarrow> d = d'"
  by (cases d; cases d') (simp add: draft_json_def map_forward_json_inject conj_commute)

lemma integral_strings [simp]: "integral (strings_json xs)"
  by (simp add: strings_json_def integral_elems_all)

lemma integral_forward [simp]: "integral (forward_json f)"
  by (simp add: forward_json_def split: option.splits)

lemma integral_draft [simp]: "integral (draft_json d)"
  by (simp add: draft_json_def integral_elems_all)

lemma integral_payload [simp]: "integral (payload_json p)"
  by (simp add: payload_json_def origin_json_def integral_elems_all split: option.splits)

definition draft_text :: "site_draft \<Rightarrow> string" where
  "draft_text d = stringify (draft_json d)"

text \<open>The text of a draft identifies it, since its JSON parses back.\<close>

lemma draft_text_inject [simp]: "draft_text d = draft_text d' \<longleftrightarrow> d = d'"
  by (metis draft_json_inject draft_text_def integral_draft json_parse_stringify option.inject)

lemma draft_text_not_Nil [simp]: "draft_text d \<noteq> []"
  by (simp add: draft_text_def)

section \<open>What the payload keeps of a site\<close>

lemma lower_append: "lower (a @ b) = lower a @ lower b"
  by (simp add: lower_def)

text \<open>A site the form can show without loss: its domains are words, its origins enabled.\<close>

definition form_origin :: "origin \<Rightarrow> bool" where
  "form_origin o1 \<longleftrightarrow> o_enabled o1 \<and> (truthy_str (o_tls_server_name o1) \<longrightarrow> tls_url (o_url o1))"

definition form_site :: "site \<Rightarrow> bool" where
  "form_site s \<longleftrightarrow> (\<forall>w \<in> set (s_domains s). list_word list_separator w) \<and> form_origin (s_primary_origin s) \<and>
     (case s_backup_origin s of None \<Rightarrow> True | Some b \<Rightarrow> form_origin b \<and> js_trim (o_url b) \<noteq> [])"

text \<open>An origin up to the absent and the empty server name.\<close>

definition same_origin :: "origin \<Rightarrow> origin \<Rightarrow> bool" where
  "same_origin a b \<longleftrightarrow> o_url a = o_url b \<and> o_host_header a = o_host_header b \<and> o_enabled a = o_enabled b \<and>
     opt_or (o_tls_server_name a) [] = opt_or (o_tls_server_name b) []"

lemma separator_facts: "list_separator CHR '',''" "ws1 CHR '' ''" "\<not> list_separator CHR '' ''"
  by (simp_all add: list_separator_def ws1_def)

lemma splitList_join:
  "\<forall>w \<in> set ds. list_word list_separator w \<Longrightarrow> splitList (js_join '', '' ds) = ds"
  unfolding splitList_def by (rule split_trim_join [OF _ separator_facts])

lemma draft_origin_same:
  "form_origin o1 \<Longrightarrow> same_origin (draft_origin (o_url o1) (o_host_header o1) (opt_or (o_tls_server_name o1) [])) o1"
  by (cases "o_tls_server_name o1") (auto simp: form_origin_def same_origin_def draft_origin_def opt_or_def str_or_def)


definition sample_site :: site where
  "sample_site = \<lparr>s_id = ''s1'', s_name = ''Main'', s_zone_id = ''z'', s_domains = [''a.example'', ''b.example''],
     s_node_ids = [''n1''], s_primary_origin = \<lparr>o_url = ''https://o'', o_host_header = [],
       o_tls_server_name = Some ''o'', o_enabled = True\<rparr>,
     s_backup_origin = None, s_stream_paths = [], s_passthrough = False, s_client_max_body_size_mb = 128,
     s_client_keepalive_timeout_seconds = 120, s_read_write_timeout_seconds = 120,
     s_dns_ttl_seconds = Some 90, s_tcp_only = False, s_tcp_forwards = [], s_cache_generation = 1,
     s_config_version = 3, s_published = True, s_enabled = True, s_deleting = False,
     s_created_at = ''2026-01-01T00:00:00Z'', s_updated_at = ''2026-01-02T00:00:00Z''\<rparr>"


text \<open>
  A TLS server name never leaves the console for an origin that is not reached over TLS, and a
  backup origin leaves only when it is switched on and has an address.
\<close>

theorem payload_origins:
  assumes "o1 = pl_primary_origin (sitePayload d) \<or> pl_backup_origin (sitePayload d) = Some o1"
  shows "(truthy_str (o_tls_server_name o1) \<longrightarrow> tls_url (o_url o1))
    \<and> (pl_backup_origin (sitePayload d) = Some o1 \<longrightarrow> dr_backup_enabled d \<and> js_trim (o_url o1) \<noteq> [])"
  using assms by (auto simp: sitePayload_def draft_origin_def split: if_splits)

theorem payload_origins_witness:
  "\<not> truthy_str (o_tls_server_name (pl_primary_origin (sitePayload
      ((emptyDraft 60)\<lparr>dr_primary_url := ''http://o'', dr_primary_sni := ''secret''\<rparr>))))"
proof -
  let ?d = "(emptyDraft 60)\<lparr>dr_primary_url := ''http://o'', dr_primary_sni := ''secret''\<rparr>"
  have "\<not> tls_url ''http://o''" by code_simp
  then show ?thesis using payload_origins [of "pl_primary_origin (sitePayload ?d)" ?d]
    by (auto simp: sitePayload_def draft_origin_def)
qed

section \<open>What the controls of the form may do\<close>

lemma fires_BasicSettings [view_simps]:
  "fires (BasicSettings d ev) e \<longleftrightarrow>
     (\<exists>v. js_length v \<le> 100 \<and> e = ev (d\<lparr>dr_name := v\<rparr>)) \<or> (\<exists>v. e = ev (d\<lparr>dr_domains := v\<rparr>)) \<or>
     e = ev (d\<lparr>dr_enabled := \<not> dr_enabled d\<rparr>)"
  by (auto simp: BasicSettings_def typable_def)

lemma filter_toggle_distinct:
  "distinct ids \<Longrightarrow> distinct (toggle_node ids i (i \<notin> set ids))"
  by (simp add: toggle_node_def)

lemma toggle_node_member:
  "j \<in> set (toggle_node ids i (i \<notin> set ids)) \<longleftrightarrow> (if j = i then i \<notin> set ids else j \<in> set ids)"
  by (auto simp: toggle_node_def)

lemma fires_NodeSelector:
  assumes "fires (NodeSelector nodes sel page onChange turn) e"
  shows "(\<exists>n \<in> set nodes. selectable_node n \<and> e = onChange (toggle_node sel (n_id n) (n_id n \<notin> set sel)))
       \<or> (\<exists>k. e = turn k)"
proof -
  let ?av = "filter selectable_node nodes"
  have sub: "set (pg_items (useListPagination ?av LIST_PAGE_SIZE page)) \<subseteq> {n \<in> set nodes. selectable_node n}"
    using pagination_subset [of ?av] by auto
  show ?thesis using assms sub
    by (auto simp: NodeSelector_def Let_def offers_map split: if_splits)
qed

lemma update_forward_length [simp]: "length (dr_tcp_forwards (update_forward d i f)) = length (dr_tcp_forwards d)"
  by (simp add: update_forward_def)

lemma remove_forward_length: "length (dr_tcp_forwards (remove_forward d i)) \<le> length (dr_tcp_forwards d)"
  by (simp add: remove_forward_def) (metis length_enumerate length_filter_le)

lemma enumerate_filter_remove:
  assumes "i < length xs"
  shows "map snd (filter (\<lambda>(k, x). k \<noteq> n + i) (enumerate n xs)) = take i xs @ drop (Suc i) xs"
  using assms
proof (induction xs arbitrary: i n)
  case (Cons x xs)
  have all: "map snd (filter (\<lambda>(k, x). k \<noteq> n) (enumerate (Suc n) xs)) = xs"
  proof -
    have "filter (\<lambda>(k, x). k \<noteq> n) (enumerate (Suc n) xs) = enumerate (Suc n) xs"
      by (rule filter_True) (auto simp: in_set_enumerate_eq)
    then show ?thesis by simp
  qed
  show ?case
  proof (cases i)
    case 0
    then show ?thesis using all by simp
  next
    case (Suc j)
    then show ?thesis using Cons.IH [of j "Suc n"] Cons.prems by simp
  qed
qed simp

text \<open>Removing a forward drops exactly the one at that index.\<close>

lemma remove_forward_at:
  assumes "i < length (dr_tcp_forwards d)"
  shows "dr_tcp_forwards (remove_forward d i) = take i (dr_tcp_forwards d) @ drop (Suc i) (dr_tcp_forwards d)"
  using enumerate_filter_remove [OF assms, of 0] by (simp add: remove_forward_def)

lemma update_forward_nth:
  assumes "k < length (dr_tcp_forwards d)"
  shows "dr_tcp_forwards (update_forward d i f) ! k
       = (if k = i then f (dr_tcp_forwards d ! k) else dr_tcp_forwards d ! k)"
  using assms by (simp add: update_forward_def nth_enumerate_eq)

lemma fires_forward_row:
  assumes "fires (forward_row d ev i f) e"
  shows "(\<exists>g. e = ev (update_forward d i g)) \<or> e = ev (remove_forward d i)"
  using assms by (auto simp: forward_row_def Let_def port_field_def)

lemma fires_TCPForwards:
  assumes "fires (TCPForwards d ev page turn) e"
  shows "(length (dr_tcp_forwards d) < 32 \<and> e = ev (add_forward d)) \<or> (\<exists>k. e = turn k)
       \<or> (\<exists>i. (\<exists>g. e = ev (update_forward d i g)) \<or> e = ev (remove_forward d i))"
  using assms fires_forward_row
  by (fastforce simp: TCPForwards_def Let_def offers_map split: if_splits)

end
