(* ===== verification/SiteTasks.thy ===== *)
theory SiteTasks
  imports SiteDraft "HOL-Library.Multiset"
begin

text \<open>
  Deployment tasks of a site and what can be done with it: the operations panel and the allow-list
  dialog of frontend/src/features/sites/site-detail-page.tsx.
\<close>

section \<open>Tasks\<close>

definition activeTask :: "deployment_task option \<Rightarrow> bool" where
  "activeTask t \<longleftrightarrow> (case t of None \<Rightarrow> False | Some x \<Rightarrow> t_status x \<in> {Dep_queued, Dep_dispatching, Dep_applying})"

text \<open>\<open>refetchInterval\<close> in milliseconds; \<open>None\<close> is \<open>false\<close>.\<close>

definition publish_poll :: "deployment_task option \<Rightarrow> nat option" where
  "publish_poll t = Some (if activeTask t then 2000 else 20000)"

definition deletion_poll :: "deployment_task option \<Rightarrow> nat option" where
  "deletion_poll t = (if activeTask t then Some 2000 else None)"

definition taskMatchesCurrentSite :: "deployment_task option \<Rightarrow> site \<Rightarrow> bool" where
  "taskMatchesCurrentSite t site \<longleftrightarrow>
     (case t of
        None \<Rightarrow> False
      | Some task \<Rightarrow>
          if s_deleting site \<or> s_published site \<or> activeTask t then True
          else (case (js_date_parse (t_created_at task), js_date_parse (s_updated_at site)) of
                  (Some c, Some u) \<Rightarrow> u \<le> c | _ \<Rightarrow> False))"

text \<open>The details the control plane writes, and their translations.\<close>

definition exact_details :: "(string \<times> string) list" where
  "exact_details =
    [(''building node configurations'', ''generating the edge configurations''),
     (''preparing edge configuration confirmation'', ''waiting for the edges to confirm the configuration''),
     (''configuration staged; no active assigned edge nodes to confirm'',
        ''configuration staged, no assigned node is online to confirm it''),
     (''publish task did not create edge confirmation targets; retry Publish'',
        ''the publication has no edge targets, publish again''),
     (''queued for DNS-01 certificate issuance'', ''certificate issuance queued''),
     (''queued for certificate renewal'', ''certificate renewal queued''),
     (''preparing DNS-01 certificate issuance'', ''preparing the DNS-01 issuance''),
     (''waiting for DNS-01 validation'', ''waiting for the DNS-01 validation''),
     (''certificate renewed'', ''the TLS certificate was renewed''),
     (''certificate stored; publish the site to deploy it'',
        ''certificate stored, publish the site to deploy it to the edges''),
     (''certificate queue is full; retry Issue TLS'', ''the certificate queue is full, issue again''),
     (''certificate issuance interrupted by control-plane shutdown; retry Issue TLS'',
        ''issuance interrupted by a control-plane stop, issue again'')]"

text \<open>A decimal number after a fixed text: the digits and what follows them.\<close>

definition number_after :: "string \<Rightarrow> string \<Rightarrow> (string \<times> string) option" where
  "number_after p s =
     (if starts_with s p then
        (let r = drop (length p) s; ds = takeWhile is_digit r
         in if ds = [] then None else Some (ds, drop (length ds) r))
      else None)"

definition applied_by :: string where
  "applied_by = ''configuration applied by ''"

definition of_total :: string where
  "of_total = '' of ''"

definition active_nodes :: string where
  "active_nodes = '' active edge node(s)''"

definition not_applied :: string where
  "not_applied = '' edge node(s) did not apply the configuration''"

definition match_applied :: "string \<Rightarrow> string option" where
  "match_applied s =
     (case number_after applied_by s of
        Some (n, r) \<Rightarrow> if r = active_nodes then Some n else None
      | None \<Rightarrow> None)"

definition match_applied_of :: "string \<Rightarrow> (string \<times> string) option" where
  "match_applied_of s =
     (case number_after applied_by s of
        Some (n, r) \<Rightarrow>
          (case number_after of_total r of
             Some (m, q) \<Rightarrow> if q = active_nodes then Some (n, m) else None
           | None \<Rightarrow> None)
      | None \<Rightarrow> None)"

definition match_not_applied :: "string \<Rightarrow> string option" where
  "match_not_applied s =
     (case number_after [] s of
        Some (n, r) \<Rightarrow> if r = not_applied then Some n else None
      | None \<Rightarrow> None)"

definition localizeTaskDetail :: "string option \<Rightarrow> ui_text option" where
  "localizeTaskDetail detail =
     (if \<not> truthy_str detail then None
      else (let d = the detail in
        case map_of exact_details d of
          Some t \<Rightarrow> Some [Zh t]
        | None \<Rightarrow>
            (case match_applied d of
               Some n \<Rightarrow> Some [Zh ''configuration applied by '', Raw n, Zh '' affected edges online'']
             | None \<Rightarrow>
                 (case match_applied_of d of
                    Some (n, m) \<Rightarrow>
                      Some [Zh ''configuration applied by '', Raw n, Raw ''/'', Raw m, Zh '' affected edges online'']
                  | None \<Rightarrow>
                      (case match_not_applied d of
                         Some n \<Rightarrow> Some [Raw n, Zh '' affected edges did not apply the configuration'']
                       | None \<Rightarrow> Some [Raw d])))))"

section \<open>The operations panel\<close>

datatype site_op = Publish | Certificate | InvalidateCache

record tls_status =
  tls_certificate_task :: "deployment_task option"
  tls_published_after_certificate :: bool

definition OperationState ::
  "ui_text \<Rightarrow> deployment_task option \<Rightarrow> ui_text \<Rightarrow> ui_text option \<Rightarrow> ui_text option \<Rightarrow> 'e view" where
  "OperationState label task fallback extra detail = Grp ''operation''
     ([Txt label] @
      (case (case detail of Some d \<Rightarrow> Some d | None \<Rightarrow> localizeTaskDetail (Option.bind task t_detail)) of
         None \<Rightarrow> [] | Some d \<Rightarrow> [Txt d]) @
      (case task of
         Some t \<Rightarrow> [StatusBadge (deployment_status_str (t_status t)) None]
       | None \<Rightarrow> [Txt (nullish extra fallback)]))"

record assigned_node =
  an_id :: string
  an_name :: string
  an_publicIPv4 :: "string option"
  an_status :: "node_status option"

text \<open>\<open>new Map(nodes.map(...))\<close> keeps the last of equal keys; \<open>node?.name || nodeID\<close>.\<close>

definition assignedNodes :: "node list \<Rightarrow> site \<Rightarrow> assigned_node list" where
  "assignedNodes nodes site =
     map (\<lambda>i. let n = map_of (rev (map (\<lambda>n. (n_id n, n)) nodes)) i in
            \<lparr>an_id = i, an_name = opt_or (map_option n_name n) i,
             an_publicIPv4 = map_option n_public_ipv4 n, an_status = map_option n_status n\<rparr>) (s_node_ids site)"

definition cacheable :: "site \<Rightarrow> bool" where
  "cacheable site \<longleftrightarrow> \<not> s_tcp_only site \<and> \<not> s_passthrough site \<and>
     (starts_with (lower (o_url (s_primary_origin site))) ''http:'' \<or>
      starts_with (lower (o_url (s_primary_origin site))) ''https:'')"

definition needsTLS :: "site \<Rightarrow> bool" where
  "needsTLS site \<longleftrightarrow> s_domains site \<noteq> [] \<or> list_ex f_listen_tls (s_tcp_forwards site)"

definition site_publish_task :: "site \<Rightarrow> publish_status option \<Rightarrow> publish_status option \<Rightarrow> deployment_task option" where
  "site_publish_task site publish deletion =
     (if s_deleting site then Option.bind deletion ps_task else Option.bind publish ps_task)"

definition operation_nodes :: "site \<Rightarrow> publish_status option \<Rightarrow> publish_status option \<Rightarrow> publish_node list" where
  "operation_nodes site publish deletion =
     (case (if s_deleting site then deletion else publish) of None \<Rightarrow> [] | Some p \<Rightarrow> ps_nodes p)"

definition certActive :: "tls_status option \<Rightarrow> bool" where
  "certActive tls \<longleftrightarrow> activeTask (Option.bind tls tls_certificate_task)"

definition showPublishTargets :: "site \<Rightarrow> publish_status option \<Rightarrow> publish_status option \<Rightarrow> bool" where
  "showPublishTargets site publish deletion \<longleftrightarrow>
     (let t = site_publish_task site publish deletion in
      taskMatchesCurrentSite t site \<and> operation_nodes site publish deletion \<noteq> [] \<and>
      (activeTask t \<or> map_option t_status t \<in> {Some Dep_partial, Some Dep_failed}))"

definition state_rows :: "site \<Rightarrow> tls_status option \<Rightarrow> publish_status option \<Rightarrow> publish_status option \<Rightarrow> 'e view list" where
  "state_rows site tls publish deletion =
     (let t = site_publish_task site publish deletion;
          visible = (if taskMatchesCurrentSite t site then t else None);
          n = nat_str (length (s_node_ids site))
      in [OperationState [Zh ''publication''] visible
            (if s_published site then [Zh ''published'']
             else [Zh ''unpublished changes, target '', Raw n, Zh '' nodes'']) None
            (if s_published site \<and> map_option t_status visible = Some Dep_succeeded
             then Some [Zh ''the current configuration is published to '', Raw n, Zh '' edges''] else None)] @
         only_if (needsTLS site)
           [OperationState [Raw ''TLS''] (Option.bind tls tls_certificate_task) [Zh ''not issued'']
              (case tls of None \<Rightarrow> None
               | Some x \<Rightarrow> if tls_published_after_certificate x then Some [Zh ''deployed''] else None) None])"

definition assigned_rows :: "node list \<Rightarrow> site \<Rightarrow> nat \<Rightarrow> (int \<Rightarrow> 'e) \<Rightarrow> 'e view list" where
  "assigned_rows nodes site page turn =
     (let assigned = assignedNodes nodes site; pagination = useListPagination assigned LIST_PAGE_SIZE page in
      [Txt [Zh ''node assignment''],
       Txt [Zh (if s_published site then ''nodes in service'' else ''nodes to publish to''),
            Raw (nat_str (length (s_node_ids site)))],
       (if s_published site then StatusBadge ''succeeded'' (Some [Zh ''published''])
        else StatusBadge ''pending'' (Some [Zh ''to be published'']))] @
      (if assigned \<noteq> [] then
         map (\<lambda>n. Grp ''row'' ([Txt [Raw (an_name n)]] @
                only_if (truthy_str (an_publicIPv4 n)) [Txt [Raw (the (an_publicIPv4 n))]] @
                [case an_status n of Some st \<Rightarrow> StatusBadge (node_status_str st) None | None \<Rightarrow> Txt [Zh ''missing'']]))
           (pg_items pagination) @
         only_if (20 < length assigned) [ListPagination pagination [Zh ''nodes''] False turn []]
       else [Txt [Zh ''no edge is assigned'']]))"

definition publish_targets ::
  "site \<Rightarrow> publish_status option \<Rightarrow> publish_status option \<Rightarrow> nat \<Rightarrow> (int \<Rightarrow> 'e) \<Rightarrow> 'e view list" where
  "publish_targets site publish deletion page turn =
     (let pagination = useListPagination (operation_nodes site publish deletion) LIST_PAGE_SIZE page in
      only_if (showPublishTargets site publish deletion)
        ([Txt [Zh (if s_deleting site then ''nodes of this deletion'' else ''nodes of this publication'')]] @
         map (\<lambda>n. Grp ''row'' [Txt [Raw (str_or (pn_node_name n) (pn_node_id n))],
                StatusBadge (publish_node_status_str (pn_status n)) None]) (pg_items pagination) @
         [ListPagination pagination [Zh ''nodes''] False turn []]))"

text \<open>The panel raises \<open>op p\<close> for an operation, \<open>allow\<close> and \<open>del\<close> for the two dialogs.\<close>

definition SiteOperations ::
  "site \<Rightarrow> node list \<Rightarrow> tls_status option \<Rightarrow> publish_status option \<Rightarrow> publish_status option \<Rightarrow> bool \<Rightarrow>
   nat \<Rightarrow> nat \<Rightarrow> (int \<Rightarrow> 'e) \<Rightarrow> (int \<Rightarrow> 'e) \<Rightarrow> (site_op \<Rightarrow> 'e) \<Rightarrow> 'e \<Rightarrow> 'e \<Rightarrow> 'e view" where
  "SiteOperations site nodes tls publish deletion pending page1 page2 turn1 turn2 op allow del =
     (let publishActive = activeTask (site_publish_task site publish deletion) in
      Grp ''card''
        ([Txt [Zh ''publication and operations''], Txt [Zh ''a saved configuration has to be published'']] @
         state_rows site tls publish deletion @
         [Grp ''nodes'' (assigned_rows nodes site page1 turn1)] @
         [Btn [Zh (if s_published site then ''publish again'' else ''publish the site'')]
            (s_deleting site \<or> pending \<or> publishActive) (op Publish)] @
         only_if (needsTLS site)
           [Btn [Zh ''issue TLS''] (s_deleting site \<or> pending \<or> certActive tls) (op Certificate)] @
         only_if (cacheable site)
           [Txt [Zh ''cache version'', Raw ''V'', Raw (formatNumber (Some (s_cache_generation site)))],
            Btn [Zh ''invalidate the whole cache''] (s_deleting site \<or> pending) (op InvalidateCache)] @
         [Btn [Zh ''origin allow-list''] (s_deleting site) allow] @
         publish_targets site publish deletion page2 turn2 @
         [Btn [Zh (if s_deleting site then ''view or retry the deletion'' else ''delete the site'')]
            (pending \<or> publishActive \<or> certActive tls) del]))"

section \<open>The allow-list of the origin\<close>

datatype assignment = Current | CurrentAndPublished | PublishedOnly

record allow_node =
  aln_node_id :: string
  aln_node_name :: ui_text
  aln_ipv4_cidr :: string
  aln_assignment :: assignment

record allowlist =
  alw_site_id :: string
  alw_ipv4_cidrs :: "string list"
  alw_nodes :: "allow_node list option"
  alw_note :: string

text \<open>The nodes the control plane names, or the bare addresses of an older one.\<close>

definition allow_entries :: "allowlist option \<Rightarrow> allow_node list" where
  "allow_entries data =
     (case data of
        None \<Rightarrow> []
      | Some a \<Rightarrow>
          (case alw_nodes a of
             Some (n # ns) \<Rightarrow> n # ns
           | _ \<Rightarrow> map (\<lambda>(i, cidr). \<lparr>aln_node_id = ''legacy-'' @ nat_str i, aln_node_name = [Zh ''edge node''],
                                 aln_ipv4_cidr = cidr, aln_assignment = Current\<rparr>)
                  (enumerate 0 (alw_ipv4_cidrs a))))"

definition currentNodes :: "allow_node list \<Rightarrow> allow_node list" where
  "currentNodes es = filter (\<lambda>n. aln_assignment n \<noteq> PublishedOnly) es"

definition pendingRemovalNodes :: "allow_node list \<Rightarrow> allow_node list" where
  "pendingRemovalNodes es = filter (\<lambda>n. aln_assignment n = PublishedOnly) es"

definition AllowlistNodeGroup :: "ui_text \<Rightarrow> allow_node list \<Rightarrow> ui_text \<Rightarrow> string \<Rightarrow> 'e view list" where
  "AllowlistNodeGroup title nodes label status =
     only_if (nodes \<noteq> [])
       (Txt title # map (\<lambda>n. Grp ''entry'' [Txt (aln_node_name n), Txt [Raw (aln_ipv4_cidr n)],
                              StatusBadge status (Some label)]) nodes)"

definition AllowlistDialog ::
  "bool \<Rightarrow> allowlist option \<Rightarrow> bool \<Rightarrow> nat \<Rightarrow> nat \<Rightarrow> (int \<Rightarrow> 'e) \<Rightarrow> (int \<Rightarrow> 'e) \<Rightarrow> 'e \<Rightarrow> 'e view list" where
  "AllowlistDialog is_open data loading page1 page2 turn1 turn2 close =
     (let entries = allow_entries data; cur = currentNodes entries; old = pendingRemovalNodes entries;
          p1 = useListPagination cur LIST_PAGE_SIZE page1; p2 = useListPagination old LIST_PAGE_SIZE page2
      in only_if is_open
        [Grp ''dialog''
          ([Txt [Zh ''allow-list of the origin firewall''], Txt [Zh ''addresses of the current and the outgoing nodes'']] @
           (if loading then [Txt [Zh ''loading...'']]
            else (if entries \<noteq> [] then
                    AllowlistNodeGroup [Zh ''nodes of the current configuration''] (pg_items p1)
                      [Zh ''current configuration''] ''succeeded'' @
                    only_if (20 < length cur) [ListPagination p1 [Zh ''nodes''] False turn1 []] @
                    only_if (old \<noteq> [])
                      (AllowlistNodeGroup [Zh ''removed after publication''] (pg_items p2)
                         [Zh ''kept for the transition''] ''pending'' @
                       only_if (20 < length old) [ListPagination p2 [Zh ''nodes''] False turn2 []])
                  else [EmptyState [Zh ''no address available''] None]) @
                 [Txt [Raw (case data of None \<Rightarrow> [] | Some a \<Rightarrow> alw_note a)]]) @
           [Btn [Zh ''done''] False close, Btn [Zh ''close''] False close])])"

definition no_domains :: "site \<Rightarrow> ui_text" where
  "no_domains site =
     (if js_join '', '' (s_domains site) = [] then [Zh ''no HTTP domain''] else [Raw (js_join '', '' (s_domains site))])"

section \<open>Laws\<close>

lemma fires_OperationState [simp]: "\<not> fires (OperationState l t f x d) e"
  by (auto simp: OperationState_def split: option.splits)

lemma state_rows_inert [simp]: "\<not> offers (state_rows site tls p d) e"
  by (auto simp: state_rows_def Let_def)

lemma offers_assigned_rows:
  "offers (assigned_rows nodes site page turn) e \<Longrightarrow> \<exists>k. e = turn k"
  by (auto simp: assigned_rows_def Let_def offers_map split: if_splits option.splits)

lemma offers_publish_targets:
  "offers (publish_targets site p d page turn) e \<Longrightarrow> \<exists>k. e = turn k"
  by (auto simp: publish_targets_def Let_def offers_map)

lemma fires_SiteOperations:
  assumes "fires (SiteOperations site nodes tls publish deletion pending p1 p2 turn1 turn2 op allow del) e"
  shows "(e = op Publish \<and> \<not> s_deleting site \<and> \<not> pending \<and> \<not> activeTask (site_publish_task site publish deletion))
    \<or> (e = op Certificate \<and> needsTLS site \<and> \<not> s_deleting site \<and> \<not> pending \<and> \<not> certActive tls)
    \<or> (e = op InvalidateCache \<and> cacheable site \<and> \<not> s_deleting site \<and> \<not> pending)
    \<or> (e = allow \<and> \<not> s_deleting site)
    \<or> (e = del \<and> \<not> pending \<and> \<not> activeTask (site_publish_task site publish deletion) \<and> \<not> certActive tls)
    \<or> (\<exists>k. e = turn1 k \<or> e = turn2 k)"
  using assms
  by (simp add: SiteOperations_def Let_def) (blast dest: offers_assigned_rows offers_publish_targets)

lemma number_after_digits:
  assumes "r = [] \<or> \<not> is_digit (hd r)"
  shows "number_after p (p @ nat_str n @ r) = Some (nat_str n, r)"
proof -
  have "takeWhile is_digit (nat_str n @ r) = nat_str n"
    using assms nat_str_digits by (cases r) (auto simp: takeWhile_append2)
  then show ?thesis by (simp add: number_after_def Let_def)
qed

lemma not_exact_applied: "map_of exact_details (applied_by @ s) = None"
  by (simp add: exact_details_def applied_by_def)

lemma exact_heads: "list_all (\<lambda>(k, v). k \<noteq> [] \<and> \<not> is_digit (hd k)) exact_details"
  by code_simp

lemma not_exact_digit: "s \<noteq> [] \<Longrightarrow> is_digit (hd s) \<Longrightarrow> map_of exact_details s = None"
proof (rule ccontr)
  assume s: "is_digit (hd s)" and "map_of exact_details s \<noteq> None"
  then obtain v where "(s, v) \<in> set exact_details" using map_of_SomeD by fastforce
  then have "case (s, v) of (k, v) \<Rightarrow> k \<noteq> [] \<and> \<not> is_digit (hd k)"
    using exact_heads [unfolded list_all_iff] by (rule_tac bspec)
  then have "\<not> is_digit (hd s)" by simp
  then show False using s by contradiction
qed

lemma number_after_other: "\<not> starts_with s p \<Longrightarrow> number_after p s = None"
  by (simp add: number_after_def)

lemma head_not_prefix: "s = c # r \<Longrightarrow> c \<noteq> d \<Longrightarrow> \<not> starts_with s (d # p)"
  by (auto simp: starts_with_iff)

lemma nat_str_head: "\<exists>c r. nat_str n = c # r \<and> is_digit c"
  using nat_str_digits [of "hd (nat_str n)" n] nat_str_not_Nil [of n] by (cases "nat_str n") auto

text \<open>
  The translation of a task's detail keeps its numbers and never hides a detail it does not know:
  the three sentences with counts are translated for all counts, and any detail that is neither one of
  them nor in the table is shown as it is.
\<close>

theorem localizeTaskDetail_counts:
  "localizeTaskDetail (Some (applied_by @ nat_str n @ active_nodes))
     = Some [Zh ''configuration applied by '', Raw (nat_str n), Zh '' affected edges online'']
   \<and> localizeTaskDetail (Some (applied_by @ nat_str n @ of_total @ nat_str m @ active_nodes))
     = Some [Zh ''configuration applied by '', Raw (nat_str n), Raw ''/'', Raw (nat_str m), Zh '' affected edges online'']
   \<and> localizeTaskDetail (Some (nat_str n @ not_applied))
     = Some [Raw (nat_str n), Zh '' affected edges did not apply the configuration'']
   \<and> (map_of exact_details d = None \<and> match_applied d = None \<and> match_applied_of d = None \<and>
        match_not_applied d = None \<and> d \<noteq> [] \<longrightarrow> localizeTaskDetail (Some d) = Some [Raw d])"
proof -
  obtain c r where c: "nat_str n = c # r" "is_digit c" using nat_str_head by blast
  have nd: "\<not> is_digit (hd active_nodes)" "\<not> is_digit (hd not_applied)" "\<not> is_digit (hd (of_total @ s))"
    and nn: "applied_by \<noteq> []" "of_total @ s \<noteq> active_nodes" for s
    by (simp_all add: is_digit_def active_nodes_def not_applied_def of_total_def applied_by_def)
  have "c \<noteq> CHR ''c''" using c by (auto simp: is_digit_def)
  then have "\<not> starts_with (nat_str n @ not_applied) (CHR ''c'' # tl applied_by)"
    using c by (intro head_not_prefix [of _ c "r @ not_applied"]) simp_all
  then have "number_after applied_by (nat_str n @ not_applied) = None"
    by (intro number_after_other) (simp add: applied_by_def)
  moreover have "number_after applied_by (applied_by @ nat_str n @ active_nodes) = Some (nat_str n, active_nodes)"
    "number_after applied_by (applied_by @ nat_str n @ of_total @ nat_str m @ active_nodes)
      = Some (nat_str n, of_total @ nat_str m @ active_nodes)"
    "number_after of_total (of_total @ nat_str m @ active_nodes) = Some (nat_str m, active_nodes)"
    "number_after [] ([] @ nat_str n @ not_applied) = Some (nat_str n, not_applied)"
    by (rule number_after_digits, simp add: nd)+
  moreover have "map_of exact_details (nat_str n @ not_applied) = None"
    by (rule not_exact_digit) (simp_all add: c)
  ultimately show ?thesis
    by (simp add: localizeTaskDetail_def Let_def not_exact_applied match_applied_def match_applied_of_def
        match_not_applied_def nn)
qed

theorem localizeTaskDetail_counts_witness:
  "localizeTaskDetail (Some (nat_str 2 @ not_applied))
     = Some [Raw (nat_str 2), Zh '' affected edges did not apply the configuration''] \<and>
   localizeTaskDetail (Some ''other'') = Some [Raw ''other'']"
proof -
  have "map_of exact_details ''other'' = None" "match_applied ''other'' = None" "match_applied_of ''other'' = None"
    "match_not_applied ''other'' = None"
    by code_simp+
  then show ?thesis using localizeTaskDetail_counts [where d = "''other''" and n = 2] by simp
qed

text \<open>
  The allow-list dialog shows every address the origin has to admit, each in exactly one of its two
  groups, also when the control plane only sends bare addresses.
\<close>

theorem allowlist_partition:
  "mset (currentNodes (allow_entries d)) + mset (pendingRemovalNodes (allow_entries d)) = mset (allow_entries d)
   \<and> set (currentNodes (allow_entries d)) \<inter> set (pendingRemovalNodes (allow_entries d)) = {}
   \<and> (\<forall>a. d = Some a \<and> (alw_nodes a = None \<or> alw_nodes a = Some []) \<longrightarrow>
        map aln_ipv4_cidr (currentNodes (allow_entries d)) = alw_ipv4_cidrs a)"
proof (intro conjI allI impI)
  show "mset (currentNodes (allow_entries d)) + mset (pendingRemovalNodes (allow_entries d)) = mset (allow_entries d)"
    by (simp add: currentNodes_def pendingRemovalNodes_def union_filter_mset_complement)
  show "set (currentNodes (allow_entries d)) \<inter> set (pendingRemovalNodes (allow_entries d)) = {}"
    by (auto simp: currentNodes_def pendingRemovalNodes_def)
  fix a assume a: "d = Some a \<and> (alw_nodes a = None \<or> alw_nodes a = Some [])"
  let ?mk = "\<lambda>(i, cidr). \<lparr>aln_node_id = ''legacy-'' @ nat_str i, aln_node_name = [Zh ''edge node''],
                                 aln_ipv4_cidr = cidr, aln_assignment = Current\<rparr>"
  have e: "allow_entries d = map ?mk (enumerate 0 (alw_ipv4_cidrs a))"
    using a by (auto simp: allow_entries_def)
  have "currentNodes (map ?mk xs) = map ?mk xs" for xs
    by (induction xs) (auto simp: currentNodes_def)
  then show "map aln_ipv4_cidr (currentNodes (allow_entries d)) = alw_ipv4_cidrs a"
    by (simp add: e case_prod_beta' comp_def)
qed

theorem allowlist_partition_witness:
  "map aln_ipv4_cidr (currentNodes (allow_entries (Some \<lparr>alw_site_id = ''s'', alw_ipv4_cidrs = [''192.0.2.1/32''],
     alw_nodes = None, alw_note = []\<rparr>))) = [''192.0.2.1/32'']"
  using allowlist_partition [of "Some \<lparr>alw_site_id = ''s'', alw_ipv4_cidrs = [''192.0.2.1/32''], alw_nodes = None, alw_note = []\<rparr>"]
  by simp

text \<open>A finished task is taken for the state of an unpublished site only if it is not older than the site.\<close>

lemma stale_task_hidden:
  assumes "\<not> s_deleting site" "\<not> s_published site" "\<not> activeTask (Some t)"
    "js_date_parse (t_created_at t) = Some c" "js_date_parse (s_updated_at site) = Some u"
  shows "taskMatchesCurrentSite (Some t) site \<longleftrightarrow> u \<le> c"
  using assms by (simp add: taskMatchesCurrentSite_def)

end
