(* ===== verification/Sites.thy ===== *)
theory Sites
  imports SiteTasks
begin

text \<open>
  The list of sites (frontend/src/features/sites/sites-page.tsx): the query of the sites, the publication status
  each row asks for, and the page shown.
\<close>

section \<open>State\<close>

text \<open>The rows' own queries are one function of the site's id.\<close>

record sites_page =
  sl_query :: "site list query"
  sl_publish :: "string \<Rightarrow> publish_status option"
  sl_page :: nat

datatype sites_event =
    SitesPageTo int | RefreshSites | AddSite | ManageSite string
  | SitesArrive "site list query" | PublishArrives string "publish_status option"

section \<open>The view\<close>

definition url_scheme :: "string \<Rightarrow> string" where
  "url_scheme url = lower (takeWhile (\<lambda>c. c \<noteq> CHR '':'') url)"

definition siteProtocol :: "site \<Rightarrow> string" where
  "siteProtocol site =
     (if s_tcp_only site then ''TCP / TLS''
      else if s_tcp_forwards site \<noteq> [] then ''HTTP + TCP''
      else (let scheme = url_scheme (o_url (s_primary_origin site)) in
        if scheme = ''grpc'' \<or> scheme = ''grpcs'' then ''gRPC''
        else if scheme = ''ws'' \<or> scheme = ''wss'' then ''WebSocket''
        else ''HTTP / WS / SSE''))"

definition SiteStatus :: "site \<Rightarrow> publish_status option \<Rightarrow> 'e view" where
  "SiteStatus site publish =
     (if s_deleting site then StatusBadge ''applying'' (Some [Zh ''deleting''])
      else if \<not> s_enabled site then StatusBadge ''pending'' (Some [Zh ''disabled''])
      else (case Option.bind publish ps_task of
              Some t \<Rightarrow> StatusBadge (deployment_status_str (t_status t)) None
            | None \<Rightarrow> if s_published site then StatusBadge ''succeeded'' (Some [Zh ''published''])
                      else StatusBadge ''pending'' (Some [Zh ''to be published''])))"

definition site_row :: "(string \<Rightarrow> publish_status option) \<Rightarrow> site \<Rightarrow> sites_event view" where
  "site_row publish site = Grp ''row''
     [Txt [Raw (s_name site)], Txt (no_domains site), Txt [Raw (siteProtocol site)],
      Txt [Raw (formatNumber (Some (int (length (s_node_ids site)))))],
      Txt [Raw ''V'', Raw (formatNumber (Some (s_config_version site)))],
      SiteStatus site (publish (s_id site)), Txt (formatDateTime (Some (s_updated_at site))),
      Lnk (''/sites/'' @ encodeURIComponent (s_id site))
        [Btn [Zh ''manage '', Raw (s_name site)] False (ManageSite (s_id site))]]"

definition sites_pagination :: "sites_page \<Rightarrow> site pagination" where
  "sites_pagination s = useListPagination (nullish (q_data (sl_query s)) []) LIST_PAGE_SIZE (sl_page s)"

definition SitesPage :: "sites_page \<Rightarrow> sites_event view list" where
  "SitesPage p =
     (let q = sl_query p; pagination = sites_pagination p in
      [PageHeader [Zh ''sites''] (Some [Zh ''domains, origins, edges and publication'']) [Lnk ''/sites/new'' [Btn [Zh ''add a site''] False AddSite]]] @
      only_if (q_loading q) [PageLoading 4] @
      (case q_error q of None \<Rightarrow> [] | Some e \<Rightarrow> [PageError [Zh ''loading failed''] e]) @
      (case q_data q of
         None \<Rightarrow> []
       | Some [] \<Rightarrow> [EmptyState [Zh ''no sites''] (Some [Zh ''create a site, then configure domains, origins and edges''])]
       | Some (s # ss) \<Rightarrow>
           map (site_row (sl_publish p)) (pg_items pagination) @
           [ListPagination pagination [Zh ''sites''] False SitesPageTo [Btn [Zh ''refresh the sites''] False RefreshSites]]))"

section \<open>Handlers\<close>

fun sites_step :: "(sites_event, sites_page) component" where
  "sites_step (SitesPageTo k) s = (s\<lparr>sl_page := setPage (sites_pagination s) k\<rparr>, [])"
| "sites_step RefreshSites s = (s, [Refetch [''sites'']])"
| "sites_step AddSite s = (s, [Navigate ''/sites/new'' False])"
| "sites_step (ManageSite i) s = (s, [Navigate (''/sites/'' @ encodeURIComponent i) False])"
| "sites_step (SitesArrive q) s = (s\<lparr>sl_query := q\<rparr>, [])"
| "sites_step (PublishArrives i p) s = (s\<lparr>sl_publish := (sl_publish s)(i := p)\<rparr>, [])"

fun sites_enabled :: "sites_page \<Rightarrow> sites_event \<Rightarrow> bool" where
  "sites_enabled s (SitesArrive q) \<longleftrightarrow> True"
| "sites_enabled s (PublishArrives i p) \<longleftrightarrow> True"
| "sites_enabled s e \<longleftrightarrow> offers (SitesPage s) e"

definition sites_init :: "site list query \<Rightarrow> (string \<Rightarrow> publish_status option) \<Rightarrow> sites_page" where
  "sites_init q publish = \<lparr>sl_query = q, sl_publish = publish, sl_page = 1\<rparr>"

section \<open>Laws\<close>

lemma SiteStatus_inert [simp]: "\<not> fires (SiteStatus site p) e"
  by (auto simp: SiteStatus_def split: option.splits)

lemma fires_site_row [view_simps]: "fires (site_row publish site) e \<longleftrightarrow> e = ManageSite (s_id site)"
  by (auto simp: site_row_def)

text \<open>Every site of the list can be opened, from exactly the page of the list that holds its row, and nothing else can.\<close>

lemma manage_offered:
  "offers (SitesPage s) (ManageSite i) \<longleftrightarrow> i \<in> s_id ` set (pg_items (sites_pagination s))"
  by (auto simp: SitesPage_def Let_def offers_map view_simps sites_pagination_def split: option.splits list.splits)

fun turns_page :: "sites_event \<Rightarrow> bool" where
  "turns_page (SitesPageTo k) \<longleftrightarrow> True"
| "turns_page e \<longleftrightarrow> False"

lemma pager_offered:
  assumes "q_data (sl_query s) = Some (x # xs)"
  shows "1 < pg_page (sites_pagination s) \<Longrightarrow> sites_enabled s (SitesPageTo (int (pg_page (sites_pagination s) - 1)))"
    and "pg_page (sites_pagination s) < pg_totalPages (sites_pagination s) \<Longrightarrow>
      sites_enabled s (SitesPageTo (int (pg_page (sites_pagination s) + 1)))"
  using assms by (auto simp: SitesPage_def Let_def of_nat_diff)

lemma sites_page_number:
  "1 \<le> sl_page s \<Longrightarrow> 1 \<le> pg_page (sites_pagination s) \<and> pg_page (sites_pagination s) \<le> pg_totalPages (sites_pagination s)"
  by (simp add: sites_pagination_def pagination_fields total_pages_def)

lemma turned_page:
  assumes "1 \<le> k" "k \<le> pg_totalPages (sites_pagination s)" "t = fst (sites_step (SitesPageTo (int k)) s)"
  shows "sl_query t = sl_query s" "pg_page (sites_pagination t) = k" "sl_page t = k"
    "pg_totalPages (sites_pagination t) = pg_totalPages (sites_pagination s)"
  using assms by (simp_all add: setPage_def sites_pagination_def pagination_fields)

lemma turns_reach:
  assumes "q_data (sl_query s) = Some (x # xs)" "1 \<le> sl_page s" "1 \<le> k" "k \<le> pg_totalPages (sites_pagination s)"
  shows "\<exists>es. list_all turns_page es \<and> possible sites_enabled sites_step es s \<and>
    sl_query (fst (run sites_step es s)) = sl_query s \<and> pg_page (sites_pagination (fst (run sites_step es s))) = k"
  using assms
proof (induction "nat \<bar>int k - int (pg_page (sites_pagination s))\<bar>" arbitrary: s)
  case 0
  then show ?case by (intro exI [of _ "[]"]) simp
next
  case (Suc d)
  let ?p = "pg_page (sites_pagination s)"
  define j where "j = (if k < ?p then ?p - 1 else ?p + 1)"
  have p: "1 \<le> ?p" "?p \<le> pg_totalPages (sites_pagination s)" using sites_page_number [OF Suc.prems(2)] by auto
  have j: "1 \<le> j" "j \<le> pg_totalPages (sites_pagination s)" "d = nat \<bar>int k - int j\<bar>"
    using p Suc.hyps(2) Suc.prems(3,4) by (auto simp: j_def split: if_splits)
  have en: "sites_enabled s (SitesPageTo (int j))"
    using pager_offered [OF Suc.prems(1)] p Suc.hyps(2) Suc.prems(3,4)
    by (auto simp: j_def simp del: sites_enabled.simps of_nat_add of_nat_Suc)
  let ?t = "fst (sites_step (SitesPageTo (int j)) s)"
  note t = turned_page [OF j(1,2) refl]
  obtain es where es: "list_all turns_page es" "possible sites_enabled sites_step es ?t"
    "sl_query (fst (run sites_step es ?t)) = sl_query ?t" "pg_page (sites_pagination (fst (run sites_step es ?t))) = k"
    using Suc.hyps(1) [of ?t] Suc.prems j t by (auto simp del: sites_step.simps)
  show ?case using es en t
    by (intro exI [of _ "SitesPageTo (int j) # es"]) (simp add: split_def Let_def del: sites_step.simps sites_enabled.simps)
qed

lemma item_on_a_page:
  assumes "x \<in> set items" "0 < len"
  shows "\<exists>k. 1 \<le> k \<and> k \<le> pg_totalPages (useListPagination items len 1) \<and> x \<in> set (pg_items (useListPagination items len k))"
proof -
  let ?ps = "map (\<lambda>r. pg_items (useListPagination items len r)) [1 ..< pg_totalPages (useListPagination items len 1) + 1]"
  have "x \<in> set (concat ?ps)" using assms pages_partition_lemma [of len items] by simp
  then show ?thesis by auto
qed

text \<open>
  C38. Every site can be opened from the list: whatever page of it is shown, pressing the pager's buttons, each
  enabled when it is pressed, leads to a page on which the site's link is offered.
\<close>

theorem every_site_listed:
  assumes "q_data (sl_query s) = Some sites" "x \<in> set sites" "1 \<le> sl_page s"
  shows "\<exists>es. list_all turns_page es \<and> possible sites_enabled sites_step es s \<and>
    offers (SitesPage (fst (run sites_step es s))) (ManageSite (s_id x))"
proof -
  obtain k where k: "1 \<le> k" "k \<le> pg_totalPages (sites_pagination s)"
    "x \<in> set (pg_items (useListPagination sites LIST_PAGE_SIZE k))"
    using item_on_a_page [OF assms(2), of LIST_PAGE_SIZE] assms(1)
    by (auto simp: sites_pagination_def pagination_fields LIST_PAGE_SIZE_def)
  obtain y ys where "q_data (sl_query s) = Some (y # ys)" using assms(1,2) by (cases sites) auto
  then obtain es where es: "list_all turns_page es" "possible sites_enabled sites_step es s"
    "sl_query (fst (run sites_step es s)) = sl_query s" "pg_page (sites_pagination (fst (run sites_step es s))) = k"
    using turns_reach [OF _ assms(3) k(1,2)] by blast
  let ?t = "fst (run sites_step es s)"
  have "pg_items (sites_pagination ?t) = pg_items (useListPagination sites LIST_PAGE_SIZE k)"
    using es(3,4) k(2) assms(1) by (simp add: sites_pagination_def pagination_fields)
  then have "offers (SitesPage ?t) (ManageSite (s_id x))" using k(3) by (simp add: manage_offered)
  then show ?thesis using es(1,2) by blast
qed

theorem every_site_listed_witness:
  "\<exists>es. offers (SitesPage (fst (run sites_step es (sites_init \<lparr>q_data = Some [sample_site], q_error = None\<rparr> (\<lambda>i. None)))))
     (ManageSite ''s1'')"
proof -
  let ?s = "sites_init \<lparr>q_data = Some [sample_site], q_error = None\<rparr> (\<lambda>i. None)"
  have "q_data (sl_query ?s) = Some [sample_site]" "1 \<le> sl_page ?s" by (simp_all add: sites_init_def)
  from every_site_listed [OF this(1) _ this(2), of sample_site] show ?thesis by (auto simp: sample_site_def)
qed

interpretation sites_session: silent_page sites_enabled sites_step
proof
  show "f \<in> set (snd (sites_step e s)) \<Longrightarrow> \<not> is_send f \<and> f \<noteq> DispatchUnauthorized" for f e s
    by (cases e) auto
qed

end
