(* ===== verification/SitePage.thy ===== *)
theory SitePage
  imports SiteTasks
begin

text \<open>
  The page of one site (\<open>SiteDetailPage\<close> in frontend/src/features/sites/site-detail-page.tsx) as a state
  machine: its local state, the data of its queries, its three mutations, its two effects, its dialogs.
  A step handles one event and then runs the effects whose dependencies changed, as React does after
  the render.
\<close>

section \<open>State\<close>

record site_env =
  se_siteId :: "string option"
  se_csrf :: string
  se_sites :: "site list query"
  se_nodes :: "node list query"
  se_settings :: "settings query"
  se_tls :: "tls_status option"
  se_publish :: "publish_status option"
  se_deletion :: "publish_status option"
  se_allowlist :: "allowlist option"
  se_allowLoading :: bool

record site_page =
  sg_env :: site_env
  sg_draft :: site_draft
  sg_baseline :: string
  sg_loadedKey :: string
  sg_discardOpen :: bool
  sg_deleteOpen :: bool
  sg_deleteText :: string
  sg_allowlistOpen :: bool
  sg_save :: bool
  sg_operation :: "site_op option"
  sg_delete :: bool
  sg_pages :: "nat list"

text \<open>Values the component derives at each render.\<close>

definition isNew :: "site_page \<Rightarrow> bool" where
  "isNew s \<longleftrightarrow> \<not> truthy_str (se_siteId (sg_env s))"

definition page_site :: "site_page \<Rightarrow> site option" where
  "page_site s = find (\<lambda>x. Some (s_id x) = se_siteId (sg_env s)) (nullish (q_data (se_sites (sg_env s))) [])"

definition globalTTL :: "site_page \<Rightarrow> int" where
  "globalTTL s = (case q_data (se_settings (sg_env s)) of None \<Rightarrow> 60 | Some x \<Rightarrow> dns_default_ttl_seconds (set_dns x))"

definition dirty :: "site_page \<Rightarrow> bool" where
  "dirty s \<longleftrightarrow> sg_baseline s \<noteq> [] \<and> draft_text (sg_draft s) \<noteq> sg_baseline s"

definition encodedID :: "site_page \<Rightarrow> string" where
  "encodedID s = encodeURIComponent (nullish (se_siteId (sg_env s)) [])"

definition page_loading :: "site_page \<Rightarrow> bool" where
  "page_loading s \<longleftrightarrow> q_loading (se_sites (sg_env s)) \<or> q_loading (se_nodes (sg_env s)) \<or>
     q_loading (se_settings (sg_env s)) \<or> sg_loadedKey s = []"

definition deletion_status :: "site_page \<Rightarrow> deployment_status option" where
  "deletion_status s = map_option t_status (Option.bind (se_deletion (sg_env s)) ps_task)"

section \<open>Requests\<close>

definition site_path :: "site_page \<Rightarrow> string" where
  "site_path s = ''/api/sites/'' @ encodedID s"

definition save_request :: "site_page \<Rightarrow> request" where
  "save_request s =
     api_request (se_csrf (sg_env s)) (if isNew s then ''/api/sites'' else site_path s)
       (json_init (if isNew s then ''POST'' else ''PUT'') (payload_json (sitePayload (sg_draft s))))"

fun op_suffix :: "site_op \<Rightarrow> string" where
  "op_suffix Publish = ''/publish''"
| "op_suffix Certificate = ''/certificate''"
| "op_suffix InvalidateCache = ''/invalidate-cache''"

definition op_request :: "site_op \<Rightarrow> site_page \<Rightarrow> request" where
  "op_request p s = api_request (se_csrf (sg_env s)) (site_path s @ op_suffix p) (method_init ''POST'')"

definition delete_request :: "site_page \<Rightarrow> request" where
  "delete_request s =
     api_request (se_csrf (sg_env s)) (site_path s)
       (json_init ''DELETE'' (JObject (case page_site s of None \<Rightarrow> []
          | Some x \<Rightarrow> [(''confirmation'', JString (s_name x))])))"

section \<open>Events and handlers\<close>

datatype site_event =
    SetDraft site_draft
  | TurnPage nat int
  | Submit
  | GoBack
  | Op site_op
  | OpenAllow | CloseAllow
  | OpenDelete | CloseDelete | TypeDelete string | ConfirmDelete
  | CloseDiscard | TypeDiscard string | ConfirmDiscard
  | SaveArrives "js_error + site"
  | OpArrives "js_error + deployment_task"
  | DeleteArrives "js_error + publish_status"
  | DataArrives site_env

text \<open>The updater of the cached list: replace the site of that identifier, or append.\<close>

definition upsert_site :: "site \<Rightarrow> site list \<Rightarrow> site list" where
  "upsert_site saved current =
     (if \<not> list_ex (\<lambda>x. s_id x = s_id saved) current then current @ [saved]
      else map (\<lambda>x. if s_id x = s_id saved then saved else x) current)"

definition cache_site :: "site \<Rightarrow> site_env \<Rightarrow> site_env" where
  "cache_site saved en = en\<lparr>se_sites := (se_sites en)\<lparr>q_data := map_option (upsert_site saved) (q_data (se_sites en))\<rparr>\<rparr>"

definition opt_key :: "string option \<Rightarrow> string list" where
  "opt_key x = (case x of None \<Rightarrow> [] | Some i \<Rightarrow> [i])"

text \<open>
  For a new site the page also navigates to the site's own route; React and the router apply that in the
  same batch as the other updates, so the effects already see the new identifier.
\<close>

definition save_succeeded :: "site \<Rightarrow> site_page \<Rightarrow> site_page \<times> effect list" where
  "save_succeeded saved s =
     (let d = draftFromSite saved (globalTTL s) in
      (s\<lparr>sg_save := False, sg_draft := d, sg_baseline := draft_text d, sg_loadedKey := s_id saved,
         sg_env := (cache_site saved (sg_env s))\<lparr>se_siteId :=
           (if isNew s then Some (s_id saved) else se_siteId (sg_env s))\<rparr>\<rparr>,
       [Invalidate [''sites''], Invalidate [''site-publish'', s_id saved], Invalidate [''site-allowlist'', s_id saved],
        ToastSuccess [Zh (if isNew s then ''site created'' else ''site configuration saved'')]] @
       only_if (isNew s) [Navigate (''/sites/'' @ encodeURIComponent (s_id saved)) True]))"

definition op_toast :: "site_op \<Rightarrow> ui_text" where
  "op_toast p = [Zh (case p of Certificate \<Rightarrow> ''TLS issuance queued'' | InvalidateCache \<Rightarrow> ''cache invalidation published''
                     | Publish \<Rightarrow> ''publication started'')]"

definition op_succeeded :: "site_page \<Rightarrow> site_page \<times> effect list" where
  "op_succeeded s =
     (s\<lparr>sg_operation := None\<rparr>,
      [ToastSuccess (case sg_operation s of None \<Rightarrow> [] | Some p \<Rightarrow> op_toast p),
       Invalidate (''site-tls'' # opt_key (se_siteId (sg_env s))),
       Invalidate (''site-publish'' # opt_key (se_siteId (sg_env s))), Invalidate [''sites'']])"

definition delete_succeeded :: "publish_status \<Rightarrow> site_page \<Rightarrow> site_page \<times> effect list" where
  "delete_succeeded st s =
     (s\<lparr>sg_delete := False, sg_deleteOpen := False, sg_deleteText := [],
        sg_env := (sg_env s)\<lparr>se_deletion := Some st\<rparr>\<rparr>,
      [Invalidate [''sites''], ToastSuccess [Zh ''safe deletion started'']])"

definition turn_page :: "site_page \<Rightarrow> nat \<Rightarrow> int \<Rightarrow> nat" where
  "turn_page s i k =
     (let en = sg_env s; nodes = nullish (q_data (se_nodes en)) [];
          total = (\<lambda>n. total_pages n LIST_PAGE_SIZE);
          n = (if i = 0 then length (filter selectable_node nodes)
               else if i = 1 then length (dr_tcp_forwards (sg_draft s))
               else if i = 2 then (case page_site s of None \<Rightarrow> 0 | Some x \<Rightarrow> length (s_node_ids x))
               else if i = 3 then (case page_site s of None \<Rightarrow> 0
                                   | Some x \<Rightarrow> length (operation_nodes x (se_publish en) (se_deletion en)))
               else if i = 4 then length (currentNodes (allow_entries (se_allowlist en)))
               else length (pendingRemovalNodes (allow_entries (se_allowlist en))))
      in nat (max 1 (min k (int (total n)))))"

definition failed :: "site_page \<Rightarrow> js_error \<Rightarrow> site_page \<times> effect list" where
  "failed s e = (s, [ToastError (errorMessage e)])"

fun site_handle :: "site_event \<Rightarrow> site_page \<Rightarrow> site_page \<times> effect list" where
  "site_handle (SetDraft d) s = (s\<lparr>sg_draft := d\<rparr>, [])"
| "site_handle (TurnPage i k) s = (s\<lparr>sg_pages := (sg_pages s)[i := turn_page s i k]\<rparr>, [])"
| "site_handle Submit s = (s\<lparr>sg_save := True\<rparr>, [Send (save_request s)])"
| "site_handle GoBack s = (if dirty s then (s\<lparr>sg_discardOpen := True\<rparr>, []) else (s, [Navigate ''/sites'' False]))"
| "site_handle (Op p) s = (s\<lparr>sg_operation := Some p\<rparr>, [Send (op_request p s)])"
| "site_handle OpenAllow s = (s\<lparr>sg_allowlistOpen := True\<rparr>, [])"
| "site_handle CloseAllow s = (s\<lparr>sg_allowlistOpen := False\<rparr>, [])"
| "site_handle OpenDelete s = (s\<lparr>sg_deleteOpen := True\<rparr>, [])"
| "site_handle CloseDelete s = (s\<lparr>sg_deleteOpen := False, sg_deleteText := []\<rparr>, [])"
| "site_handle (TypeDelete v) s = (s\<lparr>sg_deleteText := v\<rparr>, [])"
| "site_handle ConfirmDelete s = (s\<lparr>sg_delete := True\<rparr>, [Send (delete_request s)])"
| "site_handle CloseDiscard s = (s\<lparr>sg_discardOpen := False\<rparr>, [])"
| "site_handle (TypeDiscard v) s = (s, [])"
| "site_handle ConfirmDiscard s = (s, [Navigate ''/sites'' False])"
| "site_handle (SaveArrives res) s = settle res (\<lambda>v. save_succeeded v s) (failed (s\<lparr>sg_save := False\<rparr>))"
| "site_handle (OpArrives res) s = settle res (\<lambda>_. op_succeeded s) (failed (s\<lparr>sg_operation := None\<rparr>))"
| "site_handle (DeleteArrives res) s = settle res (\<lambda>v. delete_succeeded v s) (failed (s\<lparr>sg_delete := False\<rparr>))"
| "site_handle (DataArrives en) s = (s\<lparr>sg_env := en\<rparr>, [])"

text \<open>The effect that loads the form once its site, or the settings for a new one, are there.\<close>

definition load_effect :: "site_page \<Rightarrow> site_page" where
  "load_effect s =
     (if q_loading (se_settings (sg_env s)) then s
      else (let key = (if isNew s then ''new'' else (case page_site s of None \<Rightarrow> [] | Some x \<Rightarrow> s_id x)) in
        if key = [] \<or> key = sg_loadedKey s then s
        else (let d = (case page_site s of Some x \<Rightarrow> draftFromSite x (globalTTL s) | None \<Rightarrow> emptyDraft (globalTTL s))
              in s\<lparr>sg_draft := d, sg_baseline := draft_text d, sg_loadedKey := key\<rparr>)))"

text \<open>The effect that leaves the page of a site once its deletion has succeeded.\<close>

definition deletion_effect :: "site_page \<Rightarrow> site_page \<Rightarrow> effect list" where
  "deletion_effect before after =
     (if deletion_status after = Some Dep_succeeded \<and> deletion_status before \<noteq> deletion_status after
      then [ToastSuccess [Zh ''the site was deleted safely''], Invalidate [''sites''], Navigate ''/sites'' True]
      else [])"

definition site_step :: "(site_event, site_page) component" where
  "site_step e s = (let (s1, fx) = site_handle e s in (load_effect s1, fx @ deletion_effect s s1))"

definition site_init :: "site_env \<Rightarrow> site_page" where
  "site_init en =
     load_effect \<lparr>sg_env = en, sg_draft = emptyDraft 60, sg_baseline = [], sg_loadedKey = [],
        sg_discardOpen = False, sg_deleteOpen = False, sg_deleteText = [], sg_allowlistOpen = False,
        sg_save = False, sg_operation = None, sg_delete = False, sg_pages = replicate 6 1\<rparr>"

section \<open>The page\<close>

definition Fact :: "ui_text \<Rightarrow> ui_text \<Rightarrow> 'e view" where
  "Fact label v = Grp ''fact'' [Txt label, Txt v]"

definition forward_ports :: "site_draft \<Rightarrow> ui_text" where
  "forward_ports d =
     (if dr_tcp_forwards d = [] then [Zh ''not configured'']
      else [Raw (js_join '', '' (map (\<lambda>f. if f_listen_port f = 0 then ''--'' else int_str (f_listen_port f)) (dr_tcp_forwards d)))])"

definition summary_card :: "site_page \<Rightarrow> site_event view list" where
  "summary_card s =
     (let d = sg_draft s in
      [Txt [Zh ''summary''], Txt [Zh (if dirty s then ''unsaved changes'' else ''in step with the configuration'')],
       Fact [Zh ''traffic mode''] (if dr_tcp_only d then [Zh ''TCP / TLS only'']
         else if dr_tcp_forwards d \<noteq> [] then [Raw ''HTTP + TCP''] else [Raw ''HTTP / gRPC / WS'']),
       Fact [Zh ''edges''] [Raw (nat_str (length (dr_node_ids d)))],
       Fact [Raw ''DNS TTL''] (if dr_inherit_dns_ttl d then [Raw (int_str (globalTTL s)), Zh '' seconds (global)'']
         else [Raw (int_str (dr_dns_ttl_seconds d)), Zh '' seconds'']),
       Fact [Zh ''TCP ports''] (forward_ports d)])"

definition site_form :: "site_page \<Rightarrow> site_event view" where
  "site_form s =
     (let en = sg_env s; d = sg_draft s; nodes = nullish (q_data (se_nodes en)) [];
          pg = (\<lambda>i. sg_pages s ! i);
          deleting = (case page_site s of None \<Rightarrow> False | Some x \<Rightarrow> s_deleting x)
      in Form
           (only_if deleting
              [Txt [Zh ''the site is being deleted''],
               Txt (case Option.bind (Option.bind (se_deletion en) ps_task) t_detail of
                      Some t \<Rightarrow> if t \<noteq> [] then [Raw t] else [Zh ''locked, withdrawing DNS and waiting for the edges'']
                    | None \<Rightarrow> [Zh ''locked, withdrawing DNS and waiting for the edges''])] @
            [BasicSettings d SetDraft, TrafficSettings d SetDraft,
             NodeSelector nodes (dr_node_ids d) (pg 0) (\<lambda>ids. SetDraft (d\<lparr>dr_node_ids := ids\<rparr>)) (TurnPage 0),
             TCPForwards d SetDraft (pg 1) (TurnPage 1)] @
            summary_card s @
            (case page_site s of
               None \<Rightarrow> []
             | Some x \<Rightarrow> [SiteOperations x nodes (se_tls en) (se_publish en) (se_deletion en) (sg_operation s \<noteq> None)
                           (pg 2) (pg 3) (TurnPage 2) (TurnPage 3) Op OpenAllow OpenDelete]))
           [Zh (if isNew s then ''create the site'' else ''save the changes'')] (sg_save s \<or> deleting) Submit)"

definition first_error :: "site_env \<Rightarrow> js_error option" where
  "first_error en =
     (case q_error (se_sites en) of Some e \<Rightarrow> Some e
      | None \<Rightarrow> (case q_error (se_nodes en) of Some e \<Rightarrow> Some e | None \<Rightarrow> q_error (se_settings en)))"

definition SiteDetailPage :: "site_page \<Rightarrow> site_event view list" where
  "SiteDetailPage s =
     (let en = sg_env s; site = page_site s; nm = map_option s_name site;
          deleting = (case site of None \<Rightarrow> False | Some x \<Rightarrow> s_deleting x)
      in [PageHeader (if isNew s then [Zh ''add a site''] else (case site of None \<Rightarrow> [Zh ''site configuration''] | Some x \<Rightarrow> [Raw (s_name x)]))
            (Some (case site of None \<Rightarrow> [Zh ''create a new edge site''] | Some x \<Rightarrow> no_domains x @ [Zh '' (middle dot) '', Raw (s_id x)]))
            [Btn [Zh ''back to the sites''] False GoBack]] @
         only_if (page_loading s) [PageLoading 4] @
         (case first_error en of None \<Rightarrow> [] | Some e \<Rightarrow> [PageError [Zh ''loading failed''] e]) @
         only_if (\<not> isNew s \<and> q_data (se_sites en) \<noteq> None \<and> site = None)
           [EmptyState [Zh ''site not found''] (Some [Zh ''it may have been deleted''])] @
         only_if (\<not> page_loading s \<and> (isNew s \<or> site \<noteq> None)) [site_form s] @
         ConfirmDialog (sg_discardOpen s) [Zh ''discard the unsaved changes?''] [Zh ''the form has unsaved content'']
           [Zh ''discard''] None False [] TypeDiscard CloseDiscard ConfirmDiscard @
         ConfirmDialog (sg_deleteOpen s) [Zh (if deleting then ''retry the safe deletion'' else ''delete the site safely'')]
           [Zh ''DNS is withdrawn, every edge drops the configuration, certificates are removed'']
           [Zh (if deleting then ''retry the deletion'' else ''start the deletion'')] nm (sg_delete s) (sg_deleteText s)
           TypeDelete CloseDelete ConfirmDelete @
         AllowlistDialog (sg_allowlistOpen s) (se_allowlist en) (se_allowLoading en) (sg_pages s ! 4) (sg_pages s ! 5)
           (TurnPage 4) (TurnPage 5) CloseAllow)"

fun site_enabled :: "site_page \<Rightarrow> site_event \<Rightarrow> bool" where
  "site_enabled s (SaveArrives res) \<longleftrightarrow> sg_save s"
| "site_enabled s (OpArrives res) \<longleftrightarrow> sg_operation s \<noteq> None"
| "site_enabled s (DeleteArrives res) \<longleftrightarrow> sg_delete s"
| "site_enabled s (DataArrives en) \<longleftrightarrow> True"
| "site_enabled s e \<longleftrightarrow> offers (SiteDetailPage s) e"

inductive site_reach :: "site_page \<Rightarrow> bool" where
  mount: "site_reach (site_init en)"
| step: "site_reach s \<Longrightarrow> site_enabled s e \<Longrightarrow> site_reach (fst (site_step e s))"


section \<open>What can be raised on the page\<close>

lemma fires_OriginFields:
  "fires (OriginFields ti rq u h s f) e \<Longrightarrow> \<exists>u' h' s'. e = f u' h' s'"
  by (auto simp: OriginFields_def)

lemma fires_TrafficSettings:
  assumes "fires (TrafficSettings d ev) e"
  shows "\<exists>d'. e = ev d' \<and> dr_node_ids d' = dr_node_ids d \<and> dr_tcp_forwards d' = dr_tcp_forwards d"
proof -
  have o1: "\<exists>d'. e = ev d' \<and> dr_node_ids d' = dr_node_ids d \<and> dr_tcp_forwards d' = dr_tcp_forwards d"
    if "fires (OriginFields ti rq u h s (\<lambda>u h s. ev (d\<lparr>dr_primary_url := u, dr_primary_host := h, dr_primary_sni := s\<rparr>))) e"
    for ti rq u h s
    using fires_OriginFields [OF that] by fastforce
  have o2: "\<exists>d'. e = ev d' \<and> dr_node_ids d' = dr_node_ids d \<and> dr_tcp_forwards d' = dr_tcp_forwards d"
    if "fires (OriginFields ti rq u h s (\<lambda>u h s. ev (d\<lparr>dr_backup_url := u, dr_backup_host := h, dr_backup_sni := s\<rparr>))) e"
    for ti rq u h s
    using fires_OriginFields [OF that] by fastforce
  show ?thesis using assms
    by (simp add: TrafficSettings_def num_field_def) (elim disjE conjE exE imageE; (use o1 o2 in blast)?; fastforce)
qed

text \<open>What an edit of the form may do to the assignment of nodes and to the forwards.\<close>

definition edit_ok :: "node list \<Rightarrow> site_draft \<Rightarrow> site_draft \<Rightarrow> bool" where
  "edit_ok nodes d d' \<longleftrightarrow>
     (distinct (dr_node_ids d) \<longrightarrow> distinct (dr_node_ids d')) \<and>
     set (dr_node_ids d') \<subseteq> set (dr_node_ids d) \<union> n_id ` {n \<in> set nodes. selectable_node n} \<and>
     length (dr_tcp_forwards d') \<le> max 32 (length (dr_tcp_forwards d))"

lemma edit_ok_same:
  "dr_node_ids d' = dr_node_ids d \<Longrightarrow> length (dr_tcp_forwards d') \<le> max 32 (length (dr_tcp_forwards d)) \<Longrightarrow>
     edit_ok nodes d d'"
  by (auto simp: edit_ok_def)

lemma edit_ok_toggle:
  assumes "n \<in> set nodes" "selectable_node n"
  shows "edit_ok nodes d (d\<lparr>dr_node_ids := toggle_node (dr_node_ids d) (n_id n) (n_id n \<notin> set (dr_node_ids d))\<rparr>)"
  using assms filter_toggle_distinct [of "dr_node_ids d" "n_id n"]
  by (auto simp: edit_ok_def toggle_node_def split: if_splits)

definition form_nodes :: "site_page \<Rightarrow> node list" where
  "form_nodes s = nullish (q_data (se_nodes (sg_env s))) []"

definition op_guard :: "site_page \<Rightarrow> site_op \<Rightarrow> bool" where
  "op_guard s p \<longleftrightarrow>
     (\<exists>x. page_site s = Some x \<and> \<not> s_deleting x \<and> sg_operation s = None \<and>
        (p = Publish \<longrightarrow> \<not> activeTask (Option.bind (se_publish (sg_env s)) ps_task)) \<and>
        (p = Certificate \<longrightarrow> needsTLS x \<and> \<not> certActive (se_tls (sg_env s))) \<and>
        (p = InvalidateCache \<longrightarrow> cacheable x))"

definition delete_guard :: "site_page \<Rightarrow> bool" where
  "delete_guard s \<longleftrightarrow>
     (\<exists>x. page_site s = Some x \<and> sg_operation s = None \<and>
        \<not> activeTask (site_publish_task x (se_publish (sg_env s)) (se_deletion (sg_env s))) \<and>
        \<not> certActive (se_tls (sg_env s)))"

lemma inert_rows [simp]: "\<not> offers (summary_card s) e"
  by (simp add: summary_card_def Let_def Fact_def)

lemma fires_site_form:
  assumes "fires (site_form s) e"
  shows "(\<exists>d'. e = SetDraft d' \<and> edit_ok (form_nodes s) (sg_draft s) d') \<or> (\<exists>i k. e = TurnPage i k) \<or>
    (\<exists>p. e = Op p \<and> op_guard s p) \<or> e = OpenAllow \<or> (e = OpenDelete \<and> delete_guard s) \<or>
    (e = Submit \<and> \<not> sg_save s \<and> \<not> (case page_site s of None \<Rightarrow> False | Some x \<Rightarrow> s_deleting x))"
proof -
  let ?d = "sg_draft s" and ?en = "sg_env s"
  let ?ops = "\<lambda>x. SiteOperations x (form_nodes s) (se_tls ?en) (se_publish ?en) (se_deletion ?en) (sg_operation s \<noteq> None)
      (sg_pages s ! 2) (sg_pages s ! 3) (TurnPage 2) (TurnPage 3) Op OpenAllow OpenDelete"
  consider "fires (BasicSettings ?d SetDraft) e" | "fires (TrafficSettings ?d SetDraft) e"
    | "fires (NodeSelector (form_nodes s) (dr_node_ids ?d) (sg_pages s ! 0)
         (\<lambda>ids. SetDraft (?d\<lparr>dr_node_ids := ids\<rparr>)) (TurnPage 0)) e"
    | "fires (TCPForwards ?d SetDraft (sg_pages s ! 1) (TurnPage 1)) e"
    | x where "page_site s = Some x" "fires (?ops x) e"
    | "e = Submit \<and> \<not> sg_save s \<and> \<not> (case page_site s of None \<Rightarrow> False | Some x \<Rightarrow> s_deleting x)"
    using assms unfolding site_form_def Let_def form_nodes_def [symmetric]
    by (auto split: option.splits)
  then show ?thesis
  proof cases
    case 1
    then show ?thesis by (auto simp: view_simps intro!: edit_ok_same)
  next
    case 2
    then show ?thesis using fires_TrafficSettings [OF 2] by (auto intro!: edit_ok_same)
  next
    case 3
    then show ?thesis using fires_NodeSelector [OF 3] edit_ok_toggle [of _ "form_nodes s" ?d] by blast
  next
    case 4
    have "edit_ok (form_nodes s) ?d (add_forward ?d)" if "length (dr_tcp_forwards ?d) < 32"
      using that by (intro edit_ok_same) (simp_all add: add_forward_def)
    moreover have "edit_ok (form_nodes s) ?d (update_forward ?d i g)" for i g
      by (intro edit_ok_same) (simp_all add: update_forward_def)
    moreover have "edit_ok (form_nodes s) ?d (remove_forward ?d i)" for i
      using remove_forward_length [of ?d i] by (intro edit_ok_same) (simp_all add: remove_forward_def)
    ultimately show ?thesis using fires_TCPForwards [OF 4] by blast
  next
    case 5
    show ?thesis using fires_SiteOperations [OF 5(2)] 5(1)
      by (auto simp: op_guard_def delete_guard_def site_publish_task_def)
  next
    case 6
    then show ?thesis by blast
  qed
qed

lemma offers_AllowlistNodeGroup [simp]: "\<not> offers (AllowlistNodeGroup ti ns l st) e"
  by (auto simp: AllowlistNodeGroup_def offers_map)

lemma offers_AllowlistDialog:
  "offers (AllowlistDialog op d l p1 p2 t1 t2 c) e \<Longrightarrow> e = c \<or> (\<exists>k. e = t1 k \<or> e = t2 k)"
  by (auto simp: AllowlistDialog_def Let_def split: if_splits)

lemma offers_SiteDetailPage:
  assumes "offers (SiteDetailPage s) e"
  shows "e = GoBack \<or> fires (site_form s) e
    \<or> (sg_discardOpen s \<and> (e = CloseDiscard \<or> e = ConfirmDiscard))
    \<or> (sg_deleteOpen s \<and> ((\<exists>v. e = TypeDelete v) \<or> e = CloseDelete \<or>
         (e = ConfirmDelete \<and> \<not> sg_delete s \<and> confirm_allowed (map_option s_name (page_site s)) (sg_deleteText s))))
    \<or> e = CloseAllow \<or> (\<exists>i k. e = TurnPage i k)"
  using assms unfolding SiteDetailPage_def Let_def
  by (auto simp: offers_ConfirmDialog dest: offers_AllowlistDialog split: option.splits)

section \<open>Laws of the page\<close>

lemma load_effect_fields [simp]:
  "sg_env (load_effect s) = sg_env s" "sg_save (load_effect s) = sg_save s"
  "sg_operation (load_effect s) = sg_operation s" "sg_delete (load_effect s) = sg_delete s"
  "sg_deleteOpen (load_effect s) = sg_deleteOpen s" "sg_deleteText (load_effect s) = sg_deleteText s"
  by (simp_all add: load_effect_def Let_def)

lemma deletion_effect_no_send [simp]: "sends (deletion_effect a b) = 0" "Send r \<notin> set (deletion_effect a b)"
  by (simp_all add: deletion_effect_def)

definition baseline_inv :: "site_page \<Rightarrow> bool" where
  "baseline_inv s \<longleftrightarrow> sg_baseline s = [] \<or> (\<exists>b. sg_baseline s = draft_text b)"

lemma baseline_load: "baseline_inv s \<Longrightarrow> baseline_inv (load_effect s)"
  by (auto simp: baseline_inv_def load_effect_def Let_def)

lemma baseline_handle: "baseline_inv s \<Longrightarrow> baseline_inv (fst (site_handle e s))"
proof (cases e)
  case (SaveArrives res)
  assume "baseline_inv s"
  with SaveArrives show ?thesis
    by (cases res) (auto simp: baseline_inv_def save_succeeded_def failed_def Let_def)
next
  case (OpArrives res)
  assume "baseline_inv s"
  with OpArrives show ?thesis by (cases res) (auto simp: baseline_inv_def op_succeeded_def failed_def)
next
  case (DeleteArrives res)
  assume "baseline_inv s"
  with DeleteArrives show ?thesis by (cases res) (auto simp: baseline_inv_def delete_succeeded_def failed_def)
qed (auto simp: baseline_inv_def)

lemma site_reach_baseline: "site_reach s \<Longrightarrow> baseline_inv s"
proof (induction rule: site_reach.induct)
  case (mount en)
  then show ?case unfolding site_init_def by (intro baseline_load) (simp add: baseline_inv_def)
next
  case (step s e)
  then show ?case by (simp add: site_step_def split_def Let_def baseline_load baseline_handle)
qed

lemma dirty_exact:
  assumes "site_reach s" "sg_baseline s \<noteq> []"
  shows "\<exists>b. sg_baseline s = draft_text b \<and> (dirty s \<longleftrightarrow> sg_draft s \<noteq> b)"
  using site_reach_baseline [OF assms(1)] assms(2) by (auto simp: baseline_inv_def dirty_def)

lemma sites_prefix_not: "''/sites/'' @ x \<noteq> ''/sites''"
  by simp

text \<open>
  C10. No edit is lost by leaving: the page goes back to the list only if the draft equals the one last
  loaded or saved, or the user confirmed in the dialog, or the site has been deleted; for this the text
  comparison of the drafts is exact.
\<close>

theorem no_silent_discard:
  assumes "site_reach s" "site_enabled s e" "Navigate ''/sites'' r \<in> set (snd (site_step e s))"
  shows "(sg_baseline s = [] \<or> (\<exists>b. sg_baseline s = draft_text b \<and> sg_draft s = b))
    \<or> (e = ConfirmDiscard \<and> sg_discardOpen s)
    \<or> deletion_status (fst (site_step e s)) = Some Dep_succeeded"
proof -
  let ?s1 = "fst (site_handle e s)"
  have "Navigate ''/sites'' r \<in> set (snd (site_handle e s)) \<or> Navigate ''/sites'' r \<in> set (deletion_effect s ?s1)"
    using assms(3) by (auto simp: site_step_def split_def Let_def)
  then show ?thesis
  proof
    assume n: "Navigate ''/sites'' r \<in> set (snd (site_handle e s))"
    show ?thesis
    proof (cases e)
      case GoBack
      then have "\<not> dirty s" using n by (simp split: if_splits)
      then show ?thesis using dirty_exact [OF assms(1)] by blast
    next
      case ConfirmDiscard
      then have "sg_discardOpen s"
        using assms(2) offers_SiteDetailPage [of s e] fires_site_form [of s e] by auto
      then show ?thesis using ConfirmDiscard by simp
    next
      case (SaveArrives res)
      then show ?thesis using n
        by (cases res) (auto simp: save_succeeded_def failed_def Let_def)
    next
      case (OpArrives res)
      then show ?thesis using n by (cases res) (auto simp: op_succeeded_def failed_def)
    next
      case (DeleteArrives res)
      then show ?thesis using n by (cases res) (auto simp: delete_succeeded_def failed_def)
    qed (use n in auto)
  next
    assume "Navigate ''/sites'' r \<in> set (deletion_effect s ?s1)"
    then have "deletion_status ?s1 = Some Dep_succeeded" by (simp add: deletion_effect_def split: if_splits)
    then show ?thesis by (simp add: site_step_def split_def Let_def deletion_status_def)
  qed
qed

lemma outcome_sends [simp]:
  "sends (snd (save_succeeded v s)) = 0" "sends (snd (op_succeeded s)) = 0"
  "sends (snd (delete_succeeded d s)) = 0" "sends (snd (failed s er)) = 0"
  by (simp_all add: save_succeeded_def op_succeeded_def delete_succeeded_def failed_def Let_def only_if_def)

text \<open>The requests of a step are those of the three mutations.\<close>

lemma site_step_sends:
  "sends (snd (site_step e s)) = (case e of Submit \<Rightarrow> 1 | Op p \<Rightarrow> 1 | ConfirmDelete \<Rightarrow> 1 | _ \<Rightarrow> 0)"
  by (cases e) (simp_all add: site_step_def split_def Let_def settle_sends only_if_def)

lemma send_in_sends: "Send r \<in> set fx \<Longrightarrow> 0 < sends fx"
  by (induction fx) auto

lemma site_step_send_cases:
  assumes "Send r \<in> set (snd (site_step e s))"
  obtains "e = Submit" "r = save_request s" | p where "e = Op p" "r = op_request p s"
    | "e = ConfirmDelete" "r = delete_request s"
proof -
  have "0 < sends (snd (site_step e s))" using assms by (rule send_in_sends)
  then have "e = Submit \<or> (\<exists>p. e = Op p) \<or> e = ConfirmDelete"
    by (simp add: site_step_sends split: site_event.splits)
  then show ?thesis using assms that by (auto simp: site_step_def)
qed

lemma save_not_delete: "rq_method (save_request s) \<noteq> ''DELETE''" "rq_method (op_request p s) \<noteq> ''DELETE''"
  by (simp_all add: save_request_def op_request_def json_init_def method_init_def)


text \<open>
  The operations are guarded by what is already going on: a publication, a certificate or a cache
  invalidation is requested only for a site that is not being deleted, one operation at a time, never
  while a task of the same kind runs, and only where it applies.
\<close>

theorem operations_guarded:
  assumes "site_enabled s (Op p)"
  shows "op_guard s p \<and> snd (site_step (Op p) s) = Send (op_request p s) # deletion_effect s (fst (site_handle (Op p) s))
    \<and> sg_operation (fst (site_step (Op p) s)) = Some p"
proof -
  have "op_guard s p"
    using assms offers_SiteDetailPage [of s "Op p"] fires_site_form [of s "Op p"] by auto
  then show ?thesis by (simp add: site_step_def)
qed

text \<open>
  The form keeps the draft well formed whatever is clicked: no node is assigned twice, only nodes
  that can carry sites are added, and there are never more than 32 forwards unless the site came with
  more.
\<close>

theorem form_edits_well_formed:
  "site_enabled s (SetDraft d') \<Longrightarrow> edit_ok (form_nodes s) (sg_draft s) d'"
  using offers_SiteDetailPage [of s "SetDraft d'"] fires_site_form [of s "SetDraft d'"] by auto

lemma load_effect_idle:
  "\<not> isNew s \<and> (page_site s = None \<or> (\<exists>y. page_site s = Some y \<and> s_id y = sg_loadedKey s)) \<Longrightarrow> load_effect s = s"
  by (auto simp: load_effect_def Let_def)

text \<open>
  A successful save brings the page in step with what was stored, and nothing else does: afterwards
  the form shows the stored site and is clean.  An edit made while the request was in flight does not
  survive it.
\<close>

theorem save_resets_form:
  assumes "s_id v \<noteq> []" "\<not> isNew s \<Longrightarrow> se_siteId (sg_env s) = Some (s_id v)"
  defines "t \<equiv> fst (site_step (SaveArrives (Inr v)) s)"
  shows "sg_draft t = draftFromSite v (globalTTL s) \<and> \<not> dirty t \<and> \<not> sg_save t \<and> \<not> isNew t"
proof -
  let ?s1 = "fst (save_succeeded v s)"
  have id: "se_siteId (sg_env ?s1) = Some (s_id v)"
    using assms(2) by (simp add: save_succeeded_def Let_def)
  have "s_id y = s_id v" if "page_site ?s1 = Some y" for y
    using that unfolding page_site_def id by (simp add: find_Some_iff) metis
  moreover have "sg_loadedKey ?s1 = s_id v" by (simp add: save_succeeded_def Let_def)
  moreover have "\<not> isNew ?s1" using assms(1) by (simp add: isNew_def id)
  ultimately have "load_effect ?s1 = ?s1"
    by (intro load_effect_idle) (cases "page_site ?s1"; simp)
  then have "t = ?s1" by (simp add: t_def site_step_def split_def Let_def)
  then show ?thesis
    using assms(1) id by (simp add: dirty_def isNew_def) (simp add: save_succeeded_def Let_def)
qed

definition sample_env :: site_env where
  "sample_env = \<lparr>se_siteId = Some ''s1'', se_csrf = ''t'', se_sites = \<lparr>q_data = Some [sample_site], q_error = None\<rparr>,
     se_nodes = \<lparr>q_data = Some [], q_error = None\<rparr>, se_settings = \<lparr>q_data = None, q_error = Some NonError\<rparr>,
     se_tls = None, se_publish = None, se_deletion = None, se_allowlist = None, se_allowLoading = False\<rparr>"

lemma sample_page:
  "page_site (site_init sample_env) = Some sample_site" "sg_draft (site_init sample_env) = draftFromSite sample_site 60"
  "sg_baseline (site_init sample_env) = draft_text (draftFromSite sample_site 60)"
  "sg_loadedKey (site_init sample_env) = ''s1''" "sg_env (site_init sample_env) = sample_env"
  "\<not> page_loading (site_init sample_env)" "sg_operation (site_init sample_env) = None"
  "\<not> dirty (site_init sample_env)"
  by (simp_all add: site_init_def load_effect_def page_site_def sample_env_def isNew_def Let_def q_loading_def
      globalTTL_def sample_site_def page_loading_def dirty_def)

theorem no_silent_discard_witness:
  "\<exists>b. sg_baseline (site_init sample_env) = draft_text b \<and> sg_draft (site_init sample_env) = b"
proof -
  have "site_enabled (site_init sample_env) GoBack" by (simp add: SiteDetailPage_def Let_def)
  moreover have "Navigate ''/sites'' False \<in> set (snd (site_step GoBack (site_init sample_env)))"
    by (simp add: site_step_def sample_page)
  moreover have "deletion_status (fst (site_step GoBack (site_init sample_env))) = None"
    by (simp add: site_step_def sample_page deletion_status_def) (simp add: sample_env_def)
  ultimately show ?thesis
    using no_silent_discard [OF site_reach.mount] by (simp add: sample_page)
qed


lemma sample_form_offered: "fires (site_form (site_init sample_env)) e \<Longrightarrow> offers (SiteDetailPage (site_init sample_env)) e"
  using sample_page(1,6) by (simp add: SiteDetailPage_def Let_def)

theorem operations_guarded_witness: "op_guard (site_init sample_env) Publish"
proof -
  have "fires (site_form (site_init sample_env)) (Op Publish)"
    using sample_page by (simp add: site_form_def Let_def SiteOperations_def)
      (simp add: sample_site_def sample_env_def site_publish_task_def activeTask_def)
  then have "site_enabled (site_init sample_env) (Op Publish)" by (simp add: sample_form_offered)
  then show ?thesis using operations_guarded by blast
qed

theorem form_edits_well_formed_witness:
  "edit_ok [] (draftFromSite sample_site 60) ((draftFromSite sample_site 60)\<lparr>dr_name := ''X''\<rparr>)"
proof -
  let ?s = "site_init sample_env"
  have "js_length ''X'' \<le> 100" by code_simp
  then have "fires (BasicSettings (sg_draft ?s) SetDraft) (SetDraft ((sg_draft ?s)\<lparr>dr_name := ''X''\<rparr>))"
    unfolding fires_BasicSettings by blast
  then have "fires (site_form ?s) (SetDraft ((sg_draft ?s)\<lparr>dr_name := ''X''\<rparr>))"
    by (simp add: site_form_def Let_def)
  then have "site_enabled ?s (SetDraft ((sg_draft ?s)\<lparr>dr_name := ''X''\<rparr>))"
    by (simp add: sample_form_offered)
  from form_edits_well_formed [OF this] show ?thesis
    by (simp add: sample_page form_nodes_def) (simp add: sample_env_def)
qed

theorem save_resets_form_witness:
  "\<not> dirty (fst (site_step (SaveArrives (Inr sample_site)) ((site_init sample_env)\<lparr>sg_draft := emptyDraft 60\<rparr>)))"
proof -
  let ?s = "(site_init sample_env)\<lparr>sg_draft := emptyDraft 60\<rparr>"
  have "s_id sample_site \<noteq> []" by (simp add: sample_site_def)
  moreover have "se_siteId (sg_env ?s) = Some (s_id sample_site)"
    by (simp add: sample_page) (simp add: sample_env_def sample_site_def)
  ultimately show ?thesis using save_resets_form [of sample_site ?s] by blast
qed

section \<open>One request at a time\<close>

fun save_event :: "site_event \<Rightarrow> bool" where
  "save_event (Op p) \<longleftrightarrow> False"
| "save_event ConfirmDelete \<longleftrightarrow> False"
| "save_event e \<longleftrightarrow> True"

fun is_save_arrival :: "site_event \<Rightarrow> bool" where
  "is_save_arrival (SaveArrives r) \<longleftrightarrow> True"
| "is_save_arrival e \<longleftrightarrow> False"

fun op_event :: "site_event \<Rightarrow> bool" where
  "op_event Submit \<longleftrightarrow> False"
| "op_event ConfirmDelete \<longleftrightarrow> False"
| "op_event e \<longleftrightarrow> True"

fun is_op_arrival :: "site_event \<Rightarrow> bool" where
  "is_op_arrival (OpArrives r) \<longleftrightarrow> True"
| "is_op_arrival e \<longleftrightarrow> False"

lemma outcome_pending [simp]:
  "sg_save (fst (save_succeeded v s)) = False" "sg_operation (fst (save_succeeded v s)) = sg_operation s"
  "sg_save (fst (op_succeeded s)) = sg_save s" "sg_operation (fst (op_succeeded s)) = None"
  "sg_save (fst (delete_succeeded d s)) = sg_save s" "sg_operation (fst (delete_succeeded d s)) = sg_operation s"
  "fst (failed s er) = s"
  by (simp_all add: save_succeeded_def op_succeeded_def delete_succeeded_def failed_def Let_def)

lemma settle_fst: "fst (settle res ok er) = (case res of Inl e \<Rightarrow> fst (er e) | Inr v \<Rightarrow> fst (ok v))"
  by (cases res) simp_all

lemma submit_needs_idle: "site_enabled s Submit \<Longrightarrow> \<not> sg_save s"
  using offers_SiteDetailPage [of s Submit] fires_site_form [of s Submit] by auto

lemma op_needs_idle: "site_enabled s (Op p) \<Longrightarrow> sg_operation s = None"
  using offers_SiteDetailPage [of s "Op p"] fires_site_form [of s "Op p"] by (auto simp: op_guard_def)

interpretation save_form: single_flight
  "\<lambda>s e. site_enabled s e \<and> save_event e" site_step sg_save is_save_arrival "\<lambda>_. True"
proof (unfold_locales, goal_cases)
  case (1 s e)
  then show ?case unfolding site_step_sends using submit_needs_idle [of s]
    by (cases e) (auto simp: site_step_def split_def Let_def settle_fst split: sum.splits)
qed simp

interpretation site_operation: single_flight
  "\<lambda>s e. site_enabled s e \<and> op_event e" site_step "\<lambda>s. sg_operation s \<noteq> None" is_op_arrival "\<lambda>_. True"
proof (unfold_locales, goal_cases)
  case (1 s e)
  then show ?case unfolding site_step_sends using op_needs_idle [of s]
    by (cases e) (auto simp: site_step_def split_def Let_def settle_fst split: sum.splits)
qed simp

text \<open>The cached list after a save: the saved site once, every other site as it was.\<close>

definition replace_site :: "site \<Rightarrow> site \<Rightarrow> site" where
  "replace_site v x = (if s_id x = s_id v then v else x)"

lemma replace_site_id [simp]: "s_id (replace_site v x) = s_id x"
  by (simp add: replace_site_def)

lemma upsert_replace:
  "upsert_site v xs = (if s_id v \<in> s_id ` set xs then map (replace_site v) xs else xs @ [v])"
proof -
  have "list_ex (\<lambda>x. s_id x = s_id v) xs \<longleftrightarrow> s_id v \<in> s_id ` set xs" unfolding list_ex_iff image_iff by metis
  then show ?thesis by (simp add: upsert_site_def replace_site_def [abs_def])
qed

lemma filter_replace:
  "filter (\<lambda>x. s_id x \<noteq> s_id v) (map (replace_site v) ys) = filter (\<lambda>x. s_id x \<noteq> s_id v) ys"
  by (induction ys) (auto simp: replace_site_def)

lemma upsert_site_spec:
  assumes "distinct (map s_id xs)"
  shows "distinct (map s_id (upsert_site v xs)) \<and> v \<in> set (upsert_site v xs) \<and>
    filter (\<lambda>x. s_id x \<noteq> s_id v) (upsert_site v xs) = filter (\<lambda>x. s_id x \<noteq> s_id v) xs"
proof (cases "s_id v \<in> s_id ` set xs")
  case True
  then obtain x where "x \<in> set xs" "replace_site v x = v" by (auto simp: replace_site_def)
  then have "v \<in> set (map (replace_site v) xs)" by force
  moreover have "map s_id (map (replace_site v) xs) = map s_id xs" by simp
  ultimately show ?thesis using True assms by (simp only: upsert_replace if_True filter_replace simp_thms)
next
  case False
  then show ?thesis using assms by (simp add: upsert_replace)
qed

section \<open>In the session\<close>

text \<open>The data that arrive belong to the page's own site and session.\<close>

fun own_data :: "site_page \<Rightarrow> site_event \<Rightarrow> bool" where
  "own_data s (DataArrives en) \<longleftrightarrow> se_csrf en = se_csrf (sg_env s) \<and> se_siteId en = se_siteId (sg_env s)"
| "own_data s e \<longleftrightarrow> True"

lemma settled_env: "sg_env (fst (settle res ok er)) = (case res of Inr v \<Rightarrow> sg_env (fst (ok v)) | Inl e \<Rightarrow> sg_env (fst (er e)))"
  by (cases res) simp_all

interpretation site_session: session_page "\<lambda>s e. site_enabled s e \<and> own_data s e" site_step "\<lambda>s. se_csrf (sg_env s)" "\<lambda>s. True"
proof
  fix r e s
  show "Send r \<in> set (snd (site_step e s)) \<Longrightarrow> authorised (se_csrf (sg_env s)) r"
    by (elim site_step_send_cases) (auto simp: save_request_def op_request_def delete_request_def site_path_def starts_with_Cons)
  show "site_enabled s e \<and> own_data s e \<Longrightarrow> se_csrf (sg_env (fst (site_step e s))) = se_csrf (sg_env s) \<and> True"
    by (cases e) (simp_all add: site_step_def settled_env failed_def save_succeeded_def op_succeeded_def delete_succeeded_def
        cache_site_def split_def Let_def split: sum.splits)
  show "DispatchUnauthorized \<in> set (snd (site_step e s)) \<Longrightarrow> Send r \<notin> set (snd (site_step e s))"
    by (cases e) (auto simp: site_step_def settle_send failed_def save_succeeded_def op_succeeded_def delete_succeeded_def split_def Let_def
        only_if_def deletion_effect_def split: sum.splits if_splits)
qed

end
