(* ===== verification/Certificates.thy ===== *)
theory Certificates
  imports Widgets
begin

text \<open>
  The certificates of the sites (frontend/src/features/certificates/certificates-page.tsx): what a site's
  certificate needs, as the status of its row, the counters and the filters derive it from the time of the
  render, and the requests that issue or renew one.
\<close>

section \<open>What a certificate needs\<close>

definition certificate_task_active :: "deployment_task option \<Rightarrow> bool" where
  "certificate_task_active t \<longleftrightarrow> (case t of None \<Rightarrow> False | Some x \<Rightarrow> t_status x \<in> {Dep_queued, Dep_dispatching, Dep_applying})"

text \<open>Milliseconds, if the value is a date.\<close>

definition timestamp :: "string option \<Rightarrow> int option" where
  "timestamp v = (if truthy_str v then js_date_parse (the v) else None)"

definition reached :: "int option \<Rightarrow> int \<Rightarrow> bool" where
  "reached t now \<longleftrightarrow> (case t of None \<Rightarrow> False | Some x \<Rightarrow> x \<le> now)"

definition certificateIsValid :: "certificate_site_status \<Rightarrow> int \<Rightarrow> bool" where
  "certificateIsValid x now \<longleftrightarrow>
     cs_certificate_present x \<and> (case timestamp (cs_not_after x) of None \<Rightarrow> False | Some t \<Rightarrow> now < t)"

definition task_failed :: "certificate_site_status \<Rightarrow> bool" where
  "task_failed x \<longleftrightarrow> map_option t_status (cs_task x) = Some Dep_failed"

definition needsAttention :: "certificate_site_status \<Rightarrow> int \<Rightarrow> bool" where
  "needsAttention x now \<longleftrightarrow>
     (if \<not> cs_needs_certificate x then False
      else if task_failed x \<or> \<not> cs_certificate_present x then True
      else timestamp (cs_not_after x) = None \<or> reached (timestamp (cs_not_after x)) now \<or> reached (timestamp (cs_renewal_due_at x)) now)"

definition renewing :: "certificate_site_status \<Rightarrow> bool" where
  "renewing x \<longleftrightarrow> map_option t_kind (cs_task x) = Some ''renew_certificate''"

definition certificateStatus :: "certificate_site_status \<Rightarrow> int \<Rightarrow> string \<times> ui_text" where
  "certificateStatus x now =
     (if \<not> cs_needs_certificate x then (''ready'', [Zh ''no certificate needed''])
      else if certificate_task_active (cs_task x) then
        (nullish (map_option (\<lambda>t. deployment_status_str (t_status t)) (cs_task x)) ''applying'',
         [Zh (if renewing x then ''renewing'' else ''issuing'')])
      else if task_failed x then (''failed'', [Zh ''task failed''])
      else if \<not> cs_certificate_present x then (''pending'', [Zh ''not issued''])
      else (case timestamp (cs_not_after x) of
              None \<Rightarrow> (''failed'', [Zh ''expiry unknown''])
            | Some t \<Rightarrow>
                if t \<le> now then (''failed'', [Zh ''expired''])
                else if reached (timestamp (cs_renewal_due_at x)) now then (''pending'', [Zh ''to be renewed''])
                else (''succeeded'', [Zh ''valid''])))"

definition remainingValidity :: "certificate_site_status \<Rightarrow> int \<Rightarrow> ui_text" where
  "remainingValidity x now =
     (if \<not> cs_needs_certificate x \<or> \<not> cs_certificate_present x then [Raw ''--'']
      else (case timestamp (cs_not_after x) of
              None \<Rightarrow> [Zh ''unknown'']
            | Some t \<Rightarrow>
                (let seconds = (t - now) div 1000 in
                 if seconds \<le> 0 then [Zh ''expired for ''] @ formatDuration (Some \<bar>seconds\<bar>) else formatDuration (Some seconds))))"

section \<open>State\<close>

datatype certificate_filter = AllCerts | AttentionCerts | ActiveCerts

text \<open>
  \<open>cert_pending\<close> holds the requests in flight, the latest first.  The hook reports the latest only: \<open>cert_latest\<close>
  is its site while it is in flight.  \<open>cert_now\<close> is the time of the last render.
\<close>

record certificates_page =
  cert_csrf :: string
  cert_query :: "certificate_overview query"
  cert_fetching :: bool
  cert_filter :: certificate_filter
  cert_page :: nat
  cert_now :: int
  cert_pending :: "certificate_site_status list"
  cert_latest :: "certificate_site_status option"

datatype certificates_event =
    RefreshCertificates
  | FilterCertificates certificate_filter
  | CertificatesPageTo int
  | RequestCertificate certificate_site_status
  | CertificateQueued bool certificate_site_status "js_error + deployment_task"
  | CertificatesArrive "certificate_overview query"
  | CertificatesFetching bool
  | Rerender int

definition cert_sites :: "certificates_page \<Rightarrow> certificate_site_status list" where
  "cert_sites s = (case q_data (cert_query s) of None \<Rightarrow> [] | Some d \<Rightarrow> co_sites d)"

definition active_sites :: "certificates_page \<Rightarrow> certificate_site_status list" where
  "active_sites s = filter (\<lambda>x. certificate_task_active (cs_task x)) (cert_sites s)"

definition attention_sites :: "certificates_page \<Rightarrow> certificate_site_status list" where
  "attention_sites s = filter (\<lambda>x. needsAttention x (cert_now s)) (cert_sites s)"

definition filtered_sites :: "certificates_page \<Rightarrow> certificate_site_status list" where
  "filtered_sites s =
     (case cert_filter s of ActiveCerts \<Rightarrow> active_sites s | AttentionCerts \<Rightarrow> attention_sites s | AllCerts \<Rightarrow> cert_sites s)"

definition certificate_sites :: "certificates_page \<Rightarrow> certificate_site_status list" where
  "certificate_sites s = filter cs_needs_certificate (cert_sites s)"

definition valid_sites :: "certificates_page \<Rightarrow> certificate_site_status list" where
  "valid_sites s = filter (\<lambda>x. certificateIsValid x (cert_now s)) (certificate_sites s)"

definition certificates_poll :: "certificate_overview option \<Rightarrow> nat" where
  "certificates_poll d =
     (if list_ex (\<lambda>x. certificate_task_active (cs_task x)) (case d of None \<Rightarrow> [] | Some c \<Rightarrow> co_sites c) then 2000 else 30000)"

definition certificate_path :: "certificate_site_status \<Rightarrow> string" where
  "certificate_path x =
     (if cs_certificate_present x then ''/api/certificates/'' @ encodeURIComponent (cs_site_id x) @ ''/renew''
      else ''/api/sites/'' @ encodeURIComponent (cs_site_id x) @ ''/certificate'')"

definition certificate_request :: "string \<Rightarrow> certificate_site_status \<Rightarrow> request" where
  "certificate_request csrf x = api_request csrf (certificate_path x) (method_init ''POST'')"

text \<open>The outcome of a request; \<open>latest\<close> marks the one the hook reports.\<close>

definition certificate_settled :: "bool \<Rightarrow> certificate_site_status \<Rightarrow> certificates_page \<Rightarrow> certificates_page" where
  "certificate_settled latest x s =
     s\<lparr>cert_pending := remove1 x (cert_pending s), cert_latest := (if latest then None else cert_latest s)\<rparr>"

fun certificates_step :: "(certificates_event, certificates_page) component" where
  "certificates_step RefreshCertificates s = (s, [Refetch [''certificates'']])"
| "certificates_step (FilterCertificates f) s = (s\<lparr>cert_filter := f\<rparr>, [])"
| "certificates_step (CertificatesPageTo k) s =
     (s\<lparr>cert_page := setPage (useListPagination (filtered_sites s) LIST_PAGE_SIZE (cert_page s)) k\<rparr>, [])"
| "certificates_step (RequestCertificate x) s =
     (s\<lparr>cert_pending := x # cert_pending s, cert_latest := Some x\<rparr>, [Send (certificate_request (cert_csrf s) x)])"
| "certificates_step (CertificateQueued latest x r) s =
     settle r (\<lambda>_. (certificate_settled latest x s,
         [ToastSuccess [Zh (if cs_certificate_present x then ''certificate renewal queued'' else ''certificate issuance queued'')],
          Invalidate [''certificates''], Invalidate [''site-tls'', cs_site_id x]]))
       (\<lambda>e. (certificate_settled latest x s, [ToastError (errorMessage e)]))"
| "certificates_step (CertificatesArrive q) s = (s\<lparr>cert_query := q\<rparr>, [])"
| "certificates_step (CertificatesFetching b) s = (s\<lparr>cert_fetching := b\<rparr>, [])"
| "certificates_step (Rerender t) s = (s\<lparr>cert_now := t\<rparr>, [])"

section \<open>The view\<close>

definition Metric :: "ui_text \<Rightarrow> nat \<Rightarrow> bool \<Rightarrow> 'e view" where
  "Metric label v alert = Grp (if alert then ''metric alert'' else ''metric'') [Txt label, Txt [Raw (formatNumber (Some (int v)))]]"

definition SiteIdentity :: "certificate_site_status \<Rightarrow> 'e view" where
  "SiteIdentity x = Grp ''site''
     [Lnk (''/sites/'' @ encodeURIComponent (cs_site_id x)) [Txt [Raw (cs_site_name x)]], Txt [Raw (js_join '', '' (cs_domains x))]]"

definition CertificateStatus :: "certificate_site_status \<Rightarrow> int \<Rightarrow> 'e view" where
  "CertificateStatus x now = Grp ''status''
     (StatusBadge (fst (certificateStatus x now)) (Some (snd (certificateStatus x now))) #
      (case cs_task x of None \<Rightarrow> []
       | Some t \<Rightarrow> only_if (t_status t = Dep_failed \<and> truthy_str (t_detail t)) [Txt [Raw (the (t_detail t))]]))"

definition RenewalPlan :: "certificate_site_status \<Rightarrow> int \<Rightarrow> 'e view" where
  "RenewalPlan x now =
     (if \<not> cs_needs_certificate x then Txt [Zh ''no renewal needed'']
      else if \<not> cs_certificate_present x then Txt [Zh ''planned once issued'']
      else if certificate_task_active (cs_task x) then Txt [Zh (if renewing x then ''being renewed'' else ''being issued'')]
      else Grp ''plan''
        [Txt (if reached (timestamp (cs_renewal_due_at x)) now then [Zh ''in the renewal window''] else formatDate (cs_renewal_due_at x)),
         Txt [Zh (if cs_enabled x \<and> cs_published x then ''automatic renewal is on''
                  else ''not enabled or not published, automatic renewal is paused'')]])"

definition DeploymentStatus :: "certificate_site_status \<Rightarrow> 'e view" where
  "DeploymentStatus x =
     (if \<not> cs_needs_certificate x \<or> \<not> cs_certificate_present x then Txt [Raw ''--'']
      else if cs_published_after_certificate x then StatusBadge ''succeeded'' (Some [Zh ''deployed''])
      else StatusBadge ''pending'' (Some [Zh ''to be published'']))"

definition CertificateAction :: "certificate_site_status \<Rightarrow> bool \<Rightarrow> certificates_event view list" where
  "CertificateAction x pending =
     (if \<not> cs_needs_certificate x then []
      else (let active = certificate_task_active (cs_task x) in
        [Btn (if active then [Zh (if renewing x then ''renewing'' else ''issuing'')]
              else [Zh (if cs_certificate_present x then ''renew now'' else ''issue a certificate'')])
           (pending \<or> active \<or> cs_deleting x) (RequestCertificate x)]))"

definition CertificateRow :: "certificate_site_status \<Rightarrow> int \<Rightarrow> bool \<Rightarrow> certificates_event view" where
  "CertificateRow x now pending = Grp ''row''
     ([SiteIdentity x, CertificateStatus x now, Txt (if cs_needs_certificate x then formatDate (cs_not_after x) else [Raw ''--'']),
       Txt (remainingValidity x now), RenewalPlan x now, DeploymentStatus x] @ CertificateAction x pending)"

definition CertificateMobileRow :: "certificate_site_status \<Rightarrow> int \<Rightarrow> bool \<Rightarrow> certificates_event view" where
  "CertificateMobileRow x now pending = Grp ''mobile row''
     ([SiteIdentity x, CertificateStatus x now, Txt (formatDate (cs_not_after x)), Txt (remainingValidity x now),
       RenewalPlan x now, DeploymentStatus x] @ CertificateAction x pending)"

definition row_pending :: "certificates_page \<Rightarrow> certificate_site_status \<Rightarrow> bool" where
  "row_pending s x \<longleftrightarrow> (case cert_latest s of None \<Rightarrow> False | Some y \<Rightarrow> cs_site_id y = cs_site_id x)"

definition certificates_table :: "certificates_page \<Rightarrow> certificates_event view list" where
  "certificates_table s =
     (if filtered_sites s = [] then [EmptyState [Zh ''no record for this filter''] (Some [Zh ''change the filter to see other sites''])]
      else (let p = useListPagination (filtered_sites s) LIST_PAGE_SIZE (cert_page s) in
        map (\<lambda>x. CertificateRow x (cert_now s) (row_pending s x)) (pg_items p) @
        map (\<lambda>x. CertificateMobileRow x (cert_now s) (row_pending s x)) (pg_items p) @
        [ListPagination p [Zh ''sites''] (cert_fetching s) CertificatesPageTo []]))"

definition certificates_content :: "certificates_page \<Rightarrow> certificate_overview \<Rightarrow> certificates_event view list" where
  "certificates_content s d =
     (if cert_sites s = [] then [EmptyState [Zh ''no certificates''] (Some [Zh ''the state appears here once a site is added''])]
      else
        [Metric [Zh ''sites with a certificate''] (length (certificate_sites s)) False,
         Metric [Zh ''valid certificates''] (length (valid_sites s)) False,
         Metric [Zh ''need attention''] (length (attention_sites s)) (0 < length (attention_sites s)),
         Metric [Zh ''tasks under way''] (length (active_sites s)) False,
         Btn [Zh ''all '', Raw (nat_str (length (cert_sites s)))] False (FilterCertificates AllCerts),
         Btn [Zh ''need attention '', Raw (nat_str (length (attention_sites s)))] False (FilterCertificates AttentionCerts),
         Btn [Zh ''under way '', Raw (nat_str (length (active_sites s)))] False (FilterCertificates ActiveCerts)] @
        certificates_table s @
        [Txt ([Zh ''renewal starts '', Raw (int_str (co_renewal_window_days d)), Zh '' days before expiry, checked every ''] @
              formatDuration (Some (co_reconcile_interval_seconds d)))])"

definition CertificatesPage :: "certificates_page \<Rightarrow> certificates_event view list" where
  "CertificatesPage s =
     [PageHeader [Zh ''certificates''] (Some [Zh ''expiry, deployment and renewal of the TLS certificates''])
       [Btn [Zh ''refresh the certificates''] False RefreshCertificates]] @
     only_if (q_loading (cert_query s)) [PageLoading 4] @
     (case q_error (cert_query s) of None \<Rightarrow> [] | Some e \<Rightarrow> [PageError [Zh ''loading failed''] e]) @
     (case q_data (cert_query s) of None \<Rightarrow> [] | Some d \<Rightarrow> certificates_content s d)"

fun certificates_enabled :: "certificates_page \<Rightarrow> certificates_event \<Rightarrow> bool" where
  "certificates_enabled s (CertificateQueued latest x r) \<longleftrightarrow>
     x \<in> set (cert_pending s) \<and> (latest \<longrightarrow> cert_latest s = Some x)"
| "certificates_enabled s (CertificatesArrive q) \<longleftrightarrow> True"
| "certificates_enabled s (CertificatesFetching b) \<longleftrightarrow> True"
| "certificates_enabled s (Rerender t) \<longleftrightarrow> cert_now s \<le> t"
| "certificates_enabled s e \<longleftrightarrow> offers (CertificatesPage s) e"

definition certificates_init :: "string \<Rightarrow> certificate_overview query \<Rightarrow> int \<Rightarrow> certificates_page" where
  "certificates_init csrf q now =
     \<lparr>cert_csrf = csrf, cert_query = q, cert_fetching = True, cert_filter = AllCerts, cert_page = 1, cert_now = now,
      cert_pending = [], cert_latest = None\<rparr>"

section \<open>What the page offers\<close>

lemma row_parts_inert [simp]:
  "\<not> fires (SiteIdentity x) e" "\<not> fires (CertificateStatus x now) e" "\<not> fires (RenewalPlan x now) e"
  "\<not> fires (DeploymentStatus x) e" "\<not> fires (Metric l v a) e"
  by (simp_all add: SiteIdentity_def CertificateStatus_def RenewalPlan_def DeploymentStatus_def Metric_def split: option.split)

lemma offers_CertificateAction [simp]:
  "offers (CertificateAction x p) e \<longleftrightarrow>
     cs_needs_certificate x \<and> \<not> p \<and> \<not> certificate_task_active (cs_task x) \<and> \<not> cs_deleting x \<and> e = RequestCertificate x"
  by (auto simp: CertificateAction_def Let_def)

lemma filtered_subset: "set (filtered_sites s) \<subseteq> set (cert_sites s)"
  by (auto simp: filtered_sites_def active_sites_def attention_sites_def split: certificate_filter.splits)

lemma paged_listed:
  "x \<in> set (pg_items (useListPagination (filtered_sites s) n r)) \<Longrightarrow> x \<in> set (cert_sites s)"
  by (rule subsetD [OF filtered_subset subsetD [OF pagination_subset]])

lemma request_offered_iff:
  "offers (certificates_table s) (RequestCertificate x) \<longleftrightarrow>
     x \<in> set (pg_items (useListPagination (filtered_sites s) LIST_PAGE_SIZE (cert_page s))) \<and> \<not> row_pending s x \<and>
     cs_needs_certificate x \<and> \<not> certificate_task_active (cs_task x) \<and> \<not> cs_deleting x"
  using pagination_subset [of "filtered_sites s" LIST_PAGE_SIZE "cert_page s"]
  by (auto simp: certificates_table_def Let_def offers_map CertificateRow_def CertificateMobileRow_def)

lemma page_request_iff:
  "offers (CertificatesPage s) (RequestCertificate x) \<longleftrightarrow> q_data (cert_query s) \<noteq> None \<and> cert_sites s \<noteq> [] \<and>
     offers (certificates_table s) (RequestCertificate x)"
  by (auto simp: CertificatesPage_def certificates_content_def split: option.splits)

section \<open>Properties\<close>


text \<open>
  What needs attention stays so until something is done: for the same record, as time passes no site leaves the
  list of those that need attention, and no certificate becomes valid again.
\<close>

theorem attention_monotone:
  assumes "now \<le> later"
  shows "(needsAttention x now \<longrightarrow> needsAttention x later) \<and> (certificateIsValid x later \<longrightarrow> certificateIsValid x now)"
  using assms by (auto simp: needsAttention_def certificateIsValid_def reached_def split: option.splits)

text \<open>
  A certificate is requested only for a listed site that needs one, is not being deleted and has no task under
  way, with the request that fits: a renewal if it has a certificate, an issuance if it has none.
\<close>

theorem certificate_requests:
  assumes "certificates_enabled s e" "Send r \<in> set (snd (certificates_step e s))"
  shows "\<exists>x \<in> set (cert_sites s). e = RequestCertificate x \<and> cs_needs_certificate x \<and> \<not> cs_deleting x \<and>
    \<not> certificate_task_active (cs_task x) \<and> rq_method r = ''POST'' \<and> rq_body r = None \<and>
    rq_path r = (if cs_certificate_present x then ''/api/certificates/'' @ encodeURIComponent (cs_site_id x) @ ''/renew''
                 else ''/api/sites/'' @ encodeURIComponent (cs_site_id x) @ ''/certificate'')"
proof -
  obtain x where x: "e = RequestCertificate x" "r = certificate_request (cert_csrf s) x"
    using assms(2) by (cases e) (auto simp: settle_def split: sum.splits)
  then have o: "offers (certificates_table s) (RequestCertificate x)" using assms(1) by (simp add: page_request_iff)
  then have g: "x \<in> set (pg_items (useListPagination (filtered_sites s) LIST_PAGE_SIZE (cert_page s)))" "cs_needs_certificate x"
    "\<not> certificate_task_active (cs_task x)" "\<not> cs_deleting x" by (simp_all add: request_offered_iff)
  have "x \<in> set (cert_sites s)" by (rule paged_listed [OF g(1)])
  then show ?thesis
    by (rule bexI [rotated]) (simp add: x g certificate_request_def certificate_path_def method_init_def)
qed

text \<open>
  A finding: in the last second before it expires, a certificate is still valid and its row says so, but its
  remaining time reads as expired.
\<close>

theorem last_second_reads_expired:
  assumes "cs_needs_certificate x" "cs_certificate_present x" "timestamp (cs_not_after x) = Some t" "now < t" "t < now + 1000"
  shows "certificateIsValid x now \<and> hd (remainingValidity x now) = Zh ''expired for ''"
proof -
  have "(t - now) div 1000 = 0" using assms(4,5) by simp
  then show ?thesis using assms by (simp add: certificateIsValid_def remainingValidity_def Let_def)
qed

text \<open>
  A finding: the guard against a second request covers only the row used last.  With one request in flight,
  using another row gives the first row its button back, and a second request for it can leave before any answer.
\<close>

theorem row_guard_forgets:
  assumes "cert_latest s = Some y" "cs_site_id y \<noteq> cs_site_id x" "q_data (cert_query s) \<noteq> None"
    and "x \<in> set (pg_items (useListPagination (filtered_sites s) LIST_PAGE_SIZE (cert_page s)))"
    and "cs_needs_certificate x" "\<not> certificate_task_active (cs_task x)" "\<not> cs_deleting x"
  shows "certificates_enabled s (RequestCertificate x)"
proof -
  have "x \<in> set (cert_sites s)" by (rule paged_listed [OF assms(4)])
  then have "cert_sites s \<noteq> []" by auto
  then show ?thesis using assms by (simp add: page_request_iff request_offered_iff row_pending_def)
qed


section \<open>Examples\<close>

definition sample_certificate :: "string \<Rightarrow> certificate_site_status" where
  "sample_certificate i = \<lparr>cs_site_id = i, cs_site_name = i, cs_domains = [], cs_enabled = True, cs_published = True, cs_deleting = False,
     cs_needs_certificate = True, cs_certificate_present = True, cs_certificate_updated_at = None,
     cs_not_after = Some ''1970-01-01T00:00:01Z'', cs_renewal_due_at = None, cs_published_after_certificate = True, cs_task = None\<rparr>"

definition sample_certificates :: certificates_page where
  "sample_certificates = certificates_init ''t'' \<lparr>q_data = Some \<lparr>co_renewal_window_days = 30, co_reconcile_interval_seconds = 3600,
     co_sites = [sample_certificate ''a'', sample_certificate ''b'']\<rparr>, q_error = None\<rparr> 0"

lemma sample_timestamp: "timestamp (Some ''1970-01-01T00:00:01Z'') = Some 1000"
  by (simp add: timestamp_def js_date_parse_def parse_date_def digits_def skip_char_def parse_time_def parse_seconds_def parse_millis_def
      parse_offset_def day_number_def month_days_def leap_days_def read_nat_def is_digit_def digit_value_def)

lemma sample_items:
  "pg_items (useListPagination (filtered_sites sample_certificates) LIST_PAGE_SIZE (cert_page sample_certificates))
     = [sample_certificate ''a'', sample_certificate ''b'']"
  by (simp add: sample_certificates_def certificates_init_def filtered_sites_def cert_sites_def useListPagination_def LIST_PAGE_SIZE_def
      total_pages_def)

lemma sample_certificate_parts:
  "cs_needs_certificate (sample_certificate i)" "\<not> certificate_task_active (cs_task (sample_certificate i))"
  "\<not> cs_deleting (sample_certificate i)" "cs_site_id (sample_certificate i) = i"
  "cs_certificate_present (sample_certificate i)" "cs_not_after (sample_certificate i) = Some ''1970-01-01T00:00:01Z''"
  by (simp_all add: sample_certificate_def certificate_task_active_def)


theorem attention_monotone_witness: "needsAttention (sample_certificate ''a'') 5 \<longrightarrow> needsAttention (sample_certificate ''a'') 7"
  using attention_monotone [of 5 7] by simp

lemma sample_request_enabled: "certificates_enabled sample_certificates (RequestCertificate (sample_certificate ''a''))"
proof -
  have "cert_sites sample_certificates \<noteq> []" "q_data (cert_query sample_certificates) \<noteq> None" "cert_latest sample_certificates = None"
    by (simp_all add: sample_certificates_def certificates_init_def cert_sites_def)
  then show ?thesis by (simp add: page_request_iff request_offered_iff sample_items sample_certificate_parts row_pending_def)
qed

theorem certificate_requests_witness:
  "rq_path (certificate_request ''t'' (sample_certificate ''a'')) = ''/api/certificates/'' @ encodeURIComponent ''a'' @ ''/renew''"
proof -
  have "Send (certificate_request ''t'' (sample_certificate ''a'')) \<in> set (snd (certificates_step (RequestCertificate (sample_certificate ''a'')) sample_certificates))"
    by (simp add: sample_certificates_def certificates_init_def)
  from certificate_requests [OF sample_request_enabled this] show ?thesis by (auto simp: sample_certificate_parts)
qed

theorem last_second_reads_expired_witness: "hd (remainingValidity (sample_certificate ''a'') 500) = Zh ''expired for ''"
  using last_second_reads_expired [of "sample_certificate ''a''" 1000 500] by (simp add: sample_certificate_parts sample_timestamp)

theorem row_guard_forgets_witness:
  "certificates_enabled (fst (run certificates_step [RequestCertificate (sample_certificate ''a''), RequestCertificate (sample_certificate ''b'')] sample_certificates))
     (RequestCertificate (sample_certificate ''a''))"
proof (rule row_guard_forgets)
  let ?s = "fst (run certificates_step [RequestCertificate (sample_certificate ''a''), RequestCertificate (sample_certificate ''b'')] sample_certificates)"
  show "cert_latest ?s = Some (sample_certificate ''b'')" by simp
  show "q_data (cert_query ?s) \<noteq> None" by (simp add: sample_certificates_def certificates_init_def)
  have "filtered_sites ?s = filtered_sites sample_certificates" "cert_page ?s = cert_page sample_certificates"
    by (simp_all add: filtered_sites_def cert_sites_def active_sites_def attention_sites_def sample_certificates_def certificates_init_def)
  then show "sample_certificate ''a'' \<in> set (pg_items (useListPagination (filtered_sites ?s) LIST_PAGE_SIZE (cert_page ?s)))"
    by (simp add: sample_items)
qed (simp_all add: sample_certificate_parts)

section \<open>In the session\<close>

interpretation certificates_session: session_page certificates_enabled certificates_step cert_csrf "\<lambda>s. True"
proof
  fix r e s
  show "Send r \<in> set (snd (certificates_step e s)) \<Longrightarrow> authorised (cert_csrf s) r"
    by (cases e) (auto simp: settle_send certificate_request_def certificate_path_def starts_with_Cons split: sum.splits if_splits)
  show "certificates_enabled s e \<Longrightarrow> cert_csrf (fst (certificates_step e s)) = cert_csrf s \<and> True"
    by (cases e) (simp_all add: settle_def certificate_settled_def split: sum.splits)
  show "DispatchUnauthorized \<in> set (snd (certificates_step e s)) \<Longrightarrow> Send r \<notin> set (snd (certificates_step e s))"
    by (cases e) (auto simp: settle_send split: sum.splits)
qed

end
