(* ===== verification/SettingsForms.thy ===== *)
theory SettingsForms
  imports Branding Widgets
begin

text \<open>
  The forms of the settings page (frontend/src/features/settings/settings-page.tsx): the brand, the DNS and
  cache defaults, and the three integrations Cloudflare, SMTP and S3 backup, which can be saved, tested
  and reset to the environment.  Each form is a record with the operations it has in flight, a
  function from its state to the request of an operation, and its view.
\<close>

section \<open>The logo\<close>

text \<open>The base-64 alphabet and encoding, as \<open>readAsDataURL\<close> uses them.\<close>

definition base64_char :: "nat \<Rightarrow> char" where
  "base64_char n =
     (if n < 26 then char_of (65 + n) else if n < 52 then char_of (71 + n) else if n < 62 then char_of (n - 4)
      else if n = 62 then CHR ''+'' else CHR ''/'')"

fun base64 :: "string \<Rightarrow> string" where
  "base64 [] = []"
| "base64 [a] = [base64_char (byte a div 4), base64_char (byte a mod 4 * 16), CHR ''='', CHR ''='']"
| "base64 [a, b] = [base64_char (byte a div 4), base64_char (byte a mod 4 * 16 + byte b div 16),
     base64_char (byte b mod 16 * 4), CHR ''='']"
| "base64 (a # b # c # r) = base64_char (byte a div 4) # base64_char (byte a mod 4 * 16 + byte b div 16) #
     base64_char (byte b mod 16 * 4 + byte c div 64) # base64_char (byte c mod 64) # base64 r"

record logo_file =
  lf_type :: string
  lf_bytes :: string

definition MAX_BRAND_LOGO_BYTES :: nat where
  "MAX_BRAND_LOGO_BYTES = push_bit 10 128"

definition data_url :: "logo_file \<Rightarrow> string" where
  "data_url f = ''data:'' @ lf_type f @ '';base64,'' @ base64 (lf_bytes f)"

text \<open>The outcome of reading a file the browser can or cannot read.\<close>

definition readBrandLogo :: "logo_file \<Rightarrow> bool \<Rightarrow> js_error + string" where
  "readBrandLogo f readable =
     (if lf_type f \<noteq> ''image/png'' \<and> lf_type f \<noteq> ''image/jpeg'' then Inl (JsError [Zh ''the logo must be a PNG or JPEG image''])
      else if MAX_BRAND_LOGO_BYTES < length (lf_bytes f) then Inl (JsError [Zh ''the logo must not exceed 128 KiB''])
      else if readable then Inr (data_url f)
      else Inl (JsError [Zh ''the logo cannot be read'']))"

section \<open>State and requests\<close>

datatype form_op = Save | Test | Reset

record branding_form =
  bf_seen :: branding
  bf_name :: string
  bf_subtitle :: string
  bf_logo :: string
  bf_reads :: "logo_file list"
  bf_pending :: "form_op list"

record number_form =
  nf_key :: string
  nf_value :: int
  nf_pending :: "form_op list"

record cloudflare_form =
  cff_key :: string
  cff_token :: string
  cff_pending :: "form_op list"

record smtp_form =
  smf_key :: string
  smf_enabled :: bool
  smf_host :: string
  smf_port :: int
  smf_security :: string
  smf_username :: string
  smf_password :: string
  smf_from :: string
  smf_recipients :: string
  smf_categories :: "string list"
  smf_testError :: ui_text
  smf_pending :: "form_op list"

record backup_form =
  buf_key :: string
  buf_repository :: string
  buf_accessKey :: string
  buf_secretKey :: string
  buf_region :: string
  buf_resticPassword :: string
  buf_backupTime :: string
  buf_delay :: int
  buf_pending :: "form_op list"

text \<open>\<open>split\<close>: at commas.\<close>

definition split_commas :: "string \<Rightarrow> string list" where
  "split_commas v = split_trim (\<lambda>c. c = CHR '','') v"

definition brand_request :: "string \<Rightarrow> branding_form \<Rightarrow> request" where
  "brand_request csrf f = api_request csrf ''/api/settings/branding''
     (json_init ''PUT'' (JObject [(''name'', JString (bf_name f)), (''subtitle'', JString (bf_subtitle f)),
        (''logo_data_url'', JString (bf_logo f))]))"

definition dns_request :: "string \<Rightarrow> number_form \<Rightarrow> request" where
  "dns_request csrf f = api_request csrf ''/api/settings/dns''
     (json_init ''PUT'' (JObject [(''default_ttl_seconds'', JInt (nf_value f))]))"

definition cache_request :: "string \<Rightarrow> number_form \<Rightarrow> request" where
  "cache_request csrf f = api_request csrf ''/api/settings/cache''
     (json_init ''PUT'' (JObject [(''default_size_gb'', JInt (nf_value f))]))"

definition cloudflare_request :: "string \<Rightarrow> form_op \<Rightarrow> cloudflare_form \<Rightarrow> request" where
  "cloudflare_request csrf p f =
     (case p of
        Save \<Rightarrow> api_request csrf ''/api/settings/cloudflare'' (json_init ''PUT'' (JObject [(''token'', JString (cff_token f))]))
      | Test \<Rightarrow> api_request csrf ''/api/settings/cloudflare/test'' (json_init ''POST'' (JObject [(''token'', JString (cff_token f))]))
      | Reset \<Rightarrow> api_request csrf ''/api/settings/cloudflare'' (method_init ''DELETE''))"

text \<open>\<open>...(secret ? { member: secret } : {})\<close>.\<close>

definition secret_member :: "string \<Rightarrow> string \<Rightarrow> (string \<times> json) list" where
  "secret_member k v = only_if (v \<noteq> []) [(k, JString v)]"

definition smtp_payload :: "smtp_form \<Rightarrow> json" where
  "smtp_payload f = JObject
     ([(''enabled'', JBool (smf_enabled f)), (''host'', JString (smf_host f)), (''port'', JInt (smf_port f)),
       (''security'', JString (smf_security f)), (''username'', JString (smf_username f)),
       (''from_address'', JString (smf_from f)), (''recipients'', JArray (map JString (split_commas (smf_recipients f)))),
       (''notification_categories'', JArray (map JString (smf_categories f)))] @
      secret_member ''password'' (smf_password f))"

definition smtp_request :: "string \<Rightarrow> form_op \<Rightarrow> smtp_form \<Rightarrow> request" where
  "smtp_request csrf p f =
     (case p of
        Save \<Rightarrow> api_request csrf ''/api/settings/smtp'' (json_init ''PUT'' (smtp_payload f))
      | Test \<Rightarrow> api_request csrf ''/api/settings/smtp/test'' (json_init ''POST'' (smtp_payload f))
      | Reset \<Rightarrow> api_request csrf ''/api/settings/smtp'' (method_init ''DELETE''))"

definition backup_payload :: "backup_form \<Rightarrow> json" where
  "backup_payload f = JObject
     ([(''repository'', JString (buf_repository f)), (''access_key_id'', JString (buf_accessKey f)),
       (''region'', JString (buf_region f)), (''backup_time'', JString (buf_backupTime f)),
       (''random_delay_seconds'', JInt (buf_delay f))] @
      secret_member ''secret_access_key'' (buf_secretKey f) @ secret_member ''restic_password'' (buf_resticPassword f))"

definition backup_request :: "string \<Rightarrow> form_op \<Rightarrow> backup_form \<Rightarrow> request" where
  "backup_request csrf p f =
     (case p of
        Save \<Rightarrow> api_request csrf ''/api/settings/backup'' (json_init ''PUT'' (backup_payload f))
      | Test \<Rightarrow> api_request csrf ''/api/settings/backup/test'' (json_init ''POST'' (backup_payload f))
      | Reset \<Rightarrow> api_request csrf ''/api/settings/backup'' (method_init ''DELETE''))"

section \<open>Opening a form\<close>

definition open_branding :: "branding \<Rightarrow> branding_form" where
  "open_branding b = \<lparr>bf_seen = b, bf_name = b_name b, bf_subtitle = b_subtitle b, bf_logo = b_logo_data_url b,
     bf_reads = [], bf_pending = []\<rparr>"

text \<open>The effect on \<open>settings.branding\<close>, whose identity changes exactly when its value does.\<close>

definition branding_effect :: "branding \<Rightarrow> branding_form \<Rightarrow> branding_form" where
  "branding_effect b f =
     (if b = bf_seen f then f
      else f\<lparr>bf_seen := b, bf_name := b_name b, bf_subtitle := b_subtitle b, bf_logo := b_logo_data_url b\<rparr>)"

definition open_number :: "string \<Rightarrow> int \<Rightarrow> number_form" where
  "open_number k n = \<lparr>nf_key = k, nf_value = n, nf_pending = []\<rparr>"

definition cache_key :: "settings \<Rightarrow> string" where
  "cache_key d = ''cache-'' @ int_str (cas_default_size_gb (set_cache d))"

definition dns_key :: "settings \<Rightarrow> string" where
  "dns_key d = ''dns-'' @ int_str (dns_default_ttl_seconds (set_dns d))"

definition bool_str :: "bool \<Rightarrow> string" where
  "bool_str b = (if b then ''true'' else ''false'')"

definition cloudflare_key :: "settings \<Rightarrow> string" where
  "cloudflare_key d = ''cf-'' @ cfs_source (set_cloudflare d) @ ''-'' @ bool_str (cfs_configured (set_cloudflare d))"

definition smtp_key :: "settings \<Rightarrow> string" where
  "smtp_key d = (let i = set_smtp d in ''smtp-'' @ smtp_source i @ ''-'' @ smtp_host i @ ''-'' @ int_str (smtp_port i) @ ''-''
     @ js_join '','' (smtp_notification_categories i))"

definition backup_key :: "settings \<Rightarrow> string" where
  "backup_key d = ''backup-'' @ bks_source (set_backup d) @ ''-'' @ bks_repository (set_backup d)"

definition open_cloudflare :: "settings \<Rightarrow> cloudflare_form" where
  "open_cloudflare d = \<lparr>cff_key = cloudflare_key d, cff_token = [], cff_pending = []\<rparr>"

definition open_smtp :: "settings \<Rightarrow> smtp_form" where
  "open_smtp d = (let i = set_smtp d in
     \<lparr>smf_key = smtp_key d, smf_enabled = smtp_enabled i, smf_host = smtp_host i,
      smf_port = (if smtp_port i = 0 then 587 else smtp_port i), smf_security = str_or (smtp_security i) ''starttls'',
      smf_username = smtp_username i, smf_password = [], smf_from = smtp_from_address i,
      smf_recipients = js_join '', '' (smtp_recipients i), smf_categories = smtp_notification_categories i,
      smf_testError = [], smf_pending = []\<rparr>)"

definition open_backup :: "settings \<Rightarrow> backup_form" where
  "open_backup d = (let i = set_backup d in
     \<lparr>buf_key = backup_key d, buf_repository = bks_repository i, buf_accessKey = bks_access_key_id i, buf_secretKey = [],
      buf_region = str_or (bks_region i) ''us-east-1'', buf_resticPassword = [],
      buf_backupTime = str_or (bks_backup_time i) ''03:25'', buf_delay = bks_random_delay_seconds i, buf_pending = []\<rparr>)"

text \<open>\<open>[...new Set([...current, category])]\<close> keeps the first of equal elements.\<close>

definition js_set :: "string list \<Rightarrow> string list" where
  "js_set xs = rev (remdups (rev xs))"

definition setNotificationCategory :: "string \<Rightarrow> bool \<Rightarrow> smtp_form \<Rightarrow> smtp_form" where
  "setNotificationCategory c checked f =
     f\<lparr>smf_categories := (if checked then js_set (smf_categories f @ [c]) else filter (\<lambda>x. x \<noteq> c) (smf_categories f))\<rparr>"

definition smtpTestErrorMessage :: "js_error \<Rightarrow> ui_text" where
  "smtpTestErrorMessage e =
     (case e of
        ApiError m st d \<Rightarrow> if st = 504 then [Zh ''the SMTP connection timed out, check server, port, security and network''] else errorMessage e
      | _ \<Rightarrow> errorMessage e)"

section \<open>Views\<close>

definition sourceLabel :: "string \<Rightarrow> ui_text" where
  "sourceLabel source =
     (if source = ''database'' then [Zh ''console settings''] else if source = ''environment'' then [Zh ''environment variables'']
      else [Zh ''not configured''])"

text \<open>\<open>source.includes(...)\<close> looks for the word for "environment", which of the labels only one contains.\<close>

definition names_environment :: "ui_text \<Rightarrow> bool" where
  "names_environment t \<longleftrightarrow> t = [Zh ''environment variables'']"

definition FormCard :: "ui_text \<Rightarrow> ui_text \<Rightarrow> ui_text \<Rightarrow> 'e view list \<Rightarrow> 'e view" where
  "FormCard title description source children = Grp ''card''
     ([Txt title, Txt description, StatusBadge (if names_environment source then ''pending'' else ''succeeded'') (Some source)]
      @ children)"

lemma fires_FormCard [simp]: "fires (FormCard t d s vs) e \<longleftrightarrow> offers vs e"
  by (simp add: FormCard_def)

text \<open>The file input: its change event hands over one file of any kind.\<close>

definition brand_preview :: "branding_form \<Rightarrow> 'e view" where
  "brand_preview f = Grp ''preview''
     ([BrandMark (bf_logo f), Txt [Raw (str_or (js_trim (bf_name f)) (b_name DEFAULT_BRANDING))]] @
      only_if (js_trim (bf_subtitle f) \<noteq> []) [Txt [Raw (js_trim (bf_subtitle f))]])"

definition default_brand_fields :: "branding_form \<Rightarrow> branding_form" where
  "default_brand_fields f = f\<lparr>bf_name := b_name DEFAULT_BRANDING, bf_subtitle := b_subtitle DEFAULT_BRANDING,
     bf_logo := b_logo_data_url DEFAULT_BRANDING\<rparr>"

definition BrandingForm :: "branding_form \<Rightarrow> (branding_form \<Rightarrow> 'e) \<Rightarrow> 'e \<Rightarrow> 'e view" where
  "BrandingForm f edit submit = FormCard [Zh ''console identity''] [Zh ''name and brand image''] [Zh ''console settings'']
     [Form
       ([Inp ''brand-name'' [Required, MaxLength 48] (bf_name f) False (\<lambda>v. edit (f\<lparr>bf_name := v\<rparr>)),
         Inp ''brand-subtitle'' [MaxLength 80] (bf_subtitle f) False (\<lambda>v. edit (f\<lparr>bf_subtitle := v\<rparr>))] @
        only_if (bf_logo f \<noteq> []) [Btn [Zh ''remove the logo''] False (edit (f\<lparr>bf_logo := []\<rparr>))] @
        [Txt [Zh ''PNG or JPEG, at most 128 KiB''], brand_preview f,
         Btn [Zh ''restore the defaults''] (bf_pending f \<noteq> []) (edit (default_brand_fields f))])
       [Zh ''save the common settings''] (bf_pending f \<noteq> [] \<or> js_trim (bf_name f) = []) submit]"

definition NumberForm ::
  "ui_text \<Rightarrow> ui_text \<Rightarrow> string \<Rightarrow> int \<Rightarrow> int \<Rightarrow> ui_text \<Rightarrow> ui_text \<Rightarrow> number_form \<Rightarrow> (number_form \<Rightarrow> 'e) \<Rightarrow> 'e \<Rightarrow> 'e view" where
  "NumberForm title description label lo hi note button f edit submit =
     FormCard title description [Zh ''control plane settings'']
       [Form
         [Inp label [NumRange (Some lo) (Some hi), Required] (int_str (nf_value f)) False (\<lambda>v. edit (f\<lparr>nf_value := js_number v\<rparr>)),
          Txt note]
         button (nf_pending f \<noteq> []) submit]"

definition DNSForm :: "number_form \<Rightarrow> (number_form \<Rightarrow> 'e) \<Rightarrow> 'e \<Rightarrow> 'e view" where
  "DNSForm f edit submit = NumberForm [Raw ''DNS''] [Zh ''defaults for all sites''] ''dns-ttl'' 60 300
     [Zh ''between 60 and 300 seconds, sites may override it''] [Zh ''save DNS''] f edit submit"

definition CacheForm :: "number_form \<Rightarrow> (number_form \<Rightarrow> 'e) \<Rightarrow> 'e \<Rightarrow> 'e view" where
  "CacheForm f edit submit = NumberForm [Zh ''cache''] [Zh ''default disk quota of the nodes''] ''cache-size'' 1 1024
     [Zh ''used at the next publication by nodes without an override''] [Zh ''save the cache configuration''] f edit submit"

definition CloudflareForm ::
  "cloudflare_settings \<Rightarrow> cloudflare_form \<Rightarrow> (cloudflare_form \<Rightarrow> 'e) \<Rightarrow> (form_op \<Rightarrow> 'e) \<Rightarrow> 'e view" where
  "CloudflareForm d f edit do_op =
     (let busy = cff_pending f \<noteq> [] in
      FormCard [Raw ''Cloudflare''] [Zh ''credentials of the DNS interface''] (sourceLabel (cfs_source d))
       [Form
         [Inp ''cloudflare-token'' (only_if (\<not> cfs_configured d) [Required]) (cff_token f) False (\<lambda>v. edit (f\<lparr>cff_token := v\<rparr>)),
          Btn [Zh ''verify the configuration''] (busy \<or> (\<not> cfs_configured d \<and> cff_token f = [])) (do_op Test),
          Btn [Zh ''restore the environment variables''] (busy \<or> \<not> cfs_override_configured d) (do_op Reset)]
         [Zh ''verify and save''] (busy \<or> cff_token f = []) (do_op Save)])"

definition smtpNotificationCategories :: "(string \<times> ui_text \<times> ui_text) list" where
  "smtpNotificationCategories =
     [(''availability'', [Zh ''availability of nodes and sites''], [Zh ''failed health checks, changes of the DNS pool, no healthy node'']),
      (''monitoring'', [Zh ''TCP probe anomalies''], [Zh ''traffic paused and resumed by probes'']),
      (''certificate'', [Zh ''certificate renewal''], [Zh ''failed renewals'']),
      (''backup'', [Zh ''backup jobs''], [Zh ''failed backups''])]"

definition category_row :: "smtp_form \<Rightarrow> (smtp_form \<Rightarrow> 'e) \<Rightarrow> string \<times> ui_text \<times> ui_text \<Rightarrow> 'e view" where
  "category_row f edit c = Grp ''category''
     [Txt (fst (snd c)), Txt (snd (snd c)),
      Chk (fst (snd c)) (fst c \<in> set (smf_categories f)) False (\<lambda>b. edit (setNotificationCategory (fst c) b f))]"

definition SMTPForm :: "smtp_settings \<Rightarrow> smtp_form \<Rightarrow> (smtp_form \<Rightarrow> 'e) \<Rightarrow> (form_op \<Rightarrow> 'e) \<Rightarrow> 'e view" where
  "SMTPForm d f edit do_op =
     (let busy = smf_pending f \<noteq> []; req = only_if (smf_enabled f) [Required] in
      FormCard [Raw ''SMTP''] [Zh ''mail notifications of the control plane''] (sourceLabel (smtp_source d))
       [Form
         ([Chk [Zh ''send mail''] (smf_enabled f) False (\<lambda>b. edit (f\<lparr>smf_enabled := b\<rparr>)),
           Inp ''smtp-host'' req (smf_host f) False (\<lambda>v. edit (f\<lparr>smf_host := v\<rparr>)),
           Inp ''smtp-port'' (NumRange (Some 1) (Some 65535) # req) (int_str (smf_port f)) False
             (\<lambda>v. edit (f\<lparr>smf_port := js_number v\<rparr>)),
           Sel [Zh ''security''] [(''starttls'', [Raw ''STARTTLS'']), (''tls'', [Zh ''implicit TLS''])] (smf_security f) False
             (\<lambda>v. edit (f\<lparr>smf_security := v\<rparr>)),
           Inp ''smtp-user'' [] (smf_username f) False (\<lambda>v. edit (f\<lparr>smf_username := v\<rparr>)),
           Inp ''smtp-password'' [] (smf_password f) False (\<lambda>v. edit (f\<lparr>smf_password := v\<rparr>)),
           Inp ''smtp-from'' (Email # req) (smf_from f) False (\<lambda>v. edit (f\<lparr>smf_from := v\<rparr>)),
           Inp ''smtp-recipients'' req (smf_recipients f) False (\<lambda>v. edit (f\<lparr>smf_recipients := v\<rparr>))] @
          map (category_row f edit) smtpNotificationCategories @
          [Btn (if Test \<in> set (smf_pending f) then [Zh ''sending''] else [Zh ''send a test mail'']) (busy \<or> \<not> smf_enabled f) (do_op Test),
           Btn [Zh ''restore the environment variables''] (busy \<or> \<not> smtp_override_configured d) (do_op Reset)] @
          only_if (smf_testError f \<noteq> []) [Grp ''alert'' [Txt [Zh ''the test mail could not be sent''], Txt (smf_testError f)]])
         [Zh ''save SMTP''] busy (do_op Save)])"

definition delay_options :: "(string \<times> ui_text) list" where
  "delay_options = [(''0'', [Zh ''no delay'']), (''300'', [Zh ''at most 5 minutes'']), (''600'', [Zh ''at most 10 minutes'']),
     (''1200'', [Zh ''at most 20 minutes'']), (''1800'', [Zh ''at most 30 minutes'']), (''3600'', [Zh ''at most 60 minutes''])]"

definition BackupForm :: "backup_settings \<Rightarrow> backup_form \<Rightarrow> (backup_form \<Rightarrow> 'e) \<Rightarrow> (form_op \<Rightarrow> 'e) \<Rightarrow> 'e view" where
  "BackupForm d f edit do_op =
     (let busy = buf_pending f \<noteq> [] in
      FormCard [Zh ''S3 backup''] [Zh ''Restic repository and daily schedule''] (sourceLabel (bks_source d))
       [Form
         [Inp ''backup-repository'' [Required, MaxLength 2048] (buf_repository f) False (\<lambda>v. edit (f\<lparr>buf_repository := v\<rparr>)),
          Inp ''backup-key'' [Required] (buf_accessKey f) False (\<lambda>v. edit (f\<lparr>buf_accessKey := v\<rparr>)),
          Inp ''backup-secret'' (only_if (\<not> bks_secret_access_key_configured d) [Required]) (buf_secretKey f) False
            (\<lambda>v. edit (f\<lparr>buf_secretKey := v\<rparr>)),
          Inp ''backup-region'' [Required] (buf_region f) False (\<lambda>v. edit (f\<lparr>buf_region := v\<rparr>)),
          Inp ''restic-password'' (only_if (\<not> bks_restic_password_configured d) [Required]) (buf_resticPassword f) False
            (\<lambda>v. edit (f\<lparr>buf_resticPassword := v\<rparr>)),
          Inp ''backup-time'' [TimeOfDay, Required] (buf_backupTime f) False (\<lambda>v. edit (f\<lparr>buf_backupTime := v\<rparr>)),
          Sel [Zh ''random delay''] delay_options (int_str (buf_delay f)) False (\<lambda>v. edit (f\<lparr>buf_delay := js_number v\<rparr>)),
          Btn [Zh ''verify the repository''] busy (do_op Test),
          Btn [Zh ''restore the environment variables''] (busy \<or> \<not> bks_override_configured d) (do_op Reset)]
         [Zh ''save the S3 backup''] busy (do_op Save)])"


section \<open>The logo fits the cache\<close>

lemma base64_length: "length (base64 bs) = 4 * ((length bs + 2) div 3)"
proof (induction bs rule: base64.induct)
  case (4 a b c r)
  then show ?case by (simp add: Suc_diff_Suc div_add_self1 [symmetric]) presburger
qed simp_all

lemma base64_char_ascii: "n < 64 \<Longrightarrow> byte (base64_char n) < 128"
  by (auto simp: base64_char_def)

lemma base64_bounds [simp]:
  "byte a div 4 < 64" "byte a mod 4 * 16 + byte b div 16 < 64" "byte b mod 16 * 4 + byte c div 64 < 64"
  "byte a mod 4 * 16 < 64" "byte b mod 16 * 4 < 64" "byte c mod 64 < 64"
proof -
  have "byte b div 16 < 16" "byte c div 64 < 4" by (simp_all add: less_mult_imp_div_less)
  moreover have "byte a mod 4 < 4" "byte b mod 16 < 16" by simp_all
  ultimately show "byte a mod 4 * 16 + byte b div 16 < 64" "byte b mod 16 * 4 + byte c div 64 < 64"
    "byte a mod 4 * 16 < 64" "byte b mod 16 * 4 < 64" by linarith+
qed (simp_all add: less_mult_imp_div_less)

lemma base64_ascii: "c \<in> set (base64 bs) \<Longrightarrow> byte c < 128"
  by (induction bs rule: base64.induct) (auto simp: base64_char_ascii)

text \<open>
  Every logo the form accepts survives the browser's cache: a file of at most 128 KiB of one of the two types
  becomes a data URL within the bound and of the kind the cache admits, so the brand shown before log-in is
  the one that was saved.
\<close>

theorem accepted_logo_fits_cache:
  assumes "readBrandLogo f readable = Inr u"
  shows "valid_logo u \<and> js_length u = length u \<and> length u \<le> 174787"
proof -
  have f: "lf_type f = ''image/png'' \<or> lf_type f = ''image/jpeg''" "length (lf_bytes f) \<le> 131072" "u = data_url f"
    using assms by (auto simp: readBrandLogo_def MAX_BRAND_LOGO_BYTES_def push_bit_eq_mult split: if_splits)
  have h: "\<forall>c \<in> set (''data:'' @ lf_type f @ '';base64,''). byte c < 128" using f(1) by auto
  have l: "length u \<le> 23 + length (base64 (lf_bytes f))" using f by (auto simp: data_url_def)
  also have "\<dots> \<le> 23 + 4 * ((131072 + 2) div 3)"
    unfolding base64_length using f(2) by (intro add_left_mono mult_left_mono div_le_mono) simp_all
  finally have b: "length u \<le> 174787" by simp
  have "\<forall>c \<in> set u. byte c < 128" using h base64_ascii unfolding f(3) data_url_def by auto
  then have j: "js_length u = length u" by (rule js_length_ascii)
  have "u = ''data:image/png;base64,'' @ base64 (lf_bytes f) \<or> u = ''data:image/jpeg;base64,'' @ base64 (lf_bytes f)"
    using f by (auto simp: data_url_def)
  then have "starts_with u ''data:image/png;base64,'' \<or> starts_with u ''data:image/jpeg;base64,''"
    by (metis starts_with_append)
  with j b show ?thesis by (simp add: valid_logo_def MAX_CACHED_LOGO_LENGTH_def)
qed

theorem accepted_logo_fits_cache_witness:
  "valid_logo (data_url \<lparr>lf_type = ''image/png'', lf_bytes = ''abc''\<rparr>)"
proof -
  have "readBrandLogo \<lparr>lf_type = ''image/png'', lf_bytes = ''abc''\<rparr> True = Inr (data_url \<lparr>lf_type = ''image/png'', lf_bytes = ''abc''\<rparr>)"
    by (simp add: readBrandLogo_def MAX_BRAND_LOGO_BYTES_def push_bit_eq_mult)
  from accepted_logo_fits_cache [OF this] show ?thesis by blast
qed

section \<open>What the forms offer\<close>

lemma list_all_only_if [simp]: "list_all P (only_if c xs) \<longleftrightarrow> (c \<longrightarrow> list_all P xs)"
  by (simp add: only_if_def)

lemma fires_BrandingForm:
  assumes "fires (BrandingForm f edit submit) e"
  shows "(\<exists>g. e = edit g \<and> bf_pending g = bf_pending f \<and> bf_reads g = bf_reads f \<and> bf_seen g = bf_seen f) \<or>
    (e = submit \<and> bf_pending f = [] \<and> js_trim (bf_name f) \<noteq> [] \<and> js_length (bf_name f) \<le> 48 \<and> js_length (bf_subtitle f) \<le> 80)"
proof -
  consider v where "e = edit (f\<lparr>bf_name := v\<rparr>)" | v where "e = edit (f\<lparr>bf_subtitle := v\<rparr>)" | "e = edit (f\<lparr>bf_logo := []\<rparr>)"
    | "e = edit (default_brand_fields f)"
    | "e = submit" "bf_pending f = []" "js_trim (bf_name f) \<noteq> []" "js_length (bf_name f) \<le> 48" "js_length (bf_subtitle f) \<le> 80"
    using assms by (auto simp: BrandingForm_def brand_preview_def field_ok_def)
  then show ?thesis by cases (force simp: default_brand_fields_def)+
qed

lemma int_str_nonempty [simp]: "int_str n \<noteq> []"
  by (simp add: int_str_def)

lemma fires_NumberForm:
  assumes "fires (NumberForm ti de l lo hi n b f edit submit) e"
  shows "(\<exists>g. e = edit g \<and> nf_pending g = nf_pending f \<and> nf_key g = nf_key f) \<or>
    (e = submit \<and> nf_pending f = [] \<and> lo \<le> nf_value f \<and> nf_value f \<le> hi)"
proof -
  consider v where "e = edit (f\<lparr>nf_value := v\<rparr>)" | "e = submit" "nf_pending f = []" "lo \<le> nf_value f" "nf_value f \<le> hi"
    using assms by (auto simp: NumberForm_def field_ok_def)
  then show ?thesis by cases force+
qed

lemma fires_CloudflareForm:
  assumes "fires (CloudflareForm d f edit do_op) e"
  shows "(\<exists>v. e = edit (f\<lparr>cff_token := v\<rparr>)) \<or>
    (\<exists>p. e = do_op p \<and> cff_pending f = [] \<and> (p = Save \<longrightarrow> cff_token f \<noteq> []) \<and>
       (p = Test \<longrightarrow> cfs_configured d \<or> cff_token f \<noteq> []) \<and> (p = Reset \<longrightarrow> cfs_override_configured d))"
  using assms by (auto simp: CloudflareForm_def Let_def)

definition smtp_valid :: "smtp_form \<Rightarrow> bool" where
  "smtp_valid f \<longleftrightarrow> 1 \<le> smf_port f \<and> smf_port f \<le> 65535 \<and> (smf_from f = [] \<or> email_ok (smf_from f)) \<and>
     (smf_enabled f \<longrightarrow> smf_host f \<noteq> [] \<and> smf_from f \<noteq> [] \<and> smf_recipients f \<noteq> [])"

lemma fires_SMTPForm:
  assumes "fires (SMTPForm d f edit do_op) e"
  shows "(\<exists>g. e = edit g \<and> smf_pending g = smf_pending f \<and> smf_key g = smf_key f) \<or>
    (\<exists>p. e = do_op p \<and> smf_pending f = [] \<and> (p = Save \<longrightarrow> smtp_valid f) \<and> (p = Test \<longrightarrow> smf_enabled f) \<and>
       (p = Reset \<longrightarrow> smtp_override_configured d))"
proof -
  have c: "\<exists>c b. e = edit (setNotificationCategory c b f)" if "offers (map (category_row f edit) smtpNotificationCategories) e"
    using that by (auto simp: offers_map category_row_def)
  consider b where "e = edit (f\<lparr>smf_enabled := b\<rparr>)" | v where "e = edit (f\<lparr>smf_host := v\<rparr>)" | v where "e = edit (f\<lparr>smf_port := v\<rparr>)"
    | v where "e = edit (f\<lparr>smf_security := v\<rparr>)" | v where "e = edit (f\<lparr>smf_username := v\<rparr>)" | v where "e = edit (f\<lparr>smf_password := v\<rparr>)"
    | v where "e = edit (f\<lparr>smf_from := v\<rparr>)" | v where "e = edit (f\<lparr>smf_recipients := v\<rparr>)"
    | "offers (map (category_row f edit) smtpNotificationCategories) e"
    | "e = do_op Test" "smf_pending f = []" "smf_enabled f" | "e = do_op Reset" "smf_pending f = []" "smtp_override_configured d"
    | "e = do_op Save" "smf_pending f = []" "smtp_valid f"
    using assms by (simp add: SMTPForm_def Let_def image_iff field_ok_def smtp_valid_def) blast
  then show ?thesis
  proof cases
    case 9
    then show ?thesis using c by (auto simp: setNotificationCategory_def)
  qed (force)+
qed

definition backup_valid :: "backup_settings \<Rightarrow> backup_form \<Rightarrow> bool" where
  "backup_valid d f \<longleftrightarrow> buf_repository f \<noteq> [] \<and> js_length (buf_repository f) \<le> 2048 \<and> buf_accessKey f \<noteq> [] \<and> buf_region f \<noteq> [] \<and>
     time_ok (buf_backupTime f) \<and> (bks_secret_access_key_configured d \<or> buf_secretKey f \<noteq> []) \<and>
     (bks_restic_password_configured d \<or> buf_resticPassword f \<noteq> [])"

lemma fires_BackupForm:
  assumes "fires (BackupForm d f edit do_op) e"
  shows "(\<exists>g. e = edit g \<and> buf_pending g = buf_pending f \<and> buf_key g = buf_key f) \<or>
    (\<exists>p. e = do_op p \<and> buf_pending f = [] \<and> (p = Save \<longrightarrow> backup_valid d f) \<and> (p = Reset \<longrightarrow> bks_override_configured d))"
proof -
  consider v where "e = edit (f\<lparr>buf_repository := v\<rparr>)" | v where "e = edit (f\<lparr>buf_accessKey := v\<rparr>)"
    | v where "e = edit (f\<lparr>buf_secretKey := v\<rparr>)" | v where "e = edit (f\<lparr>buf_region := v\<rparr>)"
    | v where "e = edit (f\<lparr>buf_resticPassword := v\<rparr>)" | v where "e = edit (f\<lparr>buf_backupTime := v\<rparr>)"
    | v where "e = edit (f\<lparr>buf_delay := v\<rparr>)" | "e = do_op Test" "buf_pending f = []"
    | "e = do_op Reset" "buf_pending f = []" "bks_override_configured d"
    | "e = do_op Save" "buf_pending f = []" "backup_valid d f"
    using assms by (simp add: BackupForm_def Let_def image_iff field_ok_def backup_valid_def) blast
  then show ?thesis by cases force+
qed

end
