(* ===== verification/Restore.thy ===== *)
theory Restore
  imports Widgets
begin

text \<open>
  Backups and the online restore (frontend/src/features/settings/backup-restore.tsx): the snapshots of
  the repository, the current restore job, and the four operations on them, each behind a
  confirmation.  The card is unmounted when its tab is left; an operation it sent goes on, which
  \<open>bk_old\<close> remembers.
\<close>

section \<open>State\<close>

datatype bk_op = StartOp | CommitOp | CancelOp | DeleteOp restore_snapshot

text \<open>
  \<open>bk_pending\<close> holds the mutations of the mounted card whose \<open>isPending\<close> is true.  Each dialog clears its
  text when it is closed, and no two of them are open together (see \<open>bk_inv\<close>), so one text serves
  them.
\<close>

record restore_page =
  bk_csrf :: string
  bk_status :: "backup_run_status query"
  bk_snapshots :: "restore_snapshot list query"
  bk_job :: "restore_job query"
  bk_fetching :: bool
  bk_page :: nat
  bk_selected :: "restore_snapshot option"
  bk_deleting :: "restore_snapshot option"
  bk_commitOpen :: bool
  bk_cancelOpen :: bool
  bk_text :: string
  bk_pending :: "bk_op list"
  bk_old :: "bk_op list"

datatype restore_event =
    RefreshBackups | SnapshotsPageTo int
  | AskStart restore_snapshot | AskDeleteSnapshot restore_snapshot | AskCommit | AskCancelRestore
  | TypeRestore string
  | CloseStart | CloseDeleteSnapshot | CloseCommit | CloseCancelRestore
  | ConfirmStart | ConfirmDeleteSnapshot | ConfirmCommit | ConfirmCancelRestore
  | JobOpArrives bool bk_op "js_error + restore_job"
  | SnapshotDeleted bool restore_snapshot "js_error + string"
  | BackupStatusArrives "backup_run_status query"
  | SnapshotsArrive "restore_snapshot list query"
  | JobArrives "restore_job query"
  | FetchingChanges bool

definition activeRestore :: "string option \<Rightarrow> bool" where
  "activeRestore st \<longleftrightarrow> (case st of None \<Rightarrow> False
     | Some s \<Rightarrow> s \<in> {''queued'', ''downloading'', ''validating'', ''ready'', ''committing''})"

definition current_job :: "restore_page \<Rightarrow> restore_job option" where
  "current_job s = q_data (bk_job s)"

definition current_state :: "restore_page \<Rightarrow> string option" where
  "current_state s = map_option rj_state (current_job s)"

definition bk_busy :: "restore_page \<Rightarrow> bool" where
  "bk_busy s \<longleftrightarrow> bk_pending s \<noteq> []"

definition job_poll :: "restore_job option \<Rightarrow> nat" where
  "job_poll j = (if activeRestore (map_option rj_state j) then 2000 else 15000)"

section \<open>Requests\<close>

definition job_path :: "restore_page \<Rightarrow> string" where
  "job_path s = ''/api/backups/restores/'' @ encodeURIComponent (case current_job s of None \<Rightarrow> [] | Some j \<Rightarrow> rj_id j)"

definition start_request :: "restore_snapshot \<Rightarrow> restore_page \<Rightarrow> request" where
  "start_request x s = api_request (bk_csrf s) ''/api/backups/restores''
     (json_init ''POST'' (JObject [(''snapshot_id'', JString (rs_id x)), (''confirmation'', JString (rs_short_id x))]))"

definition commit_request :: "restore_page \<Rightarrow> request" where
  "commit_request s = api_request (bk_csrf s) (job_path s @ ''/commit'')
     (json_init ''POST'' (JObject [(''confirmation'', JString ''RESTORE'')]))"

definition cancel_request :: "restore_page \<Rightarrow> request" where
  "cancel_request s = api_request (bk_csrf s) (job_path s) (method_init ''DELETE'')"

definition delete_snapshot_request :: "restore_snapshot \<Rightarrow> restore_page \<Rightarrow> request" where
  "delete_snapshot_request x s = api_request (bk_csrf s) (''/api/backups/snapshots/'' @ encodeURIComponent (rs_id x))
     (json_init ''DELETE'' (JObject [(''confirmation'', JString (rs_short_id x))]))"

section \<open>Handlers\<close>

definition updateJob :: "restore_job \<Rightarrow> restore_page \<Rightarrow> restore_page" where
  "updateJob j s = s\<lparr>bk_job := \<lparr>q_data = Some j, q_error = None\<rparr>\<rparr>"

definition bk_mutate :: "bk_op \<Rightarrow> request \<Rightarrow> restore_page \<Rightarrow> restore_page \<times> effect list" where
  "bk_mutate p r s = (s\<lparr>bk_pending := p # bk_pending s\<rparr>, [Send r])"

text \<open>A mutation has settled: one of the mounted card, or one left behind.\<close>

definition bk_settled :: "bool \<Rightarrow> bk_op \<Rightarrow> restore_page \<Rightarrow> restore_page" where
  "bk_settled own p s =
     (if own then s\<lparr>bk_pending := remove1 p (bk_pending s)\<rparr> else s\<lparr>bk_old := remove1 p (bk_old s)\<rparr>)"

text \<open>\<open>onSuccess\<close> closes the operation's dialog, which only the mounted card has.\<close>

definition close_op :: "bk_op \<Rightarrow> restore_page \<Rightarrow> restore_page" where
  "close_op p s =
     (case p of
        StartOp \<Rightarrow> s\<lparr>bk_selected := None, bk_text := []\<rparr>
      | CommitOp \<Rightarrow> s\<lparr>bk_commitOpen := False, bk_text := []\<rparr>
      | CancelOp \<Rightarrow> s\<lparr>bk_cancelOpen := False, bk_text := []\<rparr>
      | DeleteOp x \<Rightarrow> s\<lparr>bk_deleting := None, bk_text := [],
          bk_selected := (if map_option rs_id (bk_selected s) = Some (rs_id x) then None else bk_selected s)\<rparr>)"

definition op_done_text :: "bk_op \<Rightarrow> ui_text" where
  "op_done_text p =
     (case p of
        StartOp \<Rightarrow> [Zh ''download and isolated validation of the snapshot started'']
      | CommitOp \<Rightarrow> [Zh ''switch submitted, the control plane restarts briefly'']
      | CancelOp \<Rightarrow> [Zh ''the online restore was cancelled'']
      | DeleteOp x \<Rightarrow> [Zh ''backup snapshot '', Raw (rs_short_id x), Zh '' deleted for good''])"

definition op_succeeded_with :: "bool \<Rightarrow> bk_op \<Rightarrow> restore_job \<Rightarrow> restore_page \<Rightarrow> restore_page \<times> effect list" where
  "op_succeeded_with own p j s =
     (let s1 = updateJob j (bk_settled own p s)
      in (if own then close_op p s1 else s1, [Invalidate [''messages''], ToastSuccess (op_done_text p)]))"

definition drop_snapshot :: "restore_snapshot \<Rightarrow> restore_page \<Rightarrow> restore_page" where
  "drop_snapshot x s =
     s\<lparr>bk_snapshots := (bk_snapshots s)\<lparr>q_data := map_option (filter (\<lambda>y. rs_id y \<noteq> rs_id x)) (q_data (bk_snapshots s))\<rparr>\<rparr>"

definition snapshot_deleted :: "bool \<Rightarrow> restore_snapshot \<Rightarrow> restore_page \<Rightarrow> restore_page \<times> effect list" where
  "snapshot_deleted own x s =
     (let s1 = drop_snapshot x (bk_settled own (DeleteOp x) s)
      in (if own then close_op (DeleteOp x) s1 else s1,
          [Invalidate [''backup-snapshots''], ToastSuccess (op_done_text (DeleteOp x))]))"

definition bk_failed :: "restore_page \<Rightarrow> js_error \<Rightarrow> restore_page \<times> effect list" where
  "bk_failed s e = (s, [ToastError (errorMessage e)])"

definition snapshot_list :: "restore_page \<Rightarrow> restore_snapshot list" where
  "snapshot_list s = nullish (q_data (bk_snapshots s)) []"

fun restore_step :: "(restore_event, restore_page) component" where
  "restore_step RefreshBackups s = (s, [Refetch [''backup-status''], Refetch [''backup-snapshots''], Refetch [''restore-job'']])"
| "restore_step (SnapshotsPageTo k) s =
     (s\<lparr>bk_page := setPage (useListPagination (snapshot_list s) LIST_PAGE_SIZE (bk_page s)) k\<rparr>, [])"
| "restore_step (AskStart x) s = (s\<lparr>bk_selected := Some x\<rparr>, [])"
| "restore_step (AskDeleteSnapshot x) s = (s\<lparr>bk_deleting := Some x\<rparr>, [])"
| "restore_step AskCommit s = (s\<lparr>bk_commitOpen := True\<rparr>, [])"
| "restore_step AskCancelRestore s = (s\<lparr>bk_cancelOpen := True\<rparr>, [])"
| "restore_step (TypeRestore v) s = (s\<lparr>bk_text := v\<rparr>, [])"
| "restore_step CloseStart s = (s\<lparr>bk_selected := None, bk_text := []\<rparr>, [])"
| "restore_step CloseDeleteSnapshot s = (s\<lparr>bk_deleting := None, bk_text := []\<rparr>, [])"
| "restore_step CloseCommit s = (s\<lparr>bk_commitOpen := False, bk_text := []\<rparr>, [])"
| "restore_step CloseCancelRestore s = (s\<lparr>bk_cancelOpen := False, bk_text := []\<rparr>, [])"
| "restore_step ConfirmStart s =
     (case bk_selected s of None \<Rightarrow> (s, []) | Some x \<Rightarrow> bk_mutate StartOp (start_request x s) s)"
| "restore_step ConfirmDeleteSnapshot s =
     (case bk_deleting s of None \<Rightarrow> (s, []) | Some x \<Rightarrow> bk_mutate (DeleteOp x) (delete_snapshot_request x s) s)"
| "restore_step ConfirmCommit s = bk_mutate CommitOp (commit_request s) s"
| "restore_step ConfirmCancelRestore s = bk_mutate CancelOp (cancel_request s) s"
| "restore_step (JobOpArrives own p r) s =
     settle r (\<lambda>j. op_succeeded_with own p j s) (bk_failed (bk_settled own p s))"
| "restore_step (SnapshotDeleted own x r) s =
     settle r (\<lambda>_. snapshot_deleted own x s) (bk_failed (bk_settled own (DeleteOp x) s))"
| "restore_step (BackupStatusArrives q) s = (s\<lparr>bk_status := q\<rparr>, [])"
| "restore_step (SnapshotsArrive q) s = (s\<lparr>bk_snapshots := q\<rparr>, [])"
| "restore_step (JobArrives q) s = (s\<lparr>bk_job := q\<rparr>, [])"
| "restore_step (FetchingChanges b) s = (s\<lparr>bk_fetching := b\<rparr>, [])"

text \<open>The card is unmounted: its state is lost, its requests go on.\<close>

definition restore_unmount :: "restore_page \<Rightarrow> restore_page" where
  "restore_unmount s =
     s\<lparr>bk_selected := None, bk_deleting := None, bk_commitOpen := False, bk_cancelOpen := False, bk_text := [],
       bk_page := 1, bk_pending := [], bk_old := bk_pending s @ bk_old s\<rparr>"

section \<open>The view\<close>

definition restoreLabel :: "string \<Rightarrow> ui_text" where
  "restoreLabel st =
     (case map_of [(''queued'', ''queued''), (''downloading'', ''downloading''), (''validating'', ''validating in isolation''),
                   (''ready'', ''validated''), (''committing'', ''switching''), (''completed'', ''completed''),
                   (''failed'', ''failed''), (''cancelled'', ''cancelled'')] st of Some l \<Rightarrow> [Zh l] | None \<Rightarrow> [Raw st])"

definition backupLabel :: "string \<Rightarrow> ui_text" where
  "backupLabel st =
     (case map_of [(''running'', ''running''), (''retrying'', ''retrying''), (''succeeded'', ''succeeded''),
                   (''failed'', ''failed''), (''skipped'', ''skipped'')] st of Some l \<Rightarrow> [Zh l] | None \<Rightarrow> [Raw st])"

definition backupState :: "string \<Rightarrow> string" where
  "backupState st =
     nullish (map_of [(''running'', ''applying''), (''retrying'', ''queued''), (''succeeded'', ''succeeded''),
                      (''failed'', ''failed''), (''skipped'', ''pending'')] st) st"

definition RestoreJobPanel :: "restore_job \<Rightarrow> bool \<Rightarrow> restore_event view" where
  "RestoreJobPanel j busy = Grp ''alert''
     ([Txt [Zh ''restore job''], StatusBadge (rj_state j) (Some (restoreLabel (rj_state j))),
       Txt (if truthy_str (rj_error j) then [Raw (the (rj_error j))]
            else if truthy_str (rj_detail j) then [Raw (the (rj_detail j))] else [Zh ''waiting for the state'']),
       Txt ([Zh ''snapshot '', Raw (rj_snapshot_short_id j), Zh '', updated ''] @ formatDateTime (Some (rj_updated_at j)))] @
      only_if (rj_state j = ''ready'') [Btn [Zh ''switch the data''] busy AskCommit] @
      only_if (activeRestore (Some (rj_state j)) \<and> rj_state j \<noteq> ''committing'') [Btn [Zh ''cancel the restore''] busy AskCancelRestore])"

definition snapshot_row :: "bool \<Rightarrow> restore_snapshot \<Rightarrow> restore_event view" where
  "snapshot_row disabled x = Grp ''row''
     [Txt (formatDateTime (Some (rs_time x))), Txt [Raw (rs_short_id x)],
      Txt (if truthy_str (rs_hostname x) then [Raw (the (rs_hostname x))] else [Raw ''--'']),
      Btn [Zh ''prepare the restore''] disabled (AskStart x),
      Btn [Zh ''delete the snapshot '', Raw (rs_short_id x)] disabled (AskDeleteSnapshot x)]"

definition backup_status_row :: "backup_run_status option \<Rightarrow> restore_event view" where
  "backup_status_row st =
     (case st of
        None \<Rightarrow> Txt [Zh ''no backup has run yet'']
      | Some b \<Rightarrow> Grp ''row''
          ([StatusBadge (backupState (br_state b)) (Some (backupLabel (br_state b))),
            Txt ([Zh ''last backup ''] @ formatDateTime (Some (br_updated_at b))),
            Txt [Zh ''attempt '', Raw (int_str (br_attempt b)), Raw '' / '', Raw (int_str (br_max_attempts b))]] @
           only_if (truthy_str (br_error b)) [Txt [Raw (the (br_error b))]]))"

definition snapshot_table :: "restore_page \<Rightarrow> restore_event view list" where
  "snapshot_table s =
     (if q_loading (bk_snapshots s) then [Txt [Zh ''reading the snapshots'']]
      else if snapshot_list s \<noteq> [] then
        (let p = useListPagination (snapshot_list s) LIST_PAGE_SIZE (bk_page s) in
         map (snapshot_row (bk_busy s \<or> activeRestore (current_state s))) (pg_items p) @
         [ListPagination p [Zh ''snapshots''] False SnapshotsPageTo []])
      else [EmptyState [Zh ''no snapshots''] (Some [Zh ''available after a backup has completed''])])"

definition restore_card :: "restore_page \<Rightarrow> restore_event view" where
  "restore_card s = Grp ''card''
     ([Txt [Zh ''online restore from S3''], Txt [Zh ''downloaded and validated in isolation before the data is switched''],
       Btn [Zh ''refresh backups and snapshots''] (bk_fetching s) RefreshBackups] @
      (case q_error (bk_status s) of None \<Rightarrow> [] | Some e \<Rightarrow> [PageError [Zh ''the backup status failed to load''] e]) @
      [backup_status_row (q_data (bk_status s))] @
      (case current_job s of None \<Rightarrow> [] | Some j \<Rightarrow> [RestoreJobPanel j (bk_busy s)]) @
      (case q_error (bk_snapshots s) of None \<Rightarrow> [] | Some e \<Rightarrow> [PageError [Zh ''the snapshots failed to load''] e]) @
      snapshot_table s)"

definition bk_modal :: "restore_page \<Rightarrow> bool" where
  "bk_modal s \<longleftrightarrow> bk_selected s \<noteq> None \<or> bk_deleting s \<noteq> None \<or> bk_commitOpen s \<or> bk_cancelOpen s"

definition is_delete :: "bk_op \<Rightarrow> bool" where
  "is_delete p \<longleftrightarrow> (case p of DeleteOp x \<Rightarrow> True | _ \<Rightarrow> False)"

definition restore_dialogs :: "restore_page \<Rightarrow> restore_event view list" where
  "restore_dialogs s =
     ConfirmDialog (bk_selected s \<noteq> None) [Zh ''prepare the online restore'']
       [Zh ''downloads and validates snapshot '', Raw (case bk_selected s of None \<Rightarrow> [] | Some x \<Rightarrow> rs_short_id x)]
       [Zh ''download and validate''] (map_option rs_short_id (bk_selected s)) (StartOp \<in> set (bk_pending s))
       (bk_text s) TypeRestore CloseStart ConfirmStart @
     ConfirmDialog (bk_deleting s \<noteq> None) [Zh ''delete the backup snapshot'']
       [Zh ''deletes snapshot '', Raw (case bk_deleting s of None \<Rightarrow> [] | Some x \<Rightarrow> rs_short_id x), Zh '' for good'']
       [Zh ''delete for good''] (map_option rs_short_id (bk_deleting s)) (list_ex is_delete (bk_pending s))
       (bk_text s) TypeRestore CloseDeleteSnapshot ConfirmDeleteSnapshot @
     ConfirmDialog (bk_commitOpen s) [Zh ''switch to the restored snapshot'']
       [Zh ''the control plane switches to the validated data and restarts''] [Zh ''confirm the switch'']
       (Some ''RESTORE'') (CommitOp \<in> set (bk_pending s)) (bk_text s) TypeRestore CloseCommit ConfirmCommit @
     ConfirmDialog (bk_cancelOpen s) [Zh ''cancel the online restore'']
       [Zh ''the isolated data is removed, the live data stays''] [Zh ''cancel the restore'']
       None (CancelOp \<in> set (bk_pending s)) (bk_text s) TypeRestore CloseCancelRestore ConfirmCancelRestore"

definition BackupRestore :: "restore_page \<Rightarrow> restore_event view list" where
  "BackupRestore s = only_if (\<not> bk_modal s) [restore_card s] @ restore_dialogs s"

fun restore_enabled :: "restore_page \<Rightarrow> restore_event \<Rightarrow> bool" where
  "restore_enabled s (JobOpArrives own p r) \<longleftrightarrow> \<not> is_delete p \<and> p \<in> set (if own then bk_pending s else bk_old s)"
| "restore_enabled s (SnapshotDeleted own x r) \<longleftrightarrow> DeleteOp x \<in> set (if own then bk_pending s else bk_old s)"
| "restore_enabled s (BackupStatusArrives q) \<longleftrightarrow> True"
| "restore_enabled s (SnapshotsArrive q) \<longleftrightarrow> True"
| "restore_enabled s (JobArrives q) \<longleftrightarrow> True"
| "restore_enabled s (FetchingChanges b) \<longleftrightarrow> True"
| "restore_enabled s e \<longleftrightarrow> offers (BackupRestore s) e"

definition restore_init :: "string \<Rightarrow> restore_page" where
  "restore_init csrf =
     \<lparr>bk_csrf = csrf, bk_status = \<lparr>q_data = None, q_error = None\<rparr>, bk_snapshots = \<lparr>q_data = None, q_error = None\<rparr>,
      bk_job = \<lparr>q_data = None, q_error = None\<rparr>, bk_fetching = True, bk_page = 1, bk_selected = None, bk_deleting = None,
      bk_commitOpen = False, bk_cancelOpen = False, bk_text = [], bk_pending = [], bk_old = []\<rparr>"


section \<open>What the card offers\<close>

lemma fires_snapshot_row:
  "fires (snapshot_row d x) e \<longleftrightarrow> \<not> d \<and> (e = AskStart x \<or> e = AskDeleteSnapshot x)"
  by (auto simp: snapshot_row_def)

lemma fires_RestoreJobPanel:
  "fires (RestoreJobPanel j busy) e \<longleftrightarrow> \<not> busy \<and> ((rj_state j = ''ready'' \<and> e = AskCommit) \<or>
     (activeRestore (Some (rj_state j)) \<and> rj_state j \<noteq> ''committing'' \<and> e = AskCancelRestore))"
  by (auto simp: RestoreJobPanel_def)

lemma backup_status_row_inert [simp]: "\<not> fires (backup_status_row st) e"
  by (simp add: backup_status_row_def split: option.splits)

lemma offers_snapshot_table:
  "offers (snapshot_table s) e \<Longrightarrow> (\<exists>k. e = SnapshotsPageTo k) \<or>
     (\<not> bk_busy s \<and> \<not> activeRestore (current_state s) \<and>
       (\<exists>x \<in> set (snapshot_list s). e = AskStart x \<or> e = AskDeleteSnapshot x))"
  using pagination_subset [of "snapshot_list s" LIST_PAGE_SIZE "bk_page s"]
  by (auto simp: snapshot_table_def Let_def offers_map fires_snapshot_row split: if_splits)

text \<open>What holds when the operator can raise an event.\<close>

fun restore_guard :: "restore_page \<Rightarrow> restore_event \<Rightarrow> bool" where
  "restore_guard s (AskStart x) \<longleftrightarrow>
     \<not> bk_modal s \<and> \<not> bk_busy s \<and> \<not> activeRestore (current_state s) \<and> x \<in> set (snapshot_list s)"
| "restore_guard s (AskDeleteSnapshot x) \<longleftrightarrow>
     \<not> bk_modal s \<and> \<not> bk_busy s \<and> \<not> activeRestore (current_state s) \<and> x \<in> set (snapshot_list s)"
| "restore_guard s AskCommit \<longleftrightarrow> \<not> bk_modal s \<and> \<not> bk_busy s \<and> current_state s = Some ''ready''"
| "restore_guard s AskCancelRestore \<longleftrightarrow> \<not> bk_modal s \<and> \<not> bk_busy s \<and> activeRestore (current_state s) \<and>
     current_state s \<noteq> Some ''committing''"
| "restore_guard s (TypeRestore v) \<longleftrightarrow> bk_modal s"
| "restore_guard s CloseStart \<longleftrightarrow> bk_selected s \<noteq> None"
| "restore_guard s CloseDeleteSnapshot \<longleftrightarrow> bk_deleting s \<noteq> None"
| "restore_guard s CloseCommit \<longleftrightarrow> bk_commitOpen s"
| "restore_guard s CloseCancelRestore \<longleftrightarrow> bk_cancelOpen s"
| "restore_guard s ConfirmStart \<longleftrightarrow> StartOp \<notin> set (bk_pending s) \<and>
     (\<exists>x. bk_selected s = Some x \<and> confirm_allowed (Some (rs_short_id x)) (bk_text s))"
| "restore_guard s ConfirmDeleteSnapshot \<longleftrightarrow> \<not> list_ex is_delete (bk_pending s) \<and>
     (\<exists>x. bk_deleting s = Some x \<and> confirm_allowed (Some (rs_short_id x)) (bk_text s))"
| "restore_guard s ConfirmCommit \<longleftrightarrow> CommitOp \<notin> set (bk_pending s) \<and> bk_commitOpen s \<and> bk_text s = ''RESTORE''"
| "restore_guard s ConfirmCancelRestore \<longleftrightarrow> CancelOp \<notin> set (bk_pending s) \<and> bk_cancelOpen s"
| "restore_guard s (JobOpArrives own p r) \<longleftrightarrow> False"
| "restore_guard s (SnapshotDeleted own x r) \<longleftrightarrow> False"
| "restore_guard s e \<longleftrightarrow> True"

lemma fires_restore_card:
  assumes "fires (restore_card s) e" "\<not> bk_modal s"
  shows "restore_guard s e"
proof -
  consider "e = RefreshBackups" | j where "current_job s = Some j" "fires (RestoreJobPanel j (bk_busy s)) e"
    | "offers (snapshot_table s) e"
    using assms(1) by (auto simp: restore_card_def split: option.splits)
  then show ?thesis
  proof cases
    case (2 j)
    then show ?thesis using assms(2) by (auto simp: fires_RestoreJobPanel current_state_def)
  next
    case 3
    then show ?thesis using assms(2) offers_snapshot_table [of s e] by auto
  qed simp
qed

lemma offers_restore_dialogs:
  "offers (restore_dialogs s) e \<Longrightarrow> restore_guard s e"
  by (auto simp: restore_dialogs_def offers_ConfirmDialog bk_modal_def confirm_allowed_def)

lemma offers_BackupRestore: "offers (BackupRestore s) e \<Longrightarrow> restore_guard s e"
  using fires_restore_card [of s e] offers_restore_dialogs [of s e] by (auto simp: BackupRestore_def)

lemma restore_enabled_guard:
  assumes "restore_enabled s e"
  shows "restore_guard s e \<or> (\<exists>own p r. e = JobOpArrives own p r \<and> \<not> is_delete p \<and> p \<in> set (if own then bk_pending s else bk_old s)) \<or>
    (\<exists>own x r. e = SnapshotDeleted own x r \<and> DeleteOp x \<in> set (if own then bk_pending s else bk_old s))"
proof (cases e)
  case (JobOpArrives own p r)
  then show ?thesis using assms by simp
next
  case (SnapshotDeleted own x r)
  then show ?thesis using assms by simp
qed (use assms offers_BackupRestore [of s e] in simp_all)

section \<open>One operation at a time\<close>

datatype bk_kind = Starting | Deleting | Committing | Cancelling

fun kind_of :: "bk_op \<Rightarrow> bk_kind" where
  "kind_of StartOp = Starting"
| "kind_of CommitOp = Committing"
| "kind_of CancelOp = Cancelling"
| "kind_of (DeleteOp x) = Deleting"

lemma kind_of_iff [simp]:
  "kind_of p = Starting \<longleftrightarrow> p = StartOp" "Starting = kind_of p \<longleftrightarrow> p = StartOp"
  "kind_of p = Committing \<longleftrightarrow> p = CommitOp" "Committing = kind_of p \<longleftrightarrow> p = CommitOp"
  "kind_of p = Cancelling \<longleftrightarrow> p = CancelOp" "Cancelling = kind_of p \<longleftrightarrow> p = CancelOp"
  "kind_of p = Deleting \<longleftrightarrow> is_delete p" "Deleting = kind_of p \<longleftrightarrow> is_delete p"
  by (cases p; simp add: is_delete_def)+

definition open_dialogs :: "restore_page \<Rightarrow> bk_kind list" where
  "open_dialogs s = only_if (bk_selected s \<noteq> None) [Starting] @ only_if (bk_deleting s \<noteq> None) [Deleting] @
     only_if (bk_commitOpen s) [Committing] @ only_if (bk_cancelOpen s) [Cancelling]"

text \<open>At most one dialog is open and one operation in flight, and then they belong together.\<close>

definition bk_inv :: "restore_page \<Rightarrow> bool" where
  "bk_inv s \<longleftrightarrow> length (open_dialogs s) \<le> 1 \<and> length (bk_pending s) \<le> 1 \<and>
     (\<forall>p \<in> set (bk_pending s). \<forall>d \<in> set (open_dialogs s). d = kind_of p) \<and> (open_dialogs s = [] \<longrightarrow> bk_text s = [])"

text \<open>The procedure as the operator sees it: ask, confirm, wait; the dialog may be left while waiting.\<close>

datatype bk_phase = Idle | Asking bk_kind | Running bk_kind bool

fun restore_move :: "bk_phase \<Rightarrow> bk_phase \<Rightarrow> bool" where
  "restore_move Idle q \<longleftrightarrow> (case q of Running k b \<Rightarrow> False | _ \<Rightarrow> True)"
| "restore_move (Asking k) q \<longleftrightarrow> q \<in> {Idle, Asking k, Running k True}"
| "restore_move (Running k b) q \<longleftrightarrow> q = Running k b \<or> (b \<and> q \<in> {Asking k, Running k False}) \<or> q = Idle"

definition phase_of :: "restore_page \<Rightarrow> bk_phase" where
  "phase_of s =
     (case bk_pending s of
        p # ps \<Rightarrow> Running (kind_of p) (open_dialogs s \<noteq> [])
      | [] \<Rightarrow> (case open_dialogs s of [] \<Rightarrow> Idle | d # ds \<Rightarrow> Asking d))"

lemma bk_modal_dialogs: "bk_modal s \<longleftrightarrow> open_dialogs s \<noteq> []"
  by (simp add: bk_modal_def open_dialogs_def only_if_def)

lemma bk_inv_dialogs:
  assumes "bk_inv s"
  shows "bk_selected s \<noteq> None \<Longrightarrow> bk_deleting s = None \<and> \<not> bk_commitOpen s \<and> \<not> bk_cancelOpen s"
    "bk_deleting s \<noteq> None \<Longrightarrow> bk_selected s = None \<and> \<not> bk_commitOpen s \<and> \<not> bk_cancelOpen s"
    "bk_commitOpen s \<Longrightarrow> bk_selected s = None \<and> bk_deleting s = None \<and> \<not> bk_cancelOpen s"
    "bk_cancelOpen s \<Longrightarrow> bk_selected s = None \<and> bk_deleting s = None \<and> \<not> bk_commitOpen s"
  using assms by (auto simp: bk_inv_def open_dialogs_def only_if_def split: if_splits)

lemma bk_pending_cases:
  assumes "bk_inv s"
  obtains "bk_pending s = []" | p where "bk_pending s = [p]"
  using assms by (cases "bk_pending s") (auto simp: bk_inv_def)

lemmas restore_defs = phase_of_def bk_inv_def open_dialogs_def only_if_def bk_mutate_def


lemma bk_mutate_phase:
  assumes "bk_inv s" "kind_of p \<in> set (open_dialogs s)" "kind_of p \<notin> kind_of ` set (bk_pending s)"
  shows "restore_move (phase_of s) (phase_of (fst (bk_mutate p r s))) \<and> bk_inv (fst (bk_mutate p r s))"
proof -
  obtain d where d: "open_dialogs s = [d]" using assms(1,2) by (cases "open_dialogs s") (auto simp: bk_inv_def)
  then have "d = kind_of p" using assms(2) by simp
  moreover have n: "bk_pending s = []" using assms d by (cases "bk_pending s") (auto simp: bk_inv_def)
  moreover have "open_dialogs (s\<lparr>bk_pending := ps\<rparr>) = open_dialogs s" for ps by (simp add: open_dialogs_def)
  ultimately show ?thesis using assms(1) d by (auto simp: phase_of_def bk_inv_def bk_mutate_def)
qed

lemma idle_no_dialog:
  assumes "bk_inv s" "\<not> bk_modal s" "\<not> bk_busy s"
  shows "phase_of s = Idle" "bk_text s = []" "bk_pending s = []" "bk_selected s = None" "bk_deleting s = None"
    "\<not> bk_commitOpen s" "\<not> bk_cancelOpen s"
proof -
  have d: "open_dialogs s = []" and p: "bk_pending s = []" using assms(2,3) by (simp_all add: bk_modal_dialogs bk_busy_def)
  then show "phase_of s = Idle" "bk_text s = []" "bk_pending s = []" using assms(1) by (simp_all add: phase_of_def bk_inv_def)
  from d show "bk_selected s = None" "bk_deleting s = None" "\<not> bk_commitOpen s" "\<not> bk_cancelOpen s"
    by (simp_all add: open_dialogs_def only_if_def split: if_splits)
qed

text \<open>Closing the one open dialog, whatever is in flight.\<close>

lemma close_phase:
  assumes "bk_inv s" "bk_pending t = bk_pending s" "open_dialogs t = []" "bk_text t = []" "open_dialogs s \<noteq> []"
  shows "restore_move (phase_of s) (phase_of t) \<and> bk_inv t"
proof (cases rule: bk_pending_cases [OF assms(1)])
  case 1
  then show ?thesis using assms by (auto simp: phase_of_def bk_inv_def split: list.split)
next
  case (2 p)
  then show ?thesis using assms by (simp add: phase_of_def bk_inv_def)
qed

text \<open>The outcome of the operation in flight.\<close>

lemma settled_phase:
  assumes "bk_inv s" "p \<in> set (bk_pending s)" "bk_pending t = []" "bk_text t = [] \<or> open_dialogs t \<noteq> []"
    "open_dialogs t = [] \<or> open_dialogs t = open_dialogs s"
  shows "restore_move (phase_of s) (phase_of t) \<and> bk_inv t"
proof -
  have "bk_pending s = [p]" using assms(1,2) by (cases rule: bk_pending_cases [OF assms(1)]) auto
  moreover have "open_dialogs s = [] \<or> open_dialogs s = [kind_of p]"
    using assms(1,2) by (cases "open_dialogs s") (auto simp: bk_inv_def)
  ultimately have "phase_of s = Running (kind_of p) (open_dialogs s \<noteq> [])" by (simp add: phase_of_def)
  show ?thesis
  proof (cases "open_dialogs t")
    case Nil
    then have "phase_of t = Idle" using assms(3) by (simp add: phase_of_def)
    then show ?thesis using \<open>phase_of s = _\<close> Nil assms(3,4) by (simp add: bk_inv_def)
  next
    case (Cons d ds)
    then have o: "open_dialogs s = [kind_of p]" "d = kind_of p" "ds = []"
      using assms(5) \<open>open_dialogs s = [] \<or> open_dialogs s = [kind_of p]\<close> by auto
    then have "phase_of t = Asking (kind_of p)" using assms(3) Cons by (simp add: phase_of_def)
    then show ?thesis using \<open>phase_of s = _\<close> o Cons assms(3) by (simp add: bk_inv_def)
  qed
qed

lemma same_phase:
  assumes "bk_inv s" "bk_pending t = bk_pending s" "open_dialogs t = open_dialogs s" "open_dialogs s \<noteq> [] \<or> bk_text t = bk_text s"
  shows "restore_move (phase_of s) (phase_of t) \<and> bk_inv t"
proof -
  have "phase_of t = phase_of s" unfolding phase_of_def assms(2,3) ..
  moreover have "restore_move q q" for q by (cases q) auto
  ultimately show ?thesis using assms by (auto simp: bk_inv_def)
qed

lemma open_dialogs_cong:
  "bk_selected t = bk_selected s \<Longrightarrow> bk_deleting t = bk_deleting s \<Longrightarrow> bk_commitOpen t = bk_commitOpen s \<Longrightarrow>
   bk_cancelOpen t = bk_cancelOpen s \<Longrightarrow> open_dialogs t = open_dialogs s"
  by (simp add: open_dialogs_def)

lemma settled_state:
  assumes "bk_inv s" "p \<in> set (if own then bk_pending s else bk_old s)"
  shows "bk_pending (bk_settled own p s) = (if own then [] else bk_pending s)"
    "open_dialogs (bk_settled own p s) = open_dialogs s" "bk_text (bk_settled own p s) = bk_text s"
  using assms by (cases rule: bk_pending_cases [OF assms(1)]; auto simp: bk_settled_def open_dialogs_def)+

lemma open_dialogs_other [simp]:
  "open_dialogs (updateJob j s) = open_dialogs s" "open_dialogs (drop_snapshot x s) = open_dialogs s"
  "bk_pending (updateJob j s) = bk_pending s" "bk_pending (drop_snapshot x s) = bk_pending s"
  "bk_text (updateJob j s) = bk_text s" "bk_text (drop_snapshot x s) = bk_text s"
  "bk_pending (close_op p s) = bk_pending s" "bk_text (close_op p s) = []"
  by (simp_all add: updateJob_def drop_snapshot_def open_dialogs_def close_op_def split: bk_op.splits)

lemma close_op_dialogs:
  assumes "open_dialogs s = [] \<or> open_dialogs s = [kind_of p]"
  shows "open_dialogs (close_op p s) = []"
  using assms by (cases p) (auto simp: close_op_def open_dialogs_def only_if_def split: if_splits)

lemma arrival_phase:
  assumes "bk_inv s" "p \<in> set (if own then bk_pending s else bk_old s)"
  shows "restore_move (phase_of s) (phase_of (bk_settled own p s)) \<and> bk_inv (bk_settled own p s)"
    "bk_pending u = bk_pending (bk_settled own p s) \<Longrightarrow> open_dialogs u = open_dialogs (bk_settled own p s) \<Longrightarrow>
     bk_text u = bk_text (bk_settled own p s) \<Longrightarrow> t = (if own then close_op p u else u) \<Longrightarrow>
     restore_move (phase_of s) (phase_of t) \<and> bk_inv t"
proof -
  note st = settled_state [OF assms]
  have d: "open_dialogs s = [] \<or> open_dialogs s = [kind_of p]" if own
    using assms that by (cases "open_dialogs s") (auto simp: bk_inv_def)
  have x: "bk_text s = [] \<or> open_dialogs s \<noteq> []" using assms(1) by (auto simp: bk_inv_def)
  show "restore_move (phase_of s) (phase_of (bk_settled own p s)) \<and> bk_inv (bk_settled own p s)"
  proof (cases own)
    case True
    with st x show ?thesis using assms settled_phase [of s p "bk_settled own p s"] by simp
  next
    case False
    with st show ?thesis using assms(1) same_phase [of s "bk_settled own p s"] by simp
  qed
  assume u: "bk_pending u = bk_pending (bk_settled own p s)" "open_dialogs u = open_dialogs (bk_settled own p s)"
    "bk_text u = bk_text (bk_settled own p s)" "t = (if own then close_op p u else u)"
  show "restore_move (phase_of s) (phase_of t) \<and> bk_inv t"
  proof (cases own)
    case True
    then show ?thesis using st u assms d close_op_dialogs [of u p] settled_phase [of s p t] by simp
  next
    case False
    then show ?thesis using st u assms(1) same_phase [of s t] by simp
  qed
qed

text \<open>The kinds of events of the card.\<close>

fun bk_asks :: "restore_event \<Rightarrow> bool" where
  "bk_asks (AskStart x) \<longleftrightarrow> True"
| "bk_asks (AskDeleteSnapshot x) \<longleftrightarrow> True"
| "bk_asks AskCommit \<longleftrightarrow> True"
| "bk_asks AskCancelRestore \<longleftrightarrow> True"
| "bk_asks e \<longleftrightarrow> False"

fun bk_closes :: "restore_event \<Rightarrow> bool" where
  "bk_closes CloseStart \<longleftrightarrow> True"
| "bk_closes CloseDeleteSnapshot \<longleftrightarrow> True"
| "bk_closes CloseCommit \<longleftrightarrow> True"
| "bk_closes CloseCancelRestore \<longleftrightarrow> True"
| "bk_closes e \<longleftrightarrow> False"

fun bk_confirms :: "restore_event \<Rightarrow> bool" where
  "bk_confirms ConfirmStart \<longleftrightarrow> True"
| "bk_confirms ConfirmDeleteSnapshot \<longleftrightarrow> True"
| "bk_confirms ConfirmCommit \<longleftrightarrow> True"
| "bk_confirms ConfirmCancelRestore \<longleftrightarrow> True"
| "bk_confirms e \<longleftrightarrow> False"

fun bk_answers :: "restore_event \<Rightarrow> bool" where
  "bk_answers (JobOpArrives own p r) \<longleftrightarrow> True"
| "bk_answers (SnapshotDeleted own x r) \<longleftrightarrow> True"
| "bk_answers e \<longleftrightarrow> False"

lemma ask_phase:
  assumes "bk_inv s" "restore_enabled s e" "bk_asks e"
  shows "restore_move (phase_of s) (phase_of (fst (restore_step e s))) \<and> bk_inv (fst (restore_step e s))"
proof -
  have "restore_guard s e" using assms(2,3) offers_BackupRestore [of s e] by (cases e) simp_all
  then show ?thesis using assms(3) idle_no_dialog [OF assms(1)]
    by (cases e) (simp_all add: phase_of_def bk_inv_def open_dialogs_def)
qed

lemma answer_phase:
  assumes "bk_inv s" "restore_enabled s e" "bk_answers e"
  shows "restore_move (phase_of s) (phase_of (fst (restore_step e s))) \<and> bk_inv (fst (restore_step e s))"
proof (cases e)
  case (JobOpArrives own p r)
  then have p: "p \<in> set (if own then bk_pending s else bk_old s)" using assms(2) by simp
  show ?thesis
  proof (cases r)
    case (Inl er)
    then show ?thesis using JobOpArrives arrival_phase(1) [OF assms(1) p] by (simp add: bk_failed_def)
  next
    case (Inr j)
    have "restore_move (phase_of s) (phase_of (if own then close_op p (updateJob j (bk_settled own p s)) else updateJob j (bk_settled own p s)))
        \<and> bk_inv (if own then close_op p (updateJob j (bk_settled own p s)) else updateJob j (bk_settled own p s))"
      by (rule arrival_phase(2) [OF assms(1) p, of "updateJob j (bk_settled own p s)"]) simp_all
    then show ?thesis using JobOpArrives Inr by (simp add: op_succeeded_with_def Let_def)
  qed
next
  case (SnapshotDeleted own x r)
  then have p: "DeleteOp x \<in> set (if own then bk_pending s else bk_old s)" using assms(2) by simp
  let ?u = "drop_snapshot x (bk_settled own (DeleteOp x) s)"
  show ?thesis
  proof (cases r)
    case (Inl er)
    then show ?thesis using SnapshotDeleted arrival_phase(1) [OF assms(1) p] by (simp add: bk_failed_def)
  next
    case (Inr j)
    have "restore_move (phase_of s) (phase_of (if own then close_op (DeleteOp x) ?u else ?u))
        \<and> bk_inv (if own then close_op (DeleteOp x) ?u else ?u)"
      by (rule arrival_phase(2) [OF assms(1) p, of ?u]) simp_all
    then show ?thesis using SnapshotDeleted Inr by (simp add: snapshot_deleted_def Let_def)
  qed
qed (use assms(3) in simp_all)

lemma cancel_phase:
  assumes "bk_inv s" "restore_enabled s e" "bk_closes e"
  shows "restore_move (phase_of s) (phase_of (fst (restore_step e s))) \<and> bk_inv (fst (restore_step e s))"
proof (cases e)
  case CloseStart
  then have g: "bk_selected s \<noteq> None" using assms(2) offers_BackupRestore [of s CloseStart] by simp
  show ?thesis unfolding CloseStart
    by (rule close_phase [OF assms(1)]) (use g bk_inv_dialogs(1) [OF assms(1)] in \<open>simp_all add: open_dialogs_def\<close>)
next
  case CloseDeleteSnapshot
  then have g: "bk_deleting s \<noteq> None" using assms(2) offers_BackupRestore [of s CloseDeleteSnapshot] by simp
  show ?thesis unfolding CloseDeleteSnapshot
    by (rule close_phase [OF assms(1)]) (use g bk_inv_dialogs(2) [OF assms(1)] in \<open>simp_all add: open_dialogs_def\<close>)
next
  case CloseCommit
  then have g: "bk_commitOpen s" using assms(2) offers_BackupRestore [of s CloseCommit] by simp
  show ?thesis unfolding CloseCommit
    by (rule close_phase [OF assms(1)]) (use g bk_inv_dialogs(3) [OF assms(1)] in \<open>simp_all add: open_dialogs_def\<close>)
next
  case CloseCancelRestore
  then have g: "bk_cancelOpen s" using assms(2) offers_BackupRestore [of s CloseCancelRestore] by simp
  show ?thesis unfolding CloseCancelRestore
    by (rule close_phase [OF assms(1)]) (use g bk_inv_dialogs(4) [OF assms(1)] in \<open>simp_all add: open_dialogs_def\<close>)
qed (use assms(3) in simp_all)

lemma confirm_phase:
  assumes "bk_inv s" "restore_enabled s e" "bk_confirms e"
  shows "restore_move (phase_of s) (phase_of (fst (restore_step e s))) \<and> bk_inv (fst (restore_step e s))"
proof (cases e)
  case ConfirmStart
  then have "restore_guard s ConfirmStart" using assms(2) offers_BackupRestore [of s e] by simp
  then obtain x where x: "bk_selected s = Some x" and n: "StartOp \<notin> set (bk_pending s)" by auto
  have "Starting \<notin> kind_of ` set (bk_pending s)" using n by auto
  then show ?thesis using ConfirmStart x bk_mutate_phase [OF assms(1), of StartOp] by (simp add: open_dialogs_def)
next
  case ConfirmDeleteSnapshot
  then have "restore_guard s ConfirmDeleteSnapshot" using assms(2) offers_BackupRestore [of s e] by simp
  then obtain x where x: "bk_deleting s = Some x" and n: "\<not> list_ex is_delete (bk_pending s)" by auto
  have "Deleting \<notin> kind_of ` set (bk_pending s)" using n by (auto simp: list_ex_iff)
  then show ?thesis using ConfirmDeleteSnapshot x bk_mutate_phase [OF assms(1), of "DeleteOp x"] by (simp add: open_dialogs_def)
next
  case ConfirmCommit
  then have g: "restore_guard s ConfirmCommit" using assms(2) offers_BackupRestore [of s e] by simp
  then have "Committing \<notin> kind_of ` set (bk_pending s)" by auto
  then show ?thesis using ConfirmCommit g bk_mutate_phase [OF assms(1), of CommitOp] by (simp add: open_dialogs_def)
next
  case ConfirmCancelRestore
  then have g: "restore_guard s ConfirmCancelRestore" using assms(2) offers_BackupRestore [of s e] by simp
  then have "Cancelling \<notin> kind_of ` set (bk_pending s)" by auto
  then show ?thesis using ConfirmCancelRestore g bk_mutate_phase [OF assms(1), of CancelOp] by (simp add: open_dialogs_def)
qed (use assms(3) in simp_all)

lemma restore_step_phase:
  assumes "bk_inv s" "restore_enabled s e"
  shows "restore_move (phase_of s) (phase_of (fst (restore_step e s))) \<and> bk_inv (fst (restore_step e s))"
proof -
  consider "bk_asks e" | "bk_answers e" | "bk_closes e" | "bk_confirms e" | v where "e = TypeRestore v"
    | "\<not> bk_asks e" "\<not> bk_answers e" "\<not> bk_closes e" "\<not> bk_confirms e" "\<nexists>v. e = TypeRestore v"
    by blast
  then show ?thesis
  proof cases
    case (5 v)
    then have "restore_guard s (TypeRestore v)" using assms(2) offers_BackupRestore [of s e] by simp
    then have "open_dialogs s \<noteq> []" by (simp add: bk_modal_dialogs)
    then show ?thesis using 5 same_phase [OF assms(1), of "s\<lparr>bk_text := v\<rparr>"] by (simp add: open_dialogs_def)
  next
    case 6
    then show ?thesis by (cases e) (simp_all, (rule same_phase [OF assms(1)]; simp add: open_dialogs_def)+)
  qed (use assms in \<open>simp_all add: ask_phase answer_phase cancel_phase confirm_phase\<close>)
qed

interpretation restore: implements restore_enabled restore_step phase_of restore_move bk_inv
  using restore_step_phase by unfold_locales auto


section \<open>Properties\<close>


lemma restore_step_send_cases:
  assumes "Send r \<in> set (snd (restore_step e s))"
  obtains x where "e = ConfirmStart" "bk_selected s = Some x" "r = start_request x s"
  | x where "e = ConfirmDeleteSnapshot" "bk_deleting s = Some x" "r = delete_snapshot_request x s"
  | "e = ConfirmCommit" "r = commit_request s"
  | "e = ConfirmCancelRestore" "r = cancel_request s"
  using assms
  by (cases e) (auto simp: bk_mutate_def settle_def bk_failed_def op_succeeded_with_def snapshot_deleted_def Let_def
      split: option.splits sum.splits)

lemma confirms_idle:
  assumes "bk_inv s" "restore_guard s e" "bk_confirms e"
  shows "\<not> bk_busy s"
proof -
  have idle: "\<not> bk_busy s" if "kind_of p \<in> set (open_dialogs s)" "kind_of p \<notin> kind_of ` set (bk_pending s)" for p
  proof -
    have "kind_of p = kind_of q" if "q \<in> set (bk_pending s)" for q
      using assms(1) that \<open>kind_of p \<in> set (open_dialogs s)\<close> unfolding bk_inv_def by blast
    then have "q \<notin> set (bk_pending s)" for q using that(2) by force
    then show ?thesis by (cases "bk_pending s") (auto simp: bk_busy_def)
  qed
  show ?thesis using assms(2,3)
  proof (cases e)
    case ConfirmStart
    then show ?thesis using assms(2) by (intro idle [of StartOp]) (auto simp: open_dialogs_def)
  next
    case ConfirmDeleteSnapshot
    then show ?thesis using assms(2) by (intro idle [of "DeleteOp (the (bk_deleting s))"]) (auto simp: open_dialogs_def list_ex_iff)
  next
    case ConfirmCommit
    then show ?thesis using assms(2) by (intro idle [of CommitOp]) (auto simp: open_dialogs_def)
  next
    case ConfirmCancelRestore
    then show ?thesis using assms(2) by (intro idle [of CancelOp]) (auto simp: open_dialogs_def)
  qed simp_all
qed

text \<open>
  C18. No data is switched, restored or deleted without the exact confirmation, and never while another
  operation runs: a request leaves only when nothing of the card is in flight; a commit after RESTORE was
  typed into its dialog, for the current job; the preparation or deletion of a snapshot after its short
  identifier was typed, for that snapshot, and carrying the identifier.
\<close>

theorem restore_confirmed:
  assumes "bk_inv s" "restore_enabled s e" "Send r \<in> set (snd (restore_step e s))"
  shows "\<not> bk_busy s \<and>
    (r = commit_request s \<and> bk_commitOpen s \<and> bk_text s = ''RESTORE'' \<or>
     r = cancel_request s \<and> bk_cancelOpen s \<or>
     (\<exists>x b. rq_body r = Some b \<and> (rs_short_id x \<noteq> [] \<longrightarrow> bk_text s = rs_short_id x) \<and>
       (r = start_request x s \<and> bk_selected s = Some x \<and>
          json_parse b = Some (JObject [(''snapshot_id'', JString (rs_id x)), (''confirmation'', JString (rs_short_id x))]) \<or>
        r = delete_snapshot_request x s \<and> bk_deleting s = Some x \<and>
          json_parse b = Some (JObject [(''confirmation'', JString (rs_short_id x))]))))"
proof -
  have g: "restore_guard s e" and "bk_confirms e"
    using assms(2,3) restore_enabled_guard [of s e] by (auto elim: restore_step_send_cases)
  then have b: "\<not> bk_busy s" by (rule confirms_idle [OF assms(1)])
  show ?thesis
    using assms(3)
  proof (cases rule: restore_step_send_cases)
    case (1 x)
    have "rq_body r = Some (stringify (JObject [(''snapshot_id'', JString (rs_id x)), (''confirmation'', JString (rs_short_id x))]))"
      by (simp add: 1 start_request_def json_init_def)
    with g b 1 show ?thesis by (auto simp: json_parse_stringify confirm_allowed_def)
  next
    case (2 x)
    have "rq_body r = Some (stringify (JObject [(''confirmation'', JString (rs_short_id x))]))"
      by (simp add: 2 delete_snapshot_request_def json_init_def)
    with g b 2 show ?thesis by (auto simp: json_parse_stringify confirm_allowed_def)
  qed (use g b in simp_all)
qed

text \<open>
  The dialogs are opened only where they apply: the switch for a validated job, the cancellation for a job that
  is under way and not yet switching, the preparation and deletion for a listed snapshot while no restore
  is under way.  What is current is checked when the dialog opens and not again when it is confirmed.
\<close>

theorem restore_dialogs_apply:
  assumes "restore_enabled s e" "e \<in> {AskCommit, AskCancelRestore} \<or> (\<exists>x. e = AskStart x \<or> e = AskDeleteSnapshot x)"
  shows "\<not> bk_busy s \<and>
    (e = AskCommit \<longrightarrow> current_state s = Some ''ready'') \<and>
    (e = AskCancelRestore \<longrightarrow> (\<exists>j. current_job s = Some j \<and>
        rj_state j \<in> {''queued'', ''downloading'', ''validating'', ''ready''})) \<and>
    (\<forall>x. e = AskStart x \<or> e = AskDeleteSnapshot x \<longrightarrow> x \<in> set (snapshot_list s) \<and>
        (\<forall>j. current_job s = Some j \<longrightarrow> rj_state j \<notin> {''queued'', ''downloading'', ''validating'', ''ready'', ''committing''}))"
proof -
  have "restore_guard s e" using assms offers_BackupRestore [of s e] by auto
  then show ?thesis using assms(2) by (auto simp: activeRestore_def current_state_def split: option.splits)
qed

section \<open>Examples\<close>

definition sample_snapshot :: restore_snapshot where
  "sample_snapshot = \<lparr>rs_id = ''abcdef'', rs_short_id = ''abc'', rs_time = [], rs_hostname = None, rs_paths = None, rs_tags = None\<rparr>"

definition sample_backups :: restore_page where
  "sample_backups = (restore_init ''t'')\<lparr>bk_snapshots := \<lparr>q_data = Some [sample_snapshot], q_error = None\<rparr>\<rparr>"

lemma sample_backups_facts:
  "bk_inv sample_backups" "\<not> bk_modal sample_backups" "\<not> bk_busy sample_backups" "current_state sample_backups = None"
  "snapshot_list sample_backups = [sample_snapshot]" "\<not> q_loading (bk_snapshots sample_backups)" "phase_of sample_backups = Idle"
  by (simp_all add: sample_backups_def restore_init_def bk_inv_def open_dialogs_def bk_modal_def bk_busy_def current_state_def
      current_job_def snapshot_list_def q_loading_def phase_of_def)

lemma sample_ask: "restore_enabled sample_backups (AskStart sample_snapshot)"
proof -
  have "offers (snapshot_table sample_backups) (AskStart sample_snapshot)"
    by (simp add: snapshot_table_def sample_backups_facts Let_def fires_snapshot_row activeRestore_def useListPagination_def
        LIST_PAGE_SIZE_def total_pages_def)
  then show ?thesis by (simp add: BackupRestore_def restore_card_def sample_backups_facts)
qed

definition sample_asking :: restore_page where
  "sample_asking = sample_backups\<lparr>bk_selected := Some sample_snapshot, bk_text := ''abc''\<rparr>"

lemma sample_confirm:
  "bk_inv sample_asking" "restore_enabled sample_asking ConfirmStart"
proof -
  show "bk_inv sample_asking"
    using sample_backups_facts(1,2) by (simp add: bk_inv_def bk_modal_dialogs sample_asking_def open_dialogs_def)
      (simp add: sample_backups_def restore_init_def)
  show "restore_enabled sample_asking ConfirmStart"
    by (simp add: BackupRestore_def restore_dialogs_def offers_ConfirmDialog confirm_allowed_def)
      (simp add: sample_asking_def sample_backups_def restore_init_def sample_snapshot_def)
qed


theorem restore_confirmed_witness: "bk_text sample_asking = rs_short_id sample_snapshot"
proof -
  have s: "bk_selected sample_asking = Some sample_snapshot" by (simp add: sample_asking_def)
  have "Send (start_request sample_snapshot sample_asking) \<in> set (snd (restore_step ConfirmStart sample_asking))"
    by (simp add: s bk_mutate_def)
  from restore_confirmed [OF sample_confirm this] show ?thesis
    by (simp add: sample_asking_def sample_snapshot_def)
qed

theorem restore_dialogs_apply_witness: "sample_snapshot \<in> set (snapshot_list sample_backups)"
  using restore_dialogs_apply [OF sample_ask] by simp

section \<open>In the session\<close>

lemma restore_step_csrf [simp]: "bk_csrf (fst (restore_step e s)) = bk_csrf s"
  by (cases e) (simp_all add: settle_def bk_failed_def op_succeeded_with_def snapshot_deleted_def close_op_def bk_settled_def updateJob_def
      drop_snapshot_def bk_mutate_def Let_def split: sum.splits option.splits bk_op.splits)

interpretation restore_session: session_page restore_enabled restore_step bk_csrf "\<lambda>s. True"
proof
  fix r e s
  show "Send r \<in> set (snd (restore_step e s)) \<Longrightarrow> authorised (bk_csrf s) r"
    by (elim restore_step_send_cases) (simp_all add: start_request_def commit_request_def cancel_request_def delete_snapshot_request_def
        job_path_def starts_with_Cons)
  show "restore_enabled s e \<Longrightarrow> bk_csrf (fst (restore_step e s)) = bk_csrf s \<and> True"
    by simp
  show "DispatchUnauthorized \<in> set (snd (restore_step e s)) \<Longrightarrow> Send r \<notin> set (snd (restore_step e s))"
    by (cases e) (auto simp: settle_send bk_failed_def op_succeeded_with_def snapshot_deleted_def bk_mutate_def Let_def
        split: sum.splits option.splits)
qed

end
