(* ===== verification/SettingsPage.thy ===== *)
theory SettingsPage
  imports SettingsForms Restore
begin

text \<open>
  The settings page (frontend/src/features/settings/settings-page.tsx): the query, the four tabs, of which only
  the chosen one is mounted, the forms, which are mounted afresh when the key computed from the settings
  changes, and their operations.  An operation or the reading of a logo goes on when its form is
  unmounted; \<open>sp_old\<close> and \<open>sp_oldReads\<close> remember it.
\<close>

section \<open>State\<close>

datatype form_name = Brand | DNS | CacheQuota | Cloudflare | SMTP | S3

record settings_page =
  sp_csrf :: string
  sp_query :: "settings query"
  sp_tab :: string
  sp_storage :: storage
  sp_brand :: "branding_form option"
  sp_dns :: "number_form option"
  sp_cache :: "number_form option"
  sp_cf :: "cloudflare_form option"
  sp_smtp :: "smtp_form option"
  sp_backup :: "backup_form option"
  sp_restore :: restore_page
  sp_old :: "(form_name \<times> form_op) list"
  sp_oldReads :: "logo_file list"

datatype settings_event =
    RefreshSettings
  | SetTab string
  | SettingsArrive "settings query"
  | EditBrand branding_form | EditDNS number_form | EditCache number_form
  | EditCloudflare cloudflare_form | EditSMTP smtp_form | EditBackup backup_form
  | PickLogo logo_file
  | LogoRead bool logo_file bool
  | RunOp form_name form_op
  | BrandSaved bool "js_error + branding"
  | OpArrives bool form_name form_op "js_error + unit"
  | InRestore restore_event

section \<open>What is mounted\<close>

text \<open>A form is mounted while there are settings and its tab is chosen.\<close>

definition at_tab :: "settings_page \<Rightarrow> string \<Rightarrow> (settings \<Rightarrow> 'f) \<Rightarrow> 'f option" where
  "at_tab s t mk = (case q_data (sp_query s) of None \<Rightarrow> None | Some d \<Rightarrow> if sp_tab s = t then Some (mk d) else None)"

text \<open>Reconciliation: the form stays if it is still rendered at its place with the same key.\<close>

fun place :: "('f \<Rightarrow> 'k) \<Rightarrow> 'f option \<Rightarrow> 'f option \<Rightarrow> 'f option" where
  "place key None old = None"
| "place key (Some f) None = Some f"
| "place key (Some f) (Some g) = (if key g = key f then Some g else Some f)"

fun left_behind :: "('f \<Rightarrow> 'k) \<Rightarrow> 'f option \<Rightarrow> 'f option \<Rightarrow> 'f list" where
  "left_behind key fresh None = []"
| "left_behind key None (Some g) = [g]"
| "left_behind key (Some f) (Some g) = (if key g = key f then [] else [g])"

definition brand_rendered :: "settings_page \<Rightarrow> branding_form option" where
  "brand_rendered s = at_tab s ''common'' (\<lambda>d. open_branding (set_branding d))"

definition dns_rendered :: "settings_page \<Rightarrow> number_form option" where
  "dns_rendered s = at_tab s ''network'' (\<lambda>d. open_number (dns_key d) (dns_default_ttl_seconds (set_dns d)))"

definition cache_rendered :: "settings_page \<Rightarrow> number_form option" where
  "cache_rendered s = at_tab s ''network'' (\<lambda>d. open_number (cache_key d) (cas_default_size_gb (set_cache d)))"

definition cf_rendered :: "settings_page \<Rightarrow> cloudflare_form option" where
  "cf_rendered s = at_tab s ''network'' open_cloudflare"

definition smtp_rendered :: "settings_page \<Rightarrow> smtp_form option" where
  "smtp_rendered s = at_tab s ''notifications'' open_smtp"

definition backup_rendered :: "settings_page \<Rightarrow> backup_form option" where
  "backup_rendered s = at_tab s ''backup'' open_backup"

text \<open>The brand's form has no key; its effect copies a changed brand into the fields.\<close>

definition brand_form :: "settings_page \<Rightarrow> branding_form option" where
  "brand_form s =
     (case brand_rendered s of
        None \<Rightarrow> None
      | Some f \<Rightarrow> Some (branding_effect (bf_seen f) (case sp_brand s of None \<Rightarrow> f | Some g \<Rightarrow> g)))"

definition brand_left :: "settings_page \<Rightarrow> branding_form list" where
  "brand_left s = left_behind (\<lambda>_. ()) (brand_rendered s) (sp_brand s)"

definition ops_left :: "settings_page \<Rightarrow> (form_name \<times> form_op) list" where
  "ops_left s =
     map (Pair Brand) (concat (map bf_pending (brand_left s))) @
     map (Pair DNS) (concat (map nf_pending (left_behind nf_key (dns_rendered s) (sp_dns s)))) @
     map (Pair CacheQuota) (concat (map nf_pending (left_behind nf_key (cache_rendered s) (sp_cache s)))) @
     map (Pair Cloudflare) (concat (map cff_pending (left_behind cff_key (cf_rendered s) (sp_cf s)))) @
     map (Pair SMTP) (concat (map smf_pending (left_behind smf_key (smtp_rendered s) (sp_smtp s)))) @
     map (Pair S3) (concat (map buf_pending (left_behind buf_key (backup_rendered s) (sp_backup s))))"

definition render :: "settings_page \<Rightarrow> settings_page" where
  "render s = s\<lparr>
     sp_tab := (if q_data (sp_query s) = None then ''common'' else sp_tab s),
     sp_brand := brand_form s,
     sp_dns := place nf_key (dns_rendered s) (sp_dns s),
     sp_cache := place nf_key (cache_rendered s) (sp_cache s),
     sp_cf := place cff_key (cf_rendered s) (sp_cf s),
     sp_smtp := place smf_key (smtp_rendered s) (sp_smtp s),
     sp_backup := place buf_key (backup_rendered s) (sp_backup s),
     sp_restore := (if backup_rendered s = None then restore_unmount (sp_restore s) else sp_restore s),
     sp_old := ops_left s @ sp_old s,
     sp_oldReads := concat (map bf_reads (brand_left s)) @ sp_oldReads s\<rparr>"

definition settings_init :: "string \<Rightarrow> storage \<Rightarrow> settings query \<Rightarrow> settings_page" where
  "settings_init csrf st q = render
     \<lparr>sp_csrf = csrf, sp_query = q, sp_tab = ''common'', sp_storage = st, sp_brand = None, sp_dns = None, sp_cache = None,
      sp_cf = None, sp_smtp = None, sp_backup = None, sp_restore = restore_init csrf, sp_old = [], sp_oldReads = []\<rparr>"

section \<open>Operations\<close>

definition settings_pending :: "settings_page \<Rightarrow> form_name \<Rightarrow> form_op list" where
  "settings_pending s n =
     (case n of
        Brand \<Rightarrow> (case sp_brand s of None \<Rightarrow> [] | Some f \<Rightarrow> bf_pending f)
      | DNS \<Rightarrow> (case sp_dns s of None \<Rightarrow> [] | Some f \<Rightarrow> nf_pending f)
      | CacheQuota \<Rightarrow> (case sp_cache s of None \<Rightarrow> [] | Some f \<Rightarrow> nf_pending f)
      | Cloudflare \<Rightarrow> (case sp_cf s of None \<Rightarrow> [] | Some f \<Rightarrow> cff_pending f)
      | SMTP \<Rightarrow> (case sp_smtp s of None \<Rightarrow> [] | Some f \<Rightarrow> smf_pending f)
      | S3 \<Rightarrow> (case sp_backup s of None \<Rightarrow> [] | Some f \<Rightarrow> buf_pending f))"

definition map_pending :: "form_name \<Rightarrow> (form_op list \<Rightarrow> form_op list) \<Rightarrow> settings_page \<Rightarrow> settings_page" where
  "map_pending n g s =
     (case n of
        Brand \<Rightarrow> s\<lparr>sp_brand := map_option (bf_pending_update g) (sp_brand s)\<rparr>
      | DNS \<Rightarrow> s\<lparr>sp_dns := map_option (nf_pending_update g) (sp_dns s)\<rparr>
      | CacheQuota \<Rightarrow> s\<lparr>sp_cache := map_option (nf_pending_update g) (sp_cache s)\<rparr>
      | Cloudflare \<Rightarrow> s\<lparr>sp_cf := map_option (cff_pending_update g) (sp_cf s)\<rparr>
      | SMTP \<Rightarrow> s\<lparr>sp_smtp := map_option (smf_pending_update g) (sp_smtp s)\<rparr>
      | S3 \<Rightarrow> s\<lparr>sp_backup := map_option (buf_pending_update g) (sp_backup s)\<rparr>)"

definition form_request :: "form_name \<Rightarrow> form_op \<Rightarrow> settings_page \<Rightarrow> request option" where
  "form_request n p s =
     (case n of
        Brand \<Rightarrow> map_option (brand_request (sp_csrf s)) (sp_brand s)
      | DNS \<Rightarrow> map_option (dns_request (sp_csrf s)) (sp_dns s)
      | CacheQuota \<Rightarrow> map_option (cache_request (sp_csrf s)) (sp_cache s)
      | Cloudflare \<Rightarrow> map_option (cloudflare_request (sp_csrf s) p) (sp_cf s)
      | SMTP \<Rightarrow> map_option (smtp_request (sp_csrf s) p) (sp_smtp s)
      | S3 \<Rightarrow> map_option (backup_request (sp_csrf s) p) (sp_backup s))"

definition set_test_error :: "ui_text \<Rightarrow> settings_page \<Rightarrow> settings_page" where
  "set_test_error t s = s\<lparr>sp_smtp := map_option (smf_testError_update (\<lambda>_. t)) (sp_smtp s)\<rparr>"

definition is_smtp_test :: "form_name \<Rightarrow> form_op \<Rightarrow> bool" where
  "is_smtp_test n p \<longleftrightarrow> n = SMTP \<and> p = Test"

definition form_settled :: "bool \<Rightarrow> form_name \<Rightarrow> form_op \<Rightarrow> settings_page \<Rightarrow> settings_page" where
  "form_settled own n p s = (if own then map_pending n (remove1 p) s else s\<lparr>sp_old := remove1 (n, p) (sp_old s)\<rparr>)"

text \<open>\<open>done\<close> clears what is secret.\<close>

definition clear_secrets :: "form_name \<Rightarrow> settings_page \<Rightarrow> settings_page" where
  "clear_secrets n s =
     (case n of
        Cloudflare \<Rightarrow> s\<lparr>sp_cf := map_option (cff_token_update (\<lambda>_. [])) (sp_cf s)\<rparr>
      | SMTP \<Rightarrow> s\<lparr>sp_smtp := map_option (smf_password_update (\<lambda>_. [])) (sp_smtp s)\<rparr>
      | S3 \<Rightarrow> s\<lparr>sp_backup := map_option (\<lambda>f. f\<lparr>buf_secretKey := [], buf_resticPassword := []\<rparr>) (sp_backup s)\<rparr>
      | _ \<Rightarrow> s)"

fun done_text :: "form_name \<Rightarrow> form_op \<Rightarrow> ui_text" where
  "done_text Brand p = [Zh ''common settings saved'']"
| "done_text DNS p = [Zh ''default DNS TTL saved'']"
| "done_text CacheQuota p = [Zh ''global cache limit saved'']"
| "done_text Cloudflare Save = [Zh ''Cloudflare token verified and saved'']"
| "done_text Cloudflare Test = [Zh ''Cloudflare configuration verified'']"
| "done_text Cloudflare Reset = [Zh ''Cloudflare configuration of the environment restored'']"
| "done_text SMTP Save = [Zh ''SMTP configuration saved'']"
| "done_text SMTP Test = [Zh ''test mail sent'']"
| "done_text SMTP Reset = [Zh ''SMTP configuration of the environment restored'']"
| "done_text S3 Save = [Zh ''S3 backup configuration saved'']"
| "done_text S3 Test = [Zh ''backup repository verified'']"
| "done_text S3 Reset = [Zh ''backup configuration of the environment restored'']"

definition op_succeeds :: "bool \<Rightarrow> form_name \<Rightarrow> form_op \<Rightarrow> settings_page \<Rightarrow> settings_page \<times> effect list" where
  "op_succeeds own n p s =
     (if p = Test then (if own \<and> is_smtp_test n p then set_test_error [] s else s, [ToastSuccess (done_text n p)])
      else (if own then clear_secrets n s else s, [Invalidate [''settings''], ToastSuccess (done_text n p)]))"

definition op_error_text :: "form_name \<Rightarrow> form_op \<Rightarrow> js_error \<Rightarrow> ui_text" where
  "op_error_text n p e = (if is_smtp_test n p then smtpTestErrorMessage e else errorMessage e)"

definition op_fails :: "bool \<Rightarrow> form_name \<Rightarrow> form_op \<Rightarrow> settings_page \<Rightarrow> js_error \<Rightarrow> settings_page \<times> effect list" where
  "op_fails own n p s e =
     (if own \<and> is_smtp_test n p then set_test_error (op_error_text n p e) s else s, [ToastError (op_error_text n p e)])"

definition put_branding :: "branding \<Rightarrow> settings query \<Rightarrow> settings query" where
  "put_branding b q =
     (case q_data q of None \<Rightarrow> q | Some d \<Rightarrow> \<lparr>q_data = Some (d\<lparr>set_branding := b\<rparr>), q_error = None\<rparr>)"

definition brand_saved :: "settings_page \<Rightarrow> branding \<Rightarrow> settings_page \<times> effect list" where
  "brand_saved s b =
     (render (s\<lparr>sp_storage := fst (cacheBranding (branding_json b) (sp_storage s)), sp_query := put_branding b (sp_query s)\<rparr>),
      [ToastSuccess (done_text Brand Save)])"

definition logo_settled :: "bool \<Rightarrow> logo_file \<Rightarrow> settings_page \<Rightarrow> settings_page" where
  "logo_settled own f s =
     (if own then s\<lparr>sp_brand := map_option (bf_reads_update (remove1 f)) (sp_brand s)\<rparr>
      else s\<lparr>sp_oldReads := remove1 f (sp_oldReads s)\<rparr>)"

definition logo_read :: "bool \<Rightarrow> js_error + string \<Rightarrow> settings_page \<Rightarrow> settings_page \<times> effect list" where
  "logo_read own r s =
     (case r of
        Inr u \<Rightarrow> (if own then s\<lparr>sp_brand := map_option (bf_logo_update (\<lambda>_. u)) (sp_brand s)\<rparr> else s, [])
      | Inl e \<Rightarrow> (s, [ToastError (case e of NonError \<Rightarrow> [Zh ''the logo cannot be read''] | _ \<Rightarrow> errorMessage e)]))"

fun settings_step :: "(settings_event, settings_page) component" where
  "settings_step RefreshSettings s = (s, [Refetch [''settings'']])"
| "settings_step (SetTab t) s = (render (s\<lparr>sp_tab := t\<rparr>), [])"
| "settings_step (SettingsArrive q) s = (render (s\<lparr>sp_query := q\<rparr>), [])"
| "settings_step (EditBrand f) s = (s\<lparr>sp_brand := Some f\<rparr>, [])"
| "settings_step (EditDNS f) s = (s\<lparr>sp_dns := Some f\<rparr>, [])"
| "settings_step (EditCache f) s = (s\<lparr>sp_cache := Some f\<rparr>, [])"
| "settings_step (EditCloudflare f) s = (s\<lparr>sp_cf := Some f\<rparr>, [])"
| "settings_step (EditSMTP f) s = (s\<lparr>sp_smtp := Some f\<rparr>, [])"
| "settings_step (EditBackup f) s = (s\<lparr>sp_backup := Some f\<rparr>, [])"
| "settings_step (PickLogo f) s = (s\<lparr>sp_brand := map_option (bf_reads_update ((#) f)) (sp_brand s)\<rparr>, [])"
| "settings_step (LogoRead own f readable) s = logo_read own (readBrandLogo f readable) (logo_settled own f s)"
| "settings_step (RunOp n p) s =
     (case form_request n p s of
        None \<Rightarrow> (s, [])
      | Some r \<Rightarrow> ((if is_smtp_test n p then set_test_error [] else id) (map_pending n ((#) p) s), [Send r]))"
| "settings_step (BrandSaved own r) s =
     settle r (brand_saved (form_settled own Brand Save s)) (op_fails own Brand Save (form_settled own Brand Save s))"
| "settings_step (OpArrives own n p r) s =
     settle r (\<lambda>_. op_succeeds own n p (form_settled own n p s)) (op_fails own n p (form_settled own n p s))"
| "settings_step (InRestore e) s =
     (let (r, fx) = restore_step e (sp_restore s) in (s\<lparr>sp_restore := r\<rparr>, fx))"

section \<open>The view\<close>

definition settings_tabs :: "(string \<times> ui_text) list" where
  "settings_tabs = [(''common'', [Zh ''common'']), (''network'', [Zh ''network and DNS'']),
     (''notifications'', [Zh ''notifications'']), (''backup'', [Zh ''backup and restore''])]"

definition opt_view :: "'f option \<Rightarrow> ('f \<Rightarrow> 'e view) \<Rightarrow> 'e view list" where
  "opt_view f v = (case f of None \<Rightarrow> [] | Some g \<Rightarrow> [v g])"

definition settings_forms :: "settings_page \<Rightarrow> settings \<Rightarrow> settings_event view list" where
  "settings_forms s d =
     opt_view (sp_brand s) (\<lambda>f. BrandingForm f EditBrand (RunOp Brand Save)) @
     opt_view (sp_cache s) (\<lambda>f. CacheForm f EditCache (RunOp CacheQuota Save)) @
     opt_view (sp_dns s) (\<lambda>f. DNSForm f EditDNS (RunOp DNS Save)) @
     opt_view (sp_cf s) (\<lambda>f. CloudflareForm (set_cloudflare d) f EditCloudflare (RunOp Cloudflare)) @
     opt_view (sp_smtp s) (\<lambda>f. SMTPForm (set_smtp d) f EditSMTP (RunOp SMTP)) @
     opt_view (sp_backup s) (\<lambda>f. BackupForm (set_backup d) f EditBackup (RunOp S3))"

definition settings_body :: "settings_page \<Rightarrow> settings_event view list" where
  "settings_body s =
     [PageHeader [Zh ''settings''] (Some [Zh ''common, runtime and integrations'']) [Btn [Zh ''refresh the settings''] False RefreshSettings]] @
     only_if (q_loading (sp_query s)) [PageLoading 4] @
     (case q_error (sp_query s) of None \<Rightarrow> [] | Some e \<Rightarrow> [PageError [Zh ''loading failed''] e]) @
     (case q_data (sp_query s) of
        None \<Rightarrow> []
      | Some d \<Rightarrow> map (\<lambda>t. Btn (snd t) False (SetTab (fst t))) settings_tabs @ settings_forms s d)"

definition restore_shown :: "settings_page \<Rightarrow> bool" where
  "restore_shown s \<longleftrightarrow> q_data (sp_query s) \<noteq> None \<and> sp_tab s = ''backup''"

definition SettingsPage :: "settings_page \<Rightarrow> settings_event view list" where
  "SettingsPage s =
     only_if (\<not> (restore_shown s \<and> bk_modal (sp_restore s))) (settings_body s) @
     only_if (restore_shown s) (map (map_view InRestore) (BackupRestore (sp_restore s)))"

text \<open>The answers the restore card may receive; its other events are raised on the view.\<close>

definition restore_answer :: "restore_event \<Rightarrow> bool" where
  "restore_answer e \<longleftrightarrow>
     (case e of JobOpArrives own p r \<Rightarrow> True | SnapshotDeleted own x r \<Rightarrow> True | BackupStatusArrives q \<Rightarrow> True
        | SnapshotsArrive q \<Rightarrow> True | JobArrives q \<Rightarrow> True | FetchingChanges b \<Rightarrow> True | _ \<Rightarrow> False)"

fun settings_enabled :: "settings_page \<Rightarrow> settings_event \<Rightarrow> bool" where
  "settings_enabled s (SettingsArrive q) \<longleftrightarrow> True"
| "settings_enabled s (PickLogo f) \<longleftrightarrow> sp_brand s \<noteq> None"
| "settings_enabled s (LogoRead own f readable) \<longleftrightarrow>
     f \<in> set (if own then (case sp_brand s of None \<Rightarrow> [] | Some g \<Rightarrow> bf_reads g) else sp_oldReads s)"
| "settings_enabled s (BrandSaved own r) \<longleftrightarrow>
     (if own then Save \<in> set (settings_pending s Brand) else (Brand, Save) \<in> set (sp_old s))"
| "settings_enabled s (OpArrives own n p r) \<longleftrightarrow>
     n \<noteq> Brand \<and> (if own then p \<in> set (settings_pending s n) else (n, p) \<in> set (sp_old s))"
| "settings_enabled s (InRestore e) \<longleftrightarrow>
     (if restore_answer e then restore_enabled (sp_restore s) e else offers (SettingsPage s) (InRestore e))"
| "settings_enabled s e \<longleftrightarrow> offers (SettingsPage s) e"

inductive settings_reach :: "settings_page \<Rightarrow> bool" where
  settings_start: "settings_reach (settings_init csrf st q)"
| settings_move: "settings_reach s \<Longrightarrow> settings_enabled s e \<Longrightarrow> settings_reach (fst (settings_step e s))"


section \<open>What the page offers\<close>

fun form_valid :: "settings_page \<Rightarrow> form_name \<Rightarrow> form_op \<Rightarrow> bool" where
  "form_valid s Brand p \<longleftrightarrow> p = Save \<and> (\<exists>f. sp_brand s = Some f \<and> js_trim (bf_name f) \<noteq> [] \<and> js_length (bf_name f) \<le> 48 \<and>
     js_length (bf_subtitle f) \<le> 80)"
| "form_valid s DNS p \<longleftrightarrow> p = Save \<and> (\<exists>f. sp_dns s = Some f \<and> 60 \<le> nf_value f \<and> nf_value f \<le> 300)"
| "form_valid s CacheQuota p \<longleftrightarrow> p = Save \<and> (\<exists>f. sp_cache s = Some f \<and> 1 \<le> nf_value f \<and> nf_value f \<le> 1024)"
| "form_valid s Cloudflare p \<longleftrightarrow> (\<exists>f d. sp_cf s = Some f \<and> q_data (sp_query s) = Some d \<and> (p = Save \<longrightarrow> cff_token f \<noteq> []) \<and>
     (p = Test \<longrightarrow> cfs_configured (set_cloudflare d) \<or> cff_token f \<noteq> []) \<and> (p = Reset \<longrightarrow> cfs_override_configured (set_cloudflare d)))"
| "form_valid s SMTP p \<longleftrightarrow> (\<exists>f d. sp_smtp s = Some f \<and> q_data (sp_query s) = Some d \<and> (p = Save \<longrightarrow> smtp_valid f) \<and>
     (p = Test \<longrightarrow> smf_enabled f) \<and> (p = Reset \<longrightarrow> smtp_override_configured (set_smtp d)))"
| "form_valid s S3 p \<longleftrightarrow> (\<exists>f d. sp_backup s = Some f \<and> q_data (sp_query s) = Some d \<and> (p = Save \<longrightarrow> backup_valid (set_backup d) f) \<and>
     (p = Reset \<longrightarrow> bks_override_configured (set_backup d)))"

fun settings_guard :: "settings_page \<Rightarrow> settings_event \<Rightarrow> bool" where
  "settings_guard s RefreshSettings \<longleftrightarrow> True"
| "settings_guard s (SetTab t) \<longleftrightarrow> q_data (sp_query s) \<noteq> None"
| "settings_guard s (EditBrand g) \<longleftrightarrow>
     (\<exists>f. sp_brand s = Some f \<and> bf_pending g = bf_pending f \<and> bf_reads g = bf_reads f \<and> bf_seen g = bf_seen f)"
| "settings_guard s (EditDNS g) \<longleftrightarrow> (\<exists>f. sp_dns s = Some f \<and> nf_pending g = nf_pending f \<and> nf_key g = nf_key f)"
| "settings_guard s (EditCache g) \<longleftrightarrow> (\<exists>f. sp_cache s = Some f \<and> nf_pending g = nf_pending f \<and> nf_key g = nf_key f)"
| "settings_guard s (EditCloudflare g) \<longleftrightarrow> (\<exists>f. sp_cf s = Some f \<and> cff_pending g = cff_pending f \<and> cff_key g = cff_key f)"
| "settings_guard s (EditSMTP g) \<longleftrightarrow> (\<exists>f. sp_smtp s = Some f \<and> smf_pending g = smf_pending f \<and> smf_key g = smf_key f)"
| "settings_guard s (EditBackup g) \<longleftrightarrow> (\<exists>f. sp_backup s = Some f \<and> buf_pending g = buf_pending f \<and> buf_key g = buf_key f)"
| "settings_guard s (RunOp n p) \<longleftrightarrow> settings_pending s n = [] \<and> form_valid s n p"
| "settings_guard s (InRestore e) \<longleftrightarrow> restore_shown s \<and> offers (BackupRestore (sp_restore s)) e"
| "settings_guard s e \<longleftrightarrow> False"

lemma offers_opt_view [simp]: "offers (opt_view f v) e \<longleftrightarrow> (\<exists>g. f = Some g \<and> fires (v g) e)"
  by (simp add: opt_view_def split: option.split)

lemma settings_forms_guard:
  assumes "offers (settings_forms s d) e" "q_data (sp_query s) = Some d"
  shows "settings_guard s e"
proof -
  consider f where "sp_brand s = Some f" "fires (BrandingForm f EditBrand (RunOp Brand Save)) e"
    | f where "sp_cache s = Some f" "fires (CacheForm f EditCache (RunOp CacheQuota Save)) e"
    | f where "sp_dns s = Some f" "fires (DNSForm f EditDNS (RunOp DNS Save)) e"
    | f where "sp_cf s = Some f" "fires (CloudflareForm (set_cloudflare d) f EditCloudflare (RunOp Cloudflare)) e"
    | f where "sp_smtp s = Some f" "fires (SMTPForm (set_smtp d) f EditSMTP (RunOp SMTP)) e"
    | f where "sp_backup s = Some f" "fires (BackupForm (set_backup d) f EditBackup (RunOp S3)) e"
    using assms(1) by (auto simp: settings_forms_def)
  then show ?thesis
  proof cases
    case (1 f)
    then show ?thesis using fires_BrandingForm [OF 1(2)] by (auto simp: settings_pending_def)
  next
    case (2 f)
    then show ?thesis using fires_NumberForm [OF 2(2) [unfolded CacheForm_def]] by (auto simp: settings_pending_def)
  next
    case (3 f)
    then show ?thesis using fires_NumberForm [OF 3(2) [unfolded DNSForm_def]] by (auto simp: settings_pending_def)
  next
    case (4 f)
    then show ?thesis using fires_CloudflareForm [OF 4(2)] assms(2) by (auto simp: settings_pending_def)
  next
    case (5 f)
    then show ?thesis using fires_SMTPForm [OF 5(2)] assms(2) by (auto simp: settings_pending_def)
  next
    case (6 f)
    then show ?thesis using fires_BackupForm [OF 6(2)] assms(2) by (auto simp: settings_pending_def)
  qed
qed

lemma offers_settings_body:
  assumes "offers (settings_body s) e"
  shows "settings_guard s e"
proof -
  consider "e = RefreshSettings" | d t where "q_data (sp_query s) = Some d" "e = SetTab t"
    | d where "q_data (sp_query s) = Some d" "offers (settings_forms s d) e"
    using assms by (auto simp: settings_body_def offers_map split: option.splits)
  then show ?thesis by cases (auto intro: settings_forms_guard)
qed

lemma offers_SettingsPage: "offers (SettingsPage s) e \<Longrightarrow> settings_guard s e"
  using offers_settings_body [of s e] by (auto simp: SettingsPage_def offers_map_view)

lemma restore_events_enabled:
  "settings_enabled s (InRestore e) \<Longrightarrow> restore_enabled (sp_restore s) e"
  using offers_SettingsPage [of s "InRestore e"] by (cases e) (auto simp: restore_answer_def split: if_splits)

section \<open>The invariant\<close>

text \<open>The mounted forms are those of the chosen tab, with the keys of the current settings.\<close>

definition in_place :: "settings_page \<Rightarrow> bool" where
  "in_place s \<longleftrightarrow>
     map_option bf_seen (sp_brand s) = map_option bf_seen (brand_rendered s) \<and>
     map_option nf_key (sp_dns s) = map_option nf_key (dns_rendered s) \<and>
     map_option nf_key (sp_cache s) = map_option nf_key (cache_rendered s) \<and>
     map_option cff_key (sp_cf s) = map_option cff_key (cf_rendered s) \<and>
     map_option smf_key (sp_smtp s) = map_option smf_key (smtp_rendered s) \<and>
     map_option buf_key (sp_backup s) = map_option buf_key (backup_rendered s)"

definition restore_in_place :: "settings_page \<Rightarrow> bool" where
  "restore_in_place s \<longleftrightarrow> (restore_shown s \<or> \<not> bk_modal (sp_restore s) \<and> bk_pending (sp_restore s) = [])"

definition settings_inv :: "settings_page \<Rightarrow> bool" where
  "settings_inv s \<longleftrightarrow> in_place s \<and> restore_in_place s \<and> bk_inv (sp_restore s) \<and> (\<forall>n. length (settings_pending s n) \<le> 1)"

lemmas rendered_defs = brand_rendered_def dns_rendered_def cache_rendered_def cf_rendered_def smtp_rendered_def backup_rendered_def

lemma rendered_cong:
  assumes "sp_query t = sp_query s" "sp_tab t = sp_tab s \<or> q_data (sp_query s) = None"
  shows "brand_rendered t = brand_rendered s" "dns_rendered t = dns_rendered s" "cache_rendered t = cache_rendered s"
    "cf_rendered t = cf_rendered s" "smtp_rendered t = smtp_rendered s" "backup_rendered t = backup_rendered s"
  using assms by (auto simp: rendered_defs at_tab_def split: option.splits)

lemma place_key [simp]: "map_option key (place key fresh old) = map_option key fresh"
  by (cases "(key, fresh, old)" rule: place.cases) auto

lemma place_cases: "place key fresh old = Some f \<Longrightarrow> old = Some f \<or> fresh = Some f"
  by (cases "(key, fresh, old)" rule: place.cases) (auto split: if_splits)

lemma branding_effect_seen [simp]: "bf_seen (branding_effect b f) = b"
  by (simp add: branding_effect_def)

lemma branding_effect_keeps [simp]:
  "bf_pending (branding_effect b f) = bf_pending f" "bf_reads (branding_effect b f) = bf_reads f"
  by (simp_all add: branding_effect_def)

lemma render_parts [simp]:
  "sp_query (render s) = sp_query s" "sp_csrf (render s) = sp_csrf s" "sp_storage (render s) = sp_storage s"
  by (simp_all add: render_def)

lemma render_in_place: "in_place (render s)"
proof -
  have r: "brand_rendered (render s) = brand_rendered s" "dns_rendered (render s) = dns_rendered s"
    "cache_rendered (render s) = cache_rendered s" "cf_rendered (render s) = cf_rendered s"
    "smtp_rendered (render s) = smtp_rendered s" "backup_rendered (render s) = backup_rendered s"
    by (rule rendered_cong; simp add: render_def)+
  show ?thesis
    unfolding in_place_def r by (simp add: render_def brand_form_def split: option.split)
qed

lemma fresh_pending:
  "brand_rendered s = Some f1 \<Longrightarrow> bf_pending f1 = []" "dns_rendered s = Some f2 \<Longrightarrow> nf_pending f2 = []"
  "cache_rendered s = Some f3 \<Longrightarrow> nf_pending f3 = []" "cf_rendered s = Some f4 \<Longrightarrow> cff_pending f4 = []"
  "smtp_rendered s = Some f5 \<Longrightarrow> smf_pending f5 = []" "backup_rendered s = Some f6 \<Longrightarrow> buf_pending f6 = []"
  by (auto simp: rendered_defs at_tab_def open_branding_def open_number_def open_cloudflare_def open_smtp_def open_backup_def Let_def
      split: option.splits if_splits)

text \<open>A render keeps the operations of a form that stays and gives a fresh form none.\<close>

lemma render_pending: "settings_pending (render s) n = settings_pending s n \<or> settings_pending (render s) n = []"
proof (cases n)
  case Brand
  then show ?thesis using fresh_pending(1) [of s] by (auto simp: settings_pending_def render_def brand_form_def split: option.splits)
next
  case DNS
  then show ?thesis using fresh_pending(2) [of s] place_cases [of nf_key "dns_rendered s" "sp_dns s"]
    by (fastforce simp: settings_pending_def render_def split: option.splits)
next
  case CacheQuota
  then show ?thesis using fresh_pending(3) [of s] place_cases [of nf_key "cache_rendered s" "sp_cache s"]
    by (fastforce simp: settings_pending_def render_def split: option.splits)
next
  case Cloudflare
  then show ?thesis using fresh_pending(4) [of s] place_cases [of cff_key "cf_rendered s" "sp_cf s"]
    by (fastforce simp: settings_pending_def render_def split: option.splits)
next
  case SMTP
  then show ?thesis using fresh_pending(5) [of s] place_cases [of smf_key "smtp_rendered s" "sp_smtp s"]
    by (fastforce simp: settings_pending_def render_def split: option.splits)
next
  case S3
  then show ?thesis using fresh_pending(6) [of s] place_cases [of buf_key "backup_rendered s" "sp_backup s"]
    by (fastforce simp: settings_pending_def render_def split: option.splits)
qed

lemma unmount_settled [simp]:
  "bk_inv (restore_unmount r)" "\<not> bk_modal (restore_unmount r)" "bk_pending (restore_unmount r) = []"
  by (simp_all add: restore_unmount_def bk_inv_def bk_modal_def open_dialogs_def)

lemma backup_rendered_shown: "backup_rendered s \<noteq> None \<longleftrightarrow> restore_shown s"
  by (auto simp: backup_rendered_def at_tab_def restore_shown_def split: option.splits)

lemma render_inv:
  assumes "bk_inv (sp_restore s)" "\<forall>n. length (settings_pending s n) \<le> 1"
  shows "settings_inv (render s)"
proof -
  have "length (settings_pending (render s) n) \<le> 1" for n
    using render_pending [of s n] assms(2) by auto
  moreover have "bk_inv (sp_restore (render s))" using assms(1) by (simp add: render_def)
  moreover have "restore_in_place (render s)"
  proof (cases "backup_rendered s = None")
    case True
    then show ?thesis by (simp add: restore_in_place_def render_def)
  next
    case False
    then have "restore_shown (render s)" using backup_rendered_shown [of s] by (auto simp: restore_shown_def render_def)
    then show ?thesis by (simp add: restore_in_place_def)
  qed
  ultimately show ?thesis using render_in_place by (simp add: settings_inv_def)
qed


text \<open>Everything a step can do to the forms apart from a render.\<close>

definition same_place :: "settings_page \<Rightarrow> settings_page \<Rightarrow> bool" where
  "same_place s t \<longleftrightarrow> sp_query t = sp_query s \<and> sp_tab t = sp_tab s \<and> sp_restore t = sp_restore s \<and>
     map_option bf_seen (sp_brand t) = map_option bf_seen (sp_brand s) \<and>
     map_option nf_key (sp_dns t) = map_option nf_key (sp_dns s) \<and>
     map_option nf_key (sp_cache t) = map_option nf_key (sp_cache s) \<and>
     map_option cff_key (sp_cf t) = map_option cff_key (sp_cf s) \<and>
     map_option smf_key (sp_smtp t) = map_option smf_key (sp_smtp s) \<and>
     map_option buf_key (sp_backup t) = map_option buf_key (sp_backup s)"

lemma same_place_inv:
  assumes "settings_inv s" "same_place s t" "\<And>n. length (settings_pending t n) \<le> 1"
  shows "settings_inv t"
proof -
  have q: "sp_query t = sp_query s" "sp_tab t = sp_tab s" "sp_restore t = sp_restore s" using assms(2) by (simp_all add: same_place_def)
  have r: "brand_rendered t = brand_rendered s" "dns_rendered t = dns_rendered s" "cache_rendered t = cache_rendered s"
    "cf_rendered t = cf_rendered s" "smtp_rendered t = smtp_rendered s" "backup_rendered t = backup_rendered s"
    using q by (intro rendered_cong; simp)+
  have "in_place t" using assms(1,2) unfolding settings_inv_def in_place_def same_place_def r by simp
  moreover have "restore_in_place t" "bk_inv (sp_restore t)"
    using assms(1) q by (simp_all add: settings_inv_def restore_in_place_def restore_shown_def)
  ultimately show ?thesis using assms(3) by (simp add: settings_inv_def)
qed

lemma same_place_refl [simp]: "same_place s s"
  by (simp add: same_place_def)

lemma same_place_trans: "same_place s t \<Longrightarrow> same_place t u \<Longrightarrow> same_place s u"
  by (simp add: same_place_def)

lemma map_option_map_option [simp]: "(\<And>x. k (g x) = k x) \<Longrightarrow> map_option k (map_option g x) = map_option k x"
  by (cases x) simp_all

lemma handlers_same_place [simp]:
  "same_place s (map_pending n g s)" "same_place s (set_test_error t s)" "same_place s (clear_secrets n s)"
  "same_place s (form_settled own n p s)" "same_place s (logo_settled own f s)"
  by (simp_all add: same_place_def map_pending_def set_test_error_def clear_secrets_def form_settled_def logo_settled_def split: form_name.split)

lemma form_pending_map [simp]:
  "settings_pending (map_pending n g s) m =
     (if m = n \<and> form_request n Save s \<noteq> None then g (settings_pending s m) else settings_pending s m)"
  by (cases n; cases m) (auto simp: settings_pending_def map_pending_def form_request_def split: option.split)

lemma form_pending_other [simp]:
  "settings_pending (set_test_error t s) m = settings_pending s m" "settings_pending (clear_secrets n s) m = settings_pending s m"
  "settings_pending (logo_settled own f s) m = settings_pending s m" "settings_pending (s\<lparr>sp_old := os\<rparr>) m = settings_pending s m"
  "settings_pending (s\<lparr>sp_query := q\<rparr>) m = settings_pending s m" "settings_pending (s\<lparr>sp_tab := ta\<rparr>) m = settings_pending s m"
  "settings_pending (s\<lparr>sp_storage := st\<rparr>) m = settings_pending s m" "settings_pending (s\<lparr>sp_restore := r\<rparr>) m = settings_pending s m"
  "settings_pending (s\<lparr>sp_brand := map_option (bf_logo_update w) (sp_brand s)\<rparr>) m = settings_pending s m"
  "settings_pending (s\<lparr>sp_brand := map_option (bf_reads_update v) (sp_brand s)\<rparr>) m = settings_pending s m"
  by (auto simp: settings_pending_def set_test_error_def clear_secrets_def logo_settled_def split: form_name.split option.split)

lemma form_settled_pending: "length (settings_pending (form_settled own n p s) m) \<le> length (settings_pending s m)"
  by (simp add: form_settled_def length_remove1)

lemma settings_inv_pending: "settings_inv s \<Longrightarrow> length (settings_pending s m) \<le> 1"
  by (simp add: settings_inv_def)

lemma form_settled_inv: "settings_inv s \<Longrightarrow> settings_inv (form_settled own n p s)"
  by (rule same_place_inv [of s])
    (simp_all del: One_nat_def add: order_trans [OF form_settled_pending settings_inv_pending])

lemma restore_answer_still:
  assumes "restore_enabled r e" "restore_answer e" "\<not> bk_modal r" "bk_pending r = []"
  shows "\<not> bk_modal (fst (restore_step e r)) \<and> bk_pending (fst (restore_step e r)) = []"
proof (cases e)
  case (JobOpArrives own p res)
  then have "\<not> own" using assms(1,4) by (cases own) auto
  then show ?thesis using JobOpArrives assms(3,4)
    by (cases res) (simp_all add: op_succeeded_with_def bk_failed_def bk_settled_def updateJob_def bk_modal_def)
next
  case (SnapshotDeleted own x res)
  then have "\<not> own" using assms(1,4) by (cases own) auto
  then show ?thesis using SnapshotDeleted assms(3,4)
    by (cases res) (simp_all add: snapshot_deleted_def bk_failed_def bk_settled_def drop_snapshot_def bk_modal_def)
qed (use assms in \<open>simp_all add: restore_answer_def bk_modal_def\<close>)

lemma restore_event_inv:
  assumes "settings_inv s" "settings_enabled s (InRestore e)"
  shows "settings_inv (s\<lparr>sp_restore := fst (restore_step e (sp_restore s))\<rparr>)"
proof -
  let ?t = "s\<lparr>sp_restore := fst (restore_step e (sp_restore s))\<rparr>"
  have "bk_inv (sp_restore ?t)"
    using restore.step_keeps [of "sp_restore s" e] restore_events_enabled [OF assms(2)] assms(1) by (simp add: settings_inv_def)
  moreover have "in_place ?t"
    using assms(1) rendered_cong [of ?t s] by (simp add: settings_inv_def in_place_def)
  moreover have "restore_in_place ?t"
  proof (cases "restore_shown s")
    case True
    then show ?thesis by (simp add: restore_in_place_def restore_shown_def)
  next
    case False
    then have "restore_answer e" using assms(2) offers_SettingsPage [of s "InRestore e"] by (auto split: if_splits)
    moreover have "\<not> bk_modal (sp_restore s)" "bk_pending (sp_restore s) = []"
      using assms(1) False by (simp_all add: settings_inv_def restore_in_place_def)
    ultimately show ?thesis
      using restore_answer_still restore_events_enabled [OF assms(2)] by (simp add: restore_in_place_def)
  qed
  ultimately show ?thesis using assms(1) by (simp add: settings_inv_def)
qed


lemma handler_inv:
  "settings_inv s \<Longrightarrow> same_place s t \<Longrightarrow> (\<And>n. settings_pending t n = settings_pending s n) \<Longrightarrow> settings_inv t"
  by (rule same_place_inv) (simp_all del: One_nat_def add: settings_inv_pending)

lemma rerender_inv:
  "settings_inv s \<Longrightarrow> sp_restore t = sp_restore s \<Longrightarrow> (\<And>n. settings_pending t n = settings_pending s n) \<Longrightarrow> settings_inv (render t)"
  by (rule render_inv) (simp_all add: settings_inv_def)

lemma op_outcome_inv:
  assumes "settings_inv s"
  shows "settings_inv (fst (op_succeeds own n p s))" "settings_inv (fst (op_fails own n p s e))" "settings_inv (fst (brand_saved s b))"
proof -
  show "settings_inv (fst (op_succeeds own n p s))" "settings_inv (fst (op_fails own n p s e))"
    by (rule handler_inv [OF assms]; simp add: op_succeeds_def op_fails_def)+
  show "settings_inv (fst (brand_saved s b))"
    by (simp add: brand_saved_def rerender_inv [OF assms])
qed

lemma edit_inv:
  assumes "settings_inv s" "settings_guard s e" "\<And>n p. e \<noteq> RunOp n p" "\<And>x. e \<noteq> InRestore x" "\<And>t. e \<noteq> SetTab t"
  shows "settings_inv (fst (settings_step e s))"
proof (rule handler_inv [OF assms(1)])
  show "same_place s (fst (settings_step e s))"
    using assms(2-5) by (cases e) (auto simp: same_place_def)
  show "settings_pending (fst (settings_step e s)) n = settings_pending s n" for n
    using assms(2-5) by (cases e; cases n) (auto simp: settings_pending_def)
qed

lemma settings_step_inv:
  assumes "settings_inv s" "settings_enabled s e"
  shows "settings_inv (fst (settings_step e s))"
proof (cases e)
  case (SetTab t)
  then show ?thesis by (simp add: rerender_inv [OF assms(1)])
next
  case (SettingsArrive q)
  then show ?thesis by (simp add: rerender_inv [OF assms(1)])
next
  case (PickLogo f)
  show ?thesis unfolding PickLogo by (rule handler_inv [OF assms(1)]) (simp_all add: same_place_def)
next
  case (LogoRead own f readable)
  show ?thesis unfolding LogoRead
  proof (rule handler_inv [OF assms(1)])
    show "same_place s (fst (settings_step (LogoRead own f readable) s))"
      by (auto simp: logo_read_def same_place_def logo_settled_def split: sum.split js_error.split)
    show "settings_pending (fst (settings_step (LogoRead own f readable) s)) n = settings_pending s n" for n
      by (auto simp: logo_read_def split: sum.split js_error.split)
  qed
next
  case (RunOp n p)
  then have g: "settings_pending s n = []" using assms(2) offers_SettingsPage [of s e] by simp
  show ?thesis
  proof (cases "form_request n p s")
    case (Some r)
    have "settings_inv (map_pending n ((#) p) s)"
      by (rule same_place_inv [OF assms(1)]) (use g in \<open>simp_all del: One_nat_def add: settings_inv_pending [OF assms(1)]\<close>)
    then have "settings_inv (if is_smtp_test n p then set_test_error [] (map_pending n ((#) p) s) else map_pending n ((#) p) s)"
      using handler_inv [of "map_pending n ((#) p) s" "set_test_error [] (map_pending n ((#) p) s)"] by simp
    then show ?thesis using RunOp Some by (simp split: if_splits)
  qed (use RunOp assms(1) in simp)
next
  case (BrandSaved own r)
  then show ?thesis by (cases r) (simp_all add: op_outcome_inv form_settled_inv [OF assms(1)])
next
  case (OpArrives own n p r)
  then show ?thesis by (cases r) (simp_all add: op_outcome_inv form_settled_inv [OF assms(1)])
next
  case (InRestore x)
  then show ?thesis using restore_event_inv [OF assms(1)] assms(2) by (simp add: split_def Let_def)
qed (rule edit_inv [OF assms(1)]; use assms(2) offers_SettingsPage [of s e] in simp)+

lemma settings_init_inv: "settings_inv (settings_init csrf st q)"
  unfolding settings_init_def
  by (rule render_inv) (simp_all add: restore_init_def bk_inv_def open_dialogs_def settings_pending_def split: form_name.split)

lemma settings_reach_inv: "settings_reach s \<Longrightarrow> settings_inv s"
  by (induction rule: settings_reach.induct) (simp_all add: settings_init_inv settings_step_inv)


section \<open>Properties\<close>

text \<open>
  C11. Whatever is edited, saved, switched or refetched in whatever order: the forms on screen are those of the chosen
  tab with the keys of the current settings, each has at most one operation in flight and starts none
  while it has, and the restore card keeps its procedure and has no dialog open when its tab is left.
\<close>

theorem settings_forms_consistent:
  assumes "settings_reach s"
  shows "in_place s \<and> (\<forall>n. length (settings_pending s n) \<le> 1) \<and>
    (\<forall>n p. settings_enabled s (RunOp n p) \<longrightarrow> settings_pending s n = []) \<and>
    bk_inv (sp_restore s) \<and> (bk_modal (sp_restore s) \<longrightarrow> restore_shown s)"
  using settings_reach_inv [OF assms] offers_SettingsPage [of s "RunOp n p" for n p]
  by (auto simp: settings_inv_def restore_in_place_def)

text \<open>The body of a request as the control plane reads it.\<close>

definition sent_json :: "request \<Rightarrow> json option" where
  "sent_json r = Option.bind (rq_body r) json_parse"

lemma sent_json_init [simp]:
  "integral v \<Longrightarrow> sent_json (api_request c p (json_init m v)) = Some v" "sent_json (api_request c p (method_init m)) = None"
  by (simp_all add: sent_json_def json_init_def method_init_def json_parse_stringify)

lemma integral_payloads [simp]: "integral (smtp_payload f)" "integral (backup_payload g)"
  by (simp_all add: smtp_payload_def backup_payload_def secret_member_def only_if_def)

text \<open>
  C19. What is saved is within the bounds the forms announce: a TTL from 60 to 300, a cache quota from 1 to 1024, a
  brand with a name, a mail configuration with a port and, when it is enabled, a host, a sender and
  recipients, a backup with a repository, a time of day and the secrets it lacks; and the body reads back as it.
\<close>

theorem saved_settings_valid:
  assumes "settings_enabled s (RunOp n Save)" "Send r \<in> set (snd (settings_step (RunOp n Save) s))"
  shows "rq_method r = ''PUT'' \<and>
    (case n of
       DNS \<Rightarrow> \<exists>k. sent_json r = Some (JObject [(''default_ttl_seconds'', JInt k)]) \<and> 60 \<le> k \<and> k \<le> 300
     | CacheQuota \<Rightarrow> \<exists>k. sent_json r = Some (JObject [(''default_size_gb'', JInt k)]) \<and> 1 \<le> k \<and> k \<le> 1024
     | Brand \<Rightarrow> \<exists>a b l. sent_json r = Some (branding_json \<lparr>b_name = a, b_subtitle = b, b_logo_data_url = l\<rparr>) \<and> js_trim a \<noteq> [] \<and>
         js_length a \<le> 48 \<and> js_length b \<le> 80
     | Cloudflare \<Rightarrow> \<exists>t. sent_json r = Some (JObject [(''token'', JString t)]) \<and> t \<noteq> []
     | SMTP \<Rightarrow> \<exists>f. sent_json r = Some (smtp_payload f) \<and> smtp_valid f
     | S3 \<Rightarrow> \<exists>f d. sent_json r = Some (backup_payload f) \<and> q_data (sp_query s) = Some d \<and> backup_valid (set_backup d) f)"
proof -
  have v: "form_valid s n Save" using assms(1) offers_SettingsPage [of s "RunOp n Save"] by simp
  have r: "form_request n Save s = Some r" using assms(2) by (cases "form_request n Save s") auto
  show ?thesis
    using v r by (cases n) (auto simp: form_request_def brand_request_def dns_request_def cache_request_def cloudflare_request_def
        smtp_request_def backup_request_def branding_json_def, auto simp: json_init_def)
qed

text \<open>Secrets: what the forms hold, what types them, what a request carries.\<close>

definition form_secrets :: "settings_page \<Rightarrow> form_name \<Rightarrow> string list" where
  "form_secrets s n =
     (case n of
        Cloudflare \<Rightarrow> (case sp_cf s of None \<Rightarrow> [] | Some f \<Rightarrow> [cff_token f])
      | SMTP \<Rightarrow> (case sp_smtp s of None \<Rightarrow> [] | Some f \<Rightarrow> [smf_password f])
      | S3 \<Rightarrow> (case sp_backup s of None \<Rightarrow> [] | Some f \<Rightarrow> [buf_secretKey f, buf_resticPassword f])
      | _ \<Rightarrow> [])"

definition no_secrets :: "form_name \<Rightarrow> settings_page \<Rightarrow> bool" where
  "no_secrets n s \<longleftrightarrow> list_all (\<lambda>x. x = []) (form_secrets s n)"

fun types_into :: "form_name \<Rightarrow> settings_event \<Rightarrow> bool" where
  "types_into n (EditCloudflare f) \<longleftrightarrow> n = Cloudflare"
| "types_into n (EditSMTP f) \<longleftrightarrow> n = SMTP"
| "types_into n (EditBackup f) \<longleftrightarrow> n = S3"
| "types_into n e \<longleftrightarrow> False"

definition secret_keys :: "string list" where
  "secret_keys = [''token'', ''password'', ''secret_access_key'', ''restic_password'']"

definition carries_no_secret :: "request \<Rightarrow> bool" where
  "carries_no_secret r \<longleftrightarrow>
     (case sent_json r of Some (JObject ms) \<Rightarrow> \<forall>k \<in> set secret_keys. obj_get k ms \<in> {None, Some (JString [])} | _ \<Rightarrow> True)"

lemma form_secrets_other [simp]:
  "form_secrets (map_pending m g s) n = form_secrets s n" "form_secrets (set_test_error t s) n = form_secrets s n"
  "form_secrets (logo_settled own f s) n = form_secrets s n" "form_secrets (s\<lparr>sp_old := os\<rparr>) n = form_secrets s n"
  "form_secrets (s\<lparr>sp_query := q\<rparr>) n = form_secrets s n" "form_secrets (s\<lparr>sp_tab := ta\<rparr>) n = form_secrets s n"
  "form_secrets (s\<lparr>sp_storage := st\<rparr>) n = form_secrets s n" "form_secrets (s\<lparr>sp_restore := r\<rparr>) n = form_secrets s n"
  "form_secrets (s\<lparr>sp_brand := br\<rparr>) n = form_secrets s n" "form_secrets (s\<lparr>sp_dns := x\<rparr>) n = form_secrets s n"
  "form_secrets (s\<lparr>sp_cache := x\<rparr>) n = form_secrets s n"
  by (simp_all add: form_secrets_def map_pending_def set_test_error_def logo_settled_def split: form_name.split option.split)

lemma form_settled_secrets [simp]: "form_secrets (form_settled own m p s) n = form_secrets s n"
  by (simp add: form_settled_def)

lemma form_secrets_edits [simp]:
  "n \<noteq> Cloudflare \<Longrightarrow> form_secrets (s\<lparr>sp_cf := a\<rparr>) n = form_secrets s n"
  "n \<noteq> SMTP \<Longrightarrow> form_secrets (s\<lparr>sp_smtp := b\<rparr>) n = form_secrets s n"
  "n \<noteq> S3 \<Longrightarrow> form_secrets (s\<lparr>sp_backup := c\<rparr>) n = form_secrets s n"
  by (simp_all add: form_secrets_def split: form_name.split)

lemma no_secrets_render: "no_secrets n s \<Longrightarrow> no_secrets n (render s)"
proof (cases n)
  case Cloudflare
  assume "no_secrets n s"
  then show ?thesis
    using Cloudflare place_cases [of cff_key "cf_rendered s" "sp_cf s"]
    by (cases "sp_cf (render s)") (auto simp: no_secrets_def form_secrets_def render_def cf_rendered_def at_tab_def open_cloudflare_def
        split: option.splits if_splits)
next
  case SMTP
  assume "no_secrets n s"
  then show ?thesis
    using SMTP place_cases [of smf_key "smtp_rendered s" "sp_smtp s"]
    by (cases "sp_smtp (render s)") (auto simp: no_secrets_def form_secrets_def render_def smtp_rendered_def at_tab_def open_smtp_def Let_def
        split: option.splits if_splits)
next
  case S3
  assume "no_secrets n s"
  then show ?thesis
    using S3 place_cases [of buf_key "backup_rendered s" "sp_backup s"]
    by (cases "sp_backup (render s)") (auto simp: no_secrets_def form_secrets_def render_def backup_rendered_def at_tab_def open_backup_def Let_def
        split: option.splits if_splits)
qed (simp_all add: no_secrets_def form_secrets_def)

lemma no_secrets_cleared: "no_secrets n (clear_secrets n s)"
  by (simp add: no_secrets_def clear_secrets_def form_secrets_def split: form_name.split option.split)

lemma no_secrets_clear_other:
  assumes "no_secrets n s"
  shows "no_secrets n (clear_secrets m s)"
proof (cases "m = n")
  case False
  then have "form_secrets (clear_secrets m s) n = form_secrets s n" by (cases m) (auto simp: clear_secrets_def)
  then show ?thesis using assms by (simp add: no_secrets_def)
qed (simp add: no_secrets_cleared)

lemma no_secrets_same: "no_secrets n s \<Longrightarrow> form_secrets t n = form_secrets s n \<Longrightarrow> no_secrets n t"
  by (simp add: no_secrets_def)


lemma step_no_secrets:
  assumes "no_secrets n s" "\<not> types_into n e"
  shows "no_secrets n (fst (settings_step e s))"
proof -
  have outcome: "no_secrets n (fst (op_succeeds own m p t))" "no_secrets n (fst (op_fails own m p t er))" "no_secrets n (fst (brand_saved t b))"
    if "no_secrets n t" for own m p t er b
    using that no_secrets_clear_other [OF that]
    by (auto simp: op_succeeds_def op_fails_def brand_saved_def intro!: no_secrets_render elim: no_secrets_same)
  have settled: "no_secrets n (form_settled own m p s)" for own m p
    by (rule no_secrets_same [OF assms(1)]) simp
  show ?thesis
  proof (cases e)
    case (SetTab t)
    then show ?thesis using assms(1) by (auto intro!: no_secrets_render elim: no_secrets_same)
  next
    case (SettingsArrive q)
    then show ?thesis using assms(1) by (auto intro!: no_secrets_render elim: no_secrets_same)
  next
    case (LogoRead own f readable)
    then show ?thesis using assms(1) by (auto simp: logo_read_def elim: no_secrets_same split: sum.split)
  next
    case (RunOp m p)
    then show ?thesis using assms(1) by (auto elim: no_secrets_same split: option.split)
  next
    case (BrandSaved own r)
    then show ?thesis using outcome [OF settled] by (cases r) simp_all
  next
    case (OpArrives own m p r)
    then show ?thesis using outcome [OF settled] by (cases r) simp_all
  next
    case (InRestore x)
    then show ?thesis using assms(1) by (auto simp: split_def Let_def elim: no_secrets_same)
  qed (use assms in \<open>auto elim: no_secrets_same\<close>)
qed

lemma run_no_secrets:
  "no_secrets n s \<Longrightarrow> \<forall>e \<in> set es. \<not> types_into n e \<Longrightarrow> no_secrets n (fst (run settings_step es s))"
  by (induction es arbitrary: s) (auto simp: split_def Let_def step_no_secrets)

lemma carries_no_secret_init:
  assumes "integral (JObject ms)" "\<forall>k \<in> set secret_keys. obj_get k ms \<in> {None, Some (JString [])}"
  shows "carries_no_secret (api_request c p (json_init m (JObject ms)))"
  using assms unfolding carries_no_secret_def by simp

lemma carries_no_secret_method [simp]: "carries_no_secret (api_request c p (method_init m))"
  by (simp add: carries_no_secret_def)

lemma smtp_without_secret: "smf_password f = [] \<Longrightarrow> carries_no_secret (api_request c p (json_init m (smtp_payload f)))"
  unfolding smtp_payload_def by (rule carries_no_secret_init) (simp_all add: secret_member_def secret_keys_def obj_get_def)

lemma backup_without_secret:
  "buf_secretKey f = [] \<Longrightarrow> buf_resticPassword f = [] \<Longrightarrow> carries_no_secret (api_request c p (json_init m (backup_payload f)))"
  unfolding backup_payload_def by (rule carries_no_secret_init) (simp_all add: secret_member_def secret_keys_def obj_get_def)

lemma other_without_secret:
  "carries_no_secret (brand_request c f)" "carries_no_secret (dns_request c g)" "carries_no_secret (cache_request c g)"
  unfolding brand_request_def dns_request_def cache_request_def
  by (rule carries_no_secret_init; simp add: secret_keys_def obj_get_def)+

lemma cloudflare_without_secret:
  "cff_token f = [] \<Longrightarrow> carries_no_secret (api_request c p (json_init m (JObject [(''token'', JString (cff_token f))])))"
  by (rule carries_no_secret_init) (simp_all add: secret_keys_def obj_get_def)

lemma request_no_secrets:
  assumes "no_secrets n s" "form_request n p s = Some r"
  shows "carries_no_secret r"
proof (cases n)
  case Cloudflare
  then obtain f where f: "cff_token f = []" "r = cloudflare_request (sp_csrf s) p f"
    using assms by (auto simp: no_secrets_def form_secrets_def form_request_def)
  then show ?thesis using cloudflare_without_secret [OF f(1)] by (cases p) (simp_all add: cloudflare_request_def)
next
  case SMTP
  then obtain f where f: "smf_password f = []" "r = smtp_request (sp_csrf s) p f"
    using assms by (auto simp: no_secrets_def form_secrets_def form_request_def)
  then show ?thesis using smtp_without_secret [OF f(1)] by (cases p) (simp_all add: smtp_request_def)
next
  case S3
  then obtain f where f: "buf_secretKey f = []" "buf_resticPassword f = []" "r = backup_request (sp_csrf s) p f"
    using assms by (auto simp: no_secrets_def form_secrets_def form_request_def)
  then show ?thesis using backup_without_secret [OF f(1,2)] by (cases p) (simp_all add: backup_request_def)
qed (use assms(2) other_without_secret in \<open>auto simp: form_request_def\<close>)

text \<open>
  C12. A secret leaves the console only when it was typed: once saving or resetting an integration has succeeded,
  no request of its form carries a token, password or key, whatever happens in between, until the
  operator types into the form again.
\<close>

theorem secrets_not_sent_again:
  assumes "p \<noteq> Test" and "\<forall>e \<in> set es. \<not> types_into n e"
    and "Send r \<in> set (snd (settings_step (RunOp n q) (fst (run settings_step (OpArrives True n p (Inr ()) # es) s))))"
  shows "carries_no_secret r"
proof -
  let ?t = "fst (settings_step (OpArrives True n p (Inr ())) s)"
  have "no_secrets n ?t" using assms(1) by (simp add: op_succeeds_def no_secrets_cleared)
  then have "no_secrets n (fst (run settings_step (OpArrives True n p (Inr ()) # es) s))"
    using run_no_secrets [of n ?t es] assms(2) by (simp add: split_def Let_def)
  moreover have "form_request n q (fst (run settings_step (OpArrives True n p (Inr ()) # es) s)) = Some r"
    using assms(3)
    by (cases "form_request n q (fst (run settings_step (OpArrives True n p (Inr ()) # es) s))") simp_all
  ultimately show ?thesis by (rule request_no_secrets)
qed


lemma requests_ignore [simp]:
  "brand_request c (bf_pending_update g f) = brand_request c f"
  "dns_request c (nf_pending_update g f') = dns_request c f'" "cache_request c (nf_pending_update g f') = cache_request c f'"
  "cloudflare_request c q (cff_pending_update g h) = cloudflare_request c q h"
  "smtp_request c q (smf_pending_update g k) = smtp_request c q k" "smtp_request c q (smf_testError_update w k) = smtp_request c q k"
  "backup_request c q (buf_pending_update g l) = backup_request c q l"
  by (cases q; simp add: brand_request_def dns_request_def cache_request_def cloudflare_request_def smtp_request_def backup_request_def
      smtp_payload_def backup_payload_def)+

lemma form_request_other [simp]:
  "form_request n q (map_pending m g s) = form_request n q s" "form_request n q (set_test_error t s) = form_request n q s"
  "form_request n q (s\<lparr>sp_old := os\<rparr>) = form_request n q s"
  by (cases n; cases m; simp add: form_request_def map_pending_def option.map_comp o_def)
    (simp_all add: form_request_def set_test_error_def option.map_comp o_def split: form_name.split)

lemma remove1_single: "length xs \<le> 1 \<Longrightarrow> p \<in> set xs \<Longrightarrow> remove1 p xs = []"
  by (cases xs) auto

lemma pending_request: "p \<in> set (settings_pending s n) \<Longrightarrow> form_request n q s \<noteq> None"
proof
  assume "form_request n q s = None"
  then have "settings_pending s n = []" by (cases n; simp add: settings_pending_def form_request_def)
  moreover assume "p \<in> set (settings_pending s n)"
  ultimately show False by simp
qed

lemma settled_free:
  assumes "settings_inv s" "p \<in> set (settings_pending s n)"
  shows "settings_pending (form_settled True n p s) n = []"
  using remove1_single [OF settings_inv_pending [OF assms(1)] assms(2)] pending_request [OF assms(2)]
  by (simp add: form_settled_def)

text \<open>
  C34. A failed operation costs nothing: it is reported once, in the toast (and, for the test mail, in the form),
  the form is usable again, and every operation would send exactly what it would have sent before.
\<close>

theorem failed_operation_harmless:
  assumes "settings_reach s" "settings_enabled s (OpArrives True n p (Inl e))"
  shows "let (t, fx) = settings_step (OpArrives True n p (Inl e)) s
     in fx = dispatched e @ [ToastError (op_error_text n p e)] \<and> settings_pending t n = [] \<and>
        (\<forall>m q. form_request m q t = form_request m q s) \<and>
        (n = SMTP \<and> p = Test \<longrightarrow> map_option smf_testError (sp_smtp t) = Some (smtpTestErrorMessage e))"
proof -
  have p: "p \<in> set (settings_pending s n)" using assms(2) by simp
  have "map_option smf_testError (sp_smtp (set_test_error x (form_settled True SMTP p s))) = Some x" if "n = SMTP" for x
    using pending_request [of p s SMTP Save] p that
    by (auto simp: set_test_error_def form_settled_def map_pending_def form_request_def)
  then show ?thesis
    using settled_free [OF settings_reach_inv [OF assms(1)] p] by (auto simp: op_fails_def is_smtp_test_def op_error_text_def form_settled_def)
qed

text \<open>
  Every operation of a form ends: when its answer arrives, whether a success or a failure, the form is free
  again and says so in exactly one toast, and a success of other than a test has the settings fetched again.
\<close>

theorem form_free_after_answer:
  assumes "settings_reach s" "settings_enabled s (OpArrives True n p r)"
  shows "settings_pending (fst (settings_step (OpArrives True n p r) s)) n = [] \<and>
    length (filter (\<lambda>f. \<exists>t. f = ToastSuccess t \<or> f = ToastError t) (snd (settings_step (OpArrives True n p r) s))) = 1 \<and>
    (Invalidate [''settings''] \<in> set (snd (settings_step (OpArrives True n p r) s)) \<longleftrightarrow> r = Inr () \<and> p \<noteq> Test)"
proof -
  have f: "settings_pending (form_settled True n p s) n = []"
    using assms(2) settled_free [OF settings_reach_inv [OF assms(1)]] by simp
  show ?thesis
  proof (cases r)
    case (Inl e)
    have "filter (\<lambda>f. \<exists>t. f = ToastSuccess t \<or> f = ToastError t) (dispatched e) = []" "Invalidate [''settings''] \<notin> set (dispatched e)"
      by (auto simp: dispatched_def split: js_error.split)
    then show ?thesis using f Inl by (simp add: op_fails_def)
  next
    case (Inr u)
    then show ?thesis using f by (cases "p = Test") (simp_all add: op_succeeds_def)
  qed
qed

text \<open>
  A saved brand is the brand everywhere: the settings the page holds, the form on screen, and what the browser
  shows before log-in all agree with the control plane's answer, also when the form was left meanwhile.
\<close>

theorem saved_brand_shown:
  assumes "settings_reach s" "normalized b" "st_writable (sp_storage s)"
  shows "let t = fst (settings_step (BrandSaved own (Inr b)) s)
     in readCachedBranding (sp_storage t) = Some b \<and>
        (\<forall>d. q_data (sp_query t) = Some d \<longrightarrow> set_branding d = b) \<and>
        (\<forall>f g. sp_brand s = Some f \<longrightarrow> sp_brand t = Some g \<longrightarrow> bf_seen g = b \<and>
           (b \<noteq> bf_seen f \<longrightarrow> bf_name g = b_name b \<and> bf_subtitle g = b_subtitle b \<and> bf_logo g = b_logo_data_url b))"
proof -
  let ?u = "form_settled own Brand Save s"
  have u: "sp_storage ?u = sp_storage s" "sp_query ?u = sp_query s" "map_option bf_seen (sp_brand ?u) = map_option bf_seen (sp_brand s)"
    by (simp_all add: form_settled_def map_pending_def)
  have c: "readCachedBranding (fst (cacheBranding (branding_json b) (sp_storage s))) = Some b"
    using assms(2,3) by (simp add: cacheBranding_def normalize_json read_stored)
  have g: "bf_seen g = b \<and> (b \<noteq> bf_seen f \<longrightarrow> bf_name g = b_name b \<and> bf_subtitle g = b_subtitle b \<and> bf_logo g = b_logo_data_url b)"
    if "sp_brand s = Some f" "sp_brand (fst (brand_saved ?u b)) = Some g" for f g
  proof -
    have "map_option bf_seen (sp_brand ?u) = Some (bf_seen f)" using u(3) that(1) by simp
    then obtain f' where f': "sp_brand ?u = Some f'" "bf_seen f' = bf_seen f" by (cases "sp_brand ?u") auto
    have "brand_form (s'\<lparr>sp_query := put_branding b q\<rparr>) = Some g \<Longrightarrow> sp_brand s' = Some f' \<Longrightarrow> g = branding_effect b f'" for s' q
      by (auto simp: brand_form_def brand_rendered_def at_tab_def open_branding_def put_branding_def split: option.splits if_splits)
    from this [of "sp_query ?u" "?u\<lparr>sp_storage := fst (cacheBranding (branding_json b) (sp_storage ?u))\<rparr>"]
    have "g = branding_effect b f'" using that(2) f'(1) by (simp add: brand_saved_def render_def)
    then show ?thesis using f'(2) by (simp add: branding_effect_def)
  qed
  have q: "set_branding d = b" if "q_data (sp_query (fst (brand_saved ?u b))) = Some d" for d
    using that by (auto simp: brand_saved_def put_branding_def split: option.splits)
  have "sp_storage (fst (brand_saved ?u b)) = fst (cacheBranding (branding_json b) (sp_storage s))"
    by (simp add: brand_saved_def u(1))
  then have "readCachedBranding (sp_storage (fst (brand_saved ?u b))) = Some b" using c by simp
  moreover have "fst (settings_step (BrandSaved own (Inr b)) s) = fst (brand_saved ?u b)" by simp
  ultimately show ?thesis unfolding Let_def using g q by metis
qed


section \<open>Examples\<close>

definition sample_settings :: settings where
  "sample_settings =
     \<lparr>set_branding = \<lparr>b_name = ''CDN'', b_subtitle = [], b_logo_data_url = []\<rparr>,
      set_cache = \<lparr>cas_default_size_gb = 20\<rparr>, set_dns = \<lparr>dns_default_ttl_seconds = 120\<rparr>,
      set_cloudflare = \<lparr>cfs_source = ''database'', cfs_configured = True, cfs_override_configured = True, cfs_environment_configured = True\<rparr>,
      set_smtp = \<lparr>smtp_enabled = False, smtp_host = [], smtp_port = 0, smtp_username = [], smtp_from_address = [], smtp_recipients = [],
        smtp_notification_categories = [], smtp_security = [], smtp_source = ''none'', smtp_override_configured = False,
        smtp_password_configured = False, smtp_environment_configured = False\<rparr>,
      set_backup = \<lparr>bks_repository = [], bks_access_key_id = [], bks_region = [], bks_backup_time = [], bks_random_delay_seconds = 1200,
        bks_source = ''none'', bks_configured = False, bks_override_configured = False, bks_secret_access_key_configured = False,
        bks_restic_password_configured = False, bks_environment_configured = False\<rparr>\<rparr>"

definition sample_start :: settings_page where
  "sample_start = settings_init ''t'' \<lparr>st_value = None, st_writable = True\<rparr> \<lparr>q_data = Some sample_settings, q_error = None\<rparr>"

definition sample_network :: settings_page where
  "sample_network = fst (settings_step (SetTab ''network'') sample_start)"

definition sample_resetting :: settings_page where
  "sample_resetting = fst (settings_step (RunOp Cloudflare Reset) sample_network)"

lemma sample_start_reach: "settings_reach sample_start"
  unfolding sample_start_def by (rule settings_start)

lemma sample_start_query: "q_data (sp_query sample_start) = Some sample_settings"
  by (simp add: sample_start_def settings_init_def)

lemma sample_start_tab: "sp_tab sample_start = ''common''"
  by (simp add: sample_start_def settings_init_def render_def)

lemma settings_enabled_body:
  "offers (settings_body s) e \<Longrightarrow> \<not> restore_shown s \<Longrightarrow> offers (SettingsPage s) e"
  by (simp add: SettingsPage_def)

lemma sample_network_reach: "settings_reach sample_network"
  unfolding sample_network_def
proof (rule settings_move [OF sample_start_reach])
  have "offers (settings_body sample_start) (SetTab ''network'')"
    by (simp add: settings_body_def sample_start_query settings_tabs_def)
  then show "settings_enabled sample_start (SetTab ''network'')"
    by (simp add: settings_enabled_body restore_shown_def sample_start_tab)
qed

lemma sample_network_parts:
  "q_data (sp_query sample_network) = Some sample_settings" "sp_tab sample_network = ''network''"
  "sp_cf sample_network = Some (open_cloudflare sample_settings)"
  "sp_dns sample_network = Some (open_number (dns_key sample_settings) 120)" "sp_csrf sample_network = ''t''"
  using sample_start_query
  by (simp_all add: sample_network_def)
    (simp_all add: render_def rendered_defs at_tab_def sample_start_def settings_init_def sample_settings_def)

lemma sample_network_offers:
  "offers (settings_forms sample_network sample_settings) e \<Longrightarrow> offers (SettingsPage sample_network) e"
  by (rule settings_enabled_body) (simp_all add: settings_body_def sample_network_parts restore_shown_def)

lemma sample_reset_enabled: "settings_enabled sample_network (RunOp Cloudflare Reset)"
proof -
  have "fires (CloudflareForm (set_cloudflare sample_settings) (open_cloudflare sample_settings) EditCloudflare (RunOp Cloudflare)) (RunOp Cloudflare Reset)"
    by (simp add: CloudflareForm_def open_cloudflare_def sample_settings_def)
  then show ?thesis using sample_network_offers by (simp add: settings_forms_def sample_network_parts)
qed

lemma sample_resetting_reach: "settings_reach sample_resetting"
  unfolding sample_resetting_def by (rule settings_move [OF sample_network_reach sample_reset_enabled])

lemma sample_resetting_pending: "settings_pending sample_resetting Cloudflare = [Reset]"
  by (simp add: sample_resetting_def form_request_def sample_network_parts is_smtp_test_def)
    (simp add: settings_pending_def sample_network_parts open_cloudflare_def)

theorem settings_forms_consistent_witness: "length (settings_pending sample_resetting Cloudflare) \<le> 1"
  using settings_forms_consistent [OF sample_resetting_reach] by blast

theorem saved_settings_valid_witness:
  "\<exists>k. sent_json (dns_request ''t'' (open_number (dns_key sample_settings) 120)) = Some (JObject [(''default_ttl_seconds'', JInt k)]) \<and> 60 \<le> k \<and> k \<le> 300"
proof -
  have l: "int_literal ''120''" "int_str 120 = ''120''" "read_int ''120'' = 120" by code_simp+
  have "fires (DNSForm (open_number (dns_key sample_settings) 120) EditDNS (RunOp DNS Save)) (RunOp DNS Save)"
    by (simp add: DNSForm_def NumberForm_def open_number_def field_ok_def l)
  then have "settings_enabled sample_network (RunOp DNS Save)"
    using sample_network_offers by (simp add: settings_forms_def sample_network_parts)
  moreover have "Send (dns_request ''t'' (open_number (dns_key sample_settings) 120)) \<in> set (snd (settings_step (RunOp DNS Save) sample_network))"
    by (simp add: form_request_def sample_network_parts)
  ultimately show ?thesis using saved_settings_valid [of sample_network DNS] by fastforce
qed

theorem secrets_not_sent_again_witness:
  "carries_no_secret (cloudflare_request ''t'' Test (open_cloudflare sample_settings))"
proof -
  have "Send (cloudflare_request ''t'' Test (open_cloudflare sample_settings)) \<in>
      set (snd (settings_step (RunOp Cloudflare Test) (fst (run settings_step (OpArrives True Cloudflare Reset (Inr ()) # []) sample_network))))"
    by (simp add: op_succeeds_def clear_secrets_def form_settled_def map_pending_def form_request_def sample_network_parts open_cloudflare_def)
  then show ?thesis by (rule secrets_not_sent_again [rotated 2]) simp_all
qed

theorem failed_operation_harmless_witness:
  "settings_pending (fst (settings_step (OpArrives True Cloudflare Reset (Inl NonError)) sample_resetting)) Cloudflare = []"
proof -
  have "settings_enabled sample_resetting (OpArrives True Cloudflare Reset (Inl NonError))" by (simp add: sample_resetting_pending)
  from failed_operation_harmless [OF sample_resetting_reach this] show ?thesis by (simp add: split_def Let_def)
qed

theorem form_free_after_answer_witness:
  "settings_pending (fst (settings_step (OpArrives True Cloudflare Reset (Inr ())) sample_resetting)) Cloudflare = []"
proof -
  have "settings_enabled sample_resetting (OpArrives True Cloudflare Reset (Inr ()))" by (simp add: sample_resetting_pending)
  from form_free_after_answer [OF sample_resetting_reach this] show ?thesis by blast
qed

theorem saved_brand_shown_witness:
  "readCachedBranding (sp_storage (fst (settings_step (BrandSaved True (Inr \<lparr>b_name = ''C'', b_subtitle = [], b_logo_data_url = []\<rparr>)) sample_start)))
     = Some \<lparr>b_name = ''C'', b_subtitle = [], b_logo_data_url = []\<rparr>"
proof -
  have "js_trim ''C'' = ''C''" by code_simp
  then have "normalized \<lparr>b_name = ''C'', b_subtitle = [], b_logo_data_url = []\<rparr>" by (simp add: normalized_def)
  moreover have "st_writable (sp_storage sample_start)" by (simp add: sample_start_def settings_init_def)
  ultimately show ?thesis
    using saved_brand_shown [OF sample_start_reach, of "\<lparr>b_name = ''C'', b_subtitle = [], b_logo_data_url = []\<rparr>" True]
    by (simp only: Let_def)
qed

section \<open>In the session\<close>

definition tokens :: "settings_page \<Rightarrow> string \<times> string" where
  "tokens s = (sp_csrf s, bk_csrf (sp_restore s))"

lemma tokens_kept [simp]:
  "tokens (render s) = tokens s" "tokens (map_pending n g s) = tokens s" "tokens (set_test_error t s) = tokens s"
  "tokens (form_settled own n p s) = tokens s" "tokens (clear_secrets n s) = tokens s" "tokens (logo_settled own f s) = tokens s"
  "tokens (sp_restore_update (\<lambda>_. fst (restore_step e (sp_restore s))) s) = tokens s"
  by (simp_all add: tokens_def render_def restore_unmount_def map_pending_def set_test_error_def form_settled_def clear_secrets_def
      logo_settled_def restore_step_csrf split: form_name.split)

lemma tokens_outcome [simp]:
  "tokens (fst (op_succeeds own n p s)) = tokens s" "tokens (fst (op_fails own n p s e)) = tokens s"
  "tokens (fst (brand_saved s b)) = tokens s" "tokens (fst (logo_read own r s)) = tokens s"
  by (simp_all add: op_succeeds_def op_fails_def brand_saved_def logo_read_def split: sum.split)
     (simp_all add: tokens_def)

lemma settings_step_tokens: "tokens (fst (settings_step e s)) = tokens s"
  by (cases e) (simp_all add: settle_def split_def Let_def split: sum.split option.split, simp_all add: tokens_def)

lemma outcome_no_send [simp]:
  "Send r \<notin> set (snd (op_succeeds own n p s))" "Send r \<notin> set (snd (op_fails own n p s e))"
  "Send r \<notin> set (snd (brand_saved s b))" "Send r \<notin> set (snd (logo_read own x s))"
  by (auto simp: op_succeeds_def op_fails_def brand_saved_def logo_read_def split: sum.split)

lemma form_request_authorised: "form_request n p s = Some r \<Longrightarrow> authorised (sp_csrf s) r"
  by (cases n; cases p) (auto simp: form_request_def brand_request_def dns_request_def cache_request_def cloudflare_request_def
      smtp_request_def backup_request_def starts_with_Cons)

lemma settings_step_send:
  assumes "Send r \<in> set (snd (settings_step e s))"
  shows "(\<exists>n p. e = RunOp n p \<and> form_request n p s = Some r) \<or> (\<exists>x. e = InRestore x \<and> Send r \<in> set (snd (restore_step x (sp_restore s))))"
  using assms by (cases e) (auto simp: settle_send split_def Let_def split: sum.splits option.splits)

interpretation settings_session: session_page settings_enabled settings_step sp_csrf "\<lambda>s. sp_csrf s = bk_csrf (sp_restore s)"
proof
  fix r e s
  have t: "tokens (fst (settings_step e s)) = tokens s" by (rule settings_step_tokens)
  show "authorised (sp_csrf s) r" if "sp_csrf s = bk_csrf (sp_restore s)" "Send r \<in> set (snd (settings_step e s))"
    using settings_step_send [OF that(2)]
  proof
    assume "\<exists>n p. e = RunOp n p \<and> form_request n p s = Some r"
    then show ?thesis using form_request_authorised by blast
  next
    assume "\<exists>x. e = InRestore x \<and> Send r \<in> set (snd (restore_step x (sp_restore s)))"
    then show ?thesis using restore_session.step_authorised [OF TrueI] unfolding that(1) by blast
  qed
  show "sp_csrf (fst (settings_step e s)) = sp_csrf s \<and> sp_csrf (fst (settings_step e s)) = bk_csrf (sp_restore (fst (settings_step e s)))"
    if "sp_csrf s = bk_csrf (sp_restore s)" using t that unfolding tokens_def by simp
  show "Send r \<notin> set (snd (settings_step e s))" if "DispatchUnauthorized \<in> set (snd (settings_step e s))"
    using settings_step_send [of r e s] that restore_session.dispatch_quiet
    by (cases e) (auto simp: split_def Let_def split: option.splits)
qed

end
