(* ===== verification/Console.thy ===== *)
theory Console
  imports Auth Shell Overview Logs Security Monitoring MonitoringHistory NodeDetail Sites SitePage Certificates SettingsPage
begin

text \<open>
  The console as a whole (frontend/src/App.tsx and components/app-shell.tsx): the session of the provider, the
  address, the page the routes show for it inside the shell, and the message centre beside it.

  A step is one event of one part, followed by what its effects do to the other parts: \<open>navigate\<close> changes the
  address, the \<open>cdn:unauthorized\<close> event reaches the provider's listener, and the tree is rendered again for the
  session and the address reached.  A page at another address with the same component keeps its state, as React
  does for an element of the same type in the same place; any other page is unmounted and a fresh one mounted.
  The mutations of what was unmounted go on: their answers still arrive, and their \<open>onSuccess\<close> and \<open>onError\<close> run,
  as the query library documents for callbacks given to \<open>useMutation\<close>, but what they set in the old state is seen
  by nobody.  The event \<open>GoTo\<close> stands for every way to change the address from outside the parts: a link, the side
  bar, the browser's own buttons.
\<close>

section \<open>The pages\<close>

datatype page =
    AtOverview overview_page | AtOverviewSite overview_site_page
  | AtLogs logs_page | AtLog log_detail
  | AtSecurity security_page
  | AtMonitoring monitoring_page | AtHistory history_page
  | AtNodes nodes_page | AtNode node_page
  | AtSites sites_page | AtSite site_page
  | AtCertificates certificates_page
  | AtSettings settings_page

datatype page_event =
    OverviewEv overview_event | OverviewSiteEv overview_site_event
  | LogsEv logs_event | LogEv log_detail_event
  | SecurityEv sec_event
  | MonitoringEv monitoring_event | HistoryEv history_event
  | NodesEv nodes_event | NodeEv node_event
  | SitesEv sites_event | SiteEv site_event
  | CertificatesEv certificates_event
  | SettingsEv settings_event

text \<open>The component of a page, and the parameter of its address it was rendered with.\<close>

fun page_kind :: "page \<Rightarrow> route_page" where
  "page_kind (AtOverview s) = route_page.OverviewPage"
| "page_kind (AtOverviewSite s) = route_page.OverviewSitePage"
| "page_kind (AtLogs s) = route_page.LogsPage"
| "page_kind (AtLog s) = route_page.LogDetailPage"
| "page_kind (AtSecurity s) = route_page.SecurityPage"
| "page_kind (AtMonitoring s) = route_page.MonitoringPage"
| "page_kind (AtHistory s) = route_page.MonitoringNodeHistoryPage"
| "page_kind (AtNodes s) = route_page.NodesPage"
| "page_kind (AtNode s) = route_page.NodeDetailPage"
| "page_kind (AtSites s) = route_page.SitesPage"
| "page_kind (AtSite s) = route_page.SiteDetailPage"
| "page_kind (AtCertificates s) = route_page.CertificatesPage"
| "page_kind (AtSettings s) = route_page.SettingsPage"

fun page_param :: "page \<Rightarrow> string option" where
  "page_param (AtOverviewSite s) = Some (osp_siteId s)"
| "page_param (AtLog s) = Some (ld_logId s)"
| "page_param (AtHistory s) = Some (hp_nodeId s)"
| "page_param (AtNode s) = Some (np_id s)"
| "page_param (AtSite s) = se_siteId (sg_env s)"
| "page_param p = None"

section \<open>Steps of a page\<close>

text \<open>A handler of one page, lifted to the page it belongs to; an event of another page does not reach it.\<close>

definition lifted :: "('s \<Rightarrow> page) \<Rightarrow> 's \<times> effect list \<Rightarrow> page \<times> effect list" where
  "lifted wrap r = (wrap (fst r), snd r)"

primrec page_step :: "(string \<Rightarrow> string \<Rightarrow> int) \<Rightarrow> (page_event, page) component" where
  "page_step collate (OverviewEv e) p = (case p of AtOverview s \<Rightarrow> lifted AtOverview (overview_step collate e s) | _ \<Rightarrow> (p, []))"
| "page_step collate (OverviewSiteEv e) p = (case p of AtOverviewSite s \<Rightarrow> lifted AtOverviewSite (overview_site_step e s) | _ \<Rightarrow> (p, []))"
| "page_step collate (LogsEv e) p = (case p of AtLogs s \<Rightarrow> lifted AtLogs (logs_step e s) | _ \<Rightarrow> (p, []))"
| "page_step collate (LogEv e) p = (case p of AtLog s \<Rightarrow> lifted AtLog (log_detail_step e s) | _ \<Rightarrow> (p, []))"
| "page_step collate (SecurityEv e) p = (case p of AtSecurity s \<Rightarrow> lifted AtSecurity (security_step e s) | _ \<Rightarrow> (p, []))"
| "page_step collate (MonitoringEv e) p = (case p of AtMonitoring s \<Rightarrow> lifted AtMonitoring (monitoring_step e s) | _ \<Rightarrow> (p, []))"
| "page_step collate (HistoryEv e) p = (case p of AtHistory s \<Rightarrow> lifted AtHistory (history_step e s) | _ \<Rightarrow> (p, []))"
| "page_step collate (NodesEv e) p = (case p of AtNodes s \<Rightarrow> lifted AtNodes (nodes_step e s) | _ \<Rightarrow> (p, []))"
| "page_step collate (NodeEv e) p = (case p of AtNode s \<Rightarrow> lifted AtNode (node_step e s) | _ \<Rightarrow> (p, []))"
| "page_step collate (SitesEv e) p = (case p of AtSites s \<Rightarrow> lifted AtSites (sites_step e s) | _ \<Rightarrow> (p, []))"
| "page_step collate (SiteEv e) p = (case p of AtSite s \<Rightarrow> lifted AtSite (site_step e s) | _ \<Rightarrow> (p, []))"
| "page_step collate (CertificatesEv e) p = (case p of AtCertificates s \<Rightarrow> lifted AtCertificates (certificates_step e s) | _ \<Rightarrow> (p, []))"
| "page_step collate (SettingsEv e) p = (case p of AtSettings s \<Rightarrow> lifted AtSettings (settings_step e s) | _ \<Rightarrow> (p, []))"

text \<open>
  The events of a mounted page: what its view offers and the answers that are due.  The data a site's page
  receives are those of its own site and session; the node of a history page changes with the address only.
\<close>

fun shows_node :: "history_event \<Rightarrow> bool" where
  "shows_node (ShowNode n) \<longleftrightarrow> True"
| "shows_node e \<longleftrightarrow> False"

primrec page_enabled :: "(string \<Rightarrow> string \<Rightarrow> int) \<Rightarrow> page \<Rightarrow> page_event \<Rightarrow> bool" where
  "page_enabled collate (AtOverview s) ev = (case ev of OverviewEv e \<Rightarrow> overview_enabled collate s e | _ \<Rightarrow> False)"
| "page_enabled collate (AtOverviewSite s) ev = (case ev of OverviewSiteEv e \<Rightarrow> overview_site_enabled s e | _ \<Rightarrow> False)"
| "page_enabled collate (AtLogs s) ev = (case ev of LogsEv e \<Rightarrow> logs_enabled s e | _ \<Rightarrow> False)"
| "page_enabled collate (AtLog s) ev = (case ev of LogEv e \<Rightarrow> log_detail_enabled s e | _ \<Rightarrow> False)"
| "page_enabled collate (AtSecurity s) ev = (case ev of SecurityEv e \<Rightarrow> security_enabled s e | _ \<Rightarrow> False)"
| "page_enabled collate (AtMonitoring s) ev = (case ev of MonitoringEv e \<Rightarrow> monitoring_enabled s e | _ \<Rightarrow> False)"
| "page_enabled collate (AtHistory s) ev = (case ev of HistoryEv e \<Rightarrow> history_enabled s e \<and> \<not> shows_node e | _ \<Rightarrow> False)"
| "page_enabled collate (AtNodes s) ev = (case ev of NodesEv e \<Rightarrow> nodes_enabled s e | _ \<Rightarrow> False)"
| "page_enabled collate (AtNode s) ev = (case ev of NodeEv e \<Rightarrow> node_enabled s e | _ \<Rightarrow> False)"
| "page_enabled collate (AtSites s) ev = (case ev of SitesEv e \<Rightarrow> sites_enabled s e | _ \<Rightarrow> False)"
| "page_enabled collate (AtSite s) ev = (case ev of SiteEv e \<Rightarrow> site_enabled s e \<and> own_data s e | _ \<Rightarrow> False)"
| "page_enabled collate (AtCertificates s) ev = (case ev of CertificatesEv e \<Rightarrow> certificates_enabled s e | _ \<Rightarrow> False)"
| "page_enabled collate (AtSettings s) ev = (case ev of SettingsEv e \<Rightarrow> settings_enabled s e | _ \<Rightarrow> False)"

section \<open>Mounting a page\<close>

text \<open>
  What is at hand when a page is rendered: the clock, the browser's storage, and what the query client holds under
  the keys the pages ask for.
\<close>

record cache =
  ch_now :: int
  ch_storage :: storage
  ch_overview :: "overview query"
  ch_sites :: "site list query"
  ch_nodes :: "node list query"
  ch_settings :: "settings query"
  ch_logs :: "string \<Rightarrow> log_page query"
  ch_log :: "string \<Rightarrow> access_log query"
  ch_security :: "security_overview query"
  ch_monitoring :: "monitoring_overview query"
  ch_history :: "range_key \<Rightarrow> monitoring_history query"
  ch_node :: "string \<Rightarrow> node_detail query"
  ch_nodeCache :: "string \<Rightarrow> node_cache_status query"
  ch_uninstall :: "string \<Rightarrow> node_uninstall_status option"
  ch_tls :: "string \<Rightarrow> tls_status option"
  ch_publish :: "string \<Rightarrow> publish_status option"
  ch_deletion :: "string \<Rightarrow> publish_status option"
  ch_allowlist :: "string \<Rightarrow> allowlist option"
  ch_certificates :: "certificate_overview query"

text \<open>The component and the parameter the routes find for an address.\<close>

definition routed :: "string \<Rightarrow> route_page \<times> string option" where
  "routed a =
     (case route_matches a of
        [] \<Rightarrow> (route_page.OverviewPage, None)
      | (k, bs) # _ \<Rightarrow> (k, (case bs of [] \<Rightarrow> None | (n, v) # _ \<Rightarrow> Some v)))"

definition site_data :: "string \<Rightarrow> string option \<Rightarrow> cache \<Rightarrow> site_env" where
  "site_data csrf i k =
     (let j = nullish i [] in
      \<lparr>se_siteId = i, se_csrf = csrf, se_sites = ch_sites k, se_nodes = ch_nodes k, se_settings = ch_settings k,
       se_tls = ch_tls k j, se_publish = ch_publish k j, se_deletion = ch_deletion k j, se_allowlist = ch_allowlist k j,
       se_allowLoading = False\<rparr>)"

text \<open>
  A site's page runs its effects after the first render; the deletion status it finds then counts as a change.
\<close>

definition mount_site :: "site_env \<Rightarrow> site_page \<times> effect list" where
  "mount_site en = site_step (DataArrives en) (site_init (en\<lparr>se_deletion := None\<rparr>))"

fun open_page :: "string \<Rightarrow> route_page \<Rightarrow> string option \<Rightarrow> cache \<Rightarrow> page \<times> effect list" where
  "open_page csrf route_page.OverviewPage i k = (AtOverview (overview_init (ch_overview k)), [])"
| "open_page csrf route_page.OverviewSitePage i k = (AtOverviewSite (overview_site_init (nullish i []) (ch_overview k)), [])"
| "open_page csrf route_page.LogsPage i k = (AtLogs (logs_init (ch_now k) (ch_logs k) (ch_sites k) (ch_nodes k)), [])"
| "open_page csrf route_page.LogDetailPage i k =
     (AtLog (log_detail_init (nullish i []) (ch_log k (nullish i [])) (ch_sites k) (ch_nodes k)), [])"
| "open_page csrf route_page.SecurityPage i k =
     (AtSecurity (fst (security_step (SecDataArrives (ch_security k)) (security_init csrf))), [])"
| "open_page csrf route_page.MonitoringPage i k = (AtMonitoring (monitoring_init csrf (ch_monitoring k)), [])"
| "open_page csrf route_page.MonitoringNodeHistoryPage i k = (AtHistory (history_init (nullish i []) (ch_history k)), [])"
| "open_page csrf route_page.NodesPage i k = (AtNodes (fst (nodes_step (NodesArrive (ch_nodes k)) (nodes_init csrf))), [])"
| "open_page csrf route_page.NodeDetailPage i k =
     (let j = nullish i [] in (AtNode (node_init csrf j (ch_node k j) (ch_nodeCache k j) (ch_uninstall k j)), []))"
| "open_page csrf route_page.SitesPage i k = (AtSites (sites_init (ch_sites k) (ch_publish k)), [])"
| "open_page csrf route_page.SiteDetailPage i k = lifted AtSite (mount_site (site_data csrf i k))"
| "open_page csrf route_page.CertificatesPage i k = (AtCertificates (certificates_init csrf (ch_certificates k) (ch_now k)), [])"
| "open_page csrf route_page.SettingsPage i k = (AtSettings (settings_init csrf (ch_storage k) (ch_settings k)), [])"

text \<open>
  The same component at another address: the parameter changes, and with it what its queries have; everything else
  the page holds stays.
\<close>

definition node_moves :: "string \<Rightarrow> cache \<Rightarrow> node_page \<Rightarrow> node_page" where
  "node_moves i k s =
     (detail_arrives (ch_node k i) (s\<lparr>np_id := i\<rparr>))\<lparr>np_cache := ch_nodeCache k i, np_uninstall := ch_uninstall k i\<rparr>"

fun keep_page :: "string option \<Rightarrow> cache \<Rightarrow> page \<Rightarrow> page \<times> effect list" where
  "keep_page i k (AtOverviewSite s) = (AtOverviewSite (s\<lparr>osp_siteId := nullish i []\<rparr>), [])"
| "keep_page i k (AtLog s) = (AtLog (s\<lparr>ld_logId := nullish i [], ld_log := ch_log k (nullish i [])\<rparr>), [])"
| "keep_page i k (AtHistory s) = lifted AtHistory (history_step (ShowNode (nullish i [])) s)"
| "keep_page i k (AtNode s) = (AtNode (node_moves (nullish i []) k s), [])"
| "keep_page i k (AtSite s) = lifted AtSite (site_step (DataArrives (site_data (se_csrf (sg_env s)) i k)) s)"
| "keep_page i k p = (p, [])"

section \<open>The console\<close>

record console =
  con_auth :: auth
  con_path :: string
  con_page :: "page option"
  con_left :: "page list"
  con_messages :: message_center
  con_inbox :: "message_page option"
  con_leftMessages :: "message_center list"

text \<open>
  Rendering: without a session nothing is mounted but the log-in screens; within one an address without a route is
  replaced by the overview's, and the page of the address is shown.
\<close>

definition unmount :: "console \<Rightarrow> console" where
  "unmount c =
     (case con_page c of
        None \<Rightarrow> c
      | Some p \<Rightarrow> c\<lparr>con_page := None, con_left := p # con_left c, con_messages := message_init, con_inbox := None,
                     con_leftMessages := con_messages c # con_leftMessages c\<rparr>)"

definition address :: "string \<Rightarrow> string" where
  "address a = (if route_matches a = [] then fallback_route else a)"

definition mount :: "cache \<Rightarrow> console \<Rightarrow> console \<times> effect list" where
  "mount k c =
     (if au_stage (con_auth c) \<noteq> Authenticated then (unmount c, [])
      else (let c = c\<lparr>con_path := address (con_path c)\<rparr>; (kind, i) = routed (con_path c);
                fresh = open_page (au_csrf (con_auth c)) kind i k
            in case con_page c of
                 None \<Rightarrow> (c\<lparr>con_page := Some (fst fresh)\<rparr>, snd fresh)
               | Some p \<Rightarrow>
                   if page_kind p \<noteq> kind then (c\<lparr>con_page := Some (fst fresh), con_left := p # con_left c\<rparr>, snd fresh)
                   else if page_param p \<noteq> i then (c\<lparr>con_page := Some (fst (keep_page i k p))\<rparr>, snd (keep_page i k p))
                   else (c, [])))"

text \<open>What the effects of a part do to the others.\<close>

fun follow1 :: "effect \<Rightarrow> console \<Rightarrow> console" where
  "follow1 (Navigate a r) c = c\<lparr>con_path := a\<rparr>"
| "follow1 DispatchUnauthorized c = c\<lparr>con_auth := fst (unauthorized (con_auth c))\<rparr>"
| "follow1 f c = c"

definition follow :: "effect list \<Rightarrow> console \<Rightarrow> console" where
  "follow fx c = fold follow1 fx c"

text \<open>The listener's own effects come right after the event.\<close>

definition heard :: "effect list \<Rightarrow> effect list" where
  "heard fx = concat (map (\<lambda>f. if f = DispatchUnauthorized then [f, ClearQueries] else [f]) fx)"

text \<open>An effect of the page just mounted may navigate on, once.\<close>

definition rerender :: "cache \<Rightarrow> console \<Rightarrow> console \<times> effect list" where
  "rerender k c =
     (let (c1, f1) = mount k c; (c2, f2) = mount k (follow f1 c1) in (c2, f1 @ f2))"

datatype console_event =
    AuthEv auth_event
  | PageEv page_event
  | LeftEv nat page_event
  | MessageEv message_event
  | LeftMessageEv nat message_event
  | InboxArrives "message_page option"
  | GoTo string

text \<open>The answers to the mutations of a page, the only events that still reach one that was left.\<close>

fun security_answer :: "sec_event \<Rightarrow> bool" where
  "security_answer (DeployArrives r) \<longleftrightarrow> True"
| "security_answer (sec_event.RemoveArrives r) \<longleftrightarrow> True"
| "security_answer (UnbanArrives r) \<longleftrightarrow> True"
| "security_answer (PolicyArrives own r) \<longleftrightarrow> True"
| "security_answer (RateArrives own r) \<longleftrightarrow> True"
| "security_answer e \<longleftrightarrow> False"

fun monitoring_answer :: "monitoring_event \<Rightarrow> bool" where
  "monitoring_answer (TargetCreated r) \<longleftrightarrow> True"
| "monitoring_answer (TargetToggled r) \<longleftrightarrow> True"
| "monitoring_answer (TargetRenamed own r) \<longleftrightarrow> True"
| "monitoring_answer (TargetRemoved r) \<longleftrightarrow> True"
| "monitoring_answer e \<longleftrightarrow> False"

fun nodes_answer :: "nodes_event \<Rightarrow> bool" where
  "nodes_answer (BulkArrives r) \<longleftrightarrow> True"
| "nodes_answer (CreateArrives r) \<longleftrightarrow> True"
| "nodes_answer e \<longleftrightarrow> False"

fun node_answer :: "node_event \<Rightarrow> bool" where
  "node_answer (node_event.StatusArrives r) \<longleftrightarrow> True"
| "node_answer (CommandArrives r) \<longleftrightarrow> True"
| "node_answer (UpgradeArrives r) \<longleftrightarrow> True"
| "node_answer (ActionArrives r) \<longleftrightarrow> True"
| "node_answer (DeleteNodeArrives r) \<longleftrightarrow> True"
| "node_answer (QuotaArrives own r) \<longleftrightarrow> True"
| "node_answer (CapacityArrives own r) \<longleftrightarrow> True"
| "node_answer e \<longleftrightarrow> False"

fun site_answer :: "site_event \<Rightarrow> bool" where
  "site_answer (SaveArrives r) \<longleftrightarrow> True"
| "site_answer (site_event.OpArrives r) \<longleftrightarrow> True"
| "site_answer (DeleteArrives r) \<longleftrightarrow> True"
| "site_answer e \<longleftrightarrow> False"

fun certificates_answer :: "certificates_event \<Rightarrow> bool" where
  "certificates_answer (CertificateQueued latest x r) \<longleftrightarrow> True"
| "certificates_answer e \<longleftrightarrow> False"

fun restore_mutation_answer :: "restore_event \<Rightarrow> bool" where
  "restore_mutation_answer (JobOpArrives own p r) \<longleftrightarrow> True"
| "restore_mutation_answer (SnapshotDeleted own x r) \<longleftrightarrow> True"
| "restore_mutation_answer e \<longleftrightarrow> False"

fun settings_answer :: "settings_event \<Rightarrow> bool" where
  "settings_answer (LogoRead own f readable) \<longleftrightarrow> True"
| "settings_answer (BrandSaved own r) \<longleftrightarrow> True"
| "settings_answer (settings_event.OpArrives own n p r) \<longleftrightarrow> True"
| "settings_answer (InRestore e) \<longleftrightarrow> restore_mutation_answer e"
| "settings_answer e \<longleftrightarrow> False"

fun message_answer :: "message_event \<Rightarrow> bool" where
  "message_answer (MarkReadArrives out) \<longleftrightarrow> True"
| "message_answer (MarkAllArrives out) \<longleftrightarrow> True"
| "message_answer (message_event.RemoveArrives out) \<longleftrightarrow> True"
| "message_answer e \<longleftrightarrow> False"

primrec page_answer :: "page_event \<Rightarrow> bool" where
  "page_answer (OverviewEv e) \<longleftrightarrow> False"
| "page_answer (OverviewSiteEv e) \<longleftrightarrow> False"
| "page_answer (LogsEv e) \<longleftrightarrow> False"
| "page_answer (LogEv e) \<longleftrightarrow> False"
| "page_answer (SecurityEv e) \<longleftrightarrow> security_answer e"
| "page_answer (MonitoringEv e) \<longleftrightarrow> monitoring_answer e"
| "page_answer (HistoryEv e) \<longleftrightarrow> False"
| "page_answer (NodesEv e) \<longleftrightarrow> nodes_answer e"
| "page_answer (NodeEv e) \<longleftrightarrow> node_answer e"
| "page_answer (SitesEv e) \<longleftrightarrow> False"
| "page_answer (SiteEv e) \<longleftrightarrow> site_answer e"
| "page_answer (CertificatesEv e) \<longleftrightarrow> certificates_answer e"
| "page_answer (SettingsEv e) \<longleftrightarrow> settings_answer e"

text \<open>An answer to a page that was left runs its callback; the effects of a render, which a site's page has, do not run.\<close>

definition left_step :: "(string \<Rightarrow> string \<Rightarrow> int) \<Rightarrow> (page_event, page) component" where
  "left_step collate e p =
     (case (e, p) of (SiteEv e, AtSite s) \<Rightarrow> lifted AtSite (site_handle e s) | _ \<Rightarrow> page_step collate e p)"

text \<open>The part an event belongs to, and its effects before the tree is rendered again.\<close>

fun part_step :: "(string \<Rightarrow> string \<Rightarrow> int) \<Rightarrow> console_event \<Rightarrow> console \<Rightarrow> console \<times> effect list" where
  "part_step collate (AuthEv e) c = (let (a, fx) = auth_step e (con_auth c) in (c\<lparr>con_auth := a\<rparr>, fx))"
| "part_step collate (PageEv e) c =
     (case con_page c of
        None \<Rightarrow> (c, [])
      | Some p \<Rightarrow> (let (p', fx) = page_step collate e p in (follow fx (c\<lparr>con_page := Some p'\<rparr>), heard fx)))"
| "part_step collate (LeftEv i e) c =
     (let (p', fx) = left_step collate e (con_left c ! i) in (follow fx (c\<lparr>con_left := (con_left c)[i := p']\<rparr>), heard fx))"
| "part_step collate (MessageEv e) c =
     (let (m, fx) = message_step (au_csrf (con_auth c)) (con_inbox c) e (con_messages c)
      in (follow fx (c\<lparr>con_messages := m\<rparr>), heard fx))"
| "part_step collate (LeftMessageEv i e) c =
     (let (m, fx) = message_step (au_csrf (con_auth c)) (con_inbox c) e (con_leftMessages c ! i)
      in (follow fx (c\<lparr>con_leftMessages := (con_leftMessages c)[i := m]\<rparr>), heard fx))"
| "part_step collate (InboxArrives m) c = (c\<lparr>con_inbox := m\<rparr>, [])"
| "part_step collate (GoTo a) c = (c\<lparr>con_path := a\<rparr>, [])"

definition console_step :: "(string \<Rightarrow> string \<Rightarrow> int) \<Rightarrow> cache \<Rightarrow> (console_event, console) component" where
  "console_step collate k e c =
     (let (c1, fx) = part_step collate e c; (c2, fx') = rerender k c1 in (c2, fx @ fx'))"

fun console_enabled :: "(string \<Rightarrow> string \<Rightarrow> int) \<Rightarrow> console \<Rightarrow> console_event \<Rightarrow> bool" where
  "console_enabled collate c (AuthEv e) \<longleftrightarrow> auth_enabled (con_auth c) e"
| "console_enabled collate c (PageEv e) \<longleftrightarrow> (case con_page c of None \<Rightarrow> False | Some p \<Rightarrow> page_enabled collate p e)"
| "console_enabled collate c (LeftEv i e) \<longleftrightarrow>
     i < length (con_left c) \<and> page_answer e \<and> page_enabled collate (con_left c ! i) e"
| "console_enabled collate c (MessageEv e) \<longleftrightarrow>
     au_stage (con_auth c) = Authenticated \<and> message_enabled (con_inbox c) (con_messages c) e"
| "console_enabled collate c (LeftMessageEv i e) \<longleftrightarrow>
     i < length (con_leftMessages c) \<and> message_answer e \<and> message_enabled (con_inbox c) (con_leftMessages c ! i) e"
| "console_enabled collate c (InboxArrives m) \<longleftrightarrow> au_stage (con_auth c) = Authenticated"
| "console_enabled collate c (GoTo a) \<longleftrightarrow> True"

definition console_init :: "string \<Rightarrow> console" where
  "console_init a =
     \<lparr>con_auth = auth_init, con_path = a, con_page = None, con_left = [], con_messages = message_init, con_inbox = None,
      con_leftMessages = []\<rparr>"

text \<open>The clock never shows a time before 1970-01-08, a week after the start of its count.\<close>

inductive console_reach :: "(string \<Rightarrow> string \<Rightarrow> int) \<Rightarrow> console \<Rightarrow> bool" for collate where
  console_start: "console_reach collate (console_init a)"
| console_move: "console_reach collate c \<Longrightarrow> console_enabled collate c e \<Longrightarrow> 604800000 \<le> ch_now k \<Longrightarrow>
     console_reach collate (fst (console_step collate k e c))"

end
