(* ===== verification/ConsoleLaws.thy ===== *)
theory ConsoleLaws
  imports Console
begin

text \<open>
  What holds of the console as a whole: which requests leave it and with which token, what the end of a session
  does, which page is shown and in which states, and that rendering comes to rest.
\<close>

section \<open>A page in the session\<close>

text \<open>The page sends with this token; the pages that only read have no need of one.\<close>

fun bears :: "string \<Rightarrow> page \<Rightarrow> bool" where
  "bears t (AtSecurity s) \<longleftrightarrow> sec_csrf s = t"
| "bears t (AtMonitoring s) \<longleftrightarrow> mon_csrf s = t"
| "bears t (AtNodes s) \<longleftrightarrow> nl_csrf s = t"
| "bears t (AtNode s) \<longleftrightarrow> np_csrf s = t"
| "bears t (AtSite s) \<longleftrightarrow> se_csrf (sg_env s) = t"
| "bears t (AtCertificates s) \<longleftrightarrow> cert_csrf s = t"
| "bears t (AtSettings s) \<longleftrightarrow> sp_csrf s = t \<and> bk_csrf (sp_restore s) = t"
| "bears t p \<longleftrightarrow> True"

lemma lifted_simps [simp]: "fst (lifted wrap r) = wrap (fst r)" "snd (lifted wrap r) = snd r"
  by (simp_all add: lifted_def)

lemmas silent_pages = overview_session.step_no_send site_overview_session.step_no_send logs_session.step_no_send
  log_session.step_no_send history_session.step_no_send sites_session.step_no_send

lemmas authorised_pages = security_session.step_authorised [OF TrueI] monitoring_session.step_authorised [OF TrueI]
  nodes_session.step_authorised [OF TrueI] node_session.step_authorised [OF TrueI] site_session.step_authorised [OF TrueI]
  certificates_session.step_authorised [OF TrueI] settings_session.step_authorised

lemmas token_pages = security_session.step_token [OF TrueI] monitoring_session.step_token [OF TrueI]
  nodes_session.step_token [OF TrueI] node_session.step_token [OF TrueI] site_session.step_token [OF TrueI]
  certificates_session.step_token [OF TrueI] settings_session.step_token

lemmas quiet_pages = security_session.dispatch_quiet monitoring_session.dispatch_quiet nodes_session.dispatch_quiet
  node_session.dispatch_quiet site_session.dispatch_quiet certificates_session.dispatch_quiet settings_session.dispatch_quiet

lemma settings_authorised:
  "sp_csrf s = t \<Longrightarrow> bk_csrf (sp_restore s) = t \<Longrightarrow> Send r \<in> set (snd (settings_step e s)) \<Longrightarrow> authorised t r"
  using settings_session.step_authorised [of s r e] by simp

lemma settings_tokens [simp]:
  "sp_csrf (fst (settings_step e s)) = sp_csrf s" "bk_csrf (sp_restore (fst (settings_step e s))) = bk_csrf (sp_restore s)"
  using settings_step_tokens [of e s] by (simp_all add: tokens_def)

interpretation page_session: session_page "page_enabled collate" "page_step collate" "\<lambda>p. t" "bears t" for collate t
proof
  fix r e p
  show "authorised t r" if "bears t p" "Send r \<in> set (snd (page_step collate e p))"
    using that by (cases e; cases p) (auto simp: silent_pages settings_authorised dest: authorised_pages)
  show "t = t \<and> bears t (fst (page_step collate e p))" if "bears t p" "page_enabled collate p e"
    using that by (cases e; cases p) (auto simp: token_pages)
  show "Send r \<notin> set (snd (page_step collate e p))" if "DispatchUnauthorized \<in> set (snd (page_step collate e p))"
    using that by (cases e; cases p) (simp_all add: silent_pages quiet_pages)
qed

text \<open>An answer sends nothing, whether the page is mounted or was left.\<close>

lemma security_answer_silent: "security_answer e \<Longrightarrow> Send r \<notin> set (snd (security_step e s))"
  by (cases e; auto simp: settle_send sec_failed_def split: sum.splits option.splits)

lemma monitoring_answer_silent: "monitoring_answer e \<Longrightarrow> Send r \<notin> set (snd (monitoring_step e s))"
  by (cases e; auto simp: settle_send mon_failed_def mon_refresh_def split: sum.splits option.splits)

lemma nodes_answer_silent: "nodes_answer e \<Longrightarrow> Send r \<notin> set (snd (nodes_step e s))"
  by (cases e; auto simp: settle_send nodes_failed_def split: sum.splits)

lemma node_answer_silent: "node_answer e \<Longrightarrow> Send r \<notin> set (snd (node_step e s))"
  by (cases e; auto simp: settle_send node_outcomes Let_def split: sum.splits option.splits)

lemma site_answer_silent: "site_answer e \<Longrightarrow> Send r \<notin> set (snd (site_handle e s))"
  by (cases e; auto simp: settle_send failed_def save_succeeded_def op_succeeded_def delete_succeeded_def Let_def only_if_def
      split: sum.splits if_splits)

lemma certificates_answer_silent: "certificates_answer e \<Longrightarrow> Send r \<notin> set (snd (certificates_step e s))"
  by (cases e; auto simp: settle_send split: sum.splits)

lemma message_answer_silent: "message_answer e \<Longrightarrow> Send r \<notin> set (snd (message_step csrf page e s))"
  by (cases e; simp add: no_send)

lemma settings_answer_silent:
  assumes "settings_answer e"
  shows "Send r \<notin> set (snd (settings_step e s))"
proof
  assume "Send r \<in> set (snd (settings_step e s))"
  then obtain x where x: "e = InRestore x" "Send r \<in> set (snd (restore_step x (sp_restore s)))"
    using settings_step_send [of r e s] assms by auto
  then show False using assms
    by (cases x) (auto simp: settle_send bk_failed_def op_succeeded_with_def snapshot_deleted_def Let_def split: sum.splits option.splits)
qed

lemmas answers_silent = security_answer_silent monitoring_answer_silent nodes_answer_silent node_answer_silent
  certificates_answer_silent settings_answer_silent

lemma left_step_silent:
  assumes "page_answer e"
  shows "Send r \<notin> set (snd (left_step collate e p))"
  using assms by (cases e; cases p) (simp_all add: left_step_def answers_silent site_answer_silent)

section \<open>The session\<close>

definition login_path :: "string \<Rightarrow> bool" where
  "login_path a \<longleftrightarrow> a \<in> {''/api/session'', ''/api/setup/status'', ''/api/login'', ''/api/setup''}"

lemma session_authorised [simp]: "authorised t session_request"
  by (simp add: authorised_def session_request_def starts_with_Cons safe_method_def get_header_def)

lemma auth_authorised:
  assumes "auth_inv s" "auth_enabled s e" "Send r \<in> set (snd (auth_step e s))"
  shows "authorised (au_csrf s) r \<and> (au_stage s \<noteq> Authenticated \<longrightarrow> login_path (rq_path r))"
proof (cases e)
  case SubmitSetup
  then show ?thesis using assms by (auto simp: submitSetup_def setup_request_def login_path_def starts_with_Cons Let_def split: if_splits)
next
  case SubmitLogin
  then show ?thesis using assms by (auto simp: submitLogin_def login_request_def login_path_def starts_with_Cons Let_def)
next
  case (SessionArrives out)
  then show ?thesis using assms
    by (auto simp: session_arrives_def status_request_def login_path_def starts_with_Cons split: sum.splits option.splits if_splits)
next
  case (StatusArrives out)
  obtain s1 fx res where a: "api_arrives out s = (s1, fx, res)" by (metis prod_cases3)
  show ?thesis using assms(3) StatusArrives a api_arrives_no_send [OF a] by (auto simp: status_arrives_def split: sum.splits option.splits)
next
  case (ScreenArrives out)
  obtain s1 fx res where a: "api_arrives out s = (s1, fx, res)" by (metis prod_cases3)
  show ?thesis using assms(3) ScreenArrives a api_arrives_no_send [OF a]
    by (auto simp: setup_arrives_def login_arrives_def split: sum.splits option.splits if_splits)
next
  case (LogoutArrives out)
  obtain s1 fx res where a: "api_arrives out s = (s1, fx, res)" by (metis prod_cases3)
  show ?thesis using assms(3) LogoutArrives a api_arrives_no_send [OF a] by (auto simp: logout_arrives_def unauthorized_def)
next
  case Retry
  then show ?thesis using assms by (auto simp: bootstrap_def login_path_def session_request_def [THEN arg_cong, of rq_path])
next
  case Logout
  then show ?thesis using assms by (simp add: logout_request_def starts_with_Cons)
qed (use assms in \<open>auto simp: on_screen_def unauthorized_def\<close>)

text \<open>While a session lasts its token does not change.\<close>

lemma auth_step_token:
  assumes "auth_inv s" "auth_enabled s e" "au_stage s = Authenticated" "au_stage (fst (auth_step e s)) = Authenticated"
  shows "au_csrf (fst (auth_step e s)) = au_csrf s"
proof (cases e)
  case (LogoutArrives out)
  obtain s1 fx res where a: "api_arrives out s = (s1, fx, res)" by (metis prod_cases3)
  show ?thesis using assms(4) LogoutArrives a by (simp add: logout_arrives_def unauthorized_def)
qed (use assms in \<open>auto simp: auth_inv_def unauthorized_def\<close>)

section \<open>Rendering\<close>

lemma follow_parts [simp]:
  "con_page (follow fx c) = con_page c" "con_left (follow fx c) = con_left c" "con_messages (follow fx c) = con_messages c"
  "con_inbox (follow fx c) = con_inbox c" "con_leftMessages (follow fx c) = con_leftMessages c"
proof -
  have "con_page (follow fx c) = con_page c \<and> con_left (follow fx c) = con_left c \<and> con_messages (follow fx c) = con_messages c \<and>
    con_inbox (follow fx c) = con_inbox c \<and> con_leftMessages (follow fx c) = con_leftMessages c"
    unfolding follow_def
  proof (induction fx arbitrary: c)
    case (Cons f fx)
    then show ?case by (cases f) simp_all
  qed simp
  then show "con_page (follow fx c) = con_page c" "con_left (follow fx c) = con_left c" "con_messages (follow fx c) = con_messages c"
    "con_inbox (follow fx c) = con_inbox c" "con_leftMessages (follow fx c) = con_leftMessages c" by simp_all
qed

lemma unauthorized_idem [simp]: "fst (unauthorized (fst (unauthorized s))) = fst (unauthorized s)"
  by (simp add: unauthorized_def)

lemma follow_auth [simp]:
  "con_auth (follow fx c) = (if DispatchUnauthorized \<in> set fx then fst (unauthorized (con_auth c)) else con_auth c)"
  unfolding follow_def
proof (induction fx arbitrary: c)
  case (Cons f fx)
  then show ?case by (cases f) simp_all
qed simp

lemma heard_effects: "f \<in> set (heard fx) \<longleftrightarrow> f \<in> set fx \<or> (f = ClearQueries \<and> DispatchUnauthorized \<in> set fx)"
  by (auto simp: heard_def split: if_splits)

text \<open>Which components have a parameter in their address; the site's page has one unless it is new.\<close>

fun takes_param :: "route_page \<Rightarrow> bool option" where
  "takes_param route_page.OverviewSitePage = Some True"
| "takes_param route_page.LogDetailPage = Some True"
| "takes_param route_page.MonitoringNodeHistoryPage = Some True"
| "takes_param route_page.NodeDetailPage = Some True"
| "takes_param route_page.SiteDetailPage = None"
| "takes_param k = Some False"

fun is_param :: "segment \<Rightarrow> bool" where
  "is_param (Param p) \<longleftrightarrow> True"
| "is_param (Static w) \<longleftrightarrow> False"

lemma segments_match_params: "segments_match ps ws = Some bs \<Longrightarrow> length bs = length (filter is_param ps)"
  by (induction ps ws arbitrary: bs rule: segments_match.induct) (auto split: if_splits)

lemma route_table_params:
  "list_all (\<lambda>(ps, k). (case takes_param k of None \<Rightarrow> True | Some b \<Rightarrow> (b \<longleftrightarrow> filter is_param ps \<noteq> []))) route_table"
  by (simp add: route_table_def)

lemma routed_param:
  assumes "route_matches a \<noteq> []" "routed a = (k, i)"
  shows "(takes_param k = Some True \<longrightarrow> i \<noteq> None) \<and> (takes_param k = Some False \<longrightarrow> i = None)"
proof -
  obtain bs rest where m: "route_matches a = (k, bs) # rest" "i = (case bs of [] \<Rightarrow> None | (n, v) # _ \<Rightarrow> Some v)"
    using assms by (cases "route_matches a") (auto simp: routed_def)
  have "(k, bs) \<in> set (route_matches a)" by (simp add: m)
  then obtain ps where ps: "(ps, k) \<in> set route_table" "segments_match ps (path_segments a) = Some bs"
    by (auto simp: route_matches_def List.map_filter_def)
  have "case takes_param k of None \<Rightarrow> True | Some b \<Rightarrow> (b \<longleftrightarrow> filter is_param ps \<noteq> [])"
    using route_table_params ps(1) by (auto simp: list_all_iff)
  then show ?thesis using segments_match_params [OF ps(2)] m(2) by (cases bs) auto
qed

lemma mount_site_env:
  "sg_env (fst (mount_site en)) = en"
  by (simp add: mount_site_def site_step_def)

lemma site_data_parts [simp]: "se_siteId (site_data t i k) = i" "se_csrf (site_data t i k) = t"
  by (simp_all add: site_data_def Let_def)

lemma open_page_kind [simp]: "page_kind (fst (open_page t kind i k)) = kind"
  by (cases kind) (simp_all add: Let_def)

lemma settings_init_tokens [simp]:
  "sp_csrf (settings_init t st q) = t" "bk_csrf (sp_restore (settings_init t st q)) = t"
proof -
  have "tokens (settings_init t st q) = (t, t)"
    by (simp add: settings_init_def) (simp add: tokens_def restore_init_def)
  then show "sp_csrf (settings_init t st q) = t" "bk_csrf (sp_restore (settings_init t st q)) = t" by (simp_all add: tokens_def)
qed

lemma open_page_bears: "bears t (fst (open_page t kind i k))"
  by (cases kind) (simp_all add: Let_def mount_site_env security_init_def monitoring_init_def nodes_init_def node_init_def
      detail_arrives_def certificates_init_def)


lemma open_page_param:
  assumes "takes_param kind = Some True \<longrightarrow> i \<noteq> None" "takes_param kind = Some False \<longrightarrow> i = None"
  shows "page_param (fst (open_page t kind i k)) = i"
  using assms by (cases kind) (auto simp: Let_def mount_site_env overview_site_init_def log_detail_init_def history_init_def remember_def
      node_init_def detail_arrives_def)

lemma keep_page_kind [simp]: "page_kind (fst (keep_page i k p)) = page_kind p"
  by (cases p) simp_all

lemma keep_page_bears: "bears t p \<Longrightarrow> bears t (fst (keep_page i k p))"
  by (cases p) (simp_all add: node_moves_def detail_arrives_def Let_def site_step_def)

lemma keep_page_param:
  assumes "takes_param (page_kind p) = Some True \<longrightarrow> i \<noteq> None" "takes_param (page_kind p) = Some False \<longrightarrow> i = None"
  shows "page_param (fst (keep_page i k p)) = i"
  using assms by (cases p) (auto simp: node_moves_def detail_arrives_def Let_def site_step_def)

text \<open>What a mounted page does by itself is at most to leave a deleted site.\<close>

lemma site_data_effects:
  "snd (site_step (DataArrives en) s) = [] \<or>
   snd (site_step (DataArrives en) s) = [ToastSuccess [Zh ''the site was deleted safely''], Invalidate [''sites''], Navigate ''/sites'' True]"
  by (simp add: site_step_def deletion_effect_def)

definition deletion_seen :: "effect list" where
  "deletion_seen = [ToastSuccess [Zh ''the site was deleted safely''], Invalidate [''sites''], Navigate ''/sites'' True]"

lemma open_page_effects: "snd (open_page t kind i k) = [] \<or> (kind = route_page.SiteDetailPage \<and> snd (open_page t kind i k) = deletion_seen)"
  using site_data_effects by (cases kind) (auto simp: Let_def mount_site_def deletion_seen_def)

lemma keep_page_effects: "snd (keep_page i k p) = [] \<or> (page_kind p = route_page.SiteDetailPage \<and> snd (keep_page i k p) = deletion_seen)"
  using site_data_effects by (cases p) (auto simp: deletion_seen_def)

section \<open>The invariant of the console\<close>

text \<open>
  The session's invariant; no page before the first session; a mounted page has the session's token; and the message
  centre of no session is a fresh one.
\<close>

definition con_loose :: "console \<Rightarrow> bool" where
  "con_loose c \<longleftrightarrow> auth_inv (con_auth c) \<and>
     (au_stage (con_auth c) \<in> {Boot, Error} \<longrightarrow> con_page c = None \<and> con_left c = [] \<and> con_leftMessages c = []) \<and>
     (\<forall>p. con_page c = Some p \<longrightarrow> au_stage (con_auth c) = Authenticated \<longrightarrow> bears (au_csrf (con_auth c)) p) \<and>
     (con_page c = None \<longrightarrow> con_messages c = message_init \<and> con_inbox c = None)"

text \<open>A page is shown exactly in a session, and it is the page of the address, with the address's parameter.\<close>

definition shown :: "console \<Rightarrow> bool" where
  "shown c \<longleftrightarrow> (au_stage (con_auth c) = Authenticated \<longleftrightarrow> con_page c \<noteq> None) \<and>
     (\<forall>p. con_page c = Some p \<longrightarrow> route_matches (con_path c) \<noteq> [] \<and> routed (con_path c) = (page_kind p, page_param p))"

lemma address_matches: "route_matches (address a) \<noteq> []"
proof -
  have "route_matches fallback_route \<noteq> []"
    using path_segments_link [of "''overview''"] by (simp add: route_simps fallback_route_def)
  then show ?thesis by (simp add: address_def)
qed

lemma unmount_parts [simp]:
  "con_auth (unmount c) = con_auth c" "con_page (unmount c) = None" "con_path (unmount c) = con_path c"
  by (simp_all add: unmount_def split: option.split)

lemma unmount_loose: "con_loose c \<Longrightarrow> con_loose (unmount c)"
  by (auto simp: con_loose_def unmount_def split: option.splits)

lemma unmount_fresh: "con_loose c \<Longrightarrow> con_messages (unmount c) = message_init \<and> con_inbox (unmount c) = None"
  by (auto simp: con_loose_def unmount_def split: option.splits)

lemma mount_auth [simp]: "con_auth (fst (mount k c)) = con_auth c"
  by (simp add: mount_def Let_def split: option.split prod.split)

lemma mount_effects: "snd (mount k c) = [] \<or> snd (mount k c) = deletion_seen"
proof -
  obtain kind i where r: "routed (address (con_path c)) = (kind, i)" by fastforce
  show ?thesis
    using r open_page_effects [of "au_csrf (con_auth c)" kind i k] keep_page_effects [of i k "the (con_page c)"]
    by (auto simp: mount_def Let_def split: option.splits)
qed

lemma mount_loose:
  assumes "con_loose c"
  shows "con_loose (fst (mount k c))"
proof (cases "au_stage (con_auth c) = Authenticated")
  case True
  then show ?thesis using assms
    by (auto simp: mount_def con_loose_def Let_def open_page_bears keep_page_bears split: option.splits prod.splits)
next
  case False
  then show ?thesis using unmount_loose [OF assms] by (simp add: mount_def)
qed

lemma mount_shown: "shown (fst (mount k c))"
proof (cases "au_stage (con_auth c) = Authenticated")
  case True
  obtain kind i where r: "routed (address (con_path c)) = (kind, i)" by fastforce
  note ok = routed_param [OF address_matches r]
  show ?thesis using True r ok address_matches [of "con_path c"]
    by (auto simp: mount_def shown_def Let_def open_page_param keep_page_param split: option.splits prod.splits)
next
  case False
  then show ?thesis by (simp add: mount_def shown_def)
qed

lemma deletion_seen_follow: "follow deletion_seen c = c\<lparr>con_path := ''/sites''\<rparr>"
  by (simp add: deletion_seen_def follow_def)

lemma rerender_cases:
  obtains "rerender k c = (fst (mount k (fst (mount k c))), snd (mount k (fst (mount k c))))" "snd (mount k c) = []"
  | "rerender k c = (fst (mount k ((fst (mount k c))\<lparr>con_path := ''/sites''\<rparr>)),
       deletion_seen @ snd (mount k ((fst (mount k c))\<lparr>con_path := ''/sites''\<rparr>)))" "snd (mount k c) = deletion_seen"
  using mount_effects [of k c] that
  by (auto simp: rerender_def Let_def split_def deletion_seen_follow) (simp add: follow_def)

lemma rerender_auth [simp]: "con_auth (fst (rerender k c)) = con_auth c"
  by (cases rule: rerender_cases [of k c]) simp_all

lemma rerender_quiet: "f \<in> set (snd (rerender k c)) \<Longrightarrow> f \<in> set deletion_seen"
  using mount_effects [of k "fst (mount k c)"] mount_effects [of k "(fst (mount k c))\<lparr>con_path := ''/sites''\<rparr>"]
  by (cases rule: rerender_cases [of k c]) auto

lemma con_loose_path [simp]: "con_loose (c\<lparr>con_path := a\<rparr>) = con_loose c"
  by (simp add: con_loose_def)

lemma console_render_inv: "con_loose c \<Longrightarrow> con_loose (fst (rerender k c)) \<and> shown (fst (rerender k c))"
  by (cases rule: rerender_cases [of k c]) (simp_all add: mount_loose mount_shown)

text \<open>A step that neither moves nor ends the session renders the page that is there.\<close>

lemma mount_settled: "shown c \<Longrightarrow> au_stage (con_auth c) = Authenticated \<Longrightarrow> mount k c = (c, [])"
  by (auto simp: shown_def mount_def Let_def address_def)

lemma rerender_settled: "shown c \<Longrightarrow> au_stage (con_auth c) = Authenticated \<Longrightarrow> rerender k c = (c, [])"
  by (simp add: rerender_def mount_settled follow_def)

lemma auth_step_stage:
  assumes "auth_inv s" "auth_enabled s e" "au_stage s \<notin> {Boot, Error}"
  shows "au_stage (fst (auth_step e s)) \<notin> {Boot, Error}"
proof (cases e)
  case (ScreenArrives out)
  obtain s1 fx res where a: "api_arrives out s = (s1, fx, res)" by (metis prod_cases3)
  show ?thesis using assms ScreenArrives a
    by (cases rule: api_arrives_cases [OF a]) (auto simp: auth_handlers split: sum.splits option.splits)
next
  case (LogoutArrives out)
  then show ?thesis by (simp add: logout_arrives_def split_def unauthorized_def Let_def)
qed (use assms in \<open>auto simp: auth_handlers auth_inv_def offers_AuthScreen fires_setup_form fires_login_form\<close>)

lemma auth_dispatch:
  assumes "auth_inv s" "auth_enabled s e" "DispatchUnauthorized \<in> set (snd (auth_step e s))"
  shows "au_stage (fst (auth_step e s)) \<noteq> Authenticated \<and> ClearQueries \<in> set (snd (auth_step e s)) \<and> Send r \<notin> set (snd (auth_step e s))"
proof (cases e)
  case (StatusArrives out)
  obtain s1 fx res where a: "api_arrives out s = (s1, fx, res)" by (metis prod_cases3)
  show ?thesis using assms StatusArrives a
    by (cases rule: api_arrives_cases [OF a]) (auto simp: auth_handlers split: sum.splits option.splits)
next
  case (ScreenArrives out)
  obtain s1 fx res where a: "api_arrives out s = (s1, fx, res)" by (metis prod_cases3)
  show ?thesis using assms ScreenArrives a
    by (cases rule: api_arrives_cases [OF a]) (auto simp: auth_handlers split: sum.splits option.splits if_splits)
next
  case (LogoutArrives out)
  obtain s1 fx res where a: "api_arrives out s = (s1, fx, res)" by (metis prod_cases3)
  show ?thesis using assms LogoutArrives a
    by (cases rule: api_arrives_cases [OF a]) (auto simp: auth_handlers)
qed (use assms in \<open>auto simp: auth_handlers on_screen_def split: sum.splits option.splits if_splits\<close>)

lemma follow_loose:
  assumes "con_loose c" "au_stage (con_auth c) \<notin> {Boot, Error}"
  shows "con_loose (follow fx c)"
  using assms unauthorized_inv [of "con_auth c"] by (auto simp: con_loose_def unauthorized_def)

lemma part_step_loose:
  assumes "con_loose c" "shown c" "console_enabled collate c e"
  shows "con_loose (fst (part_step collate e c))"
proof (cases e)
  case (AuthEv d)
  let ?s = "con_auth c" and ?t = "fst (auth_step d (con_auth c))"
  have en: "auth_enabled ?s d" and i: "auth_inv ?s" using assms AuthEv by (auto simp: con_loose_def)
  have "au_stage ?t \<in> {Boot, Error} \<longrightarrow> con_page c = None \<and> con_left c = [] \<and> con_leftMessages c = []"
    using auth_step_stage [OF i en] assms(1) by (auto simp: con_loose_def)
  moreover have "bears (au_csrf ?t) p" if "con_page c = Some p" "au_stage ?t = Authenticated" for p
    using that assms(1,2) auth_step_token [OF i en] by (auto simp: con_loose_def shown_def)
  ultimately show ?thesis using assms(1) AuthEv auth_step_inv [OF i en] by (auto simp: con_loose_def split_def Let_def)
next
  case (PageEv d)
  then obtain p where p: "con_page c = Some p" "page_enabled collate p d" using assms(3) by (auto split: option.splits)
  have st: "au_stage (con_auth c) = Authenticated" using p(1) assms(2) by (auto simp: shown_def)
  then have "bears (au_csrf (con_auth c)) p" using assms(1) p(1) by (simp add: con_loose_def)
  then have "bears (au_csrf (con_auth c)) (fst (page_step collate d p))" using page_session.step_token p(2) by blast
  then have "con_loose (c\<lparr>con_page := Some (fst (page_step collate d p))\<rparr>)" using assms(1) st by (simp add: con_loose_def)
  then show ?thesis using PageEv p(1) st by (simp add: split_def Let_def follow_loose)
next
  case (LeftEv i d)
  then have "au_stage (con_auth c) \<notin> {Boot, Error}" using assms(1,3) by (auto simp: con_loose_def)
  moreover have "con_loose (c\<lparr>con_left := xs\<rparr>)" if "con_left c = [] \<longrightarrow> xs = []" for xs
    using assms(1) that by (simp add: con_loose_def)
  ultimately show ?thesis using LeftEv by (simp add: split_def Let_def follow_loose)
next
  case (MessageEv d)
  then have "au_stage (con_auth c) = Authenticated" "con_page c \<noteq> None" using assms(2,3) by (simp_all add: shown_def)
  moreover from this have "con_loose (c\<lparr>con_messages := m\<rparr>)" for m using assms(1) by (auto simp: con_loose_def)
  ultimately show ?thesis using MessageEv by (simp add: split_def Let_def follow_loose)
next
  case (LeftMessageEv i d)
  then have "au_stage (con_auth c) \<notin> {Boot, Error}" using assms(1,3) by (auto simp: con_loose_def)
  moreover have "con_loose (c\<lparr>con_leftMessages := xs\<rparr>)" if "con_leftMessages c = [] \<longrightarrow> xs = []" for xs
    using assms(1) that by (simp add: con_loose_def)
  ultimately show ?thesis using LeftMessageEv by (simp add: split_def Let_def follow_loose)
next
  case (InboxArrives m)
  then have "con_page c \<noteq> None" using assms(2,3) by (simp add: shown_def)
  then show ?thesis using assms(1) InboxArrives by (auto simp: con_loose_def)
qed (use assms(1) in simp)

lemma console_step_inv:
  assumes "con_loose c" "shown c" "console_enabled collate c e"
  shows "con_loose (fst (console_step collate k e c)) \<and> shown (fst (console_step collate k e c))"
  using console_render_inv [OF part_step_loose [OF assms]] by (simp add: console_step_def split_def Let_def)

lemma console_reach_inv: "console_reach collate c \<Longrightarrow> con_loose c \<and> shown c"
proof (induction rule: console_reach.induct)
  case (console_start a)
  show ?case using auth_inv_init by (simp add: con_loose_def shown_def console_init_def) (simp add: auth_init_def)
next
  case (console_move c e k)
  then show ?case using console_step_inv by blast
qed

lemma part_effects:
  assumes "con_page c = Some p"
  shows "snd (part_step collate (PageEv e) c) = heard (snd (page_step collate e p))"
  using assms by (simp add: split_def Let_def)

lemma message_authorised: "Send r \<in> set (snd (message_step t inbox e m)) \<Longrightarrow> authorised t r"
  by (rule message_session.step_authorised [OF TrueI])

lemma part_step_authorised:
  assumes "con_loose c" "shown c" "console_enabled collate c e" "Send r \<in> set (snd (part_step collate e c))"
  shows "authorised (au_csrf (con_auth c)) r \<and> (au_stage (con_auth c) \<noteq> Authenticated \<longrightarrow> login_path (rq_path r))"
proof (cases e)
  case (AuthEv d)
  then show ?thesis using assms auth_authorised [of "con_auth c" d r] by (simp add: con_loose_def split_def Let_def)
next
  case (PageEv d)
  then obtain p where p: "con_page c = Some p" using assms(3) by (auto split: option.splits)
  have st: "au_stage (con_auth c) = Authenticated" using p assms(2) by (auto simp: shown_def)
  then have "bears (au_csrf (con_auth c)) p" using assms(1) p by (simp add: con_loose_def)
  moreover have "Send r \<in> set (snd (page_step collate d p))" using assms(4) PageEv p by (simp add: split_def Let_def heard_effects)
  ultimately show ?thesis using st page_session.step_authorised by blast
next
  case (LeftEv i d)
  then show ?thesis using assms(3,4) left_step_silent [of d r collate "con_left c ! i"] by (simp add: split_def Let_def heard_effects)
next
  case (MessageEv d)
  then show ?thesis using assms(3,4) message_authorised [of r "au_csrf (con_auth c)"] by (simp add: split_def Let_def heard_effects)
next
  case (LeftMessageEv i d)
  then show ?thesis using assms(3,4) message_answer_silent [of d r] by (simp add: split_def Let_def heard_effects)
qed (use assms(4) in simp_all)

lemma rerender_no_send: "Send r \<notin> set (snd (rerender k c))" "DispatchUnauthorized \<notin> set (snd (rerender k c))"
  using rerender_quiet [of _ k c] by (auto simp: deletion_seen_def)

lemma console_step_parts:
  "snd (console_step collate k e c) = snd (part_step collate e c) @ snd (rerender k (fst (part_step collate e c)))"
  "fst (console_step collate k e c) = fst (rerender k (fst (part_step collate e c)))"
  by (simp_all add: console_step_def split_def Let_def)


lemma left_step_quiet:
  "page_answer e \<Longrightarrow> Send r \<notin> set (heard (snd (left_step collate e p)))"
  using left_step_silent [of e r collate p] by (simp add: heard_effects)


text \<open>
  C5. In every reachable state a page is shown exactly in a session, the address has a route, and the page is the one
  of the address with the address's parameter: what the user sees, and what the page's requests name, is never another
  site, node or log than the one in the address bar.
\<close>

theorem page_of_address:
  assumes "console_reach collate c"
  shows "(con_page c \<noteq> None \<longleftrightarrow> au_stage (con_auth c) = Authenticated) \<and>
    (\<forall>p. con_page c = Some p \<longrightarrow>
       route_matches (con_path c) \<noteq> [] \<and> routed (con_path c) = (page_kind p, page_param p) \<and> bears (au_csrf (con_auth c)) p)"
  using console_reach_inv [OF assms] by (auto simp: con_loose_def shown_def)

section \<open>A page in the console behaves as on its own\<close>

text \<open>The reachable states of the page's own machine; the pages without one only read or have single-step laws.\<close>

fun page_reach :: "page \<Rightarrow> bool" where
  "page_reach (AtLogs s) \<longleftrightarrow> logs_reach s"
| "page_reach (AtSecurity s) \<longleftrightarrow> security_reach s"
| "page_reach (AtMonitoring s) \<longleftrightarrow> monitoring_reach s"
| "page_reach (AtHistory s) \<longleftrightarrow> history_reach s"
| "page_reach (AtSite s) \<longleftrightarrow> site_reach s"
| "page_reach (AtSettings s) \<longleftrightarrow> settings_reach s"
| "page_reach p \<longleftrightarrow> True"

lemma page_step_reach: "page_reach p \<Longrightarrow> page_enabled collate p e \<Longrightarrow> page_reach (fst (page_step collate e p))"
  by (cases e; cases p)
    (auto intro: logs_reach.intros security_reach.intros monitoring_reach.intros history_reach.intros site_reach.intros
      settings_reach.intros)

lemma open_page_reach:
  assumes "604800000 \<le> ch_now k"
  shows "page_reach (fst (open_page t kind i k))"
proof (cases kind)
  case SecurityPage
  have "security_reach (fst (security_step (SecDataArrives (ch_security k)) (security_init t)))"
    by (rule security_reach.intros(2) [OF security_reach.intros(1)]) simp
  then show ?thesis using SecurityPage by simp
next
  case SiteDetailPage
  have "site_reach (fst (mount_site (site_data t i k)))" unfolding mount_site_def
    by (rule site_reach.intros(2) [OF site_reach.intros(1)]) simp
  then show ?thesis using SiteDetailPage by simp
next
  case LogsPage
  then show ?thesis using logs_reach.intros(1) [OF assms] by simp
qed (simp_all add: Let_def monitoring_reach.intros(1) history_reach.intros(1) settings_reach.intros(1))

lemma keep_page_reach:
  assumes "page_reach p"
  shows "page_reach (fst (keep_page i k p))"
proof (cases p)
  case (AtHistory s)
  then show ?thesis using history_reach.intros(2) [of s "ShowNode (nullish i [])"] assms by simp
next
  case (AtSite s)
  then show ?thesis using site_reach.intros(2) [of s "DataArrives (site_data (se_csrf (sg_env s)) i k)"] assms by simp
qed (use assms in simp_all)

definition page_reached :: "console \<Rightarrow> bool" where
  "page_reached c \<longleftrightarrow> (\<forall>p. con_page c = Some p \<longrightarrow> page_reach p)"

lemma mount_reached: "604800000 \<le> ch_now k \<Longrightarrow> page_reached c \<Longrightarrow> page_reached (fst (mount k c))"
  by (auto simp: mount_def page_reached_def Let_def open_page_reach keep_page_reach split: option.splits prod.splits)

lemma page_reached_path [simp]: "page_reached (c\<lparr>con_path := a\<rparr>) = page_reached c"
  by (simp add: page_reached_def)

lemma rerender_reached: "604800000 \<le> ch_now k \<Longrightarrow> page_reached c \<Longrightarrow> page_reached (fst (rerender k c))"
  by (cases rule: rerender_cases [of k c]) (simp_all add: mount_reached)

lemma part_step_reached:
  "page_reached c \<Longrightarrow> console_enabled collate c e \<Longrightarrow> page_reached (fst (part_step collate e c))"
  by (cases e) (auto simp: page_reached_def split_def Let_def page_step_reach split: option.splits)


section \<open>Rendering comes to rest\<close>

text \<open>One round of the browser's loop: render, run the effects of what was mounted, render again if they changed anything.\<close>

definition render_round :: "cache \<Rightarrow> console \<Rightarrow> console" where
  "render_round k c = follow (snd (mount k c)) (fst (mount k c))"

lemma follow_Nil [simp]: "follow [] c = c"
  by (simp add: follow_def)

lemma sites_routed: "routed ''/sites'' = (route_page.SitesPage, None)" "address ''/sites'' = ''/sites''"
proof -
  have "path_segments ''/sites'' = [''sites'']" using path_segments_link [of "''sites''"] by simp
  then show "routed ''/sites'' = (route_page.SitesPage, None)" "address ''/sites'' = ''/sites''"
    by (simp_all add: routed_def address_def route_simps)
qed

lemma mount_to_sites:
  assumes "con_path c = ''/sites''"
  shows "snd (mount k c) = []"
proof -
  have "snd (keep_page None k p) = []" if "page_kind p = route_page.SitesPage" for p
    using that by (cases p) simp_all
  then show ?thesis using assms by (auto simp: mount_def Let_def sites_routed split: option.split)
qed

lemma mount_fixed:
  assumes "snd (mount k c) = []"
  shows "mount k (fst (mount k c)) = (fst (mount k c), [])"
proof (cases "au_stage (con_auth c) = Authenticated")
  case True
  then show ?thesis by (intro mount_settled [OF mount_shown]) simp
next
  case False
  then show ?thesis by (simp add: mount_def unmount_def split: option.splits)
qed


end
