(* ===== verification/ConsoleLinks.thy ===== *)
theory ConsoleLinks
  imports ConsoleLaws
begin

text \<open>
  Where the console takes the user: the addresses its parts navigate to, each of which has a page, and the answers
  that navigate although their page was left.
\<close>

section \<open>Where the console goes\<close>

definition console_target :: "string \<Rightarrow> bool" where
  "console_target a \<longleftrightarrow> a \<in> {''/sites'', ''/sites/new'', ''/nodes'', ''/logs'', ''/settings''} \<or>
     (\<exists>x. a = ''/sites/'' @ encodeURIComponent x \<or> a = ''/nodes/'' @ encodeURIComponent x \<or>
        a = ''/logs/'' @ encodeURIComponent x \<or> a = ''/monitoring/nodes/'' @ encodeURIComponent x)"

lemma console_targets:
  "console_target ''/sites''" "console_target ''/sites/new''" "console_target ''/nodes''" "console_target ''/logs''"
  "console_target ''/settings''" "console_target (''/sites/'' @ encodeURIComponent x)" "console_target (''/nodes/'' @ encodeURIComponent x)"
  "console_target (''/logs/'' @ encodeURIComponent x)" "console_target (''/monitoring/nodes/'' @ encodeURIComponent x)"
  unfolding console_target_def by blast+

lemmas target_simps [simp] = console_targets [unfolded append_Cons append_Nil]

lemma settle_navigates:
  "Navigate a r \<in> set (snd (settle res ok er)) \<longleftrightarrow>
     (case res of Inr v \<Rightarrow> Navigate a r \<in> set (snd (ok v)) | Inl e \<Rightarrow> Navigate a r \<in> set (snd (er e)))"
  by (cases res) simp_all

lemma security_stays: "Navigate a r \<notin> set (snd (security_step e s))"
  by (cases e) (auto simp: settle_navigates sec_failed_def Let_def split: sum.splits option.splits prod.splits remove_kind.splits)

lemma monitoring_navigates: "Navigate a r \<in> set (snd (monitoring_step e s)) \<Longrightarrow> console_target a"
  by (cases e) (auto simp: settle_navigates mon_failed_def mon_refresh_def split: sum.splits option.splits)

lemma nodes_navigates: "Navigate a r \<in> set (snd (nodes_step e s)) \<Longrightarrow> console_target a"
  by (cases e) (auto simp: settle_navigates nodes_failed_def split: sum.splits)

lemma node_navigates: "Navigate a r \<in> set (snd (node_step e s)) \<Longrightarrow> console_target a"
  by (cases e) (auto simp: settle_navigates node_failed_def action_succeeded_def refresh_def saved_effects_def Let_def
      split: sum.splits option.splits)

lemma site_handle_navigates: "Navigate a r \<in> set (snd (site_handle e s)) \<Longrightarrow> console_target a"
  by (cases e) (auto simp: settle_navigates failed_def save_succeeded_def op_succeeded_def delete_succeeded_def
      Let_def only_if_def split: sum.splits if_splits)

lemma site_navigates: "Navigate a r \<in> set (snd (site_step e s)) \<Longrightarrow> console_target a"
  using site_handle_navigates [of a r e s]
  by (auto simp: site_step_def split_def Let_def deletion_effect_def split: if_splits)

lemma certificates_stays: "Navigate a r \<notin> set (snd (certificates_step e s))"
  by (cases e) (auto simp: settle_navigates split: sum.splits)

lemma restore_stays: "Navigate a r \<notin> set (snd (restore_step e s))"
  by (cases e) (auto simp: settle_navigates bk_failed_def op_succeeded_with_def snapshot_deleted_def bk_mutate_def Let_def
      split: sum.splits option.splits)

lemma settings_stays: "Navigate a r \<notin> set (snd (settings_step e s))"
  by (cases e) (auto simp: settle_navigates restore_stays op_succeeds_def op_fails_def brand_saved_def logo_read_def split_def Let_def
      split: sum.splits option.splits if_splits)

lemma overview_stays: "Navigate a r \<notin> set (snd (overview_step collate e s))"
  by (cases e) auto

lemma overview_site_stays: "Navigate a r \<notin> set (snd (overview_site_step e s))"
  by (cases e) auto

lemma history_stays: "Navigate a r \<notin> set (snd (history_step e s))"
  by (cases e) auto

lemma logs_navigates: "Navigate a r \<in> set (snd (logs_step e s)) \<Longrightarrow> console_target a"
  by (cases e) (auto split: if_splits)

lemma log_navigates: "Navigate a r \<in> set (snd (log_detail_step e s)) \<Longrightarrow> console_target a"
  by (cases e) auto

lemma sites_navigates: "Navigate a r \<in> set (snd (sites_step e s)) \<Longrightarrow> console_target a"
  by (cases e) auto

lemmas pages_stay = security_stays certificates_stays settings_stays overview_stays overview_site_stays history_stays

lemmas pages_navigate = logs_navigates log_navigates monitoring_navigates nodes_navigates node_navigates sites_navigates
  site_navigates

lemma page_navigates: "Navigate a r \<in> set (snd (page_step collate e p)) \<Longrightarrow> console_target a"
  by (cases e; cases p) (auto simp: pages_stay dest: pages_navigate)

lemma left_navigates: "Navigate a r \<in> set (snd (left_step collate e p)) \<Longrightarrow> console_target a"
  using page_navigates [of a r collate e p] site_handle_navigates [of a r]
  by (cases e; cases p) (simp_all add: left_step_def)

lemma message_target_console: "message_target m = Some a \<Longrightarrow> console_target a"
  unfolding message_target_def using console_targets by (metis option.inject option.distinct(1))

lemma encoded_segments:
  "path_segments (''/sites/'' @ encodeURIComponent x) = ''sites'' # (if x = [] then [] else [encodeURIComponent x])"
  "path_segments (''/nodes/'' @ encodeURIComponent x) = ''nodes'' # (if x = [] then [] else [encodeURIComponent x])"
  "path_segments (''/logs/'' @ encodeURIComponent x) = ''logs'' # (if x = [] then [] else [encodeURIComponent x])"
  using detail_link_segments [of "''sites''" x] detail_link_segments [of "''nodes''" x] detail_link_segments [of "''logs''" x]
  by (auto simp: path_segments_def)

lemma console_target_routes:
  assumes "console_target a" "a \<noteq> ''/monitoring/nodes/''"
  shows "route_matches a \<noteq> []"
proof -
  have fixed: "path_segments ''/sites'' = [''sites'']" "path_segments ''/nodes'' = [''nodes'']" "path_segments ''/logs'' = [''logs'']"
    "path_segments ''/settings'' = [''settings'']" "path_segments ''/sites/new'' = [''sites'', ''new'']"
    by (simp_all add: path_segments_def)
  from assms(1) consider "a \<in> {''/sites'', ''/sites/new'', ''/nodes'', ''/logs'', ''/settings''}"
    | x where "a = ''/sites/'' @ encodeURIComponent x" | x where "a = ''/nodes/'' @ encodeURIComponent x"
    | x where "a = ''/logs/'' @ encodeURIComponent x" | x where "a = ''/monitoring/nodes/'' @ encodeURIComponent x"
    unfolding console_target_def by blast
  then show ?thesis
  proof cases
    case 1
    then show ?thesis using fixed by (auto simp: route_simps)
  next
    case (2 x)
    then show ?thesis using encoded_segments(1) [of x] by (simp add: route_simps)
  next
    case (3 x)
    then show ?thesis using encoded_segments(2) [of x] by (simp add: route_simps)
  next
    case (4 x)
    then show ?thesis using encoded_segments(3) [of x] by (simp add: route_simps)
  next
    case (5 x)
    then have "x \<noteq> []" using assms(2) by auto
    then show ?thesis using detail_links_route [of x] 5 by simp
  qed
qed

lemma auth_stays: "Navigate a r \<notin> set (snd (auth_step e s))"
proof (cases e)
  case (StatusArrives out)
  obtain s1 fx res where "api_arrives out s = (s1, fx, res)" by (metis prod_cases3)
  then show ?thesis using StatusArrives
    by (auto simp: status_arrives_def elim!: api_arrives_cases split: sum.splits option.splits)
next
  case (ScreenArrives out)
  obtain s1 fx res where "api_arrives out s = (s1, fx, res)" by (metis prod_cases3)
  then show ?thesis using ScreenArrives
    by (auto simp: setup_arrives_def login_arrives_def elim!: api_arrives_cases split: sum.splits option.splits if_splits)
next
  case (LogoutArrives out)
  obtain s1 fx res where "api_arrives out s = (s1, fx, res)" by (metis prod_cases3)
  then show ?thesis using LogoutArrives by (auto simp: logout_arrives_def unauthorized_def elim!: api_arrives_cases)
qed (auto simp: bootstrap_def on_screen_def submitSetup_def submitLogin_def unauthorized_def session_arrives_def Let_def
     split: sum.splits option.splits if_splits)

lemma settle_message_stays: "Navigate a r \<notin> set (snd (settle_message out m))"
  by (cases out) (auto simp: settle_message_def arrive_def api_finish_def Let_def split_def split: if_splits)

lemma message_navigates:
  "Navigate a r \<in> set (snd (message_step t inbox e m)) \<Longrightarrow> \<exists>x. e = OpenMessage x \<and> message_target x = Some a"
  by (cases e) (auto simp: openMessage_def Let_def only_if_def settle_message_stays split: option.splits if_splits)

lemma part_navigates: "Navigate a r \<in> set (snd (part_step collate e c)) \<Longrightarrow> console_target a"
  using page_navigates left_navigates
  by (cases e) (auto simp: auth_stays heard_effects split_def Let_def dest: message_navigates message_target_console split: option.splits)

lemma rerender_navigates: "Navigate a r \<in> set (snd (rerender k c)) \<Longrightarrow> a = ''/sites''"
  using rerender_quiet [of "Navigate a r" k c] by (simp add: deletion_seen_def)


text \<open>
  C27. A page that was left takes the user away in two cases only: when the creation of a site that was started on it
  succeeds, to that site, and when the deletion of its node record succeeds, to the list of nodes.
\<close>

theorem late_answers:
  assumes "page_answer e" "Navigate a r \<in> set (snd (left_step collate e p))"
  shows "(\<exists>s v. p = AtSite s \<and> e = SiteEv (SaveArrives (Inr v)) \<and> isNew s \<and> a = ''/sites/'' @ encodeURIComponent (s_id v))
    \<or> (\<exists>s. p = AtNode s \<and> e = NodeEv (DeleteNodeArrives (Inr ())) \<and> a = ''/nodes'')"
proof -
  have stay: "Navigate a r \<notin> set (snd (monitoring_step x m))" if "monitoring_answer x" for x m
    using that by (cases x) (auto simp: settle_navigates mon_failed_def mon_refresh_def split: sum.splits option.splits)
  have stay': "Navigate a r \<notin> set (snd (nodes_step x m))" if "nodes_answer x" for x m
    using that by (cases x) (auto simp: settle_navigates nodes_failed_def split: sum.splits)
  have node: "x = DeleteNodeArrives (Inr ()) \<and> a = ''/nodes''" if "node_answer x" "Navigate a r \<in> set (snd (node_step x m))" for x m
    using that by (cases x) (auto simp: settle_navigates node_failed_def action_succeeded_def refresh_def saved_effects_def Let_def
        split: sum.splits option.splits)
  have site: "\<exists>v. x = SaveArrives (Inr v) \<and> isNew m \<and> a = ''/sites/'' @ encodeURIComponent (s_id v)"
    if "site_answer x" "Navigate a r \<in> set (snd (site_handle x m))" for x m
    using that by (cases x) (auto simp: settle_navigates failed_def save_succeeded_def op_succeeded_def delete_succeeded_def Let_def
        only_if_def split: sum.splits if_splits)
  show ?thesis using assms node site
    by (cases e; cases p) (auto simp: left_step_def pages_stay stay stay')
qed

end
