(* ===== verification/ConsoleEdits.thy ===== *)
theory ConsoleEdits
  imports ConsoleLinks
begin

text \<open>
  When the edits of a site's form are lost, for all events of the console; and the ways in which they are lost, or
  submitted for another object, without a question.
\<close>

section \<open>Edits of a site's form\<close>

text \<open>The form holds the site of the address: not yet so while the data of the next site are awaited.\<close>

definition own_form :: "site_page \<Rightarrow> bool" where
  "own_form s \<longleftrightarrow> sg_loadedKey s = (if isNew s then ''new'' else nullish (se_siteId (sg_env s)) [])"

lemma page_site_id: "page_site s = Some x \<Longrightarrow> se_siteId (sg_env s) = Some (s_id x)"
  by (auto simp: page_site_def find_Some_iff)

lemma own_form_settled: "own_form s \<Longrightarrow> load_effect s = s"
  using page_site_id [of s] by (auto simp: load_effect_def own_form_def Let_def split: option.splits)

definition form_state :: "site_page \<Rightarrow> site_draft \<times> string \<times> string option" where
  "form_state s = (sg_draft s, sg_baseline s, se_siteId (sg_env s))"

definition form_part :: "site_page \<Rightarrow> (site_draft \<times> string \<times> string option) \<times> string" where
  "form_part s = (form_state s, sg_loadedKey s)"

lemma own_form_part: "form_part t = form_part s \<Longrightarrow> own_form s \<Longrightarrow> own_form t"
  by (simp add: form_part_def form_state_def own_form_def isNew_def)

lemma handle_form_part:
  assumes "own_data s e" "\<nexists>d. e = SetDraft d" "\<nexists>v. e = SaveArrives (Inr v)"
  shows "form_part (fst (site_handle e s)) = form_part s"
proof (cases e)
  case (SaveArrives r)
  then show ?thesis using assms(3) by (cases r) (simp_all add: failed_def form_part_def form_state_def)
next
  case (OpArrives r)
  then show ?thesis by (cases r) (simp_all add: failed_def op_succeeded_def form_part_def form_state_def Let_def)
next
  case (DeleteArrives r)
  then show ?thesis by (cases r) (simp_all add: failed_def delete_succeeded_def form_part_def form_state_def)
qed (use assms in \<open>auto simp: form_part_def form_state_def\<close>)

lemma step_form_part:
  assumes "own_form s" "own_data s e" "\<nexists>d. e = SetDraft d" "\<nexists>v. e = SaveArrives (Inr v)"
  shows "form_part (fst (site_step e s)) = form_part s"
proof -
  have h: "form_part (fst (site_handle e s)) = form_part s" by (rule handle_form_part [OF assms(2-4)])
  then have "load_effect (fst (site_handle e s)) = fst (site_handle e s)"
    using own_form_part [OF h assms(1)] own_form_settled by blast
  then show ?thesis using h by (simp add: site_step_def split_def Let_def)
qed

lemma dirty_site_navigates:
  assumes "dirty s" "Navigate a r \<in> set (snd (site_step e s))"
  shows "e = ConfirmDiscard \<or> (\<exists>v. e = SaveArrives (Inr v)) \<or> deletion_status (fst (site_step e s)) = Some Dep_succeeded"
proof -
  have "Navigate a r \<in> set (snd (site_handle e s)) \<or> deletion_status (fst (site_step e s)) = Some Dep_succeeded"
    using assms(2) by (auto simp: site_step_def split_def Let_def deletion_effect_def deletion_status_def split: if_splits)
  then show ?thesis
  proof
    assume n: "Navigate a r \<in> set (snd (site_handle e s))"
    show ?thesis
    proof (cases e)
      case (SaveArrives res)
      then show ?thesis using n by (cases res) (auto simp: failed_def)
    next
      case (OpArrives res)
      then show ?thesis using n by (cases res) (auto simp: failed_def op_succeeded_def Let_def)
    next
      case (DeleteArrives res)
      then show ?thesis using n by (cases res) (auto simp: failed_def delete_succeeded_def)
    qed (use n assms(1) in auto)
  qed simp
qed

lemma address_idem [simp]: "address (address a) = address a"
  using address_matches [of a] by (simp add: address_def)

lemma mount_same:
  assumes "au_stage (con_auth c) = Authenticated" "con_page c = Some p" "routed (address (con_path c)) = (page_kind p, page_param p)"
  shows "mount k c = (c\<lparr>con_path := address (con_path c)\<rparr>, [])"
  using assms by (simp add: mount_def Let_def)

lemma rerender_same:
  assumes "au_stage (con_auth c) = Authenticated" "con_page c = Some p" "routed (address (con_path c)) = (page_kind p, page_param p)"
  shows "con_page (fst (rerender k c)) = Some p"
  using mount_same [OF assms] mount_same [of "c\<lparr>con_path := address (con_path c)\<rparr>" p k] assms
  by (simp add: rerender_def follow_def)

lemma follow_path: "(\<And>a r. Navigate a r \<notin> set fx) \<Longrightarrow> con_path (follow fx c) = con_path c"
proof (induction fx arbitrary: c)
  case (Cons f fx)
  have "con_path (follow1 f c) = con_path c" using Cons.prems by (cases f) auto
  moreover have "con_path (follow fx (follow1 f c)) = con_path (follow1 f c)" using Cons.prems by (intro Cons.IH) auto
  ultimately show ?case by (simp add: follow_def)
qed (simp add: follow_def)

text \<open>What may take the edits of the form away, or change them.\<close>

fun loses_edits :: "(string \<Rightarrow> string \<Rightarrow> int) \<Rightarrow> console \<Rightarrow> site_page \<Rightarrow> console_event \<Rightarrow> bool" where
  "loses_edits collate c s (PageEv (SiteEv (SetDraft d))) \<longleftrightarrow> True"
| "loses_edits collate c s (PageEv (SiteEv (SaveArrives (Inr v)))) \<longleftrightarrow> True"
| "loses_edits collate c s (PageEv (SiteEv ConfirmDiscard)) \<longleftrightarrow> True"
| "loses_edits collate c s (PageEv (SiteEv e)) \<longleftrightarrow> deletion_status (fst (site_step e s)) = Some Dep_succeeded"
| "loses_edits collate c s (LeftEv i e) \<longleftrightarrow> (\<exists>a r. Navigate a r \<in> set (snd (left_step collate e (con_left c ! i))))"
| "loses_edits collate c s (MessageEv (OpenMessage m)) \<longleftrightarrow> message_target m \<noteq> None"
| "loses_edits collate c s (GoTo a) \<longleftrightarrow> routed (address a) \<noteq> routed (con_path c)"
| "loses_edits collate c s e \<longleftrightarrow> False"

lemma loses_site_event:
  assumes "\<not> loses_edits collate c s (PageEv (SiteEv e))"
  shows "\<nexists>d. e = SetDraft d" "\<nexists>v. e = SaveArrives (Inr v)" "e \<noteq> ConfirmDiscard" "deletion_status (fst (site_step e s)) \<noteq> Some Dep_succeeded"
proof -
  have "\<not> (\<exists>d. e = SetDraft d) \<and> \<not> (\<exists>v. e = SaveArrives (Inr v)) \<and> e \<noteq> ConfirmDiscard \<and>
      deletion_status (fst (site_step e s)) \<noteq> Some Dep_succeeded"
  proof (cases e)
    case (SaveArrives r)
    then show ?thesis using assms by (cases r) simp_all
  qed (use assms in simp_all)
  then show "\<nexists>d. e = SetDraft d" "\<nexists>v. e = SaveArrives (Inr v)" "e \<noteq> ConfirmDiscard"
    "deletion_status (fst (site_step e s)) \<noteq> Some Dep_succeeded" by simp_all
qed

lemma edits_kept_by_part:
  assumes "shown c" "con_page c = Some (AtSite s)" "own_form s" "dirty s" "console_enabled collate c e"
    "\<not> loses_edits collate c s e" "au_stage (con_auth (fst (part_step collate e c))) = Authenticated"
  obtains t where "con_page (fst (part_step collate e c)) = Some (AtSite t)" "form_part t = form_part s"
    "routed (address (con_path (fst (part_step collate e c)))) = routed (con_path c)"
proof -
  note done_by = that
  have same: "routed (address (con_path c)) = routed (con_path c)" using assms(1,2) by (simp add: shown_def address_def)
  have stay: thesis if "con_page (fst (part_step collate e c)) = con_page c" "con_path (fst (part_step collate e c)) = con_path c"
    using that same assms(2) by (intro done_by [of s]) simp_all
  show thesis
  proof (cases e)
    case (PageEv d)
    then obtain x where x: "d = SiteEv x" "own_data s x" using assms(2,5) by (cases d) auto
    note l = loses_site_event [OF assms(6) [unfolded PageEv x(1)]]
    have "Navigate a r \<notin> set (snd (site_step x s))" for a r
      using dirty_site_navigates [OF assms(4), of a r x] l by blast
    then have "con_path (fst (part_step collate e c)) = con_path c"
      using PageEv x assms(2) by (simp add: split_def Let_def follow_path)
    then show thesis using done_by [of "fst (site_step x s)"] step_form_part [OF assms(3) x(2) l(1,2)] PageEv x(1) assms(2) same
      by (simp add: split_def Let_def)
  next
    case (LeftEv i d)
    then show thesis using assms(6) by (intro stay) (simp_all add: split_def Let_def follow_path)
  next
    case (MessageEv d)
    have "Navigate a r \<notin> set (snd (message_step (au_csrf (con_auth c)) (con_inbox c) d (con_messages c)))" for a r
      using assms(6) MessageEv by (auto dest!: message_navigates)
    then show thesis using MessageEv by (intro stay) (simp_all add: split_def Let_def follow_path)
  next
    case (LeftMessageEv i d)
    have "Navigate a r \<notin> set (snd (message_step (au_csrf (con_auth c)) (con_inbox c) d (con_leftMessages c ! i)))" for a r
      using assms(5) LeftMessageEv by (auto dest!: message_navigates)
    then show thesis using LeftMessageEv by (intro stay) (simp_all add: split_def Let_def follow_path)
  next
    case (GoTo a)
    then show thesis using done_by [of s] assms(2,6) by simp
  qed (intro stay; simp add: split_def Let_def)+
qed

text \<open>
  C4. Nothing else loses the edits of a site's form: as long as the session lasts, a form with unsaved edits of the
  address's site is left exactly as it is by every event of the console, except an edit or a confirmed discard, the
  answer that it was saved, the end of the site's deletion, an address of another page or site that the user chose
  outside the form or opened from a message, and a late answer to a page left before that goes to a page of its own.
\<close>

theorem edits_lost_only:
  assumes "console_reach collate c" "con_page c = Some (AtSite s)" "own_form s" "dirty s" "console_enabled collate c e"
    "\<not> loses_edits collate c s e" "au_stage (con_auth (fst (console_step collate k e c))) = Authenticated"
  shows "\<exists>t. con_page (fst (console_step collate k e c)) = Some (AtSite t) \<and> sg_draft t = sg_draft s \<and>
    sg_baseline t = sg_baseline s \<and> own_form t"
proof -
  have sh: "shown c" using console_reach_inv [OF assms(1)] by simp
  let ?c1 = "fst (part_step collate e c)"
  have st: "au_stage (con_auth ?c1) = Authenticated" using assms(7) by (simp add: console_step_parts)
  from edits_kept_by_part [OF sh assms(2-6) st] obtain t where t: "con_page ?c1 = Some (AtSite t)" "form_part t = form_part s"
    "routed (address (con_path ?c1)) = routed (con_path c)" .
  have "routed (address (con_path ?c1)) = (page_kind (AtSite t), page_param (AtSite t))"
    using sh assms(2) t(2,3) by (simp add: shown_def form_part_def form_state_def)
  then have "con_page (fst (rerender k ?c1)) = Some (AtSite t)" by (rule rerender_same [OF st t(1)])
  then show ?thesis using t(2) own_form_part [OF t(2) assms(3)] by (simp add: console_step_parts form_part_def form_state_def)
qed

section \<open>Edits lost or misdirected without a question\<close>

text \<open>
  Another site's address in the same page, by a link, the browser's buttons or a message: once the site's data are at
  hand, the form is filled with them, whatever was typed for the site before.
\<close>

lemma load_other_site:
  assumes "\<not> q_loading (se_settings (sg_env s))" "page_site s = Some x" "s_id x \<noteq> []" "sg_loadedKey s \<noteq> s_id x"
  shows "sg_draft (load_effect s) = draftFromSite x (globalTTL s)" "\<not> dirty (load_effect s)"
proof -
  have "\<not> isNew s" using page_site_id [OF assms(2)] assms(3) by (simp add: isNew_def)
  then have "load_effect s = s\<lparr>sg_draft := draftFromSite x (globalTTL s), sg_baseline := draft_text (draftFromSite x (globalTTL s)),
      sg_loadedKey := s_id x\<rparr>"
    using assms by (simp add: load_effect_def Let_def)
  then show "sg_draft (load_effect s) = draftFromSite x (globalTTL s)" "\<not> dirty (load_effect s)"
    by (simp_all add: dirty_def)
qed

lemma other_site_discards_edits:
  assumes "con_page c = Some (AtSite s)" "au_stage (con_auth c) = Authenticated"
    "x \<in> set sites" "q_data (ch_sites k) = Some sites" "distinct (map s_id sites)" "\<not> q_loading (ch_settings k)"
    "s_id x \<noteq> []" "lower (s_id x) \<noteq> ''new''" "sg_loadedKey s \<noteq> s_id x" "se_siteId (sg_env s) \<noteq> Some (s_id x)"
  shows "\<exists>t. con_page (fst (mount k (c\<lparr>con_path := ''/sites/'' @ encodeURIComponent (s_id x)\<rparr>))) = Some (AtSite t) \<and>
    sg_draft t = draftFromSite x (globalTTL t) \<and> \<not> dirty t"
proof -
  let ?en = "site_data (se_csrf (sg_env s)) (Some (s_id x)) k" and ?a = "''/sites/'' @ encodeURIComponent (s_id x)"
  have m: "route_matches ?a = [(route_page.SiteDetailPage, [(''siteId'', s_id x)])]"
    using detail_links_route [OF assms(7)] assms(8) by blast
  let ?s1 = "s\<lparr>sg_env := ?en\<rparr>"
  have f: "page_site ?s1 = Some x"
  proof -
    have "find (\<lambda>y. s_id y = s_id x) sites = Some x" using assms(3,5)
    proof (induction sites)
      case (Cons y ys)
      then show ?case by (auto simp: image_iff)
    qed simp
    then show ?thesis using assms(4) by (simp add: page_site_def site_data_def Let_def)
  qed
  have l: "sg_draft (load_effect ?s1) = draftFromSite x (globalTTL ?s1)" "\<not> dirty (load_effect ?s1)"
    using load_other_site [OF _ f assms(7)] assms(6,9) by (simp_all add: site_data_def Let_def)
  have "con_page (fst (mount k (c\<lparr>con_path := ?a\<rparr>))) = Some (AtSite (load_effect ?s1))"
    using assms(1,2,10) m by (simp add: mount_def address_def routed_def site_step_def split_def Let_def del: append.simps)
  moreover have "globalTTL (load_effect ?s1) = globalTTL ?s1" by (simp add: globalTTL_def)
  ultimately show ?thesis using l by metis
qed

text \<open>
  The answer to a save that was sent before the page moved to another site: it is taken for the site shown, whose form
  is then filled again from the data at hand, whatever was typed.
\<close>

lemma find_replace_other:
  "i \<noteq> s_id v \<Longrightarrow> find (\<lambda>x. Some (s_id x) = Some i) (map (replace_site v) xs) = find (\<lambda>x. Some (s_id x) = Some i) xs"
  by (induction xs) (auto simp: replace_site_def)

lemma find_upsert_other:
  assumes "i \<noteq> s_id v"
  shows "find (\<lambda>x. Some (s_id x) = Some i) (upsert_site v xs) = find (\<lambda>x. Some (s_id x) = Some i) xs"
proof (cases "s_id v \<in> s_id ` set xs")
  case True
  then show ?thesis using find_replace_other [OF assms] by (simp add: upsert_replace)
next
  case False
  then show ?thesis using assms by (simp add: upsert_replace find_snoc split: option.split)
qed

lemma late_save_discards_edits:
  assumes "page_site s = Some y" "s_id y \<noteq> []" "s_id v \<noteq> s_id y" "\<not> q_loading (se_settings (sg_env s))"
  shows "sg_draft (fst (site_step (SaveArrives (Inr v)) s)) = draftFromSite y (globalTTL s)"
    "\<not> dirty (fst (site_step (SaveArrives (Inr v)) s))"
proof -
  let ?s1 = "fst (site_handle (SaveArrives (Inr v)) s)"
  have id: "se_siteId (sg_env s) = Some (s_id y)" by (rule page_site_id [OF assms(1)])
  then have n: "\<not> isNew s" using assms(2) by (simp add: isNew_def)
  obtain xs where xs: "q_data (se_sites (sg_env s)) = Some xs"
    using assms(1) by (cases "q_data (se_sites (sg_env s))") (auto simp: page_site_def)
  have "page_site ?s1 = Some y"
    using assms(1,3) id n xs find_upsert_other [of "s_id y" v xs]
    by (simp add: page_site_def save_succeeded_def cache_site_def Let_def)
  moreover have "sg_loadedKey ?s1 = s_id v" "globalTTL ?s1 = globalTTL s" "\<not> q_loading (se_settings (sg_env ?s1))"
    using assms(4) by (simp_all add: save_succeeded_def cache_site_def globalTTL_def Let_def)
  ultimately show "sg_draft (fst (site_step (SaveArrives (Inr v)) s)) = draftFromSite y (globalTTL s)"
    "\<not> dirty (fst (site_step (SaveArrives (Inr v)) s))"
    using load_other_site [of ?s1 y] assms(2,3) by (simp_all add: site_step_def split_def Let_def)
qed

text \<open>A quota typed for one node is still in the form of the next, and is what its button then sends.\<close>

lemma quota_edit_misdirected:
  assumes "np_quota s = Some f" "q_data (ch_node k j) = Some d" "same_quota_key (qf_settings f) (nd_cache d)"
  shows "\<exists>g. np_quota (node_moves j k s) = Some g \<and> qf_override g = qf_override f \<and> qf_size g = qf_size f \<and>
    Send (quota_request g (node_moves j k s)) \<in> set (snd (node_step SubmitQuota (node_moves j k s))) \<and>
    rq_path (quota_request g (node_moves j k s)) = ''/api/nodes/'' @ encodeURIComponent j @ ''/cache''"
  using assms by (simp add: node_moves_def detail_arrives_def Let_def mount_quota_def quota_request_def node_path_def)

end
