(* ===== verification/ConsoleExamples.thy ===== *)
theory ConsoleExamples
  imports ConsoleEdits
begin

text \<open>A console signed in at the page of a site, and what the laws of the console say of it.\<close>

section \<open>A console\<close>

definition no_data :: "'a query" where
  "no_data = \<lparr>q_data = None, q_error = None\<rparr>"

definition sample_cache :: cache where
  "sample_cache =
     \<lparr>ch_now = 1767225600000, ch_storage = \<lparr>st_value = None, st_writable = True\<rparr>, ch_overview = no_data,
      ch_sites = se_sites sample_env, ch_nodes = se_nodes sample_env, ch_settings = se_settings sample_env,
      ch_logs = (\<lambda>_. no_data), ch_log = (\<lambda>_. no_data), ch_security = no_data, ch_monitoring = no_data,
      ch_history = (\<lambda>_. no_data), ch_node = (\<lambda>_. no_data), ch_nodeCache = (\<lambda>_. no_data), ch_uninstall = (\<lambda>_. None),
      ch_tls = (\<lambda>_. None), ch_publish = (\<lambda>_. None), ch_deletion = (\<lambda>_. None), ch_allowlist = (\<lambda>_. None),
      ch_certificates = no_data\<rparr>"

definition session_answer :: response where
  "session_answer = \<lparr>rsp_status = 200,
     rsp_json = Some (JObject [(''user'', JString ''admin''), (''csrf_token'', JString ''t'')])\<rparr>"

text \<open>The console right after the start-up of a session, at the page of a site.\<close>

definition signed_in :: auth where
  "signed_in = auth_init\<lparr>au_csrf := ''t'', au_user := ''admin'', au_stage := Authenticated, au_boot := None\<rparr>"

definition sample_console :: console where
  "sample_console = (console_init ''/sites/s1'')\<lparr>con_auth := signed_in, con_page := Some (AtSite (site_init sample_env))\<rparr>"

lemma s1_encoded: "encodeURIComponent ''s1'' = ''s1''" "lower ''s1'' = ''s1''"
  by code_simp+

lemma sample_route: "route_matches ''/sites/s1'' = [(route_page.SiteDetailPage, [(''siteId'', ''s1'')])]"
  using detail_links_route [of "''s1''", unfolded s1_encoded] by simp

lemma sample_routed: "routed ''/sites/s1'' = (route_page.SiteDetailPage, Some ''s1'')" "address ''/sites/s1'' = ''/sites/s1''"
  by (simp_all add: routed_def address_def sample_route)

lemma sample_site_data: "site_data ''t'' (Some ''s1'') sample_cache = sample_env"
  by (simp add: site_data_def sample_cache_def sample_env_def)

lemma sample_own_form: "own_form (site_init sample_env)"
  unfolding own_form_def isNew_def sample_page by (simp add: sample_env_def)

lemma sample_mount: "mount_site sample_env = (site_init sample_env, [])"
proof -
  have "sample_env\<lparr>se_deletion := None\<rparr> = sample_env" by (simp add: sample_env_def)
  moreover have "load_effect (site_init sample_env) = site_init sample_env"
    by (rule own_form_settled [OF sample_own_form])
  moreover have "(site_init sample_env)\<lparr>sg_env := sample_env\<rparr> = site_init sample_env" using sample_page(5) by simp
  ultimately show ?thesis by (simp add: mount_site_def site_step_def deletion_effect_def deletion_status_def)
qed

lemma sample_sign_in: "auth_step (SessionArrives (Inr session_answer)) auth_init = (signed_in, [])"
  by (simp add: session_arrives_def session_answer_def signed_in_def response_ok_def member_or_def obj_get_def)

lemma sample_step:
  "fst (console_step collate sample_cache (AuthEv (SessionArrives (Inr session_answer))) (console_init ''/sites/s1'')) = sample_console"
proof -
  have a: "con_auth (console_init a) = auth_init" for a by (simp add: console_init_def)
  let ?c = "(console_init ''/sites/s1'')\<lparr>con_auth := signed_in\<rparr>"
  have st: "au_stage signed_in = Authenticated" "au_csrf signed_in = ''t''" by (simp_all add: signed_in_def)
  have m: "mount sample_cache ?c = (sample_console, [])"
    using st by (simp add: mount_def console_init_def sample_routed sample_site_data sample_mount sample_console_def Let_def)
  have "shown sample_console" using mount_shown [of sample_cache ?c] m by simp
  then have "mount sample_cache sample_console = (sample_console, [])"
    by (rule mount_settled) (simp add: sample_console_def st)
  then have "fst (rerender sample_cache ?c) = sample_console" using m by (simp add: rerender_def)
  then show ?thesis by (simp add: console_step_parts a sample_sign_in split_def Let_def del: auth_step.simps)
qed

lemma sample_reach: "console_reach collate sample_console"
proof -
  have "console_reach collate (fst (console_step collate sample_cache (AuthEv (SessionArrives (Inr session_answer))) (console_init ''/sites/s1'')))"
    by (rule console_move [OF console_start]) (simp_all add: console_init_def auth_init_def sample_cache_def)
  then show ?thesis by (simp only: sample_step)
qed

lemma sample_console_parts:
  "con_auth sample_console = signed_in" "con_page sample_console = Some (AtSite (site_init sample_env))" "con_path sample_console = ''/sites/s1''"
  by (simp_all add: sample_console_def console_init_def)

section \<open>The laws at work\<close>

abbreviation no_collation :: "string \<Rightarrow> string \<Rightarrow> int" where
  "no_collation \<equiv> \<lambda>a b. 0"


lemma sample_logout:
  "fst (console_step no_collation sample_cache (AuthEv Logout) sample_console) = sample_console\<lparr>con_auth := signed_in\<lparr>au_logouts := 1\<rparr>\<rparr>"
proof -
  let ?c = "sample_console\<lparr>con_auth := signed_in\<lparr>au_logouts := 1\<rparr>\<rparr>"
  have "shown ?c" using console_reach_inv [OF sample_reach] by (simp add: shown_def sample_console_parts signed_in_def)
  then have "rerender sample_cache ?c = (?c, [])" by (rule rerender_settled) (simp add: signed_in_def)
  moreover have "au_logouts signed_in = 0" by (simp add: signed_in_def auth_init_def)
  ultimately show ?thesis by (simp add: console_step_parts sample_console_parts)
qed


theorem page_of_address_witness: "routed ''/sites/s1'' = (route_page.SiteDetailPage, Some ''s1'')"
  using page_of_address [OF sample_reach] by (simp add: sample_console_parts sample_page) (simp add: sample_env_def)


definition edited_page :: site_page where
  "edited_page = (site_init sample_env)\<lparr>sg_draft := (draftFromSite sample_site 60)\<lparr>dr_name := ''X''\<rparr>\<rparr>"

definition edited_console :: console where
  "edited_console = sample_console\<lparr>con_page := Some (AtSite edited_page)\<rparr>"

lemma edited_page_parts:
  "sg_env edited_page = sample_env" "sg_loadedKey edited_page = ''s1''" "dirty edited_page" "own_form edited_page"
proof -
  show "sg_env edited_page = sample_env" "sg_loadedKey edited_page = ''s1''" by (simp_all add: edited_page_def sample_page)
  have "dr_name (draftFromSite sample_site 60) \<noteq> ''X''" by (simp add: draftFromSite_def sample_site_def)
  then have "dr_name ((draftFromSite sample_site 60)\<lparr>dr_name := ''X''\<rparr>) \<noteq> dr_name (draftFromSite sample_site 60)" by simp
  then have "(draftFromSite sample_site 60)\<lparr>dr_name := ''X''\<rparr> \<noteq> draftFromSite sample_site 60" by metis
  then show "dirty edited_page" by (simp add: dirty_def edited_page_def sample_page)
  show "own_form edited_page" using sample_own_form by (simp add: own_form_def isNew_def edited_page_def)
qed

lemma edited_step:
  "site_step (SetDraft ((draftFromSite sample_site 60)\<lparr>dr_name := ''X''\<rparr>)) (site_init sample_env) = (edited_page, [])"
  using own_form_settled [OF edited_page_parts(4)]
  by (simp add: site_step_def edited_page_def [symmetric] deletion_effect_def deletion_status_def edited_page_parts(1) sample_page)

lemma edited_reach: "console_reach no_collation edited_console"
proof -
  let ?d = "(draftFromSite sample_site 60)\<lparr>dr_name := ''X''\<rparr>"
  let ?e = "PageEv (SiteEv (SetDraft ?d))"
  have "js_length ''X'' \<le> 100" by code_simp
  then have "fires (BasicSettings (sg_draft (site_init sample_env)) SetDraft) (SetDraft ?d)"
    unfolding fires_BasicSettings sample_page by blast
  then have "fires (site_form (site_init sample_env)) (SetDraft ?d)" by (simp add: site_form_def Let_def)
  then have "console_enabled no_collation sample_console ?e" by (simp add: sample_console_parts sample_form_offered)
  then have r: "console_reach no_collation (fst (console_step no_collation sample_cache ?e sample_console))"
    by (rule console_move [OF sample_reach]) (simp add: sample_cache_def)
  have "shown edited_console"
    using console_reach_inv [OF sample_reach] edited_page_parts(1) sample_page(5)
    by (simp add: shown_def edited_console_def sample_console_parts signed_in_def)
  then have "rerender sample_cache edited_console = (edited_console, [])"
    by (rule rerender_settled) (simp add: edited_console_def sample_console_parts signed_in_def)
  then have "fst (console_step no_collation sample_cache ?e sample_console) = edited_console"
    by (simp add: console_step_parts sample_console_parts edited_step split_def Let_def edited_console_def)
  then show ?thesis using r by simp
qed

theorem edits_lost_only_witness:
  "\<exists>t. con_page (fst (console_step no_collation sample_cache (MessageEv OpenCenter) edited_console)) = Some (AtSite t) \<and>
     dr_name (sg_draft t) = ''X''"
proof -
  have p: "con_page edited_console = Some (AtSite edited_page)" by (simp add: edited_console_def)
  have st: "au_stage (con_auth edited_console) = Authenticated" by (simp add: edited_console_def sample_console_parts signed_in_def)
  moreover have "con_messages edited_console = message_init" by (simp add: edited_console_def sample_console_def console_init_def)
  ultimately have "console_enabled no_collation edited_console (MessageEv OpenCenter)" by (simp add: message_init_def)
  moreover have "au_stage (con_auth (fst (console_step no_collation sample_cache (MessageEv OpenCenter) edited_console))) = Authenticated"
    using st by (simp add: console_step_parts)
  ultimately obtain t where
    "con_page (fst (console_step no_collation sample_cache (MessageEv OpenCenter) edited_console)) = Some (AtSite t)"
    "sg_draft t = sg_draft edited_page"
    using edits_lost_only [OF edited_reach p edited_page_parts(4,3)] by fastforce
  then show ?thesis by (simp add: edited_page_def)
qed


theorem late_answers_witness:
  "\<exists>r. Navigate ''/nodes'' r \<in> set (snd (left_step no_collation (NodeEv (DeleteNodeArrives (Inr ()))) (AtNode sample_node_page)))"
proof -
  have n: "Navigate a r \<in> set (snd (left_step no_collation (NodeEv (DeleteNodeArrives (Inr ()))) (AtNode sample_node_page)))
      \<Longrightarrow> a = ''/nodes''" for a r
    using late_answers [of "NodeEv (DeleteNodeArrives (Inr ()))" a r no_collation "AtNode sample_node_page"] by simp
  have "\<exists>a r. Navigate a r \<in> set (snd (left_step no_collation (NodeEv (DeleteNodeArrives (Inr ()))) (AtNode sample_node_page)))"
    by (auto simp: left_step_def)
  then show ?thesis using n by blast
qed

end
