(* ===== verification/ConsoleProgress.thy ===== *)
theory ConsoleProgress
  imports ConsoleExamples
begin

text \<open>
  The life of a session, and what the console can always still do.  The stages of the session move as an abstract machine
  allows, whatever the pages do in between; and whatever state the console is in, the user can get to a session and, in
  it, to the page of whatever address, with nothing but the controls shown and answers to the requests in flight.
\<close>

section \<open>The stages of a session\<close>

text \<open>
  A start-up ends in a session, in one of the log-in screens or in an error, which can be retried; the set-up, the end of a
  session and the \<open>cdn:unauthorized\<close> event lead to the log-in; a session begins there or with the start-up.
\<close>

inductive stage_move :: "auth_stage \<Rightarrow> auth_stage \<Rightarrow> bool" where
  stay: "stage_move st st"
| started: "stage_move Boot st"
| retried: "stage_move Error Boot"
| to_login: "st \<noteq> Boot \<Longrightarrow> stage_move st Login"
| logged_in: "stage_move Login Authenticated"

inductive_simps stage_move_simps [simp]:
  "stage_move Boot st" "stage_move Error st" "stage_move Setup st" "stage_move Login st" "stage_move Authenticated st"

text \<open>No log-in is in flight while the control plane is not set up.\<close>

definition setup_first :: "auth \<Rightarrow> bool" where
  "setup_first s \<longleftrightarrow> auth_inv s \<and> (au_stage s = Setup \<longrightarrow> as_busy (au_screen s) \<noteq> Some LoginCall)"

lemma setup_or_login [simp]: "a \<noteq> LoginCall \<longleftrightarrow> a = SetupCall"
  by (cases a) simp_all

lemma stage_step:
  assumes "setup_first s" "auth_enabled s e"
  shows "stage_move (au_stage s) (au_stage (fst (auth_step e s))) \<and>
    (au_stage (fst (auth_step e s)) = Setup \<longrightarrow> as_busy (au_screen (fst (auth_step e s))) \<noteq> Some LoginCall)"
proof (cases e)
  case (SessionArrives out)
  then show ?thesis using assms
    by (auto simp: setup_first_def auth_handlers auth_inv_def split: sum.splits option.splits)
next
  case (StatusArrives out)
  obtain s1 fx res where a: "api_arrives out s = (s1, fx, res)" by (metis prod_cases3)
  show ?thesis using assms StatusArrives a
    by (cases rule: api_arrives_cases [OF a])
      (auto simp: setup_first_def auth_handlers auth_inv_def split: sum.splits option.splits)
next
  case (ScreenArrives out)
  obtain s1 fx res where a: "api_arrives out s = (s1, fx, res)" by (metis prod_cases3)
  show ?thesis using assms ScreenArrives a
    by (cases "au_stage s"; cases "as_busy (au_screen s)"; cases rule: api_arrives_cases [OF a])
      (auto simp: setup_first_def auth_handlers auth_inv_def split: sum.splits option.splits)
next
  case (LogoutArrives out)
  obtain s1 fx res where a: "api_arrives out s = (s1, fx, res)" by (metis prod_cases3)
  show ?thesis using assms LogoutArrives a
    by (cases "au_stage s"; cases rule: api_arrives_cases [OF a]) (auto simp: setup_first_def auth_handlers auth_inv_def)
qed (use assms in \<open>cases "au_stage s"; auto simp: setup_first_def auth_handlers auth_inv_def offers_AuthScreen
       fires_setup_form fires_login_form\<close>)+

lemma setup_first_step: "setup_first s \<Longrightarrow> auth_enabled s e \<Longrightarrow> setup_first (fst (auth_step e s))"
  using stage_step [of s e] auth_step_inv [of s e] by (simp add: setup_first_def)


section \<open>Signing in\<close>

text \<open>Some possible run of permitted events ends in a state with the property.\<close>

definition leads_to :: "('s \<Rightarrow> 'e \<Rightarrow> bool) \<Rightarrow> ('e, 's) component \<Rightarrow> ('e \<Rightarrow> bool) \<Rightarrow> ('s \<Rightarrow> bool) \<Rightarrow> 's \<Rightarrow> bool" where
  "leads_to en step ok P s \<longleftrightarrow> (\<exists>es. list_all ok es \<and> possible en step es s \<and> P (fst (run step es s)))"

lemma leads_now: "P s \<Longrightarrow> leads_to en step ok P s"
  unfolding leads_to_def by (rule exI [of _ "[]"]) simp

lemma leads_step:
  assumes "ok e" "en s e" "leads_to en step ok P (fst (step e s))"
  shows "leads_to en step ok P s"
proof -
  obtain es where "list_all ok es" "possible en step es (fst (step e s))" "P (fst (run step es (fst (step e s))))"
    using assms(3) by (auto simp: leads_to_def)
  then show ?thesis unfolding leads_to_def using assms(1,2) by (intro exI [of _ "e # es"]) (simp add: split_def Let_def)
qed

text \<open>The user's own events on the screens and the answers to what they send; not a log-out, and no 401 of a page.\<close>

fun signing_in :: "auth_event \<Rightarrow> bool" where
  "signing_in Logout \<longleftrightarrow> False"
| "signing_in Unauthorized \<longleftrightarrow> False"
| "signing_in (LogoutArrives out) \<longleftrightarrow> False"
| "signing_in e \<longleftrightarrow> True"

definition granted :: response where
  "granted = \<lparr>rsp_status = 200, rsp_json = Some (JObject [(''csrf_token'', JString ''t''), (''initialized'', JBool True)])\<rparr>"

definition signs_in :: "auth \<Rightarrow> bool" where
  "signs_in = leads_to auth_enabled auth_step signing_in (\<lambda>t. au_stage t = Authenticated)"

lemmas signs_in_now = leads_now [of "\<lambda>t. au_stage t = Authenticated" _ auth_enabled auth_step signing_in, folded signs_in_def]
lemmas signs_in_step = leads_step [of signing_in _ auth_enabled _ auth_step "\<lambda>t. au_stage t = Authenticated", folded signs_in_def]

lemma granted_answers:
  "au_stage (fst (session_arrives (Inr granted) s)) = Authenticated"
  "au_stage (fst (login_arrives (Inr granted) s)) = Authenticated"
  "fst (setup_arrives (Inr granted) s) = (screen_settled None s)\<lparr>au_setupResult := Some \<lparr>sr_totp_secret = [], sr_otpauth_url = [], sr_recovery_codes = []\<rparr>\<rparr>"
  "fst (status_arrives (Inr granted) s) = s\<lparr>au_stage := Login, au_boot := None\<rparr>"
  by (simp_all add: granted_def auth_handlers response_ok_def member_or_def obj_get_def api_arrives_def api_finish_def initialized_def
      decode_setup_def json_strings_def)

lemma refused_answers:
  "fst (login_arrives (Inl e) s) = screen_settled (Some (errorMessage e)) s"
  "fst (setup_arrives (Inl e) s) = screen_settled (Some (errorMessage e)) s"
  by (simp_all add: auth_handlers api_arrives_def api_finish_def)

lemma screen_settled_parts [simp]:
  "au_stage (screen_settled m s) = au_stage s" "as_busy (au_screen (screen_settled m s)) = None"
  "au_setupResult (screen_settled m s) = au_setupResult s"
  by (simp_all add: screen_settled_def)

text \<open>The log-in form filled in and accepted.\<close>

lemma typed_code: "only_digits ''123456'' = ''123456''" "js_length ''123456'' = 6"
  "field_ok [PatternDigits 6, MaxLength 6, Required] ''123456''"
  by code_simp+

lemma login_steps:
  assumes "au_stage s = Login"
  shows "signs_in (fst (on_screen (as_factor_update (\<lambda>_. ''totp'')) s)) \<Longrightarrow> signs_in s"
    "signs_in (fst (on_screen (as_password_update (\<lambda>_. v)) s)) \<Longrightarrow> signs_in s"
    "as_factor (au_screen s) = ''totp'' \<Longrightarrow> signs_in (fst (on_screen (as_totp_update (\<lambda>_. ''123456'')) s)) \<Longrightarrow> signs_in s"
  using assms signs_in_step [of "ChooseFactor ''totp''" s] signs_in_step [of "TypePassword v" s] signs_in_step [of "TypeTotp ''123456''" s]
  by (simp_all add: offers_AuthScreen fires_login_form typed_code)

lemma login_submits:
  assumes "au_stage s = Login" "auth_enabled s SubmitLogin"
  shows "signs_in s"
proof (rule signs_in_step [of SubmitLogin])
  show "signs_in (fst (auth_step SubmitLogin s))"
    by (rule signs_in_step [of "ScreenArrives (Inr granted)"]) (simp_all add: submitLogin_def granted_answers signs_in_now)
qed (use assms in simp_all)

lemma signs_in_idle_login:
  assumes "au_stage s = Login" "as_busy (au_screen s) = None"
  shows "signs_in s"
proof (rule login_steps(1))
  let ?s1 = "fst (on_screen (as_factor_update (\<lambda>_. ''totp'')) s)"
  let ?s2 = "fst (on_screen (as_password_update (\<lambda>_. ''p'')) ?s1)"
  let ?s3 = "fst (on_screen (as_totp_update (\<lambda>_. ''123456'')) ?s2)"
  have "auth_enabled ?s3 SubmitLogin"
    using assms by (simp add: on_screen_def offers_AuthScreen fires_login_form typed_code)
  then have "signs_in ?s3" by (rule login_submits [rotated]) (simp add: on_screen_def assms)
  then have "signs_in ?s2" by (rule login_steps(3) [rotated 2]) (simp_all add: on_screen_def assms)
  then show "signs_in ?s1" by (rule login_steps(2) [rotated]) (simp add: on_screen_def assms)
qed (rule assms(1))

text \<open>A screen whose request is in flight is settled by a failure.\<close>

lemma settles:
  assumes "as_busy (au_screen s) \<noteq> None" "signs_in (screen_settled (Some (errorMessage NonError)) s)"
  shows "signs_in s"
  by (rule signs_in_step [of "ScreenArrives (Inl NonError)"]) (use assms in \<open>simp_all add: refused_answers\<close>)

lemma signs_in_login: "au_stage s = Login \<Longrightarrow> signs_in s"
  by (cases "as_busy (au_screen s) = None") (simp_all add: signs_in_idle_login settles)

text \<open>The account created, its codes acknowledged.\<close>

lemma signs_in_set_up:
  assumes "au_stage s = Setup" "au_setupResult s \<noteq> None"
  shows "signs_in s"
  by (rule signs_in_step [of SetupComplete]) (use assms in \<open>simp_all add: offers_AuthScreen signs_in_login\<close>)

lemma setup_steps:
  assumes "au_stage s = Setup" "au_setupResult s = None"
  shows "signs_in (fst (on_screen (as_password_update (\<lambda>_. v)) s)) \<Longrightarrow> signs_in s"
    "signs_in (fst (on_screen (as_confirmation_update (\<lambda>_. v)) s)) \<Longrightarrow> signs_in s"
  using assms signs_in_step [of "TypePassword v" s] signs_in_step [of "TypeConfirmation v" s]
  by (simp_all add: offers_AuthScreen fires_setup_form)

lemma setup_submits:
  assumes "au_stage s = Setup" "auth_enabled s SubmitSetup" "as_password (au_screen s) = as_confirmation (au_screen s)"
  shows "signs_in s"
proof (rule signs_in_step [of SubmitSetup])
  have "signs_in (fst (setup_arrives (Inr granted) t))" if "au_stage t = Setup" for t
    by (rule signs_in_set_up) (simp_all add: granted_answers that)
  then show "signs_in (fst (auth_step SubmitSetup s))"
    by (intro signs_in_step [of "ScreenArrives (Inr granted)" "fst (auth_step SubmitSetup s)"])
      (simp_all add: submitSetup_def Let_def assms)
qed (use assms in simp_all)

lemma signs_in_idle_setup:
  assumes "au_stage s = Setup" "au_setupResult s = None" "as_busy (au_screen s) = None"
  shows "signs_in s"
proof (rule setup_steps(1))
  let ?s1 = "fst (on_screen (as_password_update (\<lambda>_. ''twelve-chars'')) s)"
  let ?s2 = "fst (on_screen (as_confirmation_update (\<lambda>_. ''twelve-chars'')) ?s1)"
  have "field_ok [MinLength 12, Required] ''twelve-chars''" by code_simp
  then have "auth_enabled ?s2 SubmitSetup" using assms by (simp add: on_screen_def offers_AuthScreen fires_setup_form)
  then have "signs_in ?s2" by (rule setup_submits [rotated]) (simp_all add: on_screen_def assms)
  then show "signs_in ?s1" by (rule setup_steps(2) [rotated 2]) (simp_all add: on_screen_def assms)
qed (rule assms)+

lemma signs_in_setup: "au_stage s = Setup \<Longrightarrow> signs_in s"
  by (cases "au_setupResult s = None"; cases "as_busy (au_screen s) = None")
    (simp_all add: signs_in_set_up signs_in_idle_setup settles)

text \<open>The start-up, answered in either of its two requests, and repeated after a failure.\<close>

lemma signs_in_boot:
  assumes "auth_inv s" "au_stage s = Boot"
  shows "signs_in s"
proof (cases "au_boot s = Some SessionCall")
  case True
  then show ?thesis by (intro signs_in_step [of "SessionArrives (Inr granted)" s]) (simp_all add: granted_answers signs_in_now)
next
  case False
  then have "au_boot s = Some StatusCall"
    using assms by (cases "au_boot s"; cases "the (au_boot s)") (auto simp: auth_inv_def)
  then show ?thesis by (intro signs_in_step [of "auth_event.StatusArrives (Inr granted)" s]) (simp_all add: granted_answers signs_in_login)
qed

lemma signs_in_error:
  assumes "auth_inv s" "au_stage s = Error"
  shows "signs_in s"
proof (rule signs_in_step [of Retry])
  have "auth_inv (fst (auth_step Retry s))" by (rule auth_step_inv [OF assms(1)]) (simp add: assms(2) offers_AuthScreen)
  then show "signs_in (fst (auth_step Retry s))" by (rule signs_in_boot) (simp add: bootstrap_def)
qed (simp_all add: assms(2) offers_AuthScreen)

lemma signs_in_always: "auth_inv s \<Longrightarrow> signs_in s"
  by (cases "au_stage s") (simp_all add: signs_in_boot signs_in_error signs_in_setup signs_in_login signs_in_now)

section \<open>The session inside the console\<close>

text \<open>
  One machine inside another: its events are events of the other, whatever that one is given beside them, possible there
  when they are possible here, and what it is in the other changes as it does alone.
\<close>

locale embedded =
  fixes en :: "'s \<Rightarrow> 'e \<Rightarrow> bool" and step :: "('e, 's) component"
    and out_en :: "'t \<Rightarrow> 'f \<Rightarrow> bool" and out_step :: "('f, 't) component"
    and ev :: "'x \<Rightarrow> 'e \<Rightarrow> 'f" and part :: "'t \<Rightarrow> 's"
  assumes out_enabled: "out_en t (ev x e) \<longleftrightarrow> en (part t) e"
    and out_steps: "part (fst (out_step (ev x e) t)) = fst (step e (part t))"
begin

lemma run_embedded:
  "possible en step es (part t) \<Longrightarrow> length xs = length es \<Longrightarrow>
     possible out_en out_step (map2 ev xs es) t \<and> part (fst (run out_step (map2 ev xs es) t)) = fst (run step es (part t))"
proof (induction es arbitrary: t xs)
  case (Cons e es)
  then obtain x ys where "xs = x # ys" "length ys = length es" by (cases xs) auto
  then show ?case using Cons.IH [of "fst (out_step (ev x e) t)" ys] Cons.prems
    by (simp add: out_enabled out_steps split_def Let_def)
qed simp

end

text \<open>The console's events with what is at hand when each of them happens.\<close>

definition moment_enabled :: "(string \<Rightarrow> string \<Rightarrow> int) \<Rightarrow> console \<Rightarrow> cache \<times> console_event \<Rightarrow> bool" where
  "moment_enabled collate c m = console_enabled collate c (snd m)"

definition moment_step :: "(string \<Rightarrow> string \<Rightarrow> int) \<Rightarrow> (cache \<times> console_event, console) component" where
  "moment_step collate m c = console_step collate (fst m) (snd m) c"

interpretation session_part: embedded auth_enabled auth_step "moment_enabled collate" "moment_step collate"
  "\<lambda>k e. (k, AuthEv e)" con_auth for collate
  by unfold_locales (simp_all add: moment_enabled_def moment_step_def console_step_parts split_def Let_def)

text \<open>What the console keeps of its session.\<close>

definition session_inv :: "console \<Rightarrow> bool" where
  "session_inv c \<longleftrightarrow> con_loose c \<and> shown c \<and> setup_first (con_auth c)"

lemma part_step_other:
  assumes "session_inv c" "console_enabled collate c e" "\<nexists>d. e = AuthEv d"
  shows "con_auth (fst (part_step collate e c)) = con_auth c \<or>
    (au_stage (con_auth c) \<noteq> Boot \<and> con_auth (fst (part_step collate e c)) = fst (unauthorized (con_auth c)))"
  using assms by (cases e) (auto simp: session_inv_def con_loose_def shown_def split_def Let_def split: option.splits)

lemma part_step_auth:
  assumes "session_inv c" "console_enabled collate c e"
  shows "con_auth (fst (part_step collate e c)) = con_auth c \<or>
    (\<exists>d. auth_enabled (con_auth c) d \<and> con_auth (fst (part_step collate e c)) = fst (auth_step d (con_auth c)))"
proof -
  have "\<exists>d. auth_enabled s d \<and> fst (unauthorized s) = fst (auth_step d s)" if "au_stage s \<noteq> Boot" for s
    using that by (intro exI [of _ Unauthorized]) simp
  then show ?thesis using assms(2) part_step_other [OF assms] by (cases "\<exists>d. e = AuthEv d") (auto simp: split_def Let_def)
qed

lemma session_inv_step:
  assumes "session_inv c" "console_enabled collate c e"
  shows "session_inv (fst (console_step collate k e c)) \<and>
    stage_move (au_stage (con_auth c)) (au_stage (con_auth (fst (console_step collate k e c))))"
  using assms console_step_inv [of c collate e k] part_step_auth [OF assms] stage_step setup_first_step
  by (auto simp: session_inv_def console_step_parts stay)

interpretation session_life: implements "moment_enabled collate" "moment_step collate" "\<lambda>c. au_stage (con_auth c)" stage_move
  session_inv for collate
  by unfold_locales (simp_all add: moment_enabled_def moment_step_def session_inv_step)

lemma session_inv_reach: "console_reach collate c \<Longrightarrow> session_inv c"
proof (induction rule: console_reach.induct)
  case (console_start a)
  show ?case using console_reach_inv [OF console_reach.console_start]
    by (simp add: session_inv_def setup_first_def con_loose_def) (simp add: console_init_def auth_init_def)
next
  case (console_move c e k)
  then show ?case using session_inv_step by blast
qed

lemma session_begins:
  assumes "setup_first s" "auth_enabled s e" "au_stage s \<noteq> Authenticated" "au_stage (fst (auth_step e s)) = Authenticated"
  shows "\<exists>r. response_ok r \<and> member_or ''csrf_token'' [] (rsp_json r) = Some (au_csrf (fst (auth_step e s))) \<and>
    (au_stage s = Boot \<and> au_boot s = Some SessionCall \<and> e = SessionArrives (Inr r) \<or>
     au_stage s = Login \<and> as_busy (au_screen s) = Some LoginCall \<and> e = ScreenArrives (Inr r))"
proof (cases e)
  case (SessionArrives out)
  then show ?thesis using assms
    by (cases out) (auto simp: setup_first_def auth_handlers auth_inv_def split: option.splits if_splits)
next
  case (StatusArrives out)
  obtain s1 fx res where a: "api_arrives out s = (s1, fx, res)" by (metis prod_cases3)
  show ?thesis using assms StatusArrives a
    by (cases rule: api_arrives_cases [OF a]) (auto simp: auth_handlers split: sum.splits option.splits if_splits)
next
  case (ScreenArrives out)
  obtain s1 fx res where a: "api_arrives out s = (s1, fx, res)" by (metis prod_cases3)
  have f: "api_finish out = (fst (api_finish out), res)" using a by (auto simp: api_arrives_def split_def Let_def)
  show ?thesis
  proof (cases "as_busy (au_screen s) = Some LoginCall")
    case True
    then have st: "au_stage s = Login" using assms(1,3) by (cases "au_stage s") (auto simp: setup_first_def auth_inv_def)
    show ?thesis using assms ScreenArrives a True st f
      by (cases rule: api_arrives_cases [OF a])
        (auto simp: auth_handlers api_finish_def split: sum.splits option.splits if_splits)
  next
    case False
    then have "as_busy (au_screen s) = Some SetupCall" using assms(2) ScreenArrives by auto
    then show ?thesis using assms ScreenArrives a
      by (cases rule: api_arrives_cases [OF a]) (auto simp: auth_handlers split: sum.splits option.splits if_splits)
  qed
next
  case (LogoutArrives out)
  then show ?thesis using assms(4) by (simp add: logout_arrives_def unauthorized_def split_def Let_def)
qed (use assms in \<open>auto simp: auth_handlers setup_first_def auth_inv_def offers_AuthScreen fires_setup_form fires_login_form
      split: if_splits\<close>)

text \<open>
  C9. A session begins only with the control plane's consent: a step after which there is a session and before which there
  was none is the successful answer to the start-up's question for a session, or to a log-in sent from the log-in screen,
  and the token of the session is the one of that answer.
\<close>

theorem session_granted:
  assumes "console_reach collate c" "console_enabled collate c e"
    "au_stage (con_auth c) \<noteq> Authenticated" "au_stage (con_auth (fst (console_step collate k e c))) = Authenticated"
  shows "\<exists>r. response_ok r \<and> member_or ''csrf_token'' [] (rsp_json r) = Some (au_csrf (con_auth (fst (console_step collate k e c)))) \<and>
    (au_stage (con_auth c) = Boot \<and> au_boot (con_auth c) = Some SessionCall \<and> e = AuthEv (SessionArrives (Inr r)) \<or>
     au_stage (con_auth c) = Login \<and> as_busy (au_screen (con_auth c)) = Some LoginCall \<and> e = AuthEv (ScreenArrives (Inr r)))"
proof -
  note i = session_inv_reach [OF assms(1)]
  have st: "au_stage (con_auth (fst (part_step collate e c))) = Authenticated" using assms(4) by (simp add: console_step_parts)
  then obtain d where d: "e = AuthEv d"
    using part_step_other [OF i assms(2)] assms(3) by (cases "\<exists>d. e = AuthEv d") (auto simp: unauthorized_def)
  have "au_stage (fst (auth_step d (con_auth c))) = Authenticated" using st d by (simp add: split_def Let_def)
  then show ?thesis using session_begins [of "con_auth c" d] i assms(2,3) d
    by (simp add: session_inv_def console_step_parts split_def Let_def)
qed

lemma fresh_console: "con_auth (console_init a) = auth_init" "au_stage auth_init = Boot" "au_boot auth_init = Some SessionCall"
  by (simp_all add: console_init_def auth_init_def)

theorem session_granted_witness: "response_ok session_answer \<and> member_or ''csrf_token'' [] (rsp_json session_answer) = Some ''t''"
proof -
  have "au_stage signed_in = Authenticated" "au_csrf signed_in = ''t''" by (simp_all add: signed_in_def)
  then show ?thesis
    using session_granted [OF console_start [of no_collation "''/sites/s1''"], of "AuthEv (SessionArrives (Inr session_answer))" sample_cache]
    by (auto simp: sample_step sample_console_parts fresh_console)
qed



section \<open>Never stuck\<close>

text \<open>No deletion of a site has just been finished, which would move the page of that site on to the list of sites.\<close>

definition calm :: "cache \<Rightarrow> bool" where
  "calm k \<longleftrightarrow> (\<forall>i. map_option t_status (Option.bind (ch_deletion k i) ps_task) \<noteq> Some Dep_succeeded)"

lemma calm_data: "calm k \<Longrightarrow> snd (site_step (DataArrives (site_data t i k)) s) = []"
  by (simp add: site_step_def deletion_effect_def deletion_status_def site_data_def calm_def Let_def)

lemma calm_mount:
  assumes "calm k"
  shows "snd (mount k c) = []"
proof -
  have "snd (open_page t kind i k) = []" for t kind i
    by (cases kind) (simp_all add: Let_def mount_site_def calm_data assms)
  moreover have "snd (keep_page i k p) = []" for i p by (cases p) (simp_all add: calm_data assms)
  ultimately show ?thesis by (simp add: mount_def Let_def split: option.split prod.split)
qed

lemma mount_path: "au_stage (con_auth c) = Authenticated \<Longrightarrow> con_path (fst (mount k c)) = address (con_path c)"
  by (simp add: mount_def Let_def split: option.split prod.split)

lemma calm_go:
  fixes collate and a :: string
  assumes "con_loose c" "au_stage (con_auth c) = Authenticated" "calm k"
  defines "c' \<equiv> fst (console_step collate k (GoTo a) c)"
  shows "au_stage (con_auth c') = Authenticated \<and> con_path c' = address a \<and>
    (\<exists>p. con_page c' = Some p \<and> routed (address a) = (page_kind p, page_param p))"
proof -
  let ?c1 = "c\<lparr>con_path := a\<rparr>" and ?c2 = "fst (mount k (c\<lparr>con_path := a\<rparr>))"
  have "address (address a) = address a" using address_matches [of a] by (simp add: address_def)
  moreover have "c' = fst (mount k ?c2)" using assms(3)
    by (simp add: c'_def console_step_parts rerender_def calm_mount split_def Let_def)
  moreover have "con_path ?c2 = address a" using assms(2) by (simp add: mount_path)
  ultimately have p: "con_path c' = address a" "con_auth c' = con_auth c" using assms(2) by (simp_all add: mount_path)
  have "shown c'" using console_render_inv [of ?c1 k] assms(1) by (simp add: c'_def console_step_parts)
  then show ?thesis using p assms(2) by (auto simp: shown_def)
qed

lemma run_append: "run step (es @ fs) s = (let (s', f) = run step es s; (s'', g) = run step fs s' in (s'', f @ g))"
  by (induction es arbitrary: s) (simp_all add: split_def Let_def)

lemma possible_append: "possible en step (es @ fs) s \<longleftrightarrow> possible en step es s \<and> possible en step fs (fst (run step es s))"
  by (induction es arbitrary: s) (simp_all add: split_def Let_def)



end
