(* ===== verification/ControlPlane.thy ===== *)
theory ControlPlane
  imports SettingsPage NodeDetail Security SitePage
begin

text \<open>
  The other side of the interface: how the control plane (Go, internal/control and internal/domain) reads and checks what
  the console's forms send, for rate limits, the two forms of a node, the global defaults and the numbers of a site.
  Every check of the server is compared with the rules of the form in front of it: what the console can send is accepted,
  up to the differences the theorems name.
\<close>

section \<open>Reading a body\<close>

text \<open>
  \<open>encoding/json\<close> with \<open>DisallowUnknownFields\<close>: a member into an \<open>int\<close> of 64 bits, a \<open>string\<close>, a \<open>bool\<close>, a slice of
  ints; \<open>null\<close> and a missing member leave the zero value, anything else is an error.  Member names are compared exactly:
  the decoder would also take another case of a letter, which the console does not send.
\<close>

fun go_int :: "json \<Rightarrow> int option" where
  "go_int (JInt n) = (if - (2 ^ 63) \<le> n \<and> n < 2 ^ 63 then Some n else None)"
| "go_int JNull = Some 0"
| "go_int v = None"

fun go_string :: "json \<Rightarrow> string option" where
  "go_string (JString s) = Some s"
| "go_string JNull = Some []"
| "go_string v = None"

fun go_bool :: "json \<Rightarrow> bool option" where
  "go_bool (JBool b) = Some b"
| "go_bool JNull = Some False"
| "go_bool v = None"

fun go_ints :: "json \<Rightarrow> int list option" where
  "go_ints (JArray vs) = those (map go_int vs)"
| "go_ints JNull = Some []"
| "go_ints v = None"

definition field :: "(json \<Rightarrow> 'a option) \<Rightarrow> 'a \<Rightarrow> string \<Rightarrow> (string \<times> json) list \<Rightarrow> 'a option" where
  "field dec zero k ms = (case obj_get k ms of None \<Rightarrow> Some zero | Some v \<Rightarrow> dec v)"

text \<open>\<open>readJSON\<close>: the members of an object with known names only, none of \<open>null\<close>, or a bad request.\<close>

definition readJSON :: "string list \<Rightarrow> json \<Rightarrow> (string \<times> json) list option" where
  "readJSON known v =
     (case v of
        JObject ms \<Rightarrow> if list_all (\<lambda>(k, x). k \<in> set known) ms then Some ms else None
      | JNull \<Rightarrow> Some []
      | _ \<Rightarrow> None)"

section \<open>strings.TrimSpace\<close>

text \<open>Unicode's white space, which has U+0085 beside the characters of \<open>trim\<close> and not U+FEFF; \<open>len\<close> counts bytes.\<close>

definition go_ws2 :: "char \<Rightarrow> char \<Rightarrow> bool" where
  "go_ws2 c d \<longleftrightarrow> byte c = 194 \<and> byte d \<in> {133, 160}"

definition go_ws3 :: "char \<Rightarrow> char \<Rightarrow> char \<Rightarrow> bool" where
  "go_ws3 c d e \<longleftrightarrow> ws3 c d e \<and> byte c \<noteq> 239"

fun go_trim_left :: "string \<Rightarrow> string" where
  "go_trim_left (c # s) =
     (if ws1 c then go_trim_left s
      else case s of
        d # e # t \<Rightarrow> if go_ws2 c d then go_trim_left (e # t) else if go_ws3 c d e then go_trim_left t else c # s
      | [d] \<Rightarrow> if go_ws2 c d then [] else c # s
      | [] \<Rightarrow> c # s)"
| "go_trim_left [] = []"

fun go_trim_right_rev :: "string \<Rightarrow> string" where
  "go_trim_right_rev (e # s) =
     (if ws1 e then go_trim_right_rev s
      else case s of
        d # c # t \<Rightarrow> if go_ws2 d e then go_trim_right_rev (c # t) else if go_ws3 c d e then go_trim_right_rev t else e # s
      | [d] \<Rightarrow> if go_ws2 d e then [] else e # s
      | [] \<Rightarrow> e # s)"
| "go_trim_right_rev [] = []"

definition TrimSpace :: "string \<Rightarrow> string" where
  "TrimSpace s = rev (go_trim_right_rev (rev (go_trim_left s)))"

section \<open>Rate limits\<close>

record rate_limit_request =
  rlr_name :: string
  rlr_enabled :: bool
  rlr_rps :: int
  rlr_conditional :: bool
  rlr_classes :: "int list"
  rlr_ban_enabled :: bool
  rlr_ban_after :: int
  rlr_ban_duration :: int

definition read_rate_limit :: "json \<Rightarrow> rate_limit_request option" where
  "read_rate_limit v =
     Option.bind (readJSON [''name'', ''enabled'', ''requests_per_second'', ''response_condition_enabled'', ''response_status_classes'',
       ''ban_enabled'', ''ban_after_consecutive_429'', ''ban_duration_seconds''] v) (\<lambda>ms.
     Option.bind (field go_string [] ''name'' ms) (\<lambda>nm.
     Option.bind (field go_bool False ''enabled'' ms) (\<lambda>en.
     Option.bind (field go_int 0 ''requests_per_second'' ms) (\<lambda>rps.
     Option.bind (field go_bool False ''response_condition_enabled'' ms) (\<lambda>cond.
     Option.bind (field go_ints [] ''response_status_classes'' ms) (\<lambda>cs.
     Option.bind (field go_bool False ''ban_enabled'' ms) (\<lambda>ban.
     Option.bind (field go_int 0 ''ban_after_consecutive_429'' ms) (\<lambda>after.
     Option.bind (field go_int 0 ''ban_duration_seconds'' ms) (\<lambda>dur.
       Some \<lparr>rlr_name = nm, rlr_enabled = en, rlr_rps = rps, rlr_conditional = cond, rlr_classes = cs,
             rlr_ban_enabled = ban, rlr_ban_after = after, rlr_ban_duration = dur\<rparr>)))))))))"

definition SecurityBanDurations :: "int list" where
  "SecurityBanDurations = [3600, 21600, 43200, 86400, 259200, 604800]"

definition ValidSecurityBanDuration :: "int \<Rightarrow> bool" where
  "ValidSecurityBanDuration seconds \<longleftrightarrow> list_ex (\<lambda>allowed. seconds = allowed) SecurityBanDurations"

text \<open>The loop over the sorted classes, with what it has kept so far: out of range is an error, a repeated one is dropped.\<close>

fun normalize_classes :: "int list \<Rightarrow> int list \<Rightarrow> string + int list" where
  "normalize_classes kept [] = Inr kept"
| "normalize_classes kept (class # classes) =
     (if class < 2 \<or> 5 < class then Inl ''rate limit response status class must be between 2xx and 5xx''
      else if kept = [] \<or> last kept \<noteq> class then normalize_classes (kept @ [class]) classes
      else normalize_classes kept classes)"

definition default_if_zero :: "int \<Rightarrow> int \<Rightarrow> int" where
  "default_if_zero d v = (if v = 0 then d else v)"

text \<open>The policy without its key, which is always the client's address.\<close>

definition NormalizeRateLimitPolicy :: "rate_limit_request \<Rightarrow> string + rate_limit_request" where
  "NormalizeRateLimitPolicy p0 =
     (let p = p0\<lparr>rlr_name := TrimSpace (rlr_name p0), rlr_ban_after := default_if_zero 3 (rlr_ban_after p0),
                 rlr_ban_duration := default_if_zero 3600 (rlr_ban_duration p0)\<rparr>
      in if rlr_name p = [] \<or> 80 < length (rlr_name p) then Inl ''rate limit policy name must be 1-80 characters''
         else if rlr_rps p < 1 \<or> 100000 < rlr_rps p then Inl ''rate limit requests per second is out of range''
         else if rlr_ban_after p < 1 \<or> 100 < rlr_ban_after p then Inl ''rate limit consecutive 429 ban threshold is out of range''
         else if \<not> ValidSecurityBanDuration (rlr_ban_duration p) then Inl ''rate limit ban duration is not supported''
         else if \<not> rlr_conditional p then
           (if rlr_ban_enabled p then Inl ''rate limit IP ban requires a response condition'' else Inr (p\<lparr>rlr_classes := []\<rparr>))
         else if rlr_classes p = [] then Inl ''rate limit response condition requires at least one status class''
         else (case normalize_classes [] (sort (rlr_classes p)) of
                 Inl e \<Rightarrow> Inl e
               | Inr cs \<Rightarrow>
                   if rlr_ban_enabled p \<and> list_ex (\<lambda>c. c \<noteq> 4 \<and> c \<noteq> 5) cs
                   then Inl ''rate limit IP ban response conditions are limited to 4xx and 5xx''
                   else Inr (p\<lparr>rlr_classes := cs\<rparr>)))"

text \<open>The handlers of a creation and an update, up to the store: a body that cannot be read is an error of its own.\<close>

definition accept_rate_limit :: "json \<Rightarrow> string + rate_limit_request" where
  "accept_rate_limit v =
     (case read_rate_limit v of None \<Rightarrow> Inl ''json'' | Some p \<Rightarrow> NormalizeRateLimitPolicy p)"

section \<open>The forms of a node\<close>

definition NormalizeNginxCapacity :: "nginx_capacity \<Rightarrow> string + nginx_capacity" where
  "NormalizeNginxCapacity v0 =
     (let v = v0\<lparr>nc_worker_connections := default_if_zero 4096 (nc_worker_connections v0),
                 nc_worker_rlimit_nofile := default_if_zero 65536 (nc_worker_rlimit_nofile v0)\<rparr>
      in if nc_worker_processes v < 0 \<or> 128 < nc_worker_processes v
         then Inl ''Nginx worker processes must be auto or between 1 and 128''
         else if nc_worker_connections v < 256 \<or> 65535 < nc_worker_connections v
         then Inl ''Nginx worker connections must be between 256 and 65535''
         else if nc_worker_rlimit_nofile v < 1024 \<or> 65536 < nc_worker_rlimit_nofile v
         then Inl ''Nginx worker file limit must be between 1024 and 65536''
         else if nc_worker_rlimit_nofile v < nc_worker_connections v
         then Inl ''Nginx worker file limit must be at least the worker connection count''
         else Inr v)"

definition accept_capacity :: "json \<Rightarrow> string + nginx_capacity" where
  "accept_capacity v =
     (case Option.bind (readJSON [''worker_processes'', ''worker_connections'', ''worker_rlimit_nofile''] v) (\<lambda>ms.
        Option.bind (field go_int 0 ''worker_processes'' ms) (\<lambda>p.
        Option.bind (field go_int 0 ''worker_connections'' ms) (\<lambda>c.
        Option.bind (field go_int 0 ''worker_rlimit_nofile'' ms) (\<lambda>n.
          Some \<lparr>nc_worker_processes = p, nc_worker_connections = c, nc_worker_rlimit_nofile = n\<rparr>)))) of
        None \<Rightarrow> Inl ''json'' | Some c \<Rightarrow> NormalizeNginxCapacity c)"

definition ValidateCacheMaxSizeGB :: "int \<Rightarrow> string option" where
  "ValidateCacheMaxSizeGB v = (if v < 1 \<or> 1024 < v then Some ''cache maximum size must be between 1 and 1024 GB'' else None)"

text \<open>\<open>optionalNullableInt\<close>: \<open>null\<close> stands for the global default, a missing member is an error.\<close>

definition accept_quota :: "json \<Rightarrow> string + int option" where
  "accept_quota v =
     (case readJSON [''cache_max_size_gb''] v of
        None \<Rightarrow> Inl ''json''
      | Some ms \<Rightarrow>
          (case obj_get ''cache_max_size_gb'' ms of
             None \<Rightarrow> Inl ''cache_max_size_gb is required''
           | Some JNull \<Rightarrow> Inr None
           | Some x \<Rightarrow>
               (case go_int x of
                  None \<Rightarrow> Inl ''json''
                | Some n \<Rightarrow> (case ValidateCacheMaxSizeGB n of Some e \<Rightarrow> Inl e | None \<Rightarrow> Inr (Some n)))))"

section \<open>The global defaults\<close>

definition ValidateDNSTTLSeconds :: "int \<Rightarrow> string option" where
  "ValidateDNSTTLSeconds v = (if v < 60 \<or> 300 < v then Some ''DNS TTL must be between 60 and 300 seconds'' else None)"

definition accept_number :: "string \<Rightarrow> (int \<Rightarrow> string option) \<Rightarrow> json \<Rightarrow> string + int" where
  "accept_number k check v =
     (case Option.bind (readJSON [k] v) (field go_int 0 k) of
        None \<Rightarrow> Inl ''json'' | Some n \<Rightarrow> (case check n of Some e \<Rightarrow> Inl e | None \<Rightarrow> Inr n))"

definition accept_dns :: "json \<Rightarrow> string + int" where
  "accept_dns = accept_number ''default_ttl_seconds'' ValidateDNSTTLSeconds"

definition accept_cache :: "json \<Rightarrow> string + int" where
  "accept_cache = accept_number ''default_size_gb'' ValidateCacheMaxSizeGB"

section \<open>The numbers of a site\<close>

text \<open>A member into a pointer: missing and \<open>null\<close> are no value; the outer option is the decoder's error.\<close>

definition optional_int :: "string \<Rightarrow> (string \<times> json) list \<Rightarrow> int option option" where
  "optional_int k ms =
     (case obj_get k ms of None \<Rightarrow> Some None | Some JNull \<Rightarrow> Some None | Some v \<Rightarrow> map_option Some (go_int v))"

definition ValidateClientMaxBodySizeMB :: "int \<Rightarrow> string option" where
  "ValidateClientMaxBodySizeMB v =
     (if v \<in> {128, 256, 512, 1024} then None else Some ''client max body size must be one of 128, 256, 512, or 1024 MiB'')"

definition ValidateReadWriteTimeoutSeconds :: "int \<Rightarrow> string option" where
  "ValidateReadWriteTimeoutSeconds v =
     (if v \<in> {120, 360, 900, 1800, 3600} then None
      else Some ''read/write timeout must be one of 120, 360, 900, 1800, or 3600 seconds'')"

definition ValidateClientKeepaliveTimeoutSeconds :: "int \<Rightarrow> string option" where
  "ValidateClientKeepaliveTimeoutSeconds v =
     (if v < 15 \<or> 3600 < v then Some ''client keepalive timeout must be between 15 and 3600 seconds'' else None)"

text \<open>
  The three checks with which the handlers of a creation and an update of a site begin, in their order, on the members
  they read; the first failure is the answer.  The other members are not looked at here.
\<close>

definition check_site_numbers :: "json \<Rightarrow> string option" where
  "check_site_numbers v =
     (let ms = (case v of JObject ms \<Rightarrow> ms | _ \<Rightarrow> []) in
      case (optional_int ''client_max_body_size_mb'' ms, optional_int ''read_write_timeout_seconds'' ms,
            optional_int ''client_keepalive_timeout_seconds'' ms) of
        (Some body, Some rw, Some keepalive) \<Rightarrow>
          (case Option.bind body ValidateClientMaxBodySizeMB of Some e \<Rightarrow> Some e
           | None \<Rightarrow> (case Option.bind rw ValidateReadWriteTimeoutSeconds of Some e \<Rightarrow> Some e
           | None \<Rightarrow> Option.bind keepalive ValidateClientKeepaliveTimeoutSeconds))
      | _ \<Rightarrow> Some ''json'')"

section \<open>What the decoder makes of the console's bodies\<close>

lemma go_int_small [simp]: "\<bar>n\<bar> < 2 ^ 63 \<Longrightarrow> go_int (JInt n) = Some n"
  by (auto simp: abs_less_iff)

lemma go_int_value: "go_int (JInt n) = Some m \<Longrightarrow> m = n"
  by (simp split: if_splits)

lemma go_ints_small: "\<forall>n \<in> set ns. \<bar>n\<bar> < 2 ^ 63 \<Longrightarrow> go_ints (JArray (map JInt ns)) = Some ns"
  by (induction ns) (auto simp del: go_int.simps)

lemma normalize_classes_in_range:
  "list_all (\<lambda>c. 2 \<le> c \<and> c \<le> 5) cs \<Longrightarrow>
     normalize_classes kept cs = Inr (if kept = [] then remdups_adj cs else butlast kept @ remdups_adj (last kept # cs))"
proof (induction cs arbitrary: kept)
  case (Cons c cs)
  then show ?case
    by (cases kept rule: rev_cases) (auto simp: butlast_append)
qed simp

lemma read_rate_body:
  assumes "1 \<le> rf_rps f" "rf_rps f \<le> 100000" "set (rf_classes f) \<subseteq> {2..5}" "rf_banDuration f \<in> insert 0 (set SecurityBanDurations)"
  shows "read_rate_limit (rate_body f) = map_option (\<lambda>n.
      \<lparr>rlr_name = rf_name f, rlr_enabled = rf_enabled f, rlr_rps = rf_rps f, rlr_conditional = rf_conditional f,
       rlr_classes = (if rf_conditional f then rf_classes f else []), rlr_ban_enabled = rf_banEnabled f, rlr_ban_after = n,
       rlr_ban_duration = rf_banDuration f\<rparr>) (go_int (JInt (rf_banAfter f)))"
proof -
  have "go_ints (JArray (map JInt (if rf_conditional f then rf_classes f else []))) = Some (if rf_conditional f then rf_classes f else [])"
    using assms(3) by (intro go_ints_small) (force split: if_splits)
  moreover have "go_int (JInt (rf_rps f)) = Some (rf_rps f)" "go_int (JInt (rf_banDuration f)) = Some (rf_banDuration f)"
    using assms(1,2,4) by (auto simp: SecurityBanDurations_def)
  ultimately show ?thesis
    by (simp add: read_rate_limit_def rate_body_def readJSON_def field_def obj_get_def option.map_comp del: go_int.simps go_ints.simps)
       (simp add: map_option_case split: option.split)
qed

section \<open>What the console sends is accepted\<close>

text \<open>The limits that only the server applies to a rate limit: the bytes of the trimmed name, and a threshold in a field not shown.\<close>

definition rate_limit_fits :: "rate_form \<Rightarrow> bool" where
  "rate_limit_fits f \<longleftrightarrow> TrimSpace (rf_name f) \<noteq> [] \<and> length (TrimSpace (rf_name f)) \<le> 80 \<and> (rf_banEnabled f \<or> rf_banAfter f \<in> {0..100})"

definition stored_rate_limit :: "rate_form \<Rightarrow> rate_limit_request" where
  "stored_rate_limit f =
     \<lparr>rlr_name = TrimSpace (rf_name f), rlr_enabled = rf_enabled f, rlr_rps = rf_rps f, rlr_conditional = rf_conditional f,
      rlr_classes = (if rf_conditional f then remdups_adj (sort (rf_classes f)) else []), rlr_ban_enabled = rf_banEnabled f,
      rlr_ban_after = default_if_zero 3 (rf_banAfter f), rlr_ban_duration = default_if_zero 3600 (rf_banDuration f)\<rparr>"

lemma valid_duration: "d \<in> insert 0 (set SecurityBanDurations) \<Longrightarrow> ValidSecurityBanDuration (default_if_zero 3600 d)"
  by (auto simp: ValidSecurityBanDuration_def default_if_zero_def SecurityBanDurations_def)

lemma classes_in_range: "set cs \<subseteq> {2..5} \<Longrightarrow> normalize_classes [] (sort cs) = Inr (remdups_adj (sort cs))"
  using normalize_classes_in_range [of "sort cs" "[]"] by (fastforce simp: list_all_iff)

lemma accept_rate_body:
  assumes "rate_valid f" "set (rf_classes f) \<subseteq> {2..5}" "rf_banDuration f \<in> insert 0 (set SecurityBanDurations)"
  shows "(\<exists>p. accept_rate_limit (rate_body f) = Inr p) \<longleftrightarrow> rate_limit_fits f"
    "rate_limit_fits f \<Longrightarrow> accept_rate_limit (rate_body f) = Inr (stored_rate_limit f)"
proof -
  have r: "1 \<le> rf_rps f" "rf_rps f \<le> 100000" and ban: "rf_banEnabled f \<Longrightarrow> 1 \<le> rf_banAfter f \<and> rf_banAfter f \<le> 100"
    using assms(1) by (simp_all add: rate_valid_def)
  note body = read_rate_body [OF r assms(2,3)]
  note policy = NormalizeRateLimitPolicy_def Let_def classes_in_range [OF assms(2)] valid_duration [OF assms(3)]
  have after: "default_if_zero 3 n < 1 \<or> 100 < default_if_zero 3 n \<longleftrightarrow> n \<notin> {0..100}" for n
    by (auto simp: default_if_zero_def)
  show s: "accept_rate_limit (rate_body f) = Inr (stored_rate_limit f)" if fits: "rate_limit_fits f"
  proof -
    have n: "go_int (JInt (rf_banAfter f)) = Some (rf_banAfter f)" and a: "rf_banAfter f \<in> {0..100}"
      using fits ban by (auto simp: rate_limit_fits_def)
    have "\<not> list_ex (\<lambda>c. c \<noteq> 4 \<and> c \<noteq> 5) (remdups_adj (sort (rf_classes f)))" if "rf_banEnabled f"
      using assms(1) that by (auto simp: rate_valid_def list_ex_iff)
    then show ?thesis using assms(1) fits r a after [of "rf_banAfter f"]
      by (auto simp: accept_rate_limit_def body n policy stored_rate_limit_def rate_limit_fits_def rate_valid_def simp del: go_int.simps)
  qed
  show "(\<exists>p. accept_rate_limit (rate_body f) = Inr p) \<longleftrightarrow> rate_limit_fits f"
  proof
    assume "\<exists>p. accept_rate_limit (rate_body f) = Inr p"
    then show "rate_limit_fits f" using ban after [of "rf_banAfter f"]
      by (auto dest!: go_int_value simp: accept_rate_limit_def body policy rate_limit_fits_def simp del: go_int.simps split: option.splits if_splits)
  qed (use s in blast)
qed

text \<open>
  C22. Whatever rate limit the console sends, with response classes and a ban duration of those the console knows, the
  control plane accepts exactly if its trimmed name has 1 to 80 bytes and, when there is no ban, the threshold left in the
  hidden field is at most 100; and what it then stores is what the form shows, with the name trimmed and the classes sorted.
\<close>

theorem rate_limit_accepted:
  assumes "security_enabled s SubmitRate" "sec_rate s = Some f" "set (rf_classes f) \<subseteq> {2..5}"
    "rf_banDuration f \<in> insert 0 (set SecurityBanDurations)"
  shows "\<exists>r v. snd (security_step SubmitRate s) = [Send r] \<and> sent_json r = Some v \<and>
    ((\<exists>p. accept_rate_limit v = Inr p) \<longleftrightarrow> rate_limit_fits f) \<and>
    (rate_limit_fits f \<longrightarrow> accept_rate_limit v = Inr (stored_rate_limit f))"
proof -
  have o: "offers (SecurityPage s) SubmitRate" using assms(1) by simp
  have "fires (RateDialogShell f) SubmitRate"
    using offers_SecurityPage [OF o] offers_security_body [of s SubmitRate] fires_PolicyDialogShell [of _ SubmitRate] assms(2) by auto
  then have v: "rate_valid f" by (rule fires_rate_submit [THEN conjunct2])
  have "sent_json (rate_request (sec_csrf s) f) = Some (rate_body f)" by (simp add: rate_request_def split: option.splits)
  then show ?thesis using accept_rate_body [OF v assms(3,4)] assms(2) by simp
qed

theorem rate_limit_accepted_witness:
  "accept_rate_limit (rate_body sample_rate) = Inr (stored_rate_limit sample_rate)"
proof -
  let ?s = "(security_init ''t'')\<lparr>sec_rate := Some sample_rate\<rparr>"
  have "js_length ''api'' = 3" "int_literal ''20''" "read_int ''20'' = 20" "int_str 20 = ''20''" by code_simp+
  then have en: "security_enabled ?s SubmitRate"
    by (simp add: SecurityPage_def RateDialogShell_def sample_rate_def open_rate_form_def security_init_def
        num_input_def field_ok_def rate_submit_disabled_def)
  have "TrimSpace ''api'' = ''api''" by code_simp
  then have fits: "rate_limit_fits sample_rate" by (simp add: rate_limit_fits_def sample_rate_def open_rate_form_def)
  have "sent_json (rate_request ''t'' sample_rate) = Some (rate_body sample_rate)" by (simp add: rate_request_def split: option.split)
  then show ?thesis
    using rate_limit_accepted [OF en, of sample_rate] fits
    by (simp add: security_init_def) (simp add: sample_rate_def open_rate_form_def SecurityBanDurations_def)
qed

text \<open>A name of blanks, one of 41 two-byte letters and a threshold of 101 behind a switched-off ban are valid in the form and refused.\<close>

lemma valid_but_refused:
  defines "blank \<equiv> sample_rate\<lparr>rf_name := ''  ''\<rparr>" and "accents \<equiv> sample_rate\<lparr>rf_name := concat (replicate 41 [CHR 0xC3, CHR 0xA9])\<rparr>"
    and "hidden \<equiv> sample_rate\<lparr>rf_banAfter := 101\<rparr>"
  shows "rate_valid blank \<and> \<not> rate_limit_fits blank" "rate_valid accents \<and> \<not> rate_limit_fits accents"
    "rate_valid hidden \<and> \<not> rate_limit_fits hidden"
  unfolding blank_def accents_def hidden_def by code_simp+

lemma accept_capacity_body:
  assumes "capacity_valid c"
  shows "accept_capacity (capacity_body c) =
    (if nc_worker_rlimit_nofile c < nc_worker_connections c
     then Inl ''Nginx worker file limit must be at least the worker connection count'' else Inr c)"
  using assms
  by (cases c) (simp add: accept_capacity_def capacity_body_def readJSON_def field_def obj_get_def capacity_valid_def
      NormalizeNginxCapacity_def default_if_zero_def)

text \<open>
  C24. What the two forms of a node send the control plane accepts, the quota always and as it was entered, the capacity
  exactly if the file limit is not below the number of connections, which the form does not ask for.
\<close>

theorem node_settings_accepted:
  assumes "node_enabled s e" "e = SubmitQuota \<or> e = SubmitCapacity"
  shows "\<exists>r v. snd (node_step e s) = [Send r] \<and> sent_json r = Some v \<and>
    (e = SubmitQuota \<longrightarrow> (\<exists>f. np_quota s = Some f \<and> accept_quota v = Inr (if qf_override f then Some (qf_size f) else None))) \<and>
    (e = SubmitCapacity \<longrightarrow> (\<exists>f. np_capacity s = Some f \<and>
       (accept_capacity v = Inr (cf_draft f) \<longleftrightarrow> nc_worker_connections (cf_draft f) \<le> nc_worker_rlimit_nofile (cf_draft f)) \<and>
       (\<forall>c. accept_capacity v = Inr c \<longrightarrow> c = cf_draft f)))"
proof -
  have g: "guard s e" using assms by (intro node_guard) auto
  from assms(2) show ?thesis
  proof
    assume e: "e = SubmitQuota"
    then obtain f where f: "np_quota s = Some f" "quota_valid f" using g by auto
    then have "accept_quota (quota_body f) = Inr (if qf_override f then Some (qf_size f) else None)"
      by (auto simp: accept_quota_def quota_body_def readJSON_def obj_get_def quota_valid_def ValidateCacheMaxSizeGB_def)
    then show ?thesis using e f by (simp add: quota_request_def quota_body_def)
  next
    assume e: "e = SubmitCapacity"
    then obtain f where f: "np_capacity s = Some f" "capacity_valid (cf_draft f)" using g by auto
    let ?c = "cf_draft f"
    note accept_capacity_body [OF f(2)]
    then show ?thesis using e f by (auto simp: capacity_request_def) (simp_all add: capacity_body_def)
  qed
qed

theorem node_settings_accepted_witness: "accept_quota (quota_body (open_quota (nd_cache sample_detail))) = Inr (Some 20)"
proof -
  have l: "int_literal ''20''" "int_str 20 = ''20''" "read_int ''20'' = 20" by code_simp+
  have "fires (CacheQuotaSettings (open_quota (nd_cache sample_detail))) SubmitQuota"
    using l by (simp add: CacheQuotaSettings_def open_quota_def sample_detail_def field_ok_def)
  then have "node_enabled sample_node_page SubmitQuota" by (simp add: sample_card)
  from node_settings_accepted [OF this disjI1 [OF refl]] show ?thesis
    by (simp add: sample_node_facts quota_request_def) (simp add: open_quota_def sample_detail_def quota_body_def)
qed

text \<open>
  The global defaults the console saves are always accepted, and stored as they were entered.
\<close>

theorem defaults_accepted:
  assumes "settings_enabled s (RunOp n Save)" "n = DNS \<or> n = CacheQuota"
  shows "\<exists>r v. form_request n Save s = Some r \<and> sent_json r = Some v \<and>
    (n = DNS \<longrightarrow> accept_dns v = Inr (nf_value (the (sp_dns s)))) \<and>
    (n = CacheQuota \<longrightarrow> accept_cache v = Inr (nf_value (the (sp_cache s))))"
proof -
  have v: "form_valid s n Save" using assms(1) offers_SettingsPage [of s "RunOp n Save"] by simp
  have "accept_dns (JObject [(''default_ttl_seconds'', JInt k)]) = Inr k" if "60 \<le> k" "k \<le> 300" for k
    using that by (simp add: accept_dns_def accept_number_def readJSON_def field_def obj_get_def ValidateDNSTTLSeconds_def)
  moreover have "accept_cache (JObject [(''default_size_gb'', JInt k)]) = Inr k" if "1 \<le> k" "k \<le> 1024" for k
    using that by (simp add: accept_cache_def accept_number_def readJSON_def field_def obj_get_def ValidateCacheMaxSizeGB_def)
  ultimately show ?thesis using v assms(2) by (auto simp: form_request_def dns_request_def cache_request_def)
qed

theorem defaults_accepted_witness:
  "accept_dns (JObject [(''default_ttl_seconds'', JInt 120)]) = Inr 120"
proof -
  have l: "int_literal ''120''" "int_str 120 = ''120''" "read_int ''120'' = 120" by code_simp+
  have "fires (DNSForm (open_number (dns_key sample_settings) 120) EditDNS (RunOp DNS Save)) (RunOp DNS Save)"
    by (simp add: DNSForm_def NumberForm_def open_number_def field_ok_def l)
  then have "settings_enabled sample_network (RunOp DNS Save)"
    using sample_network_offers by (simp add: settings_forms_def sample_network_parts)
  from defaults_accepted [OF this disjI1 [OF refl]] show ?thesis
    by (simp add: form_request_def sample_network_parts dns_request_def open_number_def)
qed

text \<open>No part of the site's form submits it; the form does, when all its fields are valid.\<close>

lemma no_part_submits:
  "\<not> fires (BasicSettings d SetDraft) Submit" "\<not> fires (TrafficSettings d SetDraft) Submit"
  "\<not> fires (NodeSelector ns ids i (\<lambda>ids. SetDraft (g ids)) (TurnPage j)) Submit"
  "\<not> fires (TCPForwards d SetDraft i (TurnPage j)) Submit"
  "\<not> fires (SiteOperations x ns t p del w i j (TurnPage k) (TurnPage l) Op OpenAllow OpenDelete) Submit"
  by (auto simp: fires_BasicSettings dest!: fires_TrafficSettings fires_NodeSelector fires_TCPForwards fires_SiteOperations)

lemma site_form_numbers:
  assumes "fires (site_form s) Submit" "\<not> dr_tcp_only (sg_draft s)"
  shows "1 \<le> dr_client_max_body_size_mb (sg_draft s)" "dr_client_max_body_size_mb (sg_draft s) \<le> 1024"
    "15 \<le> dr_client_keepalive_timeout_seconds (sg_draft s)" "dr_client_keepalive_timeout_seconds (sg_draft s) \<le> 3600"
    "1 \<le> dr_read_write_timeout_seconds (sg_draft s)"
proof -
  have "fields_ok (TrafficSettings (sg_draft s) SetDraft)"
    using assms(1) unfolding site_form_def Let_def by (auto simp: no_part_submits split: option.splits)
  then show "1 \<le> dr_client_max_body_size_mb (sg_draft s)" "dr_client_max_body_size_mb (sg_draft s) \<le> 1024"
    "15 \<le> dr_client_keepalive_timeout_seconds (sg_draft s)" "dr_client_keepalive_timeout_seconds (sg_draft s) \<le> 3600"
    "1 \<le> dr_read_write_timeout_seconds (sg_draft s)"
    using assms(2) by (simp_all add: TrafficSettings_def num_field_def field_ok_def)
qed

lemma payload_numbers:
  "\<exists>ms. payload_json p = JObject ms \<and> obj_get ''client_max_body_size_mb'' ms = Some (JInt (pl_client_max_body_size_mb p)) \<and>
     obj_get ''client_keepalive_timeout_seconds'' ms = Some (JInt (pl_client_keepalive_timeout_seconds p)) \<and>
     obj_get ''read_write_timeout_seconds'' ms = Some (JInt (pl_read_write_timeout_seconds p))"
  by (cases "pl_backup_origin p") (simp_all add: payload_json_def obj_get_def)

lemma check_payload_numbers:
  assumes "1 \<le> b" "b \<le> 1024" "15 \<le> k" "k \<le> 3600" "pl_client_max_body_size_mb p = b"
    "pl_client_keepalive_timeout_seconds p = k" "pl_read_write_timeout_seconds p = rw"
  shows "check_site_numbers (payload_json p) = None \<longleftrightarrow> b \<in> {128, 256, 512, 1024} \<and> rw \<in> {120, 360, 900, 1800, 3600}"
proof -
  obtain ms where ms: "payload_json p = JObject ms" "optional_int ''client_max_body_size_mb'' ms = Some (Some b)"
    "optional_int ''client_keepalive_timeout_seconds'' ms = Some (Some k)"
    "optional_int ''read_write_timeout_seconds'' ms = map_option Some (go_int (JInt rw))"
    using payload_numbers [of p] assms by (auto simp: optional_int_def)
  have "go_int (JInt rw) = None \<longrightarrow> rw \<notin> {120, 360, 900, 1800, 3600}" by auto
  then show ?thesis using ms assms(3,4) go_int_value [of rw]
    by (cases "go_int (JInt rw)")
      (simp_all add: check_site_numbers_def ValidateClientMaxBodySizeMB_def ValidateReadWriteTimeoutSeconds_def
        ValidateClientKeepaliveTimeoutSeconds_def del: go_int.simps)
qed


text \<open>A new site with a body size the field takes and the server refuses.\<close>

lemma sample_numbers: "int_literal ''200''" "int_str 200 = ''200''" "read_int ''200'' = 200" "int_literal ''120''" "int_str 120 = ''120''"
  "read_int ''120'' = 120" "int_literal ''90''" "int_str 90 = ''90''" "read_int ''90'' = 90" "js_length ''Main'' = 4" "tls_url ''https://o''"
  by code_simp+

definition odd_site :: site_page where
  "odd_site = (site_init (sample_env\<lparr>se_siteId := None\<rparr>))\<lparr>sg_draft := (draftFromSite sample_site 60)\<lparr>dr_client_max_body_size_mb := 200\<rparr>\<rparr>"

lemma odd_site_parts:
  "page_site odd_site = None" "isNew odd_site" "\<not> page_loading odd_site" "\<not> sg_save odd_site" "q_data (se_nodes (sg_env odd_site)) = Some []"
  "dr_tcp_forwards (sg_draft odd_site) = []" "dr_client_max_body_size_mb (sg_draft odd_site) = 200" "\<not> dr_tcp_only (sg_draft odd_site)"
  by (simp_all add: odd_site_def page_site_def page_loading_def isNew_def site_init_def load_effect_def Let_def)
    (simp_all add: sample_env_def sample_site_def q_loading_def draftFromSite_def)

lemma fires_valid_form: "\<not> d \<Longrightarrow> \<forall>v \<in> set vs. fields_ok v \<Longrightarrow> fires (Form vs l d e) e"
  by (simp add: list_all_iff)

lemma odd_site_sent: "site_enabled odd_site Submit"
proof -
  have "fields_ok (TrafficSettings (sg_draft odd_site) SetDraft)" "fields_ok (BasicSettings (sg_draft odd_site) SetDraft)"
    by (simp_all add: odd_site_def draftFromSite_def sample_site_def TrafficSettings_def BasicSettings_def num_field_def
        OriginFields_def field_ok_def sample_numbers)
  moreover have "fields_ok (NodeSelector [] ids i f g)" "fields_ok (TCPForwards (sg_draft odd_site) h i g)" for ids i f g h
    by (simp_all add: NodeSelector_def TCPForwards_def odd_site_parts EmptyState_def split: option.split)
  moreover have "list_all fields_ok (summary_card odd_site)"
    by (simp add: summary_card_def Let_def only_if_def Fact_def)
  ultimately have "fires (site_form odd_site) Submit"
    unfolding site_form_def Let_def by (intro fires_valid_form) (auto simp: odd_site_parts list_all_iff)
  then show ?thesis by (simp add: SiteDetailPage_def Let_def odd_site_parts)
qed

end
