(* ===== verification/Kit.thy ===== *)
theory Kit
  imports View
begin

text \<open>
  Elements of the UI kit (frontend/src/components/ui): what a component of the kit makes of the properties its caller
  gives it.  An element is a tag with its properties and children; the tags are those of HTML, the primitives of radix-ui
  by their names, the icons, and \<open>Slot.Root\<close>, the element that hands its properties to its only child.  A component is a
  function of its properties and its children.  The libraries that make class names are a parameter: \<open>clsx\<close> and
  \<open>tailwind-merge\<close> behind lib/utils.ts, and \<open>class-variance-authority\<close>.  A handler is the list of events it raises, of a truth value
  or a text where it is called with one.
\<close>

section \<open>Elements\<close>

datatype 'e attr =
    Undefined | Str string | Boo bool | Num int
  | Obj "(string \<times> 'e attr) list" | Elems "'e elem list"
  | Han "'e list" | HanB "bool \<Rightarrow> 'e list" | HanS "string \<Rightarrow> 'e list"
and 'e elem =
    Text ui_text | El string "(string \<times> 'e attr) list" "'e elem list"

type_synonym 'e props = "(string \<times> 'e attr) list"

text \<open>Reading a property that is not there gives undefined.\<close>

fun attr_of :: "string \<Rightarrow> 'e props \<Rightarrow> 'e attr" where
  "attr_of k [] = Undefined"
| "attr_of k ((j, v) # p) = (if j = k then v else attr_of k p)"

definition keys_of :: "'e props \<Rightarrow> string set" where
  "keys_of p = fst ` set p"

text \<open>
  The rest of a destructured object, and a spread after properties of the element's own: what is given replaces them,
  also where it is given as undefined.
\<close>

definition omit :: "string list \<Rightarrow> 'e props \<Rightarrow> 'e props" where
  "omit ks p = filter (\<lambda>(k, v). k \<notin> set ks) p"

definition spread_over :: "'e props \<Rightarrow> 'e props \<Rightarrow> 'e props" where
  "spread_over own rest = filter (\<lambda>(k, v). k \<notin> keys_of rest) own @ rest"

fun js_truthy :: "'e attr \<Rightarrow> bool" where
  "js_truthy Undefined \<longleftrightarrow> False"
| "js_truthy (Boo b) \<longleftrightarrow> b"
| "js_truthy (Str s) \<longleftrightarrow> s \<noteq> []"
| "js_truthy (Num n) \<longleftrightarrow> n \<noteq> 0"
| "js_truthy v \<longleftrightarrow> True"

text \<open>A default in a destructuring, and \<open>a && b\<close>.\<close>

definition or_default :: "'e attr \<Rightarrow> 'e attr \<Rightarrow> 'e attr" where
  "or_default v d = (case v of Undefined \<Rightarrow> d | _ \<Rightarrow> v)"

definition js_and :: "'e attr \<Rightarrow> 'e attr \<Rightarrow> 'e attr" where
  "js_and a b = (if js_truthy a then b else a)"

section \<open>Class names\<close>

text \<open>A table of variants as \<open>cva\<close> takes it: the base, the classes of each choice, and the defaults.\<close>

record variant_table =
  vt_base :: string
  vt_variants :: "(string \<times> (string \<times> string) list) list"
  vt_defaults :: "(string \<times> string) list"

record 'e kit_lib =
  clsx :: "'e attr list \<Rightarrow> string"
  twMerge :: "string \<Rightarrow> string"
  cva :: "variant_table \<Rightarrow> 'e props \<Rightarrow> string"

definition cn :: "'e kit_lib \<Rightarrow> 'e attr list \<Rightarrow> string" where
  "cn lib inputs = twMerge lib (clsx lib inputs)"

text \<open>An instance for examples: names joined by blanks, nothing merged, the base of a table only.\<close>

definition plain_lib :: "'e kit_lib" where
  "plain_lib =
     \<lparr>clsx = (\<lambda>xs. concat (map (\<lambda>x. case x of Str s \<Rightarrow> s @ '' '' | _ \<Rightarrow> []) xs)), twMerge = (\<lambda>s. s), cva = (\<lambda>t c. vt_base t)\<rparr>"

type_synonym 'e part = "'e kit_lib \<Rightarrow> 'e props \<Rightarrow> 'e elem list \<Rightarrow> 'e elem"

section \<open>Looking into elements\<close>

fun subelems :: "'e elem \<Rightarrow> 'e elem list" where
  "subelems (Text t) = [Text t]"
| "subelems (El t p ks) = El t p ks # concat (map subelems ks)"

fun props_of :: "'e elem \<Rightarrow> 'e props" where
  "props_of (Text t) = []"
| "props_of (El t p ks) = p"

fun tag_of :: "'e elem \<Rightarrow> string" where
  "tag_of (Text t) = []"
| "tag_of (El t p ks) = t"

fun kids_of :: "'e elem \<Rightarrow> 'e elem list" where
  "kids_of (Text t) = []"
| "kids_of (El t p ks) = ks"

section \<open>Laws\<close>

lemma keys_simps [simp]:
  "keys_of [] = {}" "keys_of ((k, v) # p) = insert k (keys_of p)" "keys_of (p @ q) = keys_of p \<union> keys_of q"
  by (auto simp: keys_of_def)

lemma attr_of_absent: "k \<notin> keys_of p \<Longrightarrow> attr_of k p = Undefined"
proof (induction p)
  case (Cons b p)
  then show ?case by (cases b) auto
qed simp

lemma attr_of_append [simp]: "attr_of k (p @ q) = (if k \<in> keys_of p then attr_of k p else attr_of k q)"
proof (induction p)
  case (Cons b p)
  then show ?case by (cases b) simp
qed simp

lemma attr_of_filter: "attr_of k (filter (\<lambda>(j, v). P j) p) = (if P k then attr_of k p else Undefined)"
proof (induction p)
  case (Cons b p)
  then show ?case by (cases b) simp
qed simp

lemma keys_of_filter: "keys_of (filter (\<lambda>(j, v). P j) p) = {k \<in> keys_of p. P k}"
  by (force simp: keys_of_def)

lemma attr_of_omit [simp]: "attr_of k (omit ks p) = (if k \<in> set ks then Undefined else attr_of k p)"
  by (simp add: omit_def attr_of_filter)

lemma keys_of_omit [simp]: "keys_of (omit ks p) = keys_of p - set ks"
  by (auto simp: omit_def keys_of_filter)

lemma attr_of_spread_over [simp]:
  "attr_of k (spread_over own rest) = (if k \<in> keys_of rest then attr_of k rest else attr_of k own)"
  by (auto simp: spread_over_def attr_of_filter keys_of_filter attr_of_absent)

lemma keys_of_spread_over [simp]: "keys_of (spread_over own rest) = keys_of own \<union> keys_of rest"
  by (auto simp: spread_over_def keys_of_filter)

lemma or_default_simps [simp]: "or_default Undefined d = d" "v \<noteq> Undefined \<Longrightarrow> or_default v d = v"
  by (auto simp: or_default_def split: attr.split)

end
