(* ===== verification/KitBasics.thy ===== *)
theory KitBasics
  imports Kit
begin

text \<open>
  The plain components of the UI kit, one section per file of frontend/src/components/ui: each takes out the properties
  it makes use of and spreads the others over its element.  Class names are those of the code.
\<close>

section \<open>alert.tsx\<close>

definition alertVariants :: variant_table where
  "alertVariants =
     \<lparr>vt_base =
        ''group/alert relative grid w-full gap-0.5 rounded-lg border px-2.5 py-2 text-left text-sm has-data-[slot=alert-action]:relative has-data-[slot=alert-action]:pr-18 has-[>svg]:grid-cols-[auto_1fr] has-[>svg]:gap-x-2 *:[svg]:row-span-2 *:[svg]:translate-y-0.5 *:[svg]:text-current *:[svg:not([class*='size-'])]:size-4'',
      vt_variants =
        [(''variant'',
          [(''default'', ''bg-card text-card-foreground''),
           (''destructive'',
            ''bg-card text-destructive *:data-[slot=alert-description]:text-destructive/90 *:[svg]:text-current'')])],
      vt_defaults = [(''variant'', ''default'')]\<rparr>"

definition Alert :: "'e part" where
  "Alert lib p kids =
     (let className = attr_of ''className'' p; variant = attr_of ''variant'' p;
          rest = omit [''className'', ''variant''] p in
      El ''div''
        (spread_over
           [(''data-slot'', Str ''alert''), (''role'', Str ''alert''),
            (''className'', Str (cn lib [Str (cva lib alertVariants [(''variant'', variant)]), className]))]
           rest)
        kids)"

definition AlertTitle :: "'e part" where
  "AlertTitle lib p kids =
     (let className = attr_of ''className'' p; rest = omit [''className''] p in
      El ''div''
        (spread_over
           [(''data-slot'', Str ''alert-title''),
            (''className'',
             Str (cn lib [Str ''font-medium group-has-[>svg]/alert:col-start-2 [&_a]:underline [&_a]:underline-offset-3 [&_a]:hover:text-foreground'',
                          className]))]
           rest)
        kids)"

definition AlertDescription :: "'e part" where
  "AlertDescription lib p kids =
     (let className = attr_of ''className'' p; rest = omit [''className''] p in
      El ''div''
        (spread_over
           [(''data-slot'', Str ''alert-description''),
            (''className'',
             Str (cn lib [Str ''text-sm text-balance text-muted-foreground md:text-pretty [&_a]:underline [&_a]:underline-offset-3 [&_a]:hover:text-foreground [&_p:not(:last-child)]:mb-4'',
                          className]))]
           rest)
        kids)"

definition AlertAction :: "'e part" where
  "AlertAction lib p kids =
     (let className = attr_of ''className'' p; rest = omit [''className''] p in
      El ''div''
        (spread_over
           [(''data-slot'', Str ''alert-action''),
            (''className'', Str (cn lib [Str ''absolute top-2 right-2'', className]))]
           rest)
        kids)"

section \<open>badge.tsx\<close>

definition badgeVariants :: variant_table where
  "badgeVariants =
     \<lparr>vt_base =
        ''group/badge inline-flex h-5 w-fit shrink-0 items-center justify-center gap-1 overflow-hidden rounded-4xl border border-transparent px-2 py-0.5 text-xs font-medium whitespace-nowrap transition-all focus-visible:border-ring focus-visible:ring-[3px] focus-visible:ring-ring/50 has-data-[icon=inline-end]:pr-1.5 has-data-[icon=inline-start]:pl-1.5 aria-invalid:border-destructive aria-invalid:ring-destructive/20 dark:aria-invalid:ring-destructive/40 [&>svg]:pointer-events-none [&>svg]:size-3!'',
      vt_variants =
        [(''variant'',
          [(''default'', ''bg-primary text-primary-foreground [a]:hover:bg-primary/80''),
           (''secondary'', ''bg-secondary text-secondary-foreground [a]:hover:bg-secondary/80''),
           (''destructive'',
            ''bg-destructive/10 text-destructive focus-visible:ring-destructive/20 dark:bg-destructive/20 dark:focus-visible:ring-destructive/40 [a]:hover:bg-destructive/20''),
           (''outline'', ''border-border text-foreground [a]:hover:bg-muted [a]:hover:text-muted-foreground''),
           (''ghost'', ''hover:bg-muted hover:text-muted-foreground dark:hover:bg-muted/50''),
           (''link'', ''text-primary underline-offset-4 hover:underline'')])],
      vt_defaults = [(''variant'', ''default'')]\<rparr>"

definition Badge :: "'e part" where
  "Badge lib p kids =
     (let className = attr_of ''className'' p; variant = or_default (attr_of ''variant'' p) (Str ''default'');
          asChild = or_default (attr_of ''asChild'' p) (Boo False);
          rest = omit [''className'', ''variant'', ''asChild''] p in
      El (if js_truthy asChild then ''Slot.Root'' else ''span'')
        (spread_over
           [(''data-slot'', Str ''badge''), (''data-variant'', variant),
            (''className'', Str (cn lib [Str (cva lib badgeVariants [(''variant'', variant)]), className]))]
           rest)
        kids)"

section \<open>button.tsx\<close>

definition buttonVariants :: variant_table where
  "buttonVariants =
     \<lparr>vt_base =
        ''group/button inline-flex shrink-0 items-center justify-center rounded-lg border border-transparent bg-clip-padding text-sm font-medium whitespace-nowrap transition-all outline-none select-none focus-visible:border-ring focus-visible:ring-3 focus-visible:ring-ring/50 active:not-aria-[haspopup]:translate-y-px disabled:pointer-events-none disabled:opacity-50 aria-invalid:border-destructive aria-invalid:ring-3 aria-invalid:ring-destructive/20 dark:aria-invalid:border-destructive/50 dark:aria-invalid:ring-destructive/40 [&_svg]:pointer-events-none [&_svg]:shrink-0 [&_svg:not([class*='size-'])]:size-4'',
      vt_variants =
        [(''variant'',
          [(''default'', ''bg-primary text-primary-foreground hover:bg-primary/80''),
           (''outline'',
            ''border-border bg-background hover:bg-muted hover:text-foreground aria-expanded:bg-muted aria-expanded:text-foreground dark:border-input dark:bg-input/30 dark:hover:bg-input/50''),
           (''secondary'',
            ''bg-secondary text-secondary-foreground hover:bg-[color-mix(in_oklch,var(--secondary),var(--foreground)_5%)] aria-expanded:bg-secondary aria-expanded:text-secondary-foreground''),
           (''ghost'',
            ''hover:bg-muted hover:text-foreground aria-expanded:bg-muted aria-expanded:text-foreground dark:hover:bg-muted/50''),
           (''destructive'',
            ''bg-destructive/10 text-destructive hover:bg-destructive/20 focus-visible:border-destructive/40 focus-visible:ring-destructive/20 dark:bg-destructive/20 dark:hover:bg-destructive/30 dark:focus-visible:ring-destructive/40''),
           (''link'', ''text-primary underline-offset-4 hover:underline'')]),
         (''size'',
          [(''default'', ''h-8 gap-1.5 px-2.5 has-data-[icon=inline-end]:pr-2 has-data-[icon=inline-start]:pl-2''),
           (''xs'',
            ''h-6 gap-1 rounded-[min(var(--radius-md),10px)] px-2 text-xs in-data-[slot=button-group]:rounded-lg has-data-[icon=inline-end]:pr-1.5 has-data-[icon=inline-start]:pl-1.5 [&_svg:not([class*='size-'])]:size-3''),
           (''sm'',
            ''h-7 gap-1 rounded-[min(var(--radius-md),12px)] px-2.5 text-[0.8rem] in-data-[slot=button-group]:rounded-lg has-data-[icon=inline-end]:pr-1.5 has-data-[icon=inline-start]:pl-1.5 [&_svg:not([class*='size-'])]:size-3.5''),
           (''lg'', ''h-9 gap-1.5 px-2.5 has-data-[icon=inline-end]:pr-2 has-data-[icon=inline-start]:pl-2''),
           (''icon'', ''size-8''),
           (''icon-xs'',
            ''size-6 rounded-[min(var(--radius-md),10px)] in-data-[slot=button-group]:rounded-lg [&_svg:not([class*='size-'])]:size-3''),
           (''icon-sm'', ''size-7 rounded-[min(var(--radius-md),12px)] in-data-[slot=button-group]:rounded-lg''),
           (''icon-lg'', ''size-9'')])],
      vt_defaults = [(''variant'', ''default''), (''size'', ''default'')]\<rparr>"

definition Button :: "'e part" where
  "Button lib p kids =
     (let className = attr_of ''className'' p; variant = or_default (attr_of ''variant'' p) (Str ''default'');
          size = or_default (attr_of ''size'' p) (Str ''default'');
          asChild = or_default (attr_of ''asChild'' p) (Boo False);
          rest = omit [''className'', ''variant'', ''size'', ''asChild''] p in
      El (if js_truthy asChild then ''Slot.Root'' else ''button'')
        (spread_over
           [(''data-slot'', Str ''button''), (''data-variant'', variant), (''data-size'', size),
            (''className'',
             Str (cn lib [Str (cva lib buttonVariants [(''variant'', variant), (''size'', size),
                                                       (''className'', className)])]))]
           rest)
        kids)"

section \<open>card.tsx\<close>

definition Card :: "'e part" where
  "Card lib p kids =
     (let className = attr_of ''className'' p; size = or_default (attr_of ''size'' p) (Str ''default'');
          rest = omit [''className'', ''size''] p in
      El ''div''
        (spread_over
           [(''data-slot'', Str ''card''), (''data-size'', size),
            (''className'',
             Str (cn lib [Str ''group/card flex flex-col gap-(--card-spacing) overflow-hidden rounded-xl bg-card py-(--card-spacing) text-sm text-card-foreground ring-1 ring-foreground/10 [--card-spacing:--spacing(4)] has-data-[slot=card-footer]:pb-0 has-[>img:first-child]:pt-0 data-[size=sm]:[--card-spacing:--spacing(3)] data-[size=sm]:has-data-[slot=card-footer]:pb-0 *:[img:first-child]:rounded-t-xl *:[img:last-child]:rounded-b-xl'',
                          className]))]
           rest)
        kids)"

definition CardHeader :: "'e part" where
  "CardHeader lib p kids =
     (let className = attr_of ''className'' p; rest = omit [''className''] p in
      El ''div''
        (spread_over
           [(''data-slot'', Str ''card-header''),
            (''className'',
             Str (cn lib [Str (''group/card-header @container/card-header grid auto-rows-min items-start gap-1 rounded-t-xl px-(--card-spacing) has-data-[slot=card-action]:grid-cols-[1fr_auto] has-data-[slot=card-description]:grid-rows-[auto_auto] [.border-b]:pb-(--card-spacing)''),
                          className]))]
           rest)
        kids)"

definition CardTitle :: "'e part" where
  "CardTitle lib p kids =
     (let className = attr_of ''className'' p; rest = omit [''className''] p in
      El ''div''
        (spread_over
           [(''data-slot'', Str ''card-title''),
            (''className'',
             Str (cn lib [Str ''font-heading text-base leading-snug font-medium group-data-[size=sm]/card:text-sm'',
                          className]))]
           rest)
        kids)"

definition CardDescription :: "'e part" where
  "CardDescription lib p kids =
     (let className = attr_of ''className'' p; rest = omit [''className''] p in
      El ''div''
        (spread_over
           [(''data-slot'', Str ''card-description''),
            (''className'', Str (cn lib [Str ''text-sm text-muted-foreground'', className]))]
           rest)
        kids)"

definition CardAction :: "'e part" where
  "CardAction lib p kids =
     (let className = attr_of ''className'' p; rest = omit [''className''] p in
      El ''div''
        (spread_over
           [(''data-slot'', Str ''card-action''),
            (''className'',
             Str (cn lib [Str ''col-start-2 row-span-2 row-start-1 self-start justify-self-end'', className]))]
           rest)
        kids)"

definition CardContent :: "'e part" where
  "CardContent lib p kids =
     (let className = attr_of ''className'' p; rest = omit [''className''] p in
      El ''div''
        (spread_over
           [(''data-slot'', Str ''card-content''),
            (''className'', Str (cn lib [Str ''px-(--card-spacing)'', className]))]
           rest)
        kids)"

definition CardFooter :: "'e part" where
  "CardFooter lib p kids =
     (let className = attr_of ''className'' p; rest = omit [''className''] p in
      El ''div''
        (spread_over
           [(''data-slot'', Str ''card-footer''),
            (''className'',
             Str (cn lib [Str ''flex items-center rounded-b-xl border-t bg-muted/50 p-(--card-spacing)'', className]))]
           rest)
        kids)"

section \<open>checkbox.tsx\<close>

definition Checkbox :: "'e part" where
  "Checkbox lib p kids =
     (let className = attr_of ''className'' p; rest = omit [''className''] p in
      El ''Checkbox.Root''
        (spread_over
           [(''data-slot'', Str ''checkbox''),
            (''className'',
             Str (cn lib [Str ''peer relative flex size-4 shrink-0 items-center justify-center rounded-[4px] border border-input transition-colors outline-none group-has-disabled/field:opacity-50 after:absolute after:-inset-x-3 after:-inset-y-2 focus-visible:border-ring focus-visible:ring-3 focus-visible:ring-ring/50 disabled:cursor-not-allowed disabled:opacity-50 aria-invalid:border-destructive aria-invalid:ring-3 aria-invalid:ring-destructive/20 aria-invalid:aria-checked:border-primary dark:bg-input/30 dark:aria-invalid:border-destructive/50 dark:aria-invalid:ring-destructive/40 data-checked:border-primary data-checked:bg-primary data-checked:text-primary-foreground dark:data-checked:bg-primary'',
                          className]))]
           rest)
        [El ''Checkbox.Indicator''
           [(''data-slot'', Str ''checkbox-indicator''),
            (''className'', Str ''grid place-content-center text-current transition-none [&>svg]:size-3.5'')]
           [El ''CheckIcon'' [] []]])"

section \<open>collapsible.tsx\<close>

definition Collapsible :: "'e part" where
  "Collapsible lib p kids =
     El ''Collapsible.Root'' (spread_over [(''data-slot'', Str ''collapsible'')] p) kids"

definition CollapsibleTrigger :: "'e part" where
  "CollapsibleTrigger lib p kids =
     El ''Collapsible.CollapsibleTrigger'' (spread_over [(''data-slot'', Str ''collapsible-trigger'')] p) kids"

definition CollapsibleContent :: "'e part" where
  "CollapsibleContent lib p kids =
     El ''Collapsible.CollapsibleContent'' (spread_over [(''data-slot'', Str ''collapsible-content'')] p) kids"

section \<open>input.tsx\<close>

definition Input :: "'e part" where
  "Input lib p kids =
     (let className = attr_of ''className'' p; type = attr_of ''type'' p; rest = omit [''className'', ''type''] p in
      El ''input''
        (spread_over
           [(''type'', type), (''data-slot'', Str ''input''),
            (''className'',
             Str (cn lib [Str ''h-8 w-full min-w-0 rounded-lg border border-input bg-transparent px-2.5 py-1 text-base transition-colors outline-none file:inline-flex file:h-6 file:border-0 file:bg-transparent file:text-sm file:font-medium file:text-foreground placeholder:text-muted-foreground focus-visible:border-ring focus-visible:ring-3 focus-visible:ring-ring/50 disabled:pointer-events-none disabled:cursor-not-allowed disabled:bg-input/50 disabled:opacity-50 aria-invalid:border-destructive aria-invalid:ring-3 aria-invalid:ring-destructive/20 md:text-sm dark:bg-input/30 dark:disabled:bg-input/80 dark:aria-invalid:border-destructive/50 dark:aria-invalid:ring-destructive/40'',
                          className]))]
           rest)
        kids)"

section \<open>label.tsx\<close>

definition Label :: "'e part" where
  "Label lib p kids =
     (let className = attr_of ''className'' p; rest = omit [''className''] p in
      El ''Label.Root''
        (spread_over
           [(''data-slot'', Str ''label''),
            (''className'',
             Str (cn lib [Str ''flex items-center gap-2 text-sm leading-none font-medium select-none group-data-[disabled=true]:pointer-events-none group-data-[disabled=true]:opacity-50 peer-disabled:cursor-not-allowed peer-disabled:opacity-50'',
                          className]))]
           rest)
        kids)"

section \<open>popover.tsx\<close>

definition Popover :: "'e part" where
  "Popover lib p kids =
     El ''Popover.Root'' (spread_over [(''data-slot'', Str ''popover'')] p) kids"

definition PopoverTrigger :: "'e part" where
  "PopoverTrigger lib p kids =
     El ''Popover.Trigger'' (spread_over [(''data-slot'', Str ''popover-trigger'')] p) kids"

definition PopoverContent :: "'e part" where
  "PopoverContent lib p kids =
     (let className = attr_of ''className'' p; align = or_default (attr_of ''align'' p) (Str ''center'');
          sideOffset = or_default (attr_of ''sideOffset'' p) (Num 4);
          rest = omit [''className'', ''align'', ''sideOffset''] p in
      El ''Popover.Portal'' []
        [El ''Popover.Content''
           (spread_over
              [(''data-slot'', Str ''popover-content''), (''align'', align), (''sideOffset'', sideOffset),
               (''className'',
                Str (cn lib [Str ''z-50 flex w-72 origin-(--radix-popover-content-transform-origin) flex-col gap-2.5 rounded-lg bg-popover p-2.5 text-sm text-popover-foreground shadow-md ring-1 ring-foreground/10 outline-hidden duration-100 data-[side=bottom]:slide-in-from-top-2 data-[side=left]:slide-in-from-right-2 data-[side=right]:slide-in-from-left-2 data-[side=top]:slide-in-from-bottom-2 data-open:animate-in data-open:fade-in-0 data-open:zoom-in-95 data-closed:animate-out data-closed:fade-out-0 data-closed:zoom-out-95'',
                             className]))]
              rest)
           kids])"

definition PopoverAnchor :: "'e part" where
  "PopoverAnchor lib p kids =
     El ''Popover.Anchor'' (spread_over [(''data-slot'', Str ''popover-anchor'')] p) kids"

definition PopoverHeader :: "'e part" where
  "PopoverHeader lib p kids =
     (let className = attr_of ''className'' p; rest = omit [''className''] p in
      El ''div''
        (spread_over
           [(''data-slot'', Str ''popover-header''),
            (''className'', Str (cn lib [Str ''flex flex-col gap-0.5 text-sm'', className]))]
           rest)
        kids)"

definition PopoverTitle :: "'e part" where
  "PopoverTitle lib p kids =
     (let className = attr_of ''className'' p; rest = omit [''className''] p in
      El ''div''
        (spread_over
           [(''data-slot'', Str ''popover-title''), (''className'', Str (cn lib [Str ''font-medium'', className]))]
           rest)
        kids)"

definition PopoverDescription :: "'e part" where
  "PopoverDescription lib p kids =
     (let className = attr_of ''className'' p; rest = omit [''className''] p in
      El ''p''
        (spread_over
           [(''data-slot'', Str ''popover-description''),
            (''className'', Str (cn lib [Str ''text-muted-foreground'', className]))]
           rest)
        kids)"

section \<open>progress.tsx\<close>

text \<open>The bar that is left of a number of percent, \<open>100 - (value || 0)\<close>; a value is a whole number here.\<close>

fun percent_left :: "'e attr \<Rightarrow> int" where
  "percent_left (Num n) = 100 - n"
| "percent_left v = 100"

definition Progress :: "'e part" where
  "Progress lib p kids =
     (let className = attr_of ''className'' p; value = attr_of ''value'' p; rest = omit [''className'', ''value''] p in
      El ''Progress.Root''
        (spread_over
           [(''data-slot'', Str ''progress''),
            (''className'',
             Str (cn lib [Str ''relative flex h-1 w-full items-center overflow-x-hidden rounded-full bg-muted'',
                          className]))]
           rest)
        [El ''Progress.Indicator''
           [(''data-slot'', Str ''progress-indicator''),
            (''className'', Str ''size-full flex-1 bg-primary transition-all''),
            (''style'', Obj [(''transform'', Str (''translateX(-'' @ int_str (percent_left value) @ ''%)''))])]
           []])"

section \<open>radio-group.tsx\<close>

definition RadioGroup :: "'e part" where
  "RadioGroup lib p kids =
     (let className = attr_of ''className'' p; rest = omit [''className''] p in
      El ''RadioGroup.Root''
        (spread_over
           [(''data-slot'', Str ''radio-group''), (''className'', Str (cn lib [Str ''grid w-full gap-2'', className]))]
           rest)
        kids)"

definition RadioGroupItem :: "'e part" where
  "RadioGroupItem lib p kids =
     (let className = attr_of ''className'' p; rest = omit [''className''] p in
      El ''RadioGroup.Item''
        (spread_over
           [(''data-slot'', Str ''radio-group-item''),
            (''className'',
             Str (cn lib [Str ''group/radio-group-item peer relative flex aspect-square size-4 shrink-0 rounded-full border border-input outline-none after:absolute after:-inset-x-3 after:-inset-y-2 focus-visible:border-ring focus-visible:ring-3 focus-visible:ring-ring/50 disabled:cursor-not-allowed disabled:opacity-50 aria-invalid:border-destructive aria-invalid:ring-3 aria-invalid:ring-destructive/20 aria-invalid:aria-checked:border-primary dark:bg-input/30 dark:aria-invalid:border-destructive/50 dark:aria-invalid:ring-destructive/40 data-checked:border-primary data-checked:bg-primary data-checked:text-primary-foreground dark:data-checked:bg-primary'',
                          className]))]
           rest)
        [El ''RadioGroup.Indicator''
           [(''data-slot'', Str ''radio-group-indicator''),
            (''className'', Str ''flex size-4 items-center justify-center'')]
           [El ''span''
              [(''className'',
                Str ''absolute top-1/2 left-1/2 size-2 -translate-x-1/2 -translate-y-1/2 rounded-full bg-primary-foreground'')]
              []]])"

section \<open>scroll-area.tsx\<close>

definition ScrollBar :: "'e part" where
  "ScrollBar lib p kids =
     (let className = attr_of ''className'' p;
          orientation = or_default (attr_of ''orientation'' p) (Str ''vertical'');
          rest = omit [''className'', ''orientation''] p in
      El ''ScrollArea.ScrollAreaScrollbar''
        (spread_over
           [(''data-slot'', Str ''scroll-area-scrollbar''), (''data-orientation'', orientation),
            (''orientation'', orientation),
            (''className'',
             Str (cn lib [Str ''flex touch-none p-px transition-colors select-none data-horizontal:h-2.5 data-horizontal:flex-col data-horizontal:border-t data-horizontal:border-t-transparent data-vertical:h-full data-vertical:w-2.5 data-vertical:border-l data-vertical:border-l-transparent'',
                          className]))]
           rest)
        [El ''ScrollArea.ScrollAreaThumb''
           [(''data-slot'', Str ''scroll-area-thumb''),
            (''className'', Str ''relative flex-1 rounded-full bg-border'')]
           []])"

definition ScrollArea :: "'e part" where
  "ScrollArea lib p kids =
     (let className = attr_of ''className'' p; rest = omit [''className''] p in
      El ''ScrollArea.Root''
        (spread_over
           [(''data-slot'', Str ''scroll-area''), (''className'', Str (cn lib [Str ''relative'', className]))]
           rest)
        [El ''ScrollArea.Viewport''
           [(''data-slot'', Str ''scroll-area-viewport''),
            (''className'',
             Str ''size-full rounded-[inherit] transition-[color,box-shadow] outline-none focus-visible:ring-[3px] focus-visible:ring-ring/50 focus-visible:outline-1'')]
           kids,
         ScrollBar lib [] [], El ''ScrollArea.Corner'' [] []])"

section \<open>separator.tsx\<close>

definition Separator :: "'e part" where
  "Separator lib p kids =
     (let className = attr_of ''className'' p;
          orientation = or_default (attr_of ''orientation'' p) (Str ''horizontal'');
          decorative = or_default (attr_of ''decorative'' p) (Boo True);
          rest = omit [''className'', ''orientation'', ''decorative''] p in
      El ''Separator.Root''
        (spread_over
           [(''data-slot'', Str ''separator''), (''decorative'', decorative), (''orientation'', orientation),
            (''className'',
             Str (cn lib [Str ''shrink-0 bg-border data-horizontal:h-px data-horizontal:w-full data-vertical:w-px data-vertical:self-stretch'',
                          className]))]
           rest)
        kids)"

section \<open>skeleton.tsx\<close>

definition Skeleton :: "'e part" where
  "Skeleton lib p kids =
     (let className = attr_of ''className'' p; rest = omit [''className''] p in
      El ''div''
        (spread_over
           [(''data-slot'', Str ''skeleton''),
            (''className'', Str (cn lib [Str ''animate-pulse rounded-md bg-muted'', className]))]
           rest)
        kids)"

section \<open>sonner.tsx\<close>

text \<open>The theme is that of next-themes, undefined without its provider.\<close>

definition Toaster :: "'e attr \<Rightarrow> 'e props \<Rightarrow> 'e elem" where
  "Toaster useTheme_theme p =
     (let theme = or_default useTheme_theme (Str ''system'') in
      El ''Sonner''
        (spread_over
           [(''theme'', theme), (''className'', Str ''toaster group''),
            (''icons'',
             Obj [(''success'', Elems [El ''CircleCheckIcon'' [(''className'', Str ''size-4'')] []]),
                  (''info'', Elems [El ''InfoIcon'' [(''className'', Str ''size-4'')] []]),
                  (''warning'', Elems [El ''TriangleAlertIcon'' [(''className'', Str ''size-4'')] []]),
                  (''error'', Elems [El ''OctagonXIcon'' [(''className'', Str ''size-4'')] []]),
                  (''loading'', Elems [El ''Loader2Icon'' [(''className'', Str ''size-4 animate-spin'')] []])]),
            (''style'',
             Obj [(''--normal-bg'', Str ''var(--popover)''), (''--normal-text'', Str ''var(--popover-foreground)''),
                  (''--normal-border'', Str ''var(--border)''), (''--border-radius'', Str ''var(--radius)'')]),
            (''toastOptions'', Obj [(''classNames'', Obj [(''toast'', Str ''cn-toast'')])])]
           p)
        [])"

section \<open>switch.tsx\<close>

definition Switch :: "'e part" where
  "Switch lib p kids =
     (let className = attr_of ''className'' p; size = or_default (attr_of ''size'' p) (Str ''default'');
          rest = omit [''className'', ''size''] p in
      El ''Switch.Root''
        (spread_over
           [(''data-slot'', Str ''switch''), (''data-size'', size),
            (''className'',
             Str (cn lib [Str ''peer group/switch relative inline-flex shrink-0 items-center rounded-full border border-transparent transition-all outline-none after:absolute after:-inset-x-3 after:-inset-y-2 focus-visible:border-ring focus-visible:ring-3 focus-visible:ring-ring/50 aria-invalid:border-destructive aria-invalid:ring-3 aria-invalid:ring-destructive/20 data-[size=default]:h-[18.4px] data-[size=default]:w-[32px] data-[size=sm]:h-[14px] data-[size=sm]:w-[24px] dark:aria-invalid:border-destructive/50 dark:aria-invalid:ring-destructive/40 data-checked:bg-primary data-unchecked:bg-input dark:data-unchecked:bg-input/80 data-disabled:cursor-not-allowed data-disabled:opacity-50'',
                          className]))]
           rest)
        [El ''Switch.Thumb''
           [(''data-slot'', Str ''switch-thumb''),
            (''className'',
             Str ''pointer-events-none block rounded-full bg-background ring-0 transition-transform group-data-[size=default]/switch:size-4 group-data-[size=sm]/switch:size-3 group-data-[size=default]/switch:data-checked:translate-x-[calc(100%-2px)] group-data-[size=sm]/switch:data-checked:translate-x-[calc(100%-2px)] dark:data-checked:bg-primary-foreground group-data-[size=default]/switch:data-unchecked:translate-x-0 group-data-[size=sm]/switch:data-unchecked:translate-x-0 dark:data-unchecked:bg-foreground'')]
           []])"

section \<open>table.tsx\<close>

definition Table :: "'e part" where
  "Table lib p kids =
     (let className = attr_of ''className'' p; rest = omit [''className''] p in
      El ''div'' [(''data-slot'', Str ''table-container''), (''className'', Str ''relative w-full overflow-x-auto'')]
        [El ''table''
           (spread_over
              [(''data-slot'', Str ''table''),
               (''className'', Str (cn lib [Str ''w-full caption-bottom text-sm'', className]))]
              rest)
           kids])"

definition TableHeader :: "'e part" where
  "TableHeader lib p kids =
     (let className = attr_of ''className'' p; rest = omit [''className''] p in
      El ''thead''
        (spread_over
           [(''data-slot'', Str ''table-header''), (''className'', Str (cn lib [Str ''[&_tr]:border-b'', className]))]
           rest)
        kids)"

definition TableBody :: "'e part" where
  "TableBody lib p kids =
     (let className = attr_of ''className'' p; rest = omit [''className''] p in
      El ''tbody''
        (spread_over
           [(''data-slot'', Str ''table-body''),
            (''className'', Str (cn lib [Str ''[&_tr:last-child]:border-0'', className]))]
           rest)
        kids)"

definition TableFooter :: "'e part" where
  "TableFooter lib p kids =
     (let className = attr_of ''className'' p; rest = omit [''className''] p in
      El ''tfoot''
        (spread_over
           [(''data-slot'', Str ''table-footer''),
            (''className'',
             Str (cn lib [Str ''border-t bg-muted/50 font-medium [&>tr]:last:border-b-0'', className]))]
           rest)
        kids)"

definition TableRow :: "'e part" where
  "TableRow lib p kids =
     (let className = attr_of ''className'' p; rest = omit [''className''] p in
      El ''tr''
        (spread_over
           [(''data-slot'', Str ''table-row''),
            (''className'',
             Str (cn lib [Str ''border-b transition-colors hover:bg-muted/50 has-aria-expanded:bg-muted/50 data-[state=selected]:bg-muted'',
                          className]))]
           rest)
        kids)"

definition TableHead :: "'e part" where
  "TableHead lib p kids =
     (let className = attr_of ''className'' p; rest = omit [''className''] p in
      El ''th''
        (spread_over
           [(''data-slot'', Str ''table-head''),
            (''className'',
             Str (cn lib [Str ''h-10 px-2 text-left align-middle font-medium whitespace-nowrap text-foreground [&:has([role=checkbox])]:pr-0'',
                          className]))]
           rest)
        kids)"

definition TableCell :: "'e part" where
  "TableCell lib p kids =
     (let className = attr_of ''className'' p; rest = omit [''className''] p in
      El ''td''
        (spread_over
           [(''data-slot'', Str ''table-cell''),
            (''className'',
             Str (cn lib [Str ''p-2 align-middle whitespace-nowrap [&:has([role=checkbox])]:pr-0'', className]))]
           rest)
        kids)"

definition TableCaption :: "'e part" where
  "TableCaption lib p kids =
     (let className = attr_of ''className'' p; rest = omit [''className''] p in
      El ''caption''
        (spread_over
           [(''data-slot'', Str ''table-caption''),
            (''className'', Str (cn lib [Str ''mt-4 text-sm text-muted-foreground'', className]))]
           rest)
        kids)"

section \<open>tabs.tsx\<close>

definition Tabs :: "'e part" where
  "Tabs lib p kids =
     (let className = attr_of ''className'' p;
          orientation = or_default (attr_of ''orientation'' p) (Str ''horizontal'');
          rest = omit [''className'', ''orientation''] p in
      El ''Tabs.Root''
        (spread_over
           [(''data-slot'', Str ''tabs''), (''data-orientation'', orientation),
            (''className'', Str (cn lib [Str ''group/tabs flex gap-2 data-horizontal:flex-col'', className]))]
           rest)
        kids)"

definition tabsListVariants :: variant_table where
  "tabsListVariants =
     \<lparr>vt_base =
        ''group/tabs-list inline-flex w-fit items-center justify-center rounded-lg p-[3px] text-muted-foreground group-data-horizontal/tabs:h-8 group-data-vertical/tabs:h-fit group-data-vertical/tabs:flex-col data-[variant=line]:rounded-none'',
      vt_variants =
        [(''variant'', [(''default'', ''bg-muted''), (''line'', ''gap-1 bg-transparent'')])],
      vt_defaults = [(''variant'', ''default'')]\<rparr>"

definition TabsList :: "'e part" where
  "TabsList lib p kids =
     (let className = attr_of ''className'' p; variant = or_default (attr_of ''variant'' p) (Str ''default'');
          rest = omit [''className'', ''variant''] p in
      El ''Tabs.List''
        (spread_over
           [(''data-slot'', Str ''tabs-list''), (''data-variant'', variant),
            (''className'', Str (cn lib [Str (cva lib tabsListVariants [(''variant'', variant)]), className]))]
           rest)
        kids)"

definition TabsTrigger :: "'e part" where
  "TabsTrigger lib p kids =
     (let className = attr_of ''className'' p; rest = omit [''className''] p in
      El ''Tabs.Trigger''
        (spread_over
           [(''data-slot'', Str ''tabs-trigger''),
            (''className'',
             Str (cn lib [Str ''relative inline-flex h-[calc(100%-1px)] flex-1 items-center justify-center gap-1.5 rounded-md border border-transparent px-1.5 py-0.5 text-sm font-medium whitespace-nowrap text-foreground/60 transition-all group-data-vertical/tabs:w-full group-data-vertical/tabs:justify-start hover:text-foreground focus-visible:border-ring focus-visible:ring-[3px] focus-visible:ring-ring/50 focus-visible:outline-1 focus-visible:outline-ring disabled:pointer-events-none disabled:opacity-50 has-data-[icon=inline-end]:pr-1 has-data-[icon=inline-start]:pl-1 dark:text-muted-foreground dark:hover:text-foreground group-data-[variant=default]/tabs-list:data-active:shadow-sm group-data-[variant=line]/tabs-list:data-active:shadow-none [&_svg]:pointer-events-none [&_svg]:shrink-0 [&_svg:not([class*='size-'])]:size-4'',
                          Str ''group-data-[variant=line]/tabs-list:bg-transparent group-data-[variant=line]/tabs-list:data-active:bg-transparent dark:group-data-[variant=line]/tabs-list:data-active:border-transparent dark:group-data-[variant=line]/tabs-list:data-active:bg-transparent'',
                          Str ''data-active:bg-background data-active:text-foreground dark:data-active:border-input dark:data-active:bg-input/30 dark:data-active:text-foreground'',
                          Str ''after:absolute after:bg-foreground after:opacity-0 after:transition-opacity group-data-horizontal/tabs:after:inset-x-0 group-data-horizontal/tabs:after:bottom-[-5px] group-data-horizontal/tabs:after:h-0.5 group-data-vertical/tabs:after:inset-y-0 group-data-vertical/tabs:after:-right-1 group-data-vertical/tabs:after:w-0.5 group-data-[variant=line]/tabs-list:data-active:after:opacity-100'',
                          className]))]
           rest)
        kids)"

definition TabsContent :: "'e part" where
  "TabsContent lib p kids =
     (let className = attr_of ''className'' p; rest = omit [''className''] p in
      El ''Tabs.Content''
        (spread_over
           [(''data-slot'', Str ''tabs-content''),
            (''className'', Str (cn lib [Str ''flex-1 text-sm outline-none'', className]))]
           rest)
        kids)"

section \<open>textarea.tsx\<close>

definition Textarea :: "'e part" where
  "Textarea lib p kids =
     (let className = attr_of ''className'' p; rest = omit [''className''] p in
      El ''textarea''
        (spread_over
           [(''data-slot'', Str ''textarea''),
            (''className'',
             Str (cn lib [Str ''flex field-sizing-content min-h-16 w-full rounded-lg border border-input bg-transparent px-2.5 py-2 text-base transition-colors outline-none placeholder:text-muted-foreground focus-visible:border-ring focus-visible:ring-3 focus-visible:ring-ring/50 disabled:cursor-not-allowed disabled:bg-input/50 disabled:opacity-50 aria-invalid:border-destructive aria-invalid:ring-3 aria-invalid:ring-destructive/20 md:text-sm dark:bg-input/30 dark:disabled:bg-input/80 dark:aria-invalid:border-destructive/50 dark:aria-invalid:ring-destructive/40'',
                          className]))]
           rest)
        kids)"

section \<open>tooltip.tsx\<close>

definition TooltipProvider :: "'e part" where
  "TooltipProvider lib p kids =
     (let delayDuration = or_default (attr_of ''delayDuration'' p) (Num 0); rest = omit [''delayDuration''] p in
      El ''Tooltip.Provider''
        (spread_over [(''data-slot'', Str ''tooltip-provider''), (''delayDuration'', delayDuration)] rest)
        kids)"

definition Tooltip :: "'e part" where
  "Tooltip lib p kids =
     El ''Tooltip.Root'' (spread_over [(''data-slot'', Str ''tooltip'')] p) kids"

definition TooltipTrigger :: "'e part" where
  "TooltipTrigger lib p kids =
     El ''Tooltip.Trigger'' (spread_over [(''data-slot'', Str ''tooltip-trigger'')] p) kids"

definition TooltipContent :: "'e part" where
  "TooltipContent lib p kids =
     (let className = attr_of ''className'' p; sideOffset = or_default (attr_of ''sideOffset'' p) (Num 0);
          rest = omit [''className'', ''sideOffset''] p in
      El ''Tooltip.Portal'' []
        [El ''Tooltip.Content''
           (spread_over
              [(''data-slot'', Str ''tooltip-content''), (''sideOffset'', sideOffset),
               (''className'',
                Str (cn lib [Str ''z-50 inline-flex w-fit max-w-xs origin-(--radix-tooltip-content-transform-origin) items-center gap-1.5 rounded-md bg-foreground px-3 py-1.5 text-xs text-background has-data-[slot=kbd]:pr-1.5 data-[side=bottom]:slide-in-from-top-2 data-[side=left]:slide-in-from-right-2 data-[side=right]:slide-in-from-left-2 data-[side=top]:slide-in-from-bottom-2 **:data-[slot=kbd]:relative **:data-[slot=kbd]:isolate **:data-[slot=kbd]:z-50 **:data-[slot=kbd]:rounded-sm data-[state=delayed-open]:animate-in data-[state=delayed-open]:fade-in-0 data-[state=delayed-open]:zoom-in-95 data-open:animate-in data-open:fade-in-0 data-open:zoom-in-95 data-closed:animate-out data-closed:fade-out-0 data-closed:zoom-out-95'',
                             className]))]
              rest)
           (kids @
            [El ''Tooltip.Arrow''
               [(''className'',
                 Str ''z-50 size-2.5 translate-y-[calc(-50%_-_2px)] rotate-45 rounded-[2px] bg-foreground fill-foreground'')]
               []])])"

lemmas basic_part_defs =
  Alert_def AlertTitle_def AlertDescription_def AlertAction_def Badge_def Button_def Card_def CardHeader_def
  CardTitle_def CardDescription_def CardAction_def CardContent_def CardFooter_def Checkbox_def Collapsible_def
  CollapsibleTrigger_def CollapsibleContent_def Input_def Label_def Popover_def PopoverTrigger_def
  PopoverContent_def PopoverAnchor_def PopoverHeader_def PopoverTitle_def PopoverDescription_def Progress_def
  RadioGroup_def RadioGroupItem_def ScrollBar_def ScrollArea_def Separator_def Skeleton_def Switch_def Table_def
  TableHeader_def TableBody_def TableFooter_def TableRow_def TableHead_def TableCell_def TableCaption_def Tabs_def
  TabsList_def TabsTrigger_def TabsContent_def Textarea_def TooltipProvider_def Tooltip_def TooltipTrigger_def
  TooltipContent_def

end
