(* ===== verification/KitOverlays.thy ===== *)
theory KitOverlays
  imports KitBasics
begin

text \<open>
  The components of the UI kit that lie over the page: dialogs, sheets and menus, one section per file of
  frontend/src/components/ui.
\<close>

section \<open>dialog.tsx\<close>

definition Dialog :: "'e part" where
  "Dialog lib p kids =
     El ''Dialog.Root'' (spread_over [(''data-slot'', Str ''dialog'')] p) kids"

definition DialogTrigger :: "'e part" where
  "DialogTrigger lib p kids =
     El ''Dialog.Trigger'' (spread_over [(''data-slot'', Str ''dialog-trigger'')] p) kids"

definition DialogPortal :: "'e part" where
  "DialogPortal lib p kids =
     El ''Dialog.Portal'' (spread_over [(''data-slot'', Str ''dialog-portal'')] p) kids"

definition DialogClose :: "'e part" where
  "DialogClose lib p kids =
     El ''Dialog.Close'' (spread_over [(''data-slot'', Str ''dialog-close'')] p) kids"

definition DialogOverlay :: "'e part" where
  "DialogOverlay lib p kids =
     (let className = attr_of ''className'' p; rest = omit [''className''] p in
      El ''Dialog.Overlay''
        (spread_over
           [(''data-slot'', Str ''dialog-overlay''),
            (''className'',
             Str (cn lib [Str ''fixed inset-0 isolate z-50 bg-black/10 duration-100 supports-backdrop-filter:backdrop-blur-xs data-open:animate-in data-open:fade-in-0 data-closed:animate-out data-closed:fade-out-0'',
                          className]))]
           rest)
        kids)"

definition DialogContent :: "'e part" where
  "DialogContent lib p kids =
     (let className = attr_of ''className'' p;
          showCloseButton = or_default (attr_of ''showCloseButton'' p) (Boo True);
          rest = omit [''className'', ''showCloseButton''] p in
      DialogPortal lib []
        [DialogOverlay lib [] [],
         El ''Dialog.Content''
           (spread_over
              [(''data-slot'', Str ''dialog-content''),
               (''className'',
                Str (cn lib [Str ''fixed top-1/2 left-1/2 z-50 grid w-full max-w-[calc(100%-2rem)] -translate-x-1/2 -translate-y-1/2 gap-4 rounded-xl bg-popover p-4 text-sm text-popover-foreground ring-1 ring-foreground/10 duration-100 outline-none sm:max-w-sm data-open:animate-in data-open:fade-in-0 data-open:zoom-in-95 data-closed:animate-out data-closed:fade-out-0 data-closed:zoom-out-95'',
                             className]))]
              rest)
           (kids @
            only_if (js_truthy showCloseButton)
              [El ''Dialog.Close'' [(''data-slot'', Str ''dialog-close''), (''asChild'', Boo True)]
                 [Button lib
                    [(''variant'', Str ''ghost''), (''className'', Str ''absolute top-2 right-2''),
                     (''size'', Str ''icon-sm'')]
                    [El ''XIcon'' [] [], El ''span'' [(''className'', Str ''sr-only'')] [Text [Raw ''Close'']]]]])])"

definition DialogHeader :: "'e part" where
  "DialogHeader lib p kids =
     (let className = attr_of ''className'' p; rest = omit [''className''] p in
      El ''div''
        (spread_over
           [(''data-slot'', Str ''dialog-header''),
            (''className'', Str (cn lib [Str ''flex flex-col gap-2'', className]))]
           rest)
        kids)"

definition DialogFooter :: "'e part" where
  "DialogFooter lib p kids =
     (let className = attr_of ''className'' p;
          showCloseButton = or_default (attr_of ''showCloseButton'' p) (Boo False);
          rest = omit [''className'', ''showCloseButton''] p in
      El ''div''
        (spread_over
           [(''data-slot'', Str ''dialog-footer''),
            (''className'',
             Str (cn lib [Str ''-mx-4 -mb-4 flex flex-col-reverse gap-2 rounded-b-xl border-t bg-muted/50 p-4 sm:flex-row sm:justify-end'',
                          className]))]
           rest)
        (kids @
         only_if (js_truthy showCloseButton)
           [El ''Dialog.Close'' [(''asChild'', Boo True)]
              [Button lib [(''variant'', Str ''outline'')] [Text [Raw ''Close'']]]]))"

definition DialogTitle :: "'e part" where
  "DialogTitle lib p kids =
     (let className = attr_of ''className'' p; rest = omit [''className''] p in
      El ''Dialog.Title''
        (spread_over
           [(''data-slot'', Str ''dialog-title''),
            (''className'', Str (cn lib [Str ''font-heading text-base leading-none font-medium'', className]))]
           rest)
        kids)"

definition DialogDescription :: "'e part" where
  "DialogDescription lib p kids =
     (let className = attr_of ''className'' p; rest = omit [''className''] p in
      El ''Dialog.Description''
        (spread_over
           [(''data-slot'', Str ''dialog-description''),
            (''className'',
             Str (cn lib [Str ''text-sm text-muted-foreground *:[a]:underline *:[a]:underline-offset-3 *:[a]:hover:text-foreground'',
                          className]))]
           rest)
        kids)"

section \<open>alert-dialog.tsx\<close>

definition AlertDialog :: "'e part" where
  "AlertDialog lib p kids =
     El ''AlertDialog.Root'' (spread_over [(''data-slot'', Str ''alert-dialog'')] p) kids"

definition AlertDialogTrigger :: "'e part" where
  "AlertDialogTrigger lib p kids =
     El ''AlertDialog.Trigger'' (spread_over [(''data-slot'', Str ''alert-dialog-trigger'')] p) kids"

definition AlertDialogPortal :: "'e part" where
  "AlertDialogPortal lib p kids =
     El ''AlertDialog.Portal'' (spread_over [(''data-slot'', Str ''alert-dialog-portal'')] p) kids"

definition AlertDialogOverlay :: "'e part" where
  "AlertDialogOverlay lib p kids =
     (let className = attr_of ''className'' p; rest = omit [''className''] p in
      El ''AlertDialog.Overlay''
        (spread_over
           [(''data-slot'', Str ''alert-dialog-overlay''),
            (''className'',
             Str (cn lib [Str ''fixed inset-0 z-50 bg-black/10 duration-100 supports-backdrop-filter:backdrop-blur-xs data-open:animate-in data-open:fade-in-0 data-closed:animate-out data-closed:fade-out-0'',
                          className]))]
           rest)
        kids)"

definition AlertDialogContent :: "'e part" where
  "AlertDialogContent lib p kids =
     (let className = attr_of ''className'' p; size = or_default (attr_of ''size'' p) (Str ''default'');
          rest = omit [''className'', ''size''] p in
      AlertDialogPortal lib []
        [AlertDialogOverlay lib [] [],
         El ''AlertDialog.Content''
           (spread_over
              [(''data-slot'', Str ''alert-dialog-content''), (''data-size'', size),
               (''className'',
                Str (cn lib [Str ''group/alert-dialog-content fixed top-1/2 left-1/2 z-50 grid w-full -translate-x-1/2 -translate-y-1/2 gap-4 rounded-xl bg-popover p-4 text-popover-foreground ring-1 ring-foreground/10 duration-100 outline-none data-[size=default]:max-w-xs data-[size=sm]:max-w-xs data-[size=default]:sm:max-w-sm data-open:animate-in data-open:fade-in-0 data-open:zoom-in-95 data-closed:animate-out data-closed:fade-out-0 data-closed:zoom-out-95'',
                             className]))]
              rest)
           kids])"

definition AlertDialogHeader :: "'e part" where
  "AlertDialogHeader lib p kids =
     (let className = attr_of ''className'' p; rest = omit [''className''] p in
      El ''div''
        (spread_over
           [(''data-slot'', Str ''alert-dialog-header''),
            (''className'',
             Str (cn lib [Str ''grid grid-rows-[auto_1fr] place-items-center gap-1.5 text-center has-data-[slot=alert-dialog-media]:grid-rows-[auto_auto_1fr] has-data-[slot=alert-dialog-media]:gap-x-4 sm:group-data-[size=default]/alert-dialog-content:place-items-start sm:group-data-[size=default]/alert-dialog-content:text-left sm:group-data-[size=default]/alert-dialog-content:has-data-[slot=alert-dialog-media]:grid-rows-[auto_1fr]'',
                          className]))]
           rest)
        kids)"

definition AlertDialogFooter :: "'e part" where
  "AlertDialogFooter lib p kids =
     (let className = attr_of ''className'' p; rest = omit [''className''] p in
      El ''div''
        (spread_over
           [(''data-slot'', Str ''alert-dialog-footer''),
            (''className'',
             Str (cn lib [Str ''-mx-4 -mb-4 flex flex-col-reverse gap-2 rounded-b-xl border-t bg-muted/50 p-4 group-data-[size=sm]/alert-dialog-content:grid group-data-[size=sm]/alert-dialog-content:grid-cols-2 sm:flex-row sm:justify-end'',
                          className]))]
           rest)
        kids)"

definition AlertDialogMedia :: "'e part" where
  "AlertDialogMedia lib p kids =
     (let className = attr_of ''className'' p; rest = omit [''className''] p in
      El ''div''
        (spread_over
           [(''data-slot'', Str ''alert-dialog-media''),
            (''className'',
             Str (cn lib [Str ''mb-2 inline-flex size-10 items-center justify-center rounded-md bg-muted sm:group-data-[size=default]/alert-dialog-content:row-span-2 *:[svg:not([class*='size-'])]:size-6'',
                          className]))]
           rest)
        kids)"

definition AlertDialogTitle :: "'e part" where
  "AlertDialogTitle lib p kids =
     (let className = attr_of ''className'' p; rest = omit [''className''] p in
      El ''AlertDialog.Title''
        (spread_over
           [(''data-slot'', Str ''alert-dialog-title''),
            (''className'',
             Str (cn lib [Str ''font-heading text-base font-medium sm:group-data-[size=default]/alert-dialog-content:group-has-data-[slot=alert-dialog-media]/alert-dialog-content:col-start-2'',
                          className]))]
           rest)
        kids)"

definition AlertDialogDescription :: "'e part" where
  "AlertDialogDescription lib p kids =
     (let className = attr_of ''className'' p; rest = omit [''className''] p in
      El ''AlertDialog.Description''
        (spread_over
           [(''data-slot'', Str ''alert-dialog-description''),
            (''className'',
             Str (cn lib [Str ''text-sm text-balance text-muted-foreground md:text-pretty *:[a]:underline *:[a]:underline-offset-3 *:[a]:hover:text-foreground'',
                          className]))]
           rest)
        kids)"

definition AlertDialogAction :: "'e part" where
  "AlertDialogAction lib p kids =
     (let className = attr_of ''className'' p; variant = or_default (attr_of ''variant'' p) (Str ''default'');
          size = or_default (attr_of ''size'' p) (Str ''default'');
          rest = omit [''className'', ''variant'', ''size''] p in
      Button lib [(''variant'', variant), (''size'', size), (''asChild'', Boo True)]
        [El ''AlertDialog.Action''
           (spread_over [(''data-slot'', Str ''alert-dialog-action''), (''className'', Str (cn lib [className]))]
              rest)
           kids])"

definition AlertDialogCancel :: "'e part" where
  "AlertDialogCancel lib p kids =
     (let className = attr_of ''className'' p; variant = or_default (attr_of ''variant'' p) (Str ''outline'');
          size = or_default (attr_of ''size'' p) (Str ''default'');
          rest = omit [''className'', ''variant'', ''size''] p in
      Button lib [(''variant'', variant), (''size'', size), (''asChild'', Boo True)]
        [El ''AlertDialog.Cancel''
           (spread_over [(''data-slot'', Str ''alert-dialog-cancel''), (''className'', Str (cn lib [className]))]
              rest)
           kids])"

section \<open>sheet.tsx\<close>

definition Sheet :: "'e part" where
  "Sheet lib p kids =
     El ''Dialog.Root'' (spread_over [(''data-slot'', Str ''sheet'')] p) kids"

definition SheetTrigger :: "'e part" where
  "SheetTrigger lib p kids =
     El ''Dialog.Trigger'' (spread_over [(''data-slot'', Str ''sheet-trigger'')] p) kids"

definition SheetClose :: "'e part" where
  "SheetClose lib p kids =
     El ''Dialog.Close'' (spread_over [(''data-slot'', Str ''sheet-close'')] p) kids"

definition SheetPortal :: "'e part" where
  "SheetPortal lib p kids =
     El ''Dialog.Portal'' (spread_over [(''data-slot'', Str ''sheet-portal'')] p) kids"

definition SheetOverlay :: "'e part" where
  "SheetOverlay lib p kids =
     (let className = attr_of ''className'' p; rest = omit [''className''] p in
      El ''Dialog.Overlay''
        (spread_over
           [(''data-slot'', Str ''sheet-overlay''),
            (''className'',
             Str (cn lib [Str ''fixed inset-0 z-50 bg-black/10 duration-100 supports-backdrop-filter:backdrop-blur-xs data-open:animate-in data-open:fade-in-0 data-closed:animate-out data-closed:fade-out-0'',
                          className]))]
           rest)
        kids)"

definition SheetContent :: "'e part" where
  "SheetContent lib p kids =
     (let className = attr_of ''className'' p; side = or_default (attr_of ''side'' p) (Str ''right'');
          showCloseButton = or_default (attr_of ''showCloseButton'' p) (Boo True);
          rest = omit [''className'', ''side'', ''showCloseButton''] p in
      SheetPortal lib []
        [SheetOverlay lib [] [],
         El ''Dialog.Content''
           (spread_over
              [(''data-slot'', Str ''sheet-content''), (''data-side'', side),
               (''className'',
                Str (cn lib [Str ''fixed z-50 flex flex-col gap-4 bg-popover bg-clip-padding text-sm text-popover-foreground shadow-lg transition duration-200 ease-in-out data-[side=bottom]:inset-x-0 data-[side=bottom]:bottom-0 data-[side=bottom]:h-auto data-[side=bottom]:border-t data-[side=left]:inset-y-0 data-[side=left]:left-0 data-[side=left]:h-full data-[side=left]:w-3/4 data-[side=left]:border-r data-[side=right]:inset-y-0 data-[side=right]:right-0 data-[side=right]:h-full data-[side=right]:w-3/4 data-[side=right]:border-l data-[side=top]:inset-x-0 data-[side=top]:top-0 data-[side=top]:h-auto data-[side=top]:border-b data-[side=left]:sm:max-w-sm data-[side=right]:sm:max-w-sm data-open:animate-in data-open:fade-in-0 data-[side=bottom]:data-open:slide-in-from-bottom-10 data-[side=left]:data-open:slide-in-from-left-10 data-[side=right]:data-open:slide-in-from-right-10 data-[side=top]:data-open:slide-in-from-top-10 data-closed:animate-out data-closed:fade-out-0 data-[side=bottom]:data-closed:slide-out-to-bottom-10 data-[side=left]:data-closed:slide-out-to-left-10 data-[side=right]:data-closed:slide-out-to-right-10 data-[side=top]:data-closed:slide-out-to-top-10'',
                             className]))]
              rest)
           (kids @
            only_if (js_truthy showCloseButton)
              [El ''Dialog.Close'' [(''data-slot'', Str ''sheet-close''), (''asChild'', Boo True)]
                 [Button lib
                    [(''variant'', Str ''ghost''), (''className'', Str ''absolute top-3 right-3''),
                     (''size'', Str ''icon-sm'')]
                    [El ''XIcon'' [] [], El ''span'' [(''className'', Str ''sr-only'')] [Text [Raw ''Close'']]]]])])"

definition SheetHeader :: "'e part" where
  "SheetHeader lib p kids =
     (let className = attr_of ''className'' p; rest = omit [''className''] p in
      El ''div''
        (spread_over
           [(''data-slot'', Str ''sheet-header''),
            (''className'', Str (cn lib [Str ''flex flex-col gap-0.5 p-4'', className]))]
           rest)
        kids)"

definition SheetFooter :: "'e part" where
  "SheetFooter lib p kids =
     (let className = attr_of ''className'' p; rest = omit [''className''] p in
      El ''div''
        (spread_over
           [(''data-slot'', Str ''sheet-footer''),
            (''className'', Str (cn lib [Str ''mt-auto flex flex-col gap-2 p-4'', className]))]
           rest)
        kids)"

definition SheetTitle :: "'e part" where
  "SheetTitle lib p kids =
     (let className = attr_of ''className'' p; rest = omit [''className''] p in
      El ''Dialog.Title''
        (spread_over
           [(''data-slot'', Str ''sheet-title''),
            (''className'', Str (cn lib [Str ''font-heading text-base font-medium text-foreground'', className]))]
           rest)
        kids)"

definition SheetDescription :: "'e part" where
  "SheetDescription lib p kids =
     (let className = attr_of ''className'' p; rest = omit [''className''] p in
      El ''Dialog.Description''
        (spread_over
           [(''data-slot'', Str ''sheet-description''),
            (''className'', Str (cn lib [Str ''text-sm text-muted-foreground'', className]))]
           rest)
        kids)"

section \<open>dropdown-menu.tsx\<close>

definition DropdownMenu :: "'e part" where
  "DropdownMenu lib p kids =
     El ''DropdownMenu.Root'' (spread_over [(''data-slot'', Str ''dropdown-menu'')] p) kids"

definition DropdownMenuPortal :: "'e part" where
  "DropdownMenuPortal lib p kids =
     El ''DropdownMenu.Portal'' (spread_over [(''data-slot'', Str ''dropdown-menu-portal'')] p) kids"

definition DropdownMenuTrigger :: "'e part" where
  "DropdownMenuTrigger lib p kids =
     El ''DropdownMenu.Trigger'' (spread_over [(''data-slot'', Str ''dropdown-menu-trigger'')] p) kids"

definition DropdownMenuContent :: "'e part" where
  "DropdownMenuContent lib p kids =
     (let className = attr_of ''className'' p; align = or_default (attr_of ''align'' p) (Str ''start'');
          sideOffset = or_default (attr_of ''sideOffset'' p) (Num 4);
          rest = omit [''className'', ''align'', ''sideOffset''] p in
      El ''DropdownMenu.Portal'' []
        [El ''DropdownMenu.Content''
           (spread_over
              [(''data-slot'', Str ''dropdown-menu-content''), (''sideOffset'', sideOffset), (''align'', align),
               (''className'',
                Str (cn lib [Str ''z-50 max-h-(--radix-dropdown-menu-content-available-height) w-(--radix-dropdown-menu-trigger-width) min-w-32 origin-(--radix-dropdown-menu-content-transform-origin) overflow-x-hidden overflow-y-auto rounded-lg bg-popover p-1 text-popover-foreground shadow-md ring-1 ring-foreground/10 duration-100 data-[side=bottom]:slide-in-from-top-2 data-[side=left]:slide-in-from-right-2 data-[side=right]:slide-in-from-left-2 data-[side=top]:slide-in-from-bottom-2 data-[state=closed]:overflow-hidden data-open:animate-in data-open:fade-in-0 data-open:zoom-in-95 data-closed:animate-out data-closed:fade-out-0 data-closed:zoom-out-95'',
                             className]))]
              rest)
           kids])"

definition DropdownMenuGroup :: "'e part" where
  "DropdownMenuGroup lib p kids =
     El ''DropdownMenu.Group'' (spread_over [(''data-slot'', Str ''dropdown-menu-group'')] p) kids"

definition DropdownMenuItem :: "'e part" where
  "DropdownMenuItem lib p kids =
     (let className = attr_of ''className'' p; inset = attr_of ''inset'' p;
          variant = or_default (attr_of ''variant'' p) (Str ''default'');
          rest = omit [''className'', ''inset'', ''variant''] p in
      El ''DropdownMenu.Item''
        (spread_over
           [(''data-slot'', Str ''dropdown-menu-item''), (''data-inset'', inset), (''data-variant'', variant),
            (''className'',
             Str (cn lib [Str ''group/dropdown-menu-item relative flex cursor-default items-center gap-1.5 rounded-md px-1.5 py-1 text-sm outline-hidden select-none focus:bg-accent focus:text-accent-foreground not-data-[variant=destructive]:focus:**:text-accent-foreground data-inset:pl-7 data-[variant=destructive]:text-destructive data-[variant=destructive]:focus:bg-destructive/10 data-[variant=destructive]:focus:text-destructive dark:data-[variant=destructive]:focus:bg-destructive/20 data-disabled:pointer-events-none data-disabled:opacity-50 [&_svg]:pointer-events-none [&_svg]:shrink-0 [&_svg:not([class*='size-'])]:size-4 data-[variant=destructive]:*:[svg]:text-destructive'',
                          className]))]
           rest)
        kids)"

definition DropdownMenuCheckboxItem :: "'e part" where
  "DropdownMenuCheckboxItem lib p kids =
     (let className = attr_of ''className'' p; checked = attr_of ''checked'' p; inset = attr_of ''inset'' p;
          rest = omit [''className'', ''checked'', ''inset''] p in
      El ''DropdownMenu.CheckboxItem''
        (spread_over
           [(''data-slot'', Str ''dropdown-menu-checkbox-item''), (''data-inset'', inset),
            (''className'',
             Str (cn lib [Str ''relative flex cursor-default items-center gap-1.5 rounded-md py-1 pr-8 pl-1.5 text-sm outline-hidden select-none focus:bg-accent focus:text-accent-foreground focus:**:text-accent-foreground data-inset:pl-7 data-disabled:pointer-events-none data-disabled:opacity-50 [&_svg]:pointer-events-none [&_svg]:shrink-0 [&_svg:not([class*='size-'])]:size-4'',
                          className])),
            (''checked'', checked)]
           rest)
        ([El ''span''
            [(''className'', Str ''pointer-events-none absolute right-2 flex items-center justify-center''),
             (''data-slot'', Str ''dropdown-menu-checkbox-item-indicator'')]
            [El ''DropdownMenu.ItemIndicator'' [] [El ''CheckIcon'' [] []]]] @
         kids))"

definition DropdownMenuRadioGroup :: "'e part" where
  "DropdownMenuRadioGroup lib p kids =
     El ''DropdownMenu.RadioGroup'' (spread_over [(''data-slot'', Str ''dropdown-menu-radio-group'')] p) kids"

definition DropdownMenuRadioItem :: "'e part" where
  "DropdownMenuRadioItem lib p kids =
     (let className = attr_of ''className'' p; inset = attr_of ''inset'' p; rest = omit [''className'', ''inset''] p in
      El ''DropdownMenu.RadioItem''
        (spread_over
           [(''data-slot'', Str ''dropdown-menu-radio-item''), (''data-inset'', inset),
            (''className'',
             Str (cn lib [Str ''relative flex cursor-default items-center gap-1.5 rounded-md py-1 pr-8 pl-1.5 text-sm outline-hidden select-none focus:bg-accent focus:text-accent-foreground focus:**:text-accent-foreground data-inset:pl-7 data-disabled:pointer-events-none data-disabled:opacity-50 [&_svg]:pointer-events-none [&_svg]:shrink-0 [&_svg:not([class*='size-'])]:size-4'',
                          className]))]
           rest)
        ([El ''span''
            [(''className'', Str ''pointer-events-none absolute right-2 flex items-center justify-center''),
             (''data-slot'', Str ''dropdown-menu-radio-item-indicator'')]
            [El ''DropdownMenu.ItemIndicator'' [] [El ''CheckIcon'' [] []]]] @
         kids))"

definition DropdownMenuLabel :: "'e part" where
  "DropdownMenuLabel lib p kids =
     (let className = attr_of ''className'' p; inset = attr_of ''inset'' p; rest = omit [''className'', ''inset''] p in
      El ''DropdownMenu.Label''
        (spread_over
           [(''data-slot'', Str ''dropdown-menu-label''), (''data-inset'', inset),
            (''className'',
             Str (cn lib [Str ''px-1.5 py-1 text-xs font-medium text-muted-foreground data-inset:pl-7'', className]))]
           rest)
        kids)"

definition DropdownMenuSeparator :: "'e part" where
  "DropdownMenuSeparator lib p kids =
     (let className = attr_of ''className'' p; rest = omit [''className''] p in
      El ''DropdownMenu.Separator''
        (spread_over
           [(''data-slot'', Str ''dropdown-menu-separator''),
            (''className'', Str (cn lib [Str ''-mx-1 my-1 h-px bg-border'', className]))]
           rest)
        kids)"

definition DropdownMenuShortcut :: "'e part" where
  "DropdownMenuShortcut lib p kids =
     (let className = attr_of ''className'' p; rest = omit [''className''] p in
      El ''span''
        (spread_over
           [(''data-slot'', Str ''dropdown-menu-shortcut''),
            (''className'',
             Str (cn lib [Str ''ml-auto text-xs tracking-widest text-muted-foreground group-focus/dropdown-menu-item:text-accent-foreground'',
                          className]))]
           rest)
        kids)"

definition DropdownMenuSub :: "'e part" where
  "DropdownMenuSub lib p kids =
     El ''DropdownMenu.Sub'' (spread_over [(''data-slot'', Str ''dropdown-menu-sub'')] p) kids"

definition DropdownMenuSubTrigger :: "'e part" where
  "DropdownMenuSubTrigger lib p kids =
     (let className = attr_of ''className'' p; inset = attr_of ''inset'' p; rest = omit [''className'', ''inset''] p in
      El ''DropdownMenu.SubTrigger''
        (spread_over
           [(''data-slot'', Str ''dropdown-menu-sub-trigger''), (''data-inset'', inset),
            (''className'',
             Str (cn lib [Str ''flex cursor-default items-center gap-1.5 rounded-md px-1.5 py-1 text-sm outline-hidden select-none focus:bg-accent focus:text-accent-foreground not-data-[variant=destructive]:focus:**:text-accent-foreground data-inset:pl-7 data-open:bg-accent data-open:text-accent-foreground [&_svg]:pointer-events-none [&_svg]:shrink-0 [&_svg:not([class*='size-'])]:size-4'',
                          className]))]
           rest)
        (kids @ [El ''ChevronRightIcon'' [(''className'', Str ''ml-auto'')] []]))"

definition DropdownMenuSubContent :: "'e part" where
  "DropdownMenuSubContent lib p kids =
     (let className = attr_of ''className'' p; rest = omit [''className''] p in
      El ''DropdownMenu.SubContent''
        (spread_over
           [(''data-slot'', Str ''dropdown-menu-sub-content''),
            (''className'',
             Str (cn lib [Str ''z-50 min-w-[96px] origin-(--radix-dropdown-menu-content-transform-origin) overflow-hidden rounded-lg bg-popover p-1 text-popover-foreground shadow-lg ring-1 ring-foreground/10 duration-100 data-[side=bottom]:slide-in-from-top-2 data-[side=left]:slide-in-from-right-2 data-[side=right]:slide-in-from-left-2 data-[side=top]:slide-in-from-bottom-2 data-open:animate-in data-open:fade-in-0 data-open:zoom-in-95 data-closed:animate-out data-closed:fade-out-0 data-closed:zoom-out-95'',
                          className]))]
           rest)
        kids)"

section \<open>select.tsx\<close>

definition Select :: "'e part" where
  "Select lib p kids =
     El ''Select.Root'' (spread_over [(''data-slot'', Str ''select'')] p) kids"

definition SelectGroup :: "'e part" where
  "SelectGroup lib p kids =
     (let className = attr_of ''className'' p; rest = omit [''className''] p in
      El ''Select.Group''
        (spread_over
           [(''data-slot'', Str ''select-group''), (''className'', Str (cn lib [Str ''scroll-my-1 p-1'', className]))]
           rest)
        kids)"

definition SelectValue :: "'e part" where
  "SelectValue lib p kids =
     El ''Select.Value'' (spread_over [(''data-slot'', Str ''select-value'')] p) kids"

definition SelectTrigger :: "'e part" where
  "SelectTrigger lib p kids =
     (let className = attr_of ''className'' p; size = or_default (attr_of ''size'' p) (Str ''default'');
          rest = omit [''className'', ''size''] p in
      El ''Select.Trigger''
        (spread_over
           [(''data-slot'', Str ''select-trigger''), (''data-size'', size),
            (''className'',
             Str (cn lib [Str ''flex w-fit items-center justify-between gap-1.5 rounded-lg border border-input bg-transparent py-2 pr-2 pl-2.5 text-sm whitespace-nowrap transition-colors outline-none select-none focus-visible:border-ring focus-visible:ring-3 focus-visible:ring-ring/50 disabled:cursor-not-allowed disabled:opacity-50 aria-invalid:border-destructive aria-invalid:ring-3 aria-invalid:ring-destructive/20 data-placeholder:text-muted-foreground data-[size=default]:h-8 data-[size=sm]:h-7 data-[size=sm]:rounded-[min(var(--radius-md),10px)] *:data-[slot=select-value]:line-clamp-1 *:data-[slot=select-value]:flex *:data-[slot=select-value]:items-center *:data-[slot=select-value]:gap-1.5 dark:bg-input/30 dark:hover:bg-input/50 dark:aria-invalid:border-destructive/50 dark:aria-invalid:ring-destructive/40 [&_svg]:pointer-events-none [&_svg]:shrink-0 [&_svg:not([class*='size-'])]:size-4'',
                          className]))]
           rest)
        (kids @
         [El ''Select.Icon'' [(''asChild'', Boo True)]
            [El ''ChevronDownIcon'' [(''className'', Str ''pointer-events-none size-4 text-muted-foreground'')] []]]))"

definition SelectScrollUpButton :: "'e part" where
  "SelectScrollUpButton lib p kids =
     (let className = attr_of ''className'' p; rest = omit [''className''] p in
      El ''Select.ScrollUpButton''
        (spread_over
           [(''data-slot'', Str ''select-scroll-up-button''),
            (''className'',
             Str (cn lib [Str ''z-10 flex cursor-default items-center justify-center bg-popover py-1 [&_svg:not([class*='size-'])]:size-4'',
                          className]))]
           rest)
        [El ''ChevronUpIcon'' [] []])"

definition SelectScrollDownButton :: "'e part" where
  "SelectScrollDownButton lib p kids =
     (let className = attr_of ''className'' p; rest = omit [''className''] p in
      El ''Select.ScrollDownButton''
        (spread_over
           [(''data-slot'', Str ''select-scroll-down-button''),
            (''className'',
             Str (cn lib [Str ''z-10 flex cursor-default items-center justify-center bg-popover py-1 [&_svg:not([class*='size-'])]:size-4'',
                          className]))]
           rest)
        [El ''ChevronDownIcon'' [] []])"

definition SelectContent :: "'e part" where
  "SelectContent lib p kids =
     (let className = attr_of ''className'' p; position = or_default (attr_of ''position'' p) (Str ''item-aligned'');
          align = or_default (attr_of ''align'' p) (Str ''center'');
          rest = omit [''className'', ''position'', ''align''] p in
      El ''Select.Portal'' []
        [El ''Select.Content''
           (spread_over
              [(''data-slot'', Str ''select-content''),
               (''data-align-trigger'', Boo (position = Str ''item-aligned'')),
               (''className'',
                Str (cn lib [Str ''relative z-50 max-h-(--radix-select-content-available-height) min-w-36 origin-(--radix-select-content-transform-origin) overflow-x-hidden overflow-y-auto rounded-lg bg-popover text-popover-foreground shadow-md ring-1 ring-foreground/10 duration-100 data-[align-trigger=true]:animate-none data-[side=bottom]:slide-in-from-top-2 data-[side=left]:slide-in-from-right-2 data-[side=right]:slide-in-from-left-2 data-[side=top]:slide-in-from-bottom-2 data-open:animate-in data-open:fade-in-0 data-open:zoom-in-95 data-closed:animate-out data-closed:fade-out-0 data-closed:zoom-out-95'',
                             js_and (Boo (position = Str ''popper''))
                               (Str ''data-[side=bottom]:translate-y-1 data-[side=left]:-translate-x-1 data-[side=right]:translate-x-1 data-[side=top]:-translate-y-1''),
                             className])),
               (''position'', position), (''align'', align)]
              rest)
           [SelectScrollUpButton lib [] [],
            El ''Select.Viewport''
              [(''data-position'', position),
               (''className'',
                Str (cn lib [Str ''data-[position=popper]:h-(--radix-select-trigger-height) data-[position=popper]:w-full data-[position=popper]:min-w-(--radix-select-trigger-width)'',
                             js_and (Boo (position = Str ''popper'')) (Str '''')]))]
              kids,
            SelectScrollDownButton lib [] []]])"

definition SelectLabel :: "'e part" where
  "SelectLabel lib p kids =
     (let className = attr_of ''className'' p; rest = omit [''className''] p in
      El ''Select.Label''
        (spread_over
           [(''data-slot'', Str ''select-label''),
            (''className'', Str (cn lib [Str ''px-1.5 py-1 text-xs text-muted-foreground'', className]))]
           rest)
        kids)"

definition SelectItem :: "'e part" where
  "SelectItem lib p kids =
     (let className = attr_of ''className'' p; rest = omit [''className''] p in
      El ''Select.Item''
        (spread_over
           [(''data-slot'', Str ''select-item''),
            (''className'',
             Str (cn lib [Str ''relative flex w-full cursor-default items-center gap-1.5 rounded-md py-1 pr-8 pl-1.5 text-sm outline-hidden select-none focus:bg-accent focus:text-accent-foreground not-data-[variant=destructive]:focus:**:text-accent-foreground data-disabled:pointer-events-none data-disabled:opacity-50 [&_svg]:pointer-events-none [&_svg]:shrink-0 [&_svg:not([class*='size-'])]:size-4 *:[span]:last:flex *:[span]:last:items-center *:[span]:last:gap-2'',
                          className]))]
           rest)
        [El ''span''
           [(''className'', Str ''pointer-events-none absolute right-2 flex size-4 items-center justify-center'')]
           [El ''Select.ItemIndicator'' [] [El ''CheckIcon'' [(''className'', Str ''pointer-events-none'')] []]],
         El ''Select.ItemText'' [] kids])"

definition SelectSeparator :: "'e part" where
  "SelectSeparator lib p kids =
     (let className = attr_of ''className'' p; rest = omit [''className''] p in
      El ''Select.Separator''
        (spread_over
           [(''data-slot'', Str ''select-separator''),
            (''className'', Str (cn lib [Str ''pointer-events-none -mx-1 my-1 h-px bg-border'', className]))]
           rest)
        kids)"

lemmas overlay_part_defs =
  Dialog_def DialogTrigger_def DialogPortal_def DialogClose_def DialogOverlay_def DialogContent_def
  DialogHeader_def DialogFooter_def DialogTitle_def DialogDescription_def AlertDialog_def AlertDialogTrigger_def
  AlertDialogPortal_def AlertDialogOverlay_def AlertDialogContent_def AlertDialogHeader_def AlertDialogFooter_def
  AlertDialogMedia_def AlertDialogTitle_def AlertDialogDescription_def AlertDialogAction_def AlertDialogCancel_def
  Sheet_def SheetTrigger_def SheetClose_def SheetPortal_def SheetOverlay_def SheetContent_def SheetHeader_def
  SheetFooter_def SheetTitle_def SheetDescription_def DropdownMenu_def DropdownMenuPortal_def
  DropdownMenuTrigger_def DropdownMenuContent_def DropdownMenuGroup_def DropdownMenuItem_def
  DropdownMenuCheckboxItem_def DropdownMenuRadioGroup_def DropdownMenuRadioItem_def DropdownMenuLabel_def
  DropdownMenuSeparator_def DropdownMenuShortcut_def DropdownMenuSub_def DropdownMenuSubTrigger_def
  DropdownMenuSubContent_def Select_def SelectGroup_def SelectValue_def SelectTrigger_def SelectScrollUpButton_def
  SelectScrollDownButton_def SelectContent_def SelectLabel_def SelectItem_def SelectSeparator_def

end
