(* ===== verification/Sidebar.thy ===== *)
theory Sidebar
  imports Shell
begin

text \<open>
  The frame's side bar as it opens and closes: the provider of frontend/src/components/ui/sidebar.tsx, the hook
  hooks/use-mobile.ts, and the entries of components/app-sidebar.tsx that close it.  On a narrow window it is a sheet
  over the page, on a wide one a column that shrinks to its icons; each layout has a state of its own.  The browser is
  the window's width and the cookie the provider writes.
\<close>

section \<open>State\<close>

definition MOBILE_BREAKPOINT :: int where
  "MOBILE_BREAKPOINT = 768"

text \<open>\<open>sd_isMobile\<close> is undefined until the hook's effect has run.\<close>

record sidebar =
  sd_width :: int
  sd_isMobile :: "bool option"
  sd_open :: bool
  sd_openMobile :: bool
  sd_cookie :: "string option"

definition narrow :: "int \<Rightarrow> bool" where
  "narrow w \<longleftrightarrow> w < MOBILE_BREAKPOINT"

text \<open>\<open>!!isMobile\<close>.\<close>

definition useIsMobile :: "sidebar \<Rightarrow> bool" where
  "useIsMobile s \<longleftrightarrow> sd_isMobile s = Some True"

definition SIDEBAR_COOKIE_MAX_AGE :: int where
  "SIDEBAR_COOKIE_MAX_AGE = 60 * 60 * 24 * 7"

definition sidebar_cookie :: "bool \<Rightarrow> string" where
  "sidebar_cookie openState =
     ''sidebar_state='' @ (if openState then ''true'' else ''false'') @ ''; path=/; max-age='' @ int_str SIDEBAR_COOKIE_MAX_AGE"

text \<open>The provider as the shell mounts it: not controlled from outside, open by default; the cookie is the browser's.\<close>

definition sidebar_init :: "int \<Rightarrow> string option \<Rightarrow> sidebar" where
  "sidebar_init w cookie = \<lparr>sd_width = w, sd_isMobile = None, sd_open = True, sd_openMobile = False, sd_cookie = cookie\<rparr>"

section \<open>Operations\<close>

definition set_open :: "bool \<Rightarrow> sidebar \<Rightarrow> sidebar" where
  "set_open b s = s\<lparr>sd_open := b, sd_cookie := Some (sidebar_cookie b)\<rparr>"

definition toggleSidebar :: "sidebar \<Rightarrow> sidebar" where
  "toggleSidebar s = (if useIsMobile s then s\<lparr>sd_openMobile := \<not> sd_openMobile s\<rparr> else set_open (\<not> sd_open s) s)"

record key_press =
  kp_key :: string
  kp_meta :: bool
  kp_ctrl :: bool

definition sidebar_shortcut :: "key_press \<Rightarrow> bool" where
  "sidebar_shortcut k \<longleftrightarrow> kp_key k = ''b'' \<and> (kp_meta k \<or> kp_ctrl k)"

datatype sidebar_event =
    WidthKnown
  | WindowWidth int
  | TriggerClick | RailClick
  | KeyDown key_press
  | SheetOpenChange bool
  | FollowEntry string
  | SidebarLogout

text \<open>
  The media query's change event fires when the width crosses the breakpoint.  A key press is swallowed only when it is
  the shortcut; a followed entry navigates.
\<close>

fun sidebar_step :: "sidebar_event \<Rightarrow> sidebar \<Rightarrow> sidebar" where
  "sidebar_step WidthKnown s = s\<lparr>sd_isMobile := Some (narrow (sd_width s))\<rparr>"
| "sidebar_step (WindowWidth w) s =
     s\<lparr>sd_width := w, sd_isMobile := (if sd_isMobile s \<noteq> None \<and> narrow w \<noteq> narrow (sd_width s) then Some (narrow w) else sd_isMobile s)\<rparr>"
| "sidebar_step TriggerClick s = toggleSidebar s"
| "sidebar_step RailClick s = toggleSidebar s"
| "sidebar_step (KeyDown k) s = (if sidebar_shortcut k then toggleSidebar s else s)"
| "sidebar_step (SheetOpenChange b) s = s\<lparr>sd_openMobile := b\<rparr>"
| "sidebar_step (FollowEntry t) s = (if useIsMobile s then s\<lparr>sd_openMobile := False\<rparr> else s)"
| "sidebar_step SidebarLogout s = s"

section \<open>What is shown\<close>

definition bar_state :: "sidebar \<Rightarrow> string" where
  "bar_state s = (if sd_open s then ''expanded'' else ''collapsed'')"

text \<open>The attributes the column is styled by, and the tooltip of an entry, needed only where its label is hidden.\<close>

definition data_collapsible :: "string \<Rightarrow> sidebar \<Rightarrow> string" where
  "data_collapsible collapsible s = (if bar_state s = ''collapsed'' then collapsible else [])"

definition tooltip_hidden :: "sidebar \<Rightarrow> bool" where
  "tooltip_hidden s \<longleftrightarrow> bar_state s \<noteq> ''collapsed'' \<or> useIsMobile s"

definition entry_events :: "shell_event view list \<Rightarrow> sidebar_event view list" where
  "entry_events = map (map_view (\<lambda>e. case e of FollowLink t \<Rightarrow> FollowEntry t | _ \<Rightarrow> SidebarLogout))"

text \<open>The sheet covers the page and closes by its own means; the column has the rail at its edge.\<close>

definition SidebarFrame :: "sidebar_props \<Rightarrow> string \<Rightarrow> sidebar \<Rightarrow> sidebar_event view list" where
  "SidebarFrame p pathname s =
     (let children = entry_events (AppSidebar p pathname) @ [Btn [Raw ''Toggle Sidebar''] False RailClick] in
      if useIsMobile s then
        only_if (sd_openMobile s)
          [Grp ''dialog'' ([Txt [Raw ''Sidebar''], Txt [Raw ''Displays the mobile sidebar.'']] @ children @
             [Btn [Raw ''(outside, escape)''] False (SheetOpenChange False)])]
      else [Grp (bar_state s @ '' '' @ data_collapsible ''icon'' s) children])"

definition SidebarTrigger :: "sidebar_event view" where
  "SidebarTrigger = Btn [Zh ''toggle the side bar''] False TriggerClick"

text \<open>Behind the open sheet the trigger cannot be reached; the keyboard and the window always can.\<close>

fun sidebar_enabled :: "sidebar_props \<Rightarrow> string \<Rightarrow> sidebar \<Rightarrow> sidebar_event \<Rightarrow> bool" where
  "sidebar_enabled p a s WidthKnown \<longleftrightarrow> sd_isMobile s = None"
| "sidebar_enabled p a s (WindowWidth w) \<longleftrightarrow> True"
| "sidebar_enabled p a s (KeyDown k) \<longleftrightarrow> True"
| "sidebar_enabled p a s e \<longleftrightarrow>
     offers (SidebarFrame p a s @ only_if (\<not> (useIsMobile s \<and> sd_openMobile s)) [SidebarTrigger]) e"

text \<open>The brand, the versions and the address the entries are shown for may change between two events.\<close>

inductive sidebar_reach :: "string option \<Rightarrow> sidebar \<Rightarrow> bool" for cookie where
  sidebar_start: "sidebar_reach cookie (sidebar_init w cookie)"
| sidebar_move: "sidebar_reach cookie s \<Longrightarrow> sidebar_enabled p a s e \<Longrightarrow> sidebar_reach cookie (sidebar_step e s)"

section \<open>Laws\<close>

lemma toggle_simps [simp]:
  "sd_isMobile (toggleSidebar s) = sd_isMobile s" "sd_width (toggleSidebar s) = sd_width s"
  "useIsMobile (toggleSidebar s) = useIsMobile s"
  by (simp_all add: toggleSidebar_def set_open_def useIsMobile_def)

text \<open>Once the hook's effect has run, the layout is that of the window, and the cookie is what the column shows.\<close>

definition layout_inv :: "string option \<Rightarrow> sidebar \<Rightarrow> bool" where
  "layout_inv cookie s \<longleftrightarrow>
     (sd_isMobile s = None \<or> sd_isMobile s = Some (narrow (sd_width s))) \<and>
     (sd_cookie s = Some (sidebar_cookie (sd_open s)) \<or> (sd_open s \<and> sd_cookie s = cookie)) \<and>
     (sd_openMobile s \<longrightarrow> sd_isMobile s \<noteq> None)"

lemma sheet_offered: "\<not> useIsMobile s \<Longrightarrow> \<not> sidebar_enabled p a s (SheetOpenChange b)"
  by (auto simp: SidebarFrame_def SidebarTrigger_def Let_def entry_events_def offers_map_view split: shell_event.splits)

lemma layout_step: "layout_inv cookie s \<Longrightarrow> sidebar_enabled p a s e \<Longrightarrow> layout_inv cookie (sidebar_step e s)"
proof (cases e)
  case (SheetOpenChange b)
  assume "layout_inv cookie s" "sidebar_enabled p a s e"
  then show ?thesis using SheetOpenChange sheet_offered [of s p a b] by (auto simp: layout_inv_def useIsMobile_def)
qed (auto simp: layout_inv_def toggleSidebar_def set_open_def useIsMobile_def)

lemma sidebar_reach_layout: "sidebar_reach cookie s \<Longrightarrow> layout_inv cookie s"
  by (induction rule: sidebar_reach.induct) (simp add: sidebar_init_def layout_inv_def, rule layout_step)

text \<open>
  Whatever is clicked, typed or resized, the bar is laid out for the window it is in; a key, the trigger and the rail
  open and close exactly what that layout shows, the sheet or the column, twice is as if nothing had happened, and an
  entry that is followed never leaves the page behind the sheet.
\<close>

theorem sidebar_layout:
  assumes "sidebar_reach cookie s" "sd_isMobile s \<noteq> None"
  shows "useIsMobile s = narrow (sd_width s)
    \<and> sd_open (toggleSidebar s) = (sd_open s = narrow (sd_width s))
    \<and> sd_openMobile (toggleSidebar s) = (sd_openMobile s \<noteq> narrow (sd_width s))
    \<and> sd_open (toggleSidebar (toggleSidebar s)) = sd_open s \<and> sd_openMobile (toggleSidebar (toggleSidebar s)) = sd_openMobile s
    \<and> \<not> (useIsMobile (sidebar_step (FollowEntry t) s) \<and> sd_openMobile (sidebar_step (FollowEntry t) s))"
  using sidebar_reach_layout [OF assms(1)] assms(2)
  by (auto simp: layout_inv_def toggleSidebar_def set_open_def useIsMobile_def)

theorem sidebar_layout_witness:
  "useIsMobile (sidebar_step WidthKnown (sidebar_init 400 None))"
proof -
  let ?s = "sidebar_step WidthKnown (sidebar_init 400 None)"
  have "sidebar_reach None ?s" by (rule sidebar_move [OF sidebar_start]) (simp add: sidebar_init_def)
  moreover have "sd_isMobile ?s \<noteq> None" "narrow (sd_width ?s)" by (simp_all add: sidebar_init_def narrow_def MOBILE_BREAKPOINT_def)
  ultimately show ?thesis using sidebar_layout by blast
qed

text \<open>
  The cookie records every change of the column, but nothing reads it: mounted again, after a reload or a new session,
  the column is expanded whatever the cookie says.
\<close>

lemma cookie_written: "\<not> useIsMobile s \<Longrightarrow> sd_cookie (toggleSidebar s) = Some (sidebar_cookie (sd_open (toggleSidebar s)))"
  by (simp add: toggleSidebar_def set_open_def)

lemma cookie_not_read: "sd_open (sidebar_init w (Some (sidebar_cookie False)))"
  by (simp add: sidebar_init_def)

end
