(* ===== verification/KitSidebar.thy ===== *)
theory KitSidebar
  imports KitOverlays Sidebar
begin

text \<open>
  The side bar as the kit draws it (frontend/src/components/ui/sidebar.tsx), over the context its provider makes of the
  machine of theory Sidebar.  Outside a provider the parts that need the context throw.
\<close>

section \<open>The provider\<close>

definition SIDEBAR_WIDTH :: string where
  "SIDEBAR_WIDTH = ''16rem''"

definition SIDEBAR_WIDTH_MOBILE :: string where
  "SIDEBAR_WIDTH_MOBILE = ''18rem''"

definition SIDEBAR_WIDTH_ICON :: string where
  "SIDEBAR_WIDTH_ICON = ''3rem''"

text \<open>A handler is generic in the events it raises; for the provider's own handlers they are functions of its state.\<close>

record 'e sidebar_context =
  ctx_state :: string
  ctx_open :: bool
  ctx_setOpen :: "bool \<Rightarrow> 'e list"
  ctx_isMobile :: bool
  ctx_openMobile :: bool
  ctx_setOpenMobile :: "bool \<Rightarrow> 'e list"
  ctx_toggleSidebar :: "'e list"

definition contextValue :: "sidebar \<Rightarrow> (sidebar \<Rightarrow> sidebar) sidebar_context" where
  "contextValue s =
     \<lparr>ctx_state = bar_state s, ctx_open = sd_open s, ctx_setOpen = (\<lambda>b. [set_open b]), ctx_isMobile = useIsMobile s,
      ctx_openMobile = sd_openMobile s, ctx_setOpenMobile = (\<lambda>b. [\<lambda>t. t\<lparr>sd_openMobile := b\<rparr>]),
      ctx_toggleSidebar = [toggleSidebar]\<rparr>"

definition useSidebar :: "'e sidebar_context option \<Rightarrow> string + 'e sidebar_context" where
  "useSidebar context =
     (case context of None \<Rightarrow> Inl ''useSidebar must be used within a SidebarProvider.'' | Some x \<Rightarrow> Inr x)"

fun obj_of :: "'e attr \<Rightarrow> 'e props" where
  "obj_of (Obj p) = p"
| "obj_of v = []"

definition SidebarWrapper :: "'e part" where
  "SidebarWrapper lib p kids =
     (let className = attr_of ''className'' p; style = attr_of ''style'' p;
          rest = omit [''defaultOpen'', ''open'', ''onOpenChange'', ''className'', ''style''] p in
      El ''div''
        (spread_over
           [(''data-slot'', Str ''sidebar-wrapper''),
            (''style'',
             Obj (spread_over [(''--sidebar-width'', Str SIDEBAR_WIDTH), (''--sidebar-width-icon'', Str SIDEBAR_WIDTH_ICON)]
                    (obj_of style))),
            (''className'',
             Str (cn lib [Str ''group/sidebar-wrapper flex min-h-svh w-full has-data-[variant=inset]:bg-sidebar'',
                          className]))]
           rest)
        kids)"

section \<open>Parts\<close>

definition SidebarInset :: "'e part" where
  "SidebarInset lib p kids =
     (let className = attr_of ''className'' p; rest = omit [''className''] p in
      El ''main''
        (spread_over
           [(''data-slot'', Str ''sidebar-inset''),
            (''className'',
             Str (cn lib [Str ''relative flex w-full flex-1 flex-col bg-background md:peer-data-[variant=inset]:m-2 md:peer-data-[variant=inset]:ml-0 md:peer-data-[variant=inset]:rounded-xl md:peer-data-[variant=inset]:shadow-sm md:peer-data-[variant=inset]:peer-data-[state=collapsed]:ml-2'',
                          className]))]
           rest)
        kids)"

definition SidebarInput :: "'e part" where
  "SidebarInput lib p kids =
     (let className = attr_of ''className'' p; rest = omit [''className''] p in
      Input lib
        (spread_over
           [(''data-slot'', Str ''sidebar-input''), (''data-sidebar'', Str ''input''),
            (''className'', Str (cn lib [Str ''h-8 w-full bg-background shadow-none'', className]))]
           rest)
        kids)"

definition SidebarHeader :: "'e part" where
  "SidebarHeader lib p kids =
     (let className = attr_of ''className'' p; rest = omit [''className''] p in
      El ''div''
        (spread_over
           [(''data-slot'', Str ''sidebar-header''), (''data-sidebar'', Str ''header''),
            (''className'', Str (cn lib [Str ''flex flex-col gap-2 p-2'', className]))]
           rest)
        kids)"

definition SidebarFooter :: "'e part" where
  "SidebarFooter lib p kids =
     (let className = attr_of ''className'' p; rest = omit [''className''] p in
      El ''div''
        (spread_over
           [(''data-slot'', Str ''sidebar-footer''), (''data-sidebar'', Str ''footer''),
            (''className'', Str (cn lib [Str ''flex flex-col gap-2 p-2'', className]))]
           rest)
        kids)"

definition SidebarSeparator :: "'e part" where
  "SidebarSeparator lib p kids =
     (let className = attr_of ''className'' p; rest = omit [''className''] p in
      Separator lib
        (spread_over
           [(''data-slot'', Str ''sidebar-separator''), (''data-sidebar'', Str ''separator''),
            (''className'', Str (cn lib [Str ''mx-2 w-auto bg-sidebar-border'', className]))]
           rest)
        kids)"

definition SidebarContent :: "'e part" where
  "SidebarContent lib p kids =
     (let className = attr_of ''className'' p; rest = omit [''className''] p in
      El ''div''
        (spread_over
           [(''data-slot'', Str ''sidebar-content''), (''data-sidebar'', Str ''content''),
            (''className'',
             Str (cn lib [Str ''no-scrollbar flex min-h-0 flex-1 flex-col gap-0 overflow-auto group-data-[collapsible=icon]:overflow-hidden'',
                          className]))]
           rest)
        kids)"

definition SidebarGroup :: "'e part" where
  "SidebarGroup lib p kids =
     (let className = attr_of ''className'' p; rest = omit [''className''] p in
      El ''div''
        (spread_over
           [(''data-slot'', Str ''sidebar-group''), (''data-sidebar'', Str ''group''),
            (''className'', Str (cn lib [Str ''relative flex w-full min-w-0 flex-col p-2'', className]))]
           rest)
        kids)"

definition SidebarGroupLabel :: "'e part" where
  "SidebarGroupLabel lib p kids =
     (let className = attr_of ''className'' p; asChild = or_default (attr_of ''asChild'' p) (Boo False);
          rest = omit [''className'', ''asChild''] p in
      El (if js_truthy asChild then ''Slot.Root'' else ''div'')
        (spread_over
           [(''data-slot'', Str ''sidebar-group-label''), (''data-sidebar'', Str ''group-label''),
            (''className'',
             Str (cn lib [Str ''flex h-8 shrink-0 items-center rounded-md px-2 text-xs font-medium text-sidebar-foreground/70 ring-sidebar-ring outline-hidden transition-[margin,opacity] duration-200 ease-linear group-data-[collapsible=icon]:-mt-8 group-data-[collapsible=icon]:opacity-0 focus-visible:ring-2 [&>svg]:size-4 [&>svg]:shrink-0'',
                          className]))]
           rest)
        kids)"

definition SidebarGroupAction :: "'e part" where
  "SidebarGroupAction lib p kids =
     (let className = attr_of ''className'' p; asChild = or_default (attr_of ''asChild'' p) (Boo False);
          rest = omit [''className'', ''asChild''] p in
      El (if js_truthy asChild then ''Slot.Root'' else ''button'')
        (spread_over
           [(''data-slot'', Str ''sidebar-group-action''), (''data-sidebar'', Str ''group-action''),
            (''className'',
             Str (cn lib [Str ''absolute top-3.5 right-3 flex aspect-square w-5 items-center justify-center rounded-md p-0 text-sidebar-foreground ring-sidebar-ring outline-hidden transition-transform group-data-[collapsible=icon]:hidden after:absolute after:-inset-2 hover:bg-sidebar-accent hover:text-sidebar-accent-foreground focus-visible:ring-2 md:after:hidden [&>svg]:size-4 [&>svg]:shrink-0'',
                          className]))]
           rest)
        kids)"

definition SidebarGroupContent :: "'e part" where
  "SidebarGroupContent lib p kids =
     (let className = attr_of ''className'' p; rest = omit [''className''] p in
      El ''div''
        (spread_over
           [(''data-slot'', Str ''sidebar-group-content''), (''data-sidebar'', Str ''group-content''),
            (''className'', Str (cn lib [Str ''w-full text-sm'', className]))]
           rest)
        kids)"

definition SidebarMenu :: "'e part" where
  "SidebarMenu lib p kids =
     (let className = attr_of ''className'' p; rest = omit [''className''] p in
      El ''ul''
        (spread_over
           [(''data-slot'', Str ''sidebar-menu''), (''data-sidebar'', Str ''menu''),
            (''className'', Str (cn lib [Str ''flex w-full min-w-0 flex-col gap-0'', className]))]
           rest)
        kids)"

definition SidebarMenuItem :: "'e part" where
  "SidebarMenuItem lib p kids =
     (let className = attr_of ''className'' p; rest = omit [''className''] p in
      El ''li''
        (spread_over
           [(''data-slot'', Str ''sidebar-menu-item''), (''data-sidebar'', Str ''menu-item''),
            (''className'', Str (cn lib [Str ''group/menu-item relative'', className]))]
           rest)
        kids)"

definition sidebarMenuButtonVariants :: variant_table where
  "sidebarMenuButtonVariants =
     \<lparr>vt_base =
        ''peer/menu-button group/menu-button flex w-full items-center gap-2 overflow-hidden rounded-md p-2 text-left text-sm ring-sidebar-ring outline-hidden transition-[width,height,padding] group-has-data-[sidebar=menu-action]/menu-item:pr-8 group-data-[collapsible=icon]:size-8! group-data-[collapsible=icon]:p-2! hover:bg-sidebar-accent hover:text-sidebar-accent-foreground focus-visible:ring-2 active:bg-sidebar-accent active:text-sidebar-accent-foreground disabled:pointer-events-none disabled:opacity-50 aria-disabled:pointer-events-none aria-disabled:opacity-50 data-open:hover:bg-sidebar-accent data-open:hover:text-sidebar-accent-foreground data-active:bg-sidebar-accent data-active:font-medium data-active:text-sidebar-accent-foreground [&_svg]:size-4 [&_svg]:shrink-0 [&>span:last-child]:truncate'',
      vt_variants =
        [(''variant'',
          [(''default'', ''hover:bg-sidebar-accent hover:text-sidebar-accent-foreground''),
           (''outline'',
            ''bg-background shadow-[0_0_0_1px_var(--sidebar-border)] hover:bg-sidebar-accent hover:text-sidebar-accent-foreground hover:shadow-[0_0_0_1px_var(--sidebar-accent)]'')]),
         (''size'',
          [(''default'', ''h-8 text-sm''), (''sm'', ''h-7 text-xs''),
           (''lg'', ''h-12 text-sm group-data-[collapsible=icon]:p-0!'')])],
      vt_defaults = [(''variant'', ''default''), (''size'', ''default'')]\<rparr>"

definition SidebarMenuAction :: "'e part" where
  "SidebarMenuAction lib p kids =
     (let className = attr_of ''className'' p; asChild = or_default (attr_of ''asChild'' p) (Boo False);
          showOnHover = or_default (attr_of ''showOnHover'' p) (Boo False);
          rest = omit [''className'', ''asChild'', ''showOnHover''] p in
      El (if js_truthy asChild then ''Slot.Root'' else ''button'')
        (spread_over
           [(''data-slot'', Str ''sidebar-menu-action''), (''data-sidebar'', Str ''menu-action''),
            (''className'',
             Str (cn lib [Str ''absolute top-1.5 right-1 flex aspect-square w-5 items-center justify-center rounded-md p-0 text-sidebar-foreground ring-sidebar-ring outline-hidden transition-transform group-data-[collapsible=icon]:hidden peer-hover/menu-button:text-sidebar-accent-foreground peer-data-[size=default]/menu-button:top-1.5 peer-data-[size=lg]/menu-button:top-2.5 peer-data-[size=sm]/menu-button:top-1 after:absolute after:-inset-2 hover:bg-sidebar-accent hover:text-sidebar-accent-foreground focus-visible:ring-2 md:after:hidden [&>svg]:size-4 [&>svg]:shrink-0'',
                          js_and showOnHover
                            (Str ''group-focus-within/menu-item:opacity-100 group-hover/menu-item:opacity-100 peer-data-active/menu-button:text-sidebar-accent-foreground aria-expanded:opacity-100 md:opacity-0''),
                          className]))]
           rest)
        kids)"

definition SidebarMenuBadge :: "'e part" where
  "SidebarMenuBadge lib p kids =
     (let className = attr_of ''className'' p; rest = omit [''className''] p in
      El ''div''
        (spread_over
           [(''data-slot'', Str ''sidebar-menu-badge''), (''data-sidebar'', Str ''menu-badge''),
            (''className'',
             Str (cn lib [Str ''pointer-events-none absolute right-1 flex h-5 min-w-5 items-center justify-center rounded-md px-1 text-xs font-medium text-sidebar-foreground tabular-nums select-none group-data-[collapsible=icon]:hidden peer-hover/menu-button:text-sidebar-accent-foreground peer-data-[size=default]/menu-button:top-1.5 peer-data-[size=lg]/menu-button:top-2.5 peer-data-[size=sm]/menu-button:top-1 peer-data-active/menu-button:text-sidebar-accent-foreground'',
                          className]))]
           rest)
        kids)"

definition SidebarMenuSub :: "'e part" where
  "SidebarMenuSub lib p kids =
     (let className = attr_of ''className'' p; rest = omit [''className''] p in
      El ''ul''
        (spread_over
           [(''data-slot'', Str ''sidebar-menu-sub''), (''data-sidebar'', Str ''menu-sub''),
            (''className'',
             Str (cn lib [Str ''mx-3.5 flex min-w-0 translate-x-px flex-col gap-1 border-l border-sidebar-border px-2.5 py-0.5 group-data-[collapsible=icon]:hidden'',
                          className]))]
           rest)
        kids)"

definition SidebarMenuSubItem :: "'e part" where
  "SidebarMenuSubItem lib p kids =
     (let className = attr_of ''className'' p; rest = omit [''className''] p in
      El ''li''
        (spread_over
           [(''data-slot'', Str ''sidebar-menu-sub-item''), (''data-sidebar'', Str ''menu-sub-item''),
            (''className'', Str (cn lib [Str ''group/menu-sub-item relative'', className]))]
           rest)
        kids)"

definition SidebarMenuSubButton :: "'e part" where
  "SidebarMenuSubButton lib p kids =
     (let asChild = or_default (attr_of ''asChild'' p) (Boo False);
          size = or_default (attr_of ''size'' p) (Str ''md'');
          isActive = or_default (attr_of ''isActive'' p) (Boo False); className = attr_of ''className'' p;
          rest = omit [''asChild'', ''size'', ''isActive'', ''className''] p in
      El (if js_truthy asChild then ''Slot.Root'' else ''a'')
        (spread_over
           [(''data-slot'', Str ''sidebar-menu-sub-button''), (''data-sidebar'', Str ''menu-sub-button''),
            (''data-size'', size), (''data-active'', isActive),
            (''className'',
             Str (cn lib [Str ''flex h-7 min-w-0 -translate-x-px items-center gap-2 overflow-hidden rounded-md px-2 text-sidebar-foreground ring-sidebar-ring outline-hidden group-data-[collapsible=icon]:hidden hover:bg-sidebar-accent hover:text-sidebar-accent-foreground focus-visible:ring-2 active:bg-sidebar-accent active:text-sidebar-accent-foreground disabled:pointer-events-none disabled:opacity-50 aria-disabled:pointer-events-none aria-disabled:opacity-50 data-[size=md]:text-sm data-[size=sm]:text-xs data-active:bg-sidebar-accent data-active:text-sidebar-accent-foreground [&>span:last-child]:truncate [&>svg]:size-4 [&>svg]:shrink-0 [&>svg]:text-sidebar-accent-foreground'',
                          className]))]
           rest)
        kids)"


section \<open>Parts that need the context\<close>

definition SidebarPanel :: "'e sidebar_context option \<Rightarrow> 'e kit_lib \<Rightarrow> 'e props \<Rightarrow> 'e elem list \<Rightarrow> string + 'e elem" where
  "SidebarPanel context lib p kids =
     (case useSidebar context of
        Inl err \<Rightarrow> Inl err
      | Inr x \<Rightarrow>
          let side = or_default (attr_of ''side'' p) (Str ''left''); variant = or_default (attr_of ''variant'' p) (Str ''sidebar'');
              collapsible = or_default (attr_of ''collapsible'' p) (Str ''offcanvas'');
              className = attr_of ''className'' p; dir = attr_of ''dir'' p;
              rest = omit [''side'', ''variant'', ''collapsible'', ''className'', ''dir''] p in
          Inr (if collapsible = Str ''none'' then
                 El ''div''
                   (spread_over
                      [(''data-slot'', Str ''sidebar''),
                       (''className'',
                        Str (cn lib [Str ''flex h-full w-(--sidebar-width) flex-col bg-sidebar text-sidebar-foreground'',
                                     className]))]
                      rest)
                   kids
               else if ctx_isMobile x then
                 Sheet lib
                   (spread_over [(''open'', Boo (ctx_openMobile x)), (''onOpenChange'', HanB (ctx_setOpenMobile x))] rest)
                   [SheetContent lib
                      [(''dir'', dir), (''data-sidebar'', Str ''sidebar''), (''data-slot'', Str ''sidebar''),
                       (''data-mobile'', Str ''true''),
                       (''className'',
                        Str ''w-(--sidebar-width) bg-sidebar p-0 text-sidebar-foreground [&>button]:hidden''),
                       (''style'', Obj [(''--sidebar-width'', Str SIDEBAR_WIDTH_MOBILE)]), (''side'', side)]
                      [SheetHeader lib [(''className'', Str ''sr-only'')]
                         [SheetTitle lib [] [Text [Raw ''Sidebar'']],
                          SheetDescription lib [] [Text [Raw ''Displays the mobile sidebar.'']]],
                       El ''div'' [(''className'', Str ''flex h-full w-full flex-col'')] kids]]
               else
                 El ''div''
                   [(''className'', Str ''group peer hidden text-sidebar-foreground md:block''),
                    (''data-state'', Str (ctx_state x)),
                    (''data-collapsible'', if ctx_state x = ''collapsed'' then collapsible else Str ''''),
                    (''data-variant'', variant), (''data-side'', side), (''data-slot'', Str ''sidebar'')]
                   [El ''div''
                      [(''data-slot'', Str ''sidebar-gap''),
                       (''className'',
                        Str (cn lib [Str ''relative w-(--sidebar-width) bg-transparent transition-[width] duration-200 ease-linear'',
                                     Str ''group-data-[collapsible=offcanvas]:w-0'',
                                     Str ''group-data-[side=right]:rotate-180'',
                                     if variant = Str ''floating'' \<or> variant = Str ''inset''
                                     then Str ''group-data-[collapsible=icon]:w-[calc(var(--sidebar-width-icon)+(--spacing(4)))]''
                                     else Str ''group-data-[collapsible=icon]:w-(--sidebar-width-icon)'']))]
                      [],
                    El ''div''
                      (spread_over
                         [(''data-slot'', Str ''sidebar-container''), (''data-side'', side),
                          (''className'',
                           Str (cn lib [Str ''fixed inset-y-0 z-10 hidden h-svh w-(--sidebar-width) transition-[left,right,width] duration-200 ease-linear data-[side=left]:left-0 data-[side=left]:group-data-[collapsible=offcanvas]:left-[calc(var(--sidebar-width)*-1)] data-[side=right]:right-0 data-[side=right]:group-data-[collapsible=offcanvas]:right-[calc(var(--sidebar-width)*-1)] md:flex'',
                                        if variant = Str ''floating'' \<or> variant = Str ''inset''
                                        then Str ''p-2 group-data-[collapsible=icon]:w-[calc(var(--sidebar-width-icon)+(--spacing(4))+2px)]''
                                        else Str ''group-data-[collapsible=icon]:w-(--sidebar-width-icon) group-data-[side=left]:border-r group-data-[side=right]:border-l'',
                                        className]))]
                         rest)
                      [El ''div''
                         [(''data-sidebar'', Str ''sidebar''), (''data-slot'', Str ''sidebar-inner''),
                          (''className'',
                           Str ''flex size-full flex-col bg-sidebar group-data-[variant=floating]:rounded-lg group-data-[variant=floating]:shadow-sm group-data-[variant=floating]:ring-1 group-data-[variant=floating]:ring-sidebar-border'')]
                         kids]]))"

text \<open>The trigger runs its caller's handler first; a handler handed to the rail replaces its own.\<close>

fun handled :: "'e attr \<Rightarrow> 'e list" where
  "handled (Han es) = es"
| "handled v = []"

definition SidebarTriggerButton :: "'e sidebar_context option \<Rightarrow> 'e kit_lib \<Rightarrow> 'e props \<Rightarrow> string + 'e elem" where
  "SidebarTriggerButton context lib p =
     (case useSidebar context of
        Inl err \<Rightarrow> Inl err
      | Inr x \<Rightarrow>
          let className = attr_of ''className'' p; onClick = attr_of ''onClick'' p; rest = omit [''className'', ''onClick''] p in
          Inr (Button lib
                 (spread_over
                    [(''data-sidebar'', Str ''trigger''), (''data-slot'', Str ''sidebar-trigger''),
                     (''variant'', Str ''ghost''), (''size'', Str ''icon-sm''), (''className'', Str (cn lib [className])),
                     (''onClick'', Han (handled onClick @ ctx_toggleSidebar x))]
                    rest)
                 [El ''PanelLeftIcon'' [] [], El ''span'' [(''className'', Str ''sr-only'')] [Text [Raw ''Toggle Sidebar'']]]))"

definition SidebarRail :: "'e sidebar_context option \<Rightarrow> 'e kit_lib \<Rightarrow> 'e props \<Rightarrow> 'e elem list \<Rightarrow> string + 'e elem" where
  "SidebarRail context lib p kids =
     (case useSidebar context of
        Inl err \<Rightarrow> Inl err
      | Inr x \<Rightarrow>
          let className = attr_of ''className'' p; rest = omit [''className''] p in
          Inr (El ''button''
                 (spread_over
                    [(''data-sidebar'', Str ''rail''), (''data-slot'', Str ''sidebar-rail''),
                     (''aria-label'', Str ''Toggle Sidebar''), (''tabIndex'', Num (-1)),
                     (''onClick'', Han (ctx_toggleSidebar x)), (''title'', Str ''Toggle Sidebar''),
                     (''className'',
                      Str (cn lib [Str ''absolute inset-y-0 z-20 hidden w-4 transition-all ease-linear group-data-[side=left]:-right-4 group-data-[side=right]:left-0 after:absolute after:inset-y-0 after:start-1/2 after:w-[2px] hover:after:bg-sidebar-border sm:flex ltr:-translate-x-1/2 rtl:-translate-x-1/2'',
                                   Str ''in-data-[side=left]:cursor-w-resize in-data-[side=right]:cursor-e-resize'',
                                   Str (''['' @ ''[data-side=left][data-state=collapsed]_&]:cursor-e-resize ['' @ ''[data-side=right][data-state=collapsed]_&]:cursor-w-resize''),
                                   Str ''group-data-[collapsible=offcanvas]:translate-x-0 group-data-[collapsible=offcanvas]:after:left-full hover:group-data-[collapsible=offcanvas]:bg-sidebar'',
                                   Str (''['' @ ''[data-side=left][data-collapsible=offcanvas]_&]:-right-2''),
                                   Str (''['' @ ''[data-side=right][data-collapsible=offcanvas]_&]:-left-2''),
                                   className]))]
                    rest)
                 kids))"

text \<open>A tooltip is a text or the properties of one.\<close>

fun tooltip_props_of :: "'e attr \<Rightarrow> 'e props" where
  "tooltip_props_of (Str s) = [(''children'', Str s)]"
| "tooltip_props_of v = obj_of v"

fun children_of :: "'e attr \<Rightarrow> 'e elem list" where
  "children_of (Str s) = [Text [Raw s]]"
| "children_of (Elems es) = es"
| "children_of v = []"

definition SidebarMenuButton :: "'e sidebar_context option \<Rightarrow> 'e kit_lib \<Rightarrow> 'e props \<Rightarrow> 'e elem list \<Rightarrow> string + 'e elem" where
  "SidebarMenuButton context lib p kids =
     (case useSidebar context of
        Inl err \<Rightarrow> Inl err
      | Inr x \<Rightarrow>
          let asChild = or_default (attr_of ''asChild'' p) (Boo False); isActive = or_default (attr_of ''isActive'' p) (Boo False);
              variant = or_default (attr_of ''variant'' p) (Str ''default''); size = or_default (attr_of ''size'' p) (Str ''default'');
              tooltip = attr_of ''tooltip'' p; className = attr_of ''className'' p;
              rest = omit [''asChild'', ''isActive'', ''variant'', ''size'', ''tooltip'', ''className''] p;
              button =
                El (if js_truthy asChild then ''Slot.Root'' else ''button'')
                  (spread_over
                     [(''data-slot'', Str ''sidebar-menu-button''), (''data-sidebar'', Str ''menu-button''),
                      (''data-size'', size), (''data-active'', isActive),
                      (''className'',
                       Str (cn lib [Str (cva lib sidebarMenuButtonVariants [(''variant'', variant), (''size'', size)]),
                                    className]))]
                     rest)
                  kids in
          Inr (if \<not> js_truthy tooltip then button
               else
                 Tooltip lib []
                   [TooltipTrigger lib [(''asChild'', Boo True)] [button],
                    TooltipContent lib
                      (spread_over
                         [(''side'', Str ''right''), (''align'', Str ''center''),
                          (''hidden'', Boo (ctx_state x \<noteq> ''collapsed'' \<or> ctx_isMobile x))]
                         (omit [''children''] (tooltip_props_of tooltip)))
                      (children_of (attr_of ''children'' (tooltip_props_of tooltip)))]))"

text \<open>The width is drawn once, 50 percent and a random number below 40.\<close>

definition skeleton_width :: "int \<Rightarrow> string" where
  "skeleton_width random = int_str (random + 50) @ ''%''"

definition SidebarMenuSkeleton :: "int \<Rightarrow> 'e part" where
  "SidebarMenuSkeleton random lib p kids =
     (let className = attr_of ''className'' p; showIcon = or_default (attr_of ''showIcon'' p) (Boo False);
          rest = omit [''className'', ''showIcon''] p in
      El ''div''
        (spread_over
           [(''data-slot'', Str ''sidebar-menu-skeleton''), (''data-sidebar'', Str ''menu-skeleton''),
            (''className'', Str (cn lib [Str ''flex h-8 items-center gap-2 rounded-md px-2'', className]))]
           rest)
        (only_if (js_truthy showIcon)
           [Skeleton lib
              [(''className'', Str ''size-4 rounded-md''), (''data-sidebar'', Str ''menu-skeleton-icon'')] []] @
         [Skeleton lib
            [(''className'', Str ''h-4 max-w-(--skeleton-width) flex-1''), (''data-sidebar'', Str ''menu-skeleton-text''),
             (''style'', Obj [(''--skeleton-width'', Str (skeleton_width random))])]
            []]))"

section \<open>A provider controlled from outside\<close>

text \<open>
  With \<open>open\<close> given the column follows it, and with \<open>onOpenChange\<close> given a change is the caller's to make; the cookie is
  written all the same.  The shell gives neither.
\<close>

definition provider_open :: "bool option \<Rightarrow> sidebar \<Rightarrow> bool" where
  "provider_open openProp s = (case openProp of None \<Rightarrow> sd_open s | Some b \<Rightarrow> b)"

definition provider_set_open :: "(bool \<Rightarrow> 'e list) option \<Rightarrow> bool \<Rightarrow> sidebar \<Rightarrow> sidebar \<times> 'e list" where
  "provider_set_open setOpenProp b s =
     (case setOpenProp of None \<Rightarrow> (set_open b s, []) | Some f \<Rightarrow> (s\<lparr>sd_cookie := Some (sidebar_cookie b)\<rparr>, f b))"

definition provider_toggle :: "bool option \<Rightarrow> (bool \<Rightarrow> 'e list) option \<Rightarrow> sidebar \<Rightarrow> sidebar \<times> 'e list" where
  "provider_toggle openProp setOpenProp s =
     (if useIsMobile s then (s\<lparr>sd_openMobile := \<not> sd_openMobile s\<rparr>, [])
      else provider_set_open setOpenProp (\<not> provider_open openProp s) s)"

lemma provider_uncontrolled: "provider_toggle None None s = (toggleSidebar s, [])"
  by (simp add: provider_toggle_def provider_set_open_def provider_open_def toggleSidebar_def)

text \<open>A caller that keeps the column open itself is asked to close it, again and again.\<close>

lemma provider_controlled:
  "\<not> useIsMobile s \<Longrightarrow> snd (provider_toggle (Some b) (Some f) s) = f (\<not> b)"
  "sd_open (fst (provider_toggle openProp (Some f) s)) = sd_open s"
  by (simp_all add: provider_toggle_def provider_set_open_def provider_open_def)

lemmas sidebar_part_defs =
  SidebarWrapper_def SidebarInset_def SidebarInput_def SidebarHeader_def SidebarFooter_def SidebarSeparator_def
  SidebarContent_def SidebarGroup_def SidebarGroupLabel_def SidebarGroupAction_def SidebarGroupContent_def
  SidebarMenu_def SidebarMenuItem_def SidebarMenuAction_def SidebarMenuBadge_def SidebarMenuSub_def
  SidebarMenuSubItem_def SidebarMenuSubButton_def

end
