(* ===== verification/KitDialogs.thy ===== *)
theory KitDialogs
  imports KitOverlays Widgets
begin

text \<open>
  How dialogs made of the kit can be left, and the confirmation dialog of components/confirm-dialog.tsx as it is drawn,
  beside its view in theory Widgets.
\<close>

section \<open>Ways out of a dialog\<close>

fun closers :: "'e elem \<Rightarrow> nat" where
  "closers (Text t) = 0"
| "closers (El t p ks) =
     (if t \<in> {''Dialog.Close'', ''AlertDialog.Cancel'', ''AlertDialog.Action''} then 1 else 0) + sum_list (map closers ks)"

definition closes_itself :: "bool \<Rightarrow> 'e props \<Rightarrow> nat" where
  "closes_itself unsaid p = (if js_truthy (or_default (attr_of ''showCloseButton'' p) (Boo unsaid)) then 1 else 0)"

text \<open>
  A dialog and a sheet can be closed from within by what the page puts into them and, unless the page
  forbids it, by one button of their own; a confirmation only by what the page puts into it, and each of its two buttons
  is one way out.
\<close>

theorem ways_out:
  "closers (DialogContent lib p kids) = sum_list (map closers kids) + closes_itself True p \<and>
   closers (DialogFooter lib p kids) = sum_list (map closers kids) + closes_itself False p \<and>
   closers (SheetContent lib p kids) = sum_list (map closers kids) + closes_itself True p \<and>
   closers (AlertDialogContent lib p kids) = sum_list (map closers kids) \<and>
   closers (AlertDialogCancel lib p kids) = 1 + sum_list (map closers kids) \<and>
   closers (AlertDialogAction lib p kids) = 1 + sum_list (map closers kids)"
  by (intro conjI; simp add: closes_itself_def overlay_part_defs Button_def Let_def only_if_def)

section \<open>The confirmation dialog\<close>

text \<open>Without an option of its own a property is undefined; the action keeps the dialog open by itself.\<close>

definition ConfirmDialogDrawn ::
  "'e kit_lib \<Rightarrow> bool \<Rightarrow> (bool \<Rightarrow> 'e list) \<Rightarrow> ui_text \<Rightarrow> ui_text \<Rightarrow> ui_text \<Rightarrow> string option \<Rightarrow> bool \<Rightarrow> bool \<Rightarrow> string
     \<Rightarrow> (string \<Rightarrow> 'e list) \<Rightarrow> 'e list \<Rightarrow> 'e elem" where
  "ConfirmDialogDrawn lib is_open onOpenChange title description confirmLabel confirmation busy destructive v setValue onConfirm =
     AlertDialog lib [(''open'', Boo is_open), (''onOpenChange'', HanB onOpenChange)]
       [AlertDialogContent lib []
          ([AlertDialogHeader lib []
              [AlertDialogTitle lib [] [Text title], AlertDialogDescription lib [] [Text description]]] @
           only_if (truthy_str confirmation)
             [El ''div'' [(''className'', Str ''grid gap-2'')]
                [Label lib [(''htmlFor'', Str ''confirmation-input'')]
                   [Text [Zh ''type'', Raw '' ''],
                    El ''span'' [(''className'', Str ''font-mono text-foreground'')] [Text [Raw (the confirmation)]],
                    Text [Raw '' '', Zh ''to confirm'']],
                 Input lib
                   [(''id'', Str ''confirmation-input''), (''value'', Str v), (''onChange'', HanS setValue),
                    (''autoComplete'', Str ''off''), (''spellCheck'', Boo False)]
                   []]] @
           [AlertDialogFooter lib []
              [AlertDialogCancel lib [(''disabled'', Boo busy)] [Text [Zh ''cancel'']],
               AlertDialogAction lib
                 [(''disabled'', Boo (\<not> confirm_allowed confirmation v \<or> busy)),
                  (''data-variant'', if destructive then Str ''destructive'' else Undefined),
                  (''className'', if destructive then Str ''bg-destructive text-white hover:bg-destructive/90'' else Undefined),
                  (''onClick'', Han onConfirm)]
                 [Text (if busy then [Zh ''working...''] else confirmLabel)]]])]"

text \<open>What can be pressed or typed into: its tag, whether it is locked, what pressing it raises and what it says.\<close>

definition control_of :: "'e elem \<Rightarrow> string \<times> bool \<times> 'e attr \<times> 'e elem list" where
  "control_of e =
     (tag_of e, js_truthy (attr_of ''disabled'' (props_of e)),
      (if tag_of e = ''input'' then attr_of ''onChange'' (props_of e) else attr_of ''onClick'' (props_of e)), kids_of e)"

definition controls :: "'e elem \<Rightarrow> (string \<times> bool \<times> 'e attr \<times> 'e elem list) list" where
  "controls e =
     map control_of
       (filter (\<lambda>x. tag_of x \<in> {''button'', ''input'', ''Dialog.Close'', ''AlertDialog.Cancel'', ''AlertDialog.Action''})
         (subelems e))"

text \<open>The buttons of a view with their labels, locks and events, and the label of a drawn one.\<close>

fun view_buttons :: "'e view \<Rightarrow> (ui_text \<times> bool \<times> 'e) list" where
  "view_buttons (Btn l locked e) = [(l, locked, e)]"
| "view_buttons (Grp n vs) = concat (map view_buttons vs)"
| "view_buttons (Lnk a vs) = concat (map view_buttons vs)"
| "view_buttons (Form vs l locked e) = concat (map view_buttons vs) @ [(l, locked, e)]"
| "view_buttons v = []"

fun label_of :: "'e elem list \<Rightarrow> ui_text" where
  "label_of [] = []"
| "label_of (Text l # ks) = l @ label_of ks"
| "label_of (k # ks) = label_of ks"

lemma confirmation_controls:
  "controls (ConfirmDialogDrawn lib op oc t d l c busy destr v ty act) =
     only_if (truthy_str c) [(''input'', False, HanS ty, [])] @
     [(''AlertDialog.Cancel'', busy, Undefined, [Text [Zh ''cancel'']]),
      (''AlertDialog.Action'', \<not> confirm_allowed c v \<or> busy, Han act, [Text (if busy then [Zh ''working...''] else l)])]"
  by (simp add: ConfirmDialogDrawn_def controls_def control_of_def overlay_part_defs basic_part_defs Let_def only_if_def)

lemma confirmation_root:
  "tag_of (ConfirmDialogDrawn lib op oc t d l c busy destr v ty act) = ''AlertDialog.Root''"
  "attr_of ''open'' (props_of (ConfirmDialogDrawn lib op oc t d l c busy destr v ty act)) = Boo op"
  "attr_of ''onOpenChange'' (props_of (ConfirmDialogDrawn lib op oc t d l c busy destr v ty act)) = HanB oc"
  by (simp_all add: ConfirmDialogDrawn_def AlertDialog_def)

lemma confirmation_closers: "closers (ConfirmDialogDrawn lib op oc t d l c busy destr v ty act) = 2"
  by (simp add: ConfirmDialogDrawn_def overlay_part_defs basic_part_defs Let_def only_if_def)



end
