(* ===== verification/KitLaws.thy ===== *)
theory KitLaws
  imports KitSidebar KitDialogs
begin

text \<open>
  What the UI kit keeps of what it is given: a table of its parts, and the law that each hands its caller's properties
  and children over to the element it stands for.
\<close>

section \<open>Parts\<close>

text \<open>
  A part, the mark of its element (\<open>data-slot\<close>), the properties it takes for itself, and whether it shows its children.
\<close>

datatype 'e kit_entry = Entry (ke_part: "'e part") (ke_slot: string) (ke_own: "string list") (ke_keeps: bool)

definition basic_parts :: "'e kit_entry list" where
  "basic_parts =
     [Entry Alert ''alert'' [''className'', ''variant''] True, Entry AlertTitle ''alert-title'' [''className''] True,
      Entry AlertDescription ''alert-description'' [''className''] True,
      Entry AlertAction ''alert-action'' [''className''] True,
      Entry Badge ''badge'' [''className'', ''variant'', ''asChild''] True,
      Entry Button ''button'' [''className'', ''variant'', ''size'', ''asChild''] True,
      Entry Card ''card'' [''className'', ''size''] True, Entry CardHeader ''card-header'' [''className''] True,
      Entry CardTitle ''card-title'' [''className''] True,
      Entry CardDescription ''card-description'' [''className''] True,
      Entry CardAction ''card-action'' [''className''] True, Entry CardContent ''card-content'' [''className''] True,
      Entry CardFooter ''card-footer'' [''className''] True, Entry Checkbox ''checkbox'' [''className''] False,
      Entry Collapsible ''collapsible'' [] True, Entry CollapsibleTrigger ''collapsible-trigger'' [] True,
      Entry CollapsibleContent ''collapsible-content'' [] True, Entry Input ''input'' [''className''] True,
      Entry Label ''label'' [''className''] True, Entry Popover ''popover'' [] True,
      Entry PopoverTrigger ''popover-trigger'' [] True, Entry PopoverContent ''popover-content'' [''className''] True,
      Entry PopoverAnchor ''popover-anchor'' [] True, Entry PopoverHeader ''popover-header'' [''className''] True,
      Entry PopoverTitle ''popover-title'' [''className''] True,
      Entry PopoverDescription ''popover-description'' [''className''] True,
      Entry Progress ''progress'' [''className'', ''value''] False,
      Entry RadioGroup ''radio-group'' [''className''] True,
      Entry RadioGroupItem ''radio-group-item'' [''className''] False,
      Entry ScrollBar ''scroll-area-scrollbar'' [''className''] False,
      Entry ScrollArea ''scroll-area'' [''className''] True, Entry Separator ''separator'' [''className''] True,
      Entry Skeleton ''skeleton'' [''className''] True, Entry Switch ''switch'' [''className'', ''size''] False,
      Entry Table ''table'' [''className''] True, Entry TableHeader ''table-header'' [''className''] True,
      Entry TableBody ''table-body'' [''className''] True, Entry TableFooter ''table-footer'' [''className''] True,
      Entry TableRow ''table-row'' [''className''] True, Entry TableHead ''table-head'' [''className''] True,
      Entry TableCell ''table-cell'' [''className''] True, Entry TableCaption ''table-caption'' [''className''] True,
      Entry Tabs ''tabs'' [''className'', ''orientation''] True,
      Entry TabsList ''tabs-list'' [''className'', ''variant''] True,
      Entry TabsTrigger ''tabs-trigger'' [''className''] True, Entry TabsContent ''tabs-content'' [''className''] True,
      Entry Textarea ''textarea'' [''className''] True, Entry TooltipProvider ''tooltip-provider'' [] True,
      Entry Tooltip ''tooltip'' [] True, Entry TooltipTrigger ''tooltip-trigger'' [] True,
      Entry TooltipContent ''tooltip-content'' [''className''] True]"

definition overlay_parts :: "'e kit_entry list" where
  "overlay_parts =
     [Entry Dialog ''dialog'' [] True, Entry DialogTrigger ''dialog-trigger'' [] True,
      Entry DialogPortal ''dialog-portal'' [] True, Entry DialogClose ''dialog-close'' [] True,
      Entry DialogOverlay ''dialog-overlay'' [''className''] True,
      Entry DialogContent ''dialog-content'' [''className'', ''showCloseButton''] True,
      Entry DialogHeader ''dialog-header'' [''className''] True,
      Entry DialogFooter ''dialog-footer'' [''className'', ''showCloseButton''] True,
      Entry DialogTitle ''dialog-title'' [''className''] True,
      Entry DialogDescription ''dialog-description'' [''className''] True, Entry AlertDialog ''alert-dialog'' [] True,
      Entry AlertDialogTrigger ''alert-dialog-trigger'' [] True,
      Entry AlertDialogPortal ''alert-dialog-portal'' [] True,
      Entry AlertDialogOverlay ''alert-dialog-overlay'' [''className''] True,
      Entry AlertDialogContent ''alert-dialog-content'' [''className'', ''size''] True,
      Entry AlertDialogHeader ''alert-dialog-header'' [''className''] True,
      Entry AlertDialogFooter ''alert-dialog-footer'' [''className''] True,
      Entry AlertDialogMedia ''alert-dialog-media'' [''className''] True,
      Entry AlertDialogTitle ''alert-dialog-title'' [''className''] True,
      Entry AlertDialogDescription ''alert-dialog-description'' [''className''] True,
      Entry AlertDialogAction ''alert-dialog-action'' [''className'', ''variant'', ''size''] True,
      Entry AlertDialogCancel ''alert-dialog-cancel'' [''className'', ''variant'', ''size''] True,
      Entry Sheet ''sheet'' [] True, Entry SheetTrigger ''sheet-trigger'' [] True,
      Entry SheetClose ''sheet-close'' [] True, Entry SheetPortal ''sheet-portal'' [] True,
      Entry SheetOverlay ''sheet-overlay'' [''className''] True,
      Entry SheetContent ''sheet-content'' [''className'', ''side'', ''showCloseButton''] True,
      Entry SheetHeader ''sheet-header'' [''className''] True, Entry SheetFooter ''sheet-footer'' [''className''] True,
      Entry SheetTitle ''sheet-title'' [''className''] True,
      Entry SheetDescription ''sheet-description'' [''className''] True, Entry DropdownMenu ''dropdown-menu'' [] True,
      Entry DropdownMenuPortal ''dropdown-menu-portal'' [] True,
      Entry DropdownMenuTrigger ''dropdown-menu-trigger'' [] True,
      Entry DropdownMenuContent ''dropdown-menu-content'' [''className''] True,
      Entry DropdownMenuGroup ''dropdown-menu-group'' [] True,
      Entry DropdownMenuItem ''dropdown-menu-item'' [''className'', ''inset'', ''variant''] True,
      Entry DropdownMenuCheckboxItem ''dropdown-menu-checkbox-item'' [''className'', ''inset''] True,
      Entry DropdownMenuRadioGroup ''dropdown-menu-radio-group'' [] True,
      Entry DropdownMenuRadioItem ''dropdown-menu-radio-item'' [''className'', ''inset''] True,
      Entry DropdownMenuLabel ''dropdown-menu-label'' [''className'', ''inset''] True,
      Entry DropdownMenuSeparator ''dropdown-menu-separator'' [''className''] True,
      Entry DropdownMenuShortcut ''dropdown-menu-shortcut'' [''className''] True,
      Entry DropdownMenuSub ''dropdown-menu-sub'' [] True,
      Entry DropdownMenuSubTrigger ''dropdown-menu-sub-trigger'' [''className'', ''inset''] True,
      Entry DropdownMenuSubContent ''dropdown-menu-sub-content'' [''className''] True, Entry Select ''select'' [] True,
      Entry SelectGroup ''select-group'' [''className''] True, Entry SelectValue ''select-value'' [] True,
      Entry SelectTrigger ''select-trigger'' [''className'', ''size''] True,
      Entry SelectScrollUpButton ''select-scroll-up-button'' [''className''] False,
      Entry SelectScrollDownButton ''select-scroll-down-button'' [''className''] False,
      Entry SelectContent ''select-content'' [''className''] True,
      Entry SelectLabel ''select-label'' [''className''] True, Entry SelectItem ''select-item'' [''className''] True,
      Entry SelectSeparator ''select-separator'' [''className''] True]"

definition sidebar_parts :: "'e kit_entry list" where
  "sidebar_parts =
     [Entry SidebarWrapper ''sidebar-wrapper'' [''defaultOpen'', ''open'', ''onOpenChange'', ''className'', ''style''] True,
      Entry SidebarInset ''sidebar-inset'' [''className''] True,
      Entry SidebarInput ''sidebar-input'' [''className''] True,
      Entry SidebarHeader ''sidebar-header'' [''className''] True,
      Entry SidebarFooter ''sidebar-footer'' [''className''] True,
      Entry SidebarSeparator ''sidebar-separator'' [''className''] True,
      Entry SidebarContent ''sidebar-content'' [''className''] True,
      Entry SidebarGroup ''sidebar-group'' [''className''] True,
      Entry SidebarGroupLabel ''sidebar-group-label'' [''className'', ''asChild''] True,
      Entry SidebarGroupAction ''sidebar-group-action'' [''className'', ''asChild''] True,
      Entry SidebarGroupContent ''sidebar-group-content'' [''className''] True,
      Entry SidebarMenu ''sidebar-menu'' [''className''] True,
      Entry SidebarMenuItem ''sidebar-menu-item'' [''className''] True,
      Entry SidebarMenuAction ''sidebar-menu-action'' [''className'', ''asChild'', ''showOnHover''] True,
      Entry SidebarMenuBadge ''sidebar-menu-badge'' [''className''] True,
      Entry SidebarMenuSub ''sidebar-menu-sub'' [''className''] True,
      Entry SidebarMenuSubItem ''sidebar-menu-sub-item'' [''className''] True,
      Entry SidebarMenuSubButton ''sidebar-menu-sub-button'' [''asChild'', ''size'', ''isActive'', ''className''] True]"

text \<open>The class names of the caller come last, so that they prevail over those of the part.\<close>

inductive class_last :: "'e kit_lib \<Rightarrow> 'e attr \<Rightarrow> string \<Rightarrow> bool" for lib c where
  class_direct: "xs \<noteq> [] \<Longrightarrow> last xs = c \<Longrightarrow> class_last lib c (cn lib xs)"
| class_variant: "xs \<noteq> [] \<Longrightarrow> last xs = (''className'', c) \<Longrightarrow> class_last lib c (cn lib [Str (cva lib t xs)])"
| class_nested: "class_last lib c y \<Longrightarrow> xs \<noteq> [] \<Longrightarrow> last xs = Str y \<Longrightarrow> class_last lib c (cn lib xs)"

definition hands_over :: "'e kit_lib \<Rightarrow> 'e props \<Rightarrow> 'e elem list \<Rightarrow> 'e kit_entry \<Rightarrow> bool" where
  "hands_over lib p kids x \<longleftrightarrow>
     (\<exists>e \<in> set (subelems (ke_part x lib p kids)).
        (\<forall>k. k \<notin> set (ke_own x) \<and> attr_of k p \<noteq> Undefined \<longrightarrow> attr_of k (props_of e) = attr_of k p) \<and>
        (''data-slot'' \<notin> keys_of p \<longrightarrow> attr_of ''data-slot'' (props_of e) = Str (ke_slot x)) \<and>
        (''className'' \<in> set (ke_own x) \<longrightarrow>
           (\<exists>c. attr_of ''className'' (props_of e) = Str c \<and> class_last lib (attr_of ''className'' p) c)) \<and>
        (ke_keeps x \<longrightarrow> (\<forall>y \<in> set kids. y \<in> set (subelems e))))"

lemma subelems_self [simp]: "x \<in> set (subelems x)"
  by (cases x) simp_all

lemma kids_kept [simp]: "y \<in> set kids \<Longrightarrow> \<exists>x \<in> set kids. y \<in> set (subelems x)"
  by (rule bexI [of _ y]) simp_all

lemma given_attr: "attr_of k p \<noteq> Undefined \<Longrightarrow> k \<in> keys_of p"
  using attr_of_absent by blast

lemma class_simps [simp]:
  "zs \<noteq> [] \<Longrightarrow> last zs = (''className'', c) \<Longrightarrow> class_last lib c (cn lib [Str (cva lib t zs)])"
  "xs \<noteq> [] \<Longrightarrow> last xs = c \<Longrightarrow> class_last lib c (cn lib xs)"
  "class_last lib c y \<Longrightarrow> class_last lib c (cn lib [x, Str y])"
  by (simp_all add: class_direct class_variant class_nested)

lemmas hands_over_simps = hands_over_def Let_def given_attr

lemma basic_parts_hand_over: "list_all (hands_over lib p kids) basic_parts"
  unfolding basic_parts_def list.pred_inject by (intro conjI TrueI; auto simp: hands_over_simps basic_part_defs)

lemma overlay_parts_hand_over: "list_all (hands_over lib p kids) overlay_parts"
  unfolding overlay_parts_def list.pred_inject
  by (intro conjI TrueI; auto simp: hands_over_simps overlay_part_defs basic_part_defs)

lemma sidebar_parts_hand_over: "list_all (hands_over lib p kids) sidebar_parts"
  unfolding sidebar_parts_def list.pred_inject
  by (intro conjI TrueI; auto simp: hands_over_simps sidebar_part_defs basic_part_defs)

definition kit_parts :: "'e kit_entry list" where
  "kit_parts = basic_parts @ overlay_parts @ sidebar_parts"



section \<open>The side bar as drawn\<close>

definition run_handlers :: "('s \<Rightarrow> 's) list \<Rightarrow> 's \<Rightarrow> 's" where
  "run_handlers hs s = fold (\<lambda>h. h) hs s"

fun clicked :: "('s \<Rightarrow> 's) elem \<Rightarrow> 's \<Rightarrow> 's" where
  "clicked e s = run_handlers (handled (attr_of ''onClick'' (props_of e))) s"

fun open_changed :: "('s \<Rightarrow> 's) elem \<Rightarrow> bool \<Rightarrow> 's \<Rightarrow> 's" where
  "open_changed e b s = (case attr_of ''onOpenChange'' (props_of e) of HanB f \<Rightarrow> run_handlers (f b) s | _ \<Rightarrow> s)"

definition drawn :: "string + 'e elem \<Rightarrow> ('e elem \<Rightarrow> bool) \<Rightarrow> bool" where
  "drawn r P = (case r of Inl err \<Rightarrow> False | Inr e \<Rightarrow> P e)"

lemmas sidebar_draw_defs = drawn_def useSidebar_def contextValue_def run_handlers_def Let_def

text \<open>
  The side bar the kit draws from the provider's context is the machine's: the open sheet with its way
  to close on a narrow window, the column in the machine's state on a wide one, both with the entries; the trigger and
  the rail do its steps, and an entry's tooltip is hidden exactly where its label is seen.
\<close>

lemma panel_drawn:
  "drawn (SidebarPanel (Some (contextValue s)) lib [(''collapsible'', Str ''icon'')] kids)
     (\<lambda>e. set kids \<subseteq> set (subelems e) \<and>
        (if useIsMobile s then
           tag_of e = ''Dialog.Root'' \<and> attr_of ''open'' (props_of e) = Boo (sd_openMobile s) \<and>
           (\<forall>b. open_changed e b s = sidebar_step (SheetOpenChange b) s)
         else
           attr_of ''data-state'' (props_of e) = Str (bar_state s) \<and>
           attr_of ''data-collapsible'' (props_of e) = Str (data_collapsible ''icon'' s)))"
  by (auto simp: sidebar_draw_defs SidebarPanel_def Sheet_def SheetContent_def SheetPortal_def data_collapsible_def)

lemma trigger_drawn:
  "drawn (SidebarTriggerButton (Some (contextValue s)) lib [(''aria-label'', Str l)])
     (\<lambda>e. clicked e s = sidebar_step TriggerClick s)"
  by (simp add: sidebar_draw_defs SidebarTriggerButton_def Button_def)

lemma rail_drawn:
  "drawn (SidebarRail (Some (contextValue s)) lib [] []) (\<lambda>e. clicked e s = sidebar_step RailClick s)"
  by (simp add: sidebar_draw_defs SidebarRail_def)

lemma tooltip_drawn:
  "drawn (SidebarMenuButton (Some (contextValue s)) lib ((''tooltip'', Str (c # cs)) # p) kids)
     (\<lambda>e. \<exists>x \<in> set (subelems e). tag_of x = ''Tooltip.Content'' \<and>
        attr_of ''hidden'' (props_of x) = Boo (tooltip_hidden s) \<and> Text [Raw (c # cs)] \<in> set (kids_of x))"
  by (simp add: sidebar_draw_defs SidebarMenuButton_def Tooltip_def TooltipTrigger_def TooltipContent_def tooltip_hidden_def)

section \<open>Properties that get lost\<close>

text \<open>
  The primitive under a bar of progress is never told its value, and the one under tabs never their orientation: screen
  readers are told of no value, and the arrow keys stay those of horizontal tabs.
\<close>

lemma progress_value_lost:
  "e \<in> set (subelems (Progress lib p kids)) \<Longrightarrow> attr_of ''value'' (props_of e) = Undefined"
  by (auto simp: Progress_def Let_def)

lemma tabs_orientation_lost:
  "tag_of (Tabs lib p kids) = ''Tabs.Root'' \<and> attr_of ''orientation'' (props_of (Tabs lib p kids)) = Undefined"
  by (simp add: Tabs_def Let_def)

end
