(* ===== verification/Spec2Isabelle.thy ===== *)
theory Spec2Isabelle
  imports ConsoleProgress ControlPlane KitLaws
begin

text \<open>
  A model of the web console of the CDN control plane (frontend/src): a React single-page application that
  talks to the control plane through a JSON interface and keeps its own state in the components.

  \<^bold>\<open>Conventions.\<close>  A component is its state, a record, and its handlers, a function
  \<open>step :: event => state => state * effect list\<close> (theory View).  An event is something the user does or an
  answer that arrives.  Effects are what leaves the component, in order: requests, toasts, operations of the
  query client, navigation.  A request is an effect, its outcome (a rejection or a decoded value) the argument of
  a later event, so every interleaving of answers is a sequence of events.  What a component renders is a
  \<open>view\<close>, a tree of texts and controls; \<open>fires\<close> and \<open>offers\<close> read off it the events the user can raise: a
  disabled control raises nothing, a form submits only if its fields satisfy their rules, the page behind an
  open dialog is inert.  \<open>enabled\<close> predicates combine both: what the view offers, and answers that are due.
  Exceptions are values of \<open>js_error + 'a\<close>; \<open>undefined\<close> and \<open>null\<close> are \<open>None\<close>; numbers are exact
  (\<open>int\<close>, and \<open>rat\<close> where the code divides), since the counts and sizes stay below 2^53; the form fields
  hold integers, as their inputs' step of one requires for a submission.  Strings are lists of bytes of their
  UTF-8 form; \<open>code_units\<close> and \<open>js_length\<close> count UTF-16 units where the code does.  The Chinese texts of the
  interface are \<open>Zh\<close> pieces of an ASCII gloss; texts that come from data are \<open>Raw\<close> pieces.

  \<^bold>\<open>Composition.\<close>  App.tsx puts the parts together: the provider of the session, inside it the router, inside
  it the shell with the page of the address, the side bar and the message centre.  Console composes the machines of
  the parts the same way.  Its state holds the session, the address, the page shown with its own state, the pages
  that were left (their mutations still answer), and the message centre.  A step is a step of one part, after which
  its effects reach the others (a navigation changes the address, a 401 ends the session) and the tree is rendered
  again: pages mounted, unmounted, or kept with another parameter.

  \<^bold>\<open>Theories.\<close>
  Prelude: pieces of text, \<open>??\<close> and \<open>||\<close>, trimming and splitting.
  Codec: decimal numerals and \<open>encodeURIComponent\<close> with their decoders, the locale \<open>codec\<close>.
  Json: \<open>JSON.stringify\<close> and \<open>JSON.parse\<close>; printing and parsing again gives the value back.
  Query: the form encoding of \<open>URLSearchParams\<close> and its decoder, \<open>toISOString\<close> and the date parser.
  Types: the wire types (lib/types.ts), one record per interface.
  Api: lib/api.ts, the effects.
  Format: lib/format.ts.
  View: views, runs of a component, the locales of a component's contract, page.tsx and the badges.
  Widgets: use-list-pagination.ts, list-pagination.tsx, confirm-dialog.tsx, copy-button.tsx, theme-toggle.tsx.
  Branding: use-branding.ts, branding-sync.tsx, brand-mark.tsx.
  Auth: auth-provider.tsx and auth-screen.tsx.
  Messages: message-center.tsx.
  Shell: the routes of App.tsx, app-sidebar.tsx, app-shell.tsx.
  Sidebar: the provider of ui/sidebar.tsx and use-mobile.ts, the side bar's two layouts.
  Kit: elements as the UI kit draws them, and \<open>cn\<close> (lib/utils.ts).  KitBasics, KitOverlays, KitSidebar: components/ui, one
  definition per component from its properties and children to its element.  KitDialogs: the confirmation dialog as
  drawn.  KitLaws: what every part hands over to its element.
  SiteDraft, SiteTasks, SitePage: site-detail-page.tsx (the draft, its form and payload; tasks, operations and the
  allow-list; the page's state machine).  Sites: sites-page.tsx.
  Security: security-page.tsx.
  Nodes, NodeDetail: nodes-page.tsx, node-detail-page.tsx.
  Restore: backup-restore.tsx.  SettingsForms, SettingsPage: settings-page.tsx (the six forms; the page).
  Monitoring, MonitoringHistory: monitoring-page.tsx, monitoring-node-history-page.tsx.
  Charts: ui/chart.tsx, the style sheet and the tooltips of the charts.
  Certificates: certificates-page.tsx.
  Logs: logs-page.tsx, log-detail-page.tsx.
  Overview: overview-page.tsx, overview-site-page.tsx.
  Console: App.tsx with all of the above; ConsoleLaws, ConsoleLinks, ConsoleEdits its properties; ConsoleExamples
  concrete consoles at which they apply; ConsoleProgress the life of a session and what can always still be reached.
  ControlPlane: the server's side of some forms (internal/control, internal/domain): how it decodes and checks rate
  limits, the two forms of a node, the global defaults and three numbers of a site.

  \<^bold>\<open>What the lemmas show.\<close>  Api: which requests carry the token, what a 401 does.  Auth: the reachable states
  and the invariant on credentials; what log-in and set-up send.  Branding: the cache round trip and what a
  hostile value can do.  SiteDraft: the payload against the site it was opened from.  SitePage: no silent loss
  of edits, confirmation, guards of the operations.  Sites: every site can be opened.  Security: the rate-limit form,
  built-in policies, the interference of a save that was left behind.  NodeDetail: status transitions, the uninstall
  procedure, confirmation, the two forms.  Restore: the card refines a machine that asks, is confirmed, and waits.
  SettingsForms, SettingsPage: consistency of the mounted forms, bounds, secrets, failures.  Monitoring: what is
  requested; MonitoringHistory: the chart's rows, its tooltip and its style sheet.  Certificates: the states a certificate is shown in agree.  Logs:
  the address of a search decodes to the search.  Overview: sorting.  ConsoleLaws: requests belong to the session
  they are sent in, a 401 ends it everywhere, the page shown is the address's, pages behave in the console as on
  their own (so every invariant of a page theory holds in the console), rendering comes to rest.  ConsoleLinks: no
  navigation is a dead end; what late answers can do.  ConsoleEdits: which events can lose a site's edits, and the
  ones that do so without a question.  ConsoleProgress: the stages of a session follow an abstract machine, a session
  begins only with an answer that grants it, and from every reachable state some run leads to a session and to the
  page of whatever address.  ControlPlane: exactly which of the bodies the forms can send the server accepts, and
  what it makes of them.  KitDialogs: the ways out of a dialog and the locks of a drawn confirmation.  KitLaws: no part
  loses a property, a class name or a child it is given (a table of all parts, its own properties beside each), the
  side bar drawn from the provider's context does the machine's steps, and the two properties that do get lost.

  \<^bold>\<open>Interfaces.\<close>  \<open>codec\<close>: an encoder with its decoder (decimals, the URI and form encodings, the token header, the brand cache).  \<open>single_flight\<close>: a form with
  one mutation, whose requests are counted by its answers; interpreted for log-in, save, operations, node creation,
  bulk upgrade, uninstall and mark-all.  \<open>implements\<close>: a component whose states and steps are those of a smaller
  machine (the restore card; the session's stages in the console).  \<open>embedded\<close>: a machine inside another, whose
  runs are runs of the other (the session inside the console).  \<open>session_page\<close>: a component whose requests go to the control plane with the token it
  was given and which reports a 401 without sending anything in the same step; \<open>silent_page\<close>, its extension by
  components that send nothing.  Each page interprets it in its own theory, ConsoleLaws for whatever page is shown,
  and the properties of the console rest on these facts.

  \<^bold>\<open>Bounds and fuel.\<close>  No definition takes fuel: the scanners recurse on the text that is left, the calendar's
  loops over years and months have their measure.  Dates are exact from 1970 to 9999, the years whose printed form
  has four digits; the clock of a reachable console is at least a week after 1970, since a log search may go back so
  far.  Rendering is two rounds, and ConsoleLaws proves that a third changes nothing.

  \<^bold>\<open>Not modelled.\<close>  The control plane and the edge agent (Go) but for the checks in ControlPlane, which stop before
  the store, the browser's \<open>fetch\<close>, the primitives under the UI kit (radix-ui: focus, keys and portals) and the libraries that
  merge class names (a parameter of the kit), the layout and class names of the pages, the drawing of charts (their
  rows, labels and colours are modelled), and main.tsx, which mounts the console.  The collation of names (\<open>localeCompare\<close>) is a parameter.  The
  GET requests of the queries are sent by the query client and are not effects (Api shows that they carry no token);
  timers that refetch a query are not events of their own: an answer may arrive at any time, which includes every
  schedule, and
  the data an address is mounted with are whatever the query client has then.  Loading a page's module is not a
  state: a page is shown as soon as its address is.  The user of the console may also press what an open message
  sheet covers, which only adds runs.  An encoded slash in an address is decoded like the other characters; the
  router keeps it encoded inside a parameter, which no identifier of the control plane holds.
\<close>

end
